(* ===== verification/Prelude.thy ===== *)
theory Prelude
  imports Main "HOL-Library.Sublist" "HOL-Library.Word"
begin

text \<open>
  What the components share: the Go values the models are written in (byte strings, instants,
  machine integers, errors, panics, the clock and the UUID source), the functions of Go's
  \<open>strings\<close>, \<open>path\<close>, \<open>strconv\<close>, \<open>unicode/utf8\<close> and \<open>time\<close> packages the sources call, and the
  generic lemmas about them. The collections \<open>go_defs\<close>, \<open>go_simps\<close> and \<open>err_mono\<close> are filled by
  the component theories.
\<close>

named_theorems go_defs \<open>unfolding rules for the operations of a component\<close>
named_theorems go_simps \<open>rewrite rules that carry the component proofs\<close>
named_theorems err_mono \<open>operations that never empty a list of recorded errors\<close>

section \<open>Values\<close>

text \<open>
  A Go string is a sequence of bytes. An instant is a number of nanoseconds since Go's zero time
  (0001-01-01T00:00:00Z); the zero value of \<open>time.Time\<close> is 0 and every instant is read in UTC.
\<close>

type_synonym go_error = string
type_synonym time = int
type_synonym int64 = "64 word"
type_synonym uint64 = "64 word"
type_synonym uint16 = "16 word"

definition zeroTime :: time where
  "zeroTime = 0"

definition IsZero :: "time \<Rightarrow> bool" where
  "IsZero t \<longleftrightarrow> t = zeroTime"

definition After :: "time \<Rightarrow> time \<Rightarrow> bool" where
  "After t u \<longleftrightarrow> u < t"

definition Before :: "time \<Rightarrow> time \<Rightarrow> bool" where
  "Before t u \<longleftrightarrow> t < u"

text \<open>\<open>t.Sub(u)\<close> saturates at the limits of the 64-bit \<open>time.Duration\<close>.\<close>

definition maxDuration :: int where
  "maxDuration = 2 ^ 63 - 1"

definition minDuration :: int where
  "minDuration = - (2 ^ 63)"

definition Sub :: "time \<Rightarrow> time \<Rightarrow> int" where
  "Sub t u = max minDuration (min maxDuration (t - u))"

lemmas time_defs = zeroTime_def IsZero_def After_def Before_def

text \<open>
  A call either returns or panics (a nil dereference, an index out of range). An error that is
  returned is a value: \<open>None\<close> is Go's nil error.
\<close>

datatype 'a outcome = Returns 'a | Panics

fun and_then :: "'a outcome \<Rightarrow> ('a \<Rightarrow> 'b outcome) \<Rightarrow> 'b outcome" where
  "and_then (Returns x) f = f x"
| "and_then Panics f = Panics"

lemma and_then_Returns_iff:
  "and_then m f = Returns y \<longleftrightarrow> (\<exists>x. m = Returns x \<and> f x = Returns y)"
  by (cases m) auto

text \<open>Dereferencing a pointer.\<close>

fun deref :: "'a option \<Rightarrow> 'a outcome" where
  "deref (Some x) = Returns x"
| "deref None = Panics"

text \<open>\<open>range\<close> over a slice of pointers with a body that dereferences each of them.\<close>

fun map_outcome :: "('a \<Rightarrow> 'b outcome) \<Rightarrow> 'a list \<Rightarrow> 'b list outcome" where
  "map_outcome f [] = Returns []"
| "map_outcome f (x # xs) = and_then (f x) (\<lambda>y. and_then (map_outcome f xs) (\<lambda>ys. Returns (y # ys)))"

lemma map_outcome_all:
  "(\<And>x. x \<in> set xs \<Longrightarrow> f x = Returns (g x)) \<Longrightarrow> map_outcome f xs = Returns (map g xs)"
  by (induction xs) auto

lemma map_outcome_Panics: "x \<in> set xs \<Longrightarrow> f x = Panics \<Longrightarrow> map_outcome f xs = Panics"
proof (induction xs)
  case Nil
  then show ?case by simp
next
  case (Cons y ys)
  show ?case
  proof (cases "x = y")
    case True
    with Cons.prems show ?thesis by simp
  next
    case False
    with Cons show ?thesis by (cases "f y") auto
  qed
qed

text \<open>
  The world: \<open>time.Now()\<close> and \<open>uuid.New()\<close> read the next value of two sources. \<open>tick\<close> counts the
  reads. The UUID package is not part of the repository, so its source is an argument.
\<close>

record world =
  uuids :: "nat \<Rightarrow> string"
  clock :: "nat \<Rightarrow> time"
  tick :: nat

definition uuidNew :: "world \<Rightarrow> string \<times> world" where
  "uuidNew w = (uuids w (tick w), w\<lparr>tick := Suc (tick w)\<rparr>)"

definition timeNow :: "world \<Rightarrow> time \<times> world" where
  "timeNow w = (clock w (tick w), w\<lparr>tick := Suc (tick w)\<rparr>)"

section \<open>Package strings\<close>

definition HasPrefix :: "string \<Rightarrow> string \<Rightarrow> bool" where
  "HasPrefix s p \<longleftrightarrow> take (length p) s = p"

definition HasSuffix :: "string \<Rightarrow> string \<Rightarrow> bool" where
  "HasSuffix s p \<longleftrightarrow> length p \<le> length s \<and> drop (length s - length p) s = p"

text \<open>\<open>cut sep s\<close> is what stands before and after the first occurrence of \<open>sep\<close> in \<open>s\<close>.\<close>

fun cut :: "string \<Rightarrow> string \<Rightarrow> (string \<times> string) option" where
  "cut sep [] = (if sep = [] then Some ([], []) else None)"
| "cut sep (c # s) =
     (if HasPrefix (c # s) sep then Some ([], drop (length sep) (c # s))
      else map_option (\<lambda>(a, b). (c # a, b)) (cut sep s))"

definition Contains :: "string \<Rightarrow> string \<Rightarrow> bool" where
  "Contains s sub \<longleftrightarrow> cut sub s \<noteq> None"

text \<open>\<open>strings.Replace(s, old, new, 1)\<close>.\<close>

definition Replace1 :: "string \<Rightarrow> string \<Rightarrow> string \<Rightarrow> string" where
  "Replace1 s old new = (case cut old s of None \<Rightarrow> s | Some (a, b) \<Rightarrow> a @ new @ b)"

text \<open>\<open>strings.Replace(s, c, "", -1)\<close> for a single byte \<open>c\<close>.\<close>

definition RemoveAll :: "char \<Rightarrow> string \<Rightarrow> string" where
  "RemoveAll c s = filter (\<lambda>x. x \<noteq> c) s"

text \<open>\<open>strings.Split(s, c)\<close> and \<open>strings.SplitN(s, c, 2)\<close> for a single byte \<open>c\<close>.\<close>

fun Split :: "char \<Rightarrow> string \<Rightarrow> string list" where
  "Split c [] = [[]]"
| "Split c (x # s) =
     (if x = c then [] # Split c s
      else (case Split c s of [] \<Rightarrow> [[x]] | p # ps \<Rightarrow> (x # p) # ps))"

definition SplitN2 :: "char \<Rightarrow> string \<Rightarrow> string list" where
  "SplitN2 c s = (case cut [c] s of None \<Rightarrow> [s] | Some (a, b) \<Rightarrow> [a, b])"

fun Join :: "string list \<Rightarrow> string \<Rightarrow> string" where
  "Join [] sep = []"
| "Join [x] sep = x"
| "Join (x # y # ys) sep = x @ sep @ Join (y # ys) sep"

text \<open>Case mapping and white space, for ASCII bytes; other bytes are left as they are.\<close>

definition isUpperAZ :: "char \<Rightarrow> bool" where
  "isUpperAZ c \<longleftrightarrow> 65 \<le> (of_char c :: nat) \<and> (of_char c :: nat) \<le> 90"

definition isLowerAZ :: "char \<Rightarrow> bool" where
  "isLowerAZ c \<longleftrightarrow> 97 \<le> (of_char c :: nat) \<and> (of_char c :: nat) \<le> 122"

definition isDigit09 :: "char \<Rightarrow> bool" where
  "isDigit09 c \<longleftrightarrow> 48 \<le> (of_char c :: nat) \<and> (of_char c :: nat) \<le> 57"

definition lowerByte :: "char \<Rightarrow> char" where
  "lowerByte c = (if isUpperAZ c then char_of ((of_char c :: nat) + 32) else c)"

definition upperByte :: "char \<Rightarrow> char" where
  "upperByte c = (if isLowerAZ c then char_of ((of_char c :: nat) - 32) else c)"

definition ToLower :: "string \<Rightarrow> string" where
  "ToLower s = map lowerByte s"

definition ToUpper :: "string \<Rightarrow> string" where
  "ToUpper s = map upperByte s"

definition isSpaceByte :: "char \<Rightarrow> bool" where
  "isSpaceByte c \<longleftrightarrow> (of_char c :: nat) = 32 \<or> (9 \<le> (of_char c :: nat) \<and> (of_char c :: nat) \<le> 13)"

definition TrimSpace :: "string \<Rightarrow> string" where
  "TrimSpace s = rev (dropWhile isSpaceByte (rev (dropWhile isSpaceByte s)))"

subsection \<open>Facts about them\<close>

lemma HasPrefix_prefix: "HasPrefix s p \<longleftrightarrow> prefix p s"
  unfolding HasPrefix_def by (metis append_eq_conv_conj prefix_def take_is_prefix)

lemma HasPrefix_append [simp]: "HasPrefix (p @ s) p"
  by (simp add: HasPrefix_def)

lemma HasPrefix_Nil [simp]: "HasPrefix s []"
  by (simp add: HasPrefix_def)

lemma HasPrefixE:
  assumes "HasPrefix s p"
  obtains r where "s = p @ r"
  using assms by (auto simp: HasPrefix_prefix prefix_def)

lemma HasSuffix_suffix: "HasSuffix s p \<longleftrightarrow> suffix p s"
proof
  assume "HasSuffix s p"
  then have "s = take (length s - length p) s @ p"
    unfolding HasSuffix_def by (metis append_take_drop_id)
  then show "suffix p s" by (metis suffixI)
next
  assume "suffix p s"
  then show "HasSuffix s p" by (auto simp: suffix_def HasSuffix_def)
qed

lemma HasSuffix_append [simp]: "HasSuffix (s @ p) p"
  by (simp add: HasSuffix_def)

lemma cut_Some: "cut sep s = Some (a, b) \<Longrightarrow> s = a @ sep @ b"
proof (induction sep s arbitrary: a b rule: cut.induct)
  case (1 sep)
  then show ?case by (auto split: if_splits)
next
  case (2 sep c s)
  show ?case
  proof (cases "HasPrefix (c # s) sep")
    case True
    with "2.prems" have "a = []" "b = drop (length sep) (c # s)" by simp_all
    with True show ?thesis unfolding HasPrefix_def by (metis append_take_drop_id append_Nil)
  next
    case False
    with 2 show ?thesis by auto
  qed
qed

lemma cut_prefix [simp]: "cut sep (sep @ s) = Some ([], s)"
  by (cases "sep @ s") (auto simp: HasPrefix_def, (metis append_eq_conv_conj)+)

lemma cut_None_iff: "cut sep s = None \<longleftrightarrow> \<not> sublist sep s"
proof (induction sep s rule: cut.induct)
  case (1 sep)
  then show ?case by auto
next
  case (2 sep c s)
  then show ?case by (auto simp: sublist_Cons_right HasPrefix_prefix)
qed

lemma Contains_sublist: "Contains s sub \<longleftrightarrow> sublist sub s"
  by (simp add: Contains_def cut_None_iff)

lemma Replace1_prefix [simp]: "Replace1 (old @ s) old new = new @ s"
  by (simp add: Replace1_def)

lemma Replace1_absent: "\<not> Contains s old \<Longrightarrow> Replace1 s old new = s"
  by (auto simp: Replace1_def Contains_def split: option.split)

lemma Split_not_Nil [simp]: "Split c s \<noteq> []"
  by (induction s) (auto split: list.splits)

lemma Split_absent: "c \<notin> set s \<Longrightarrow> Split c s = [s]"
  by (induction s) auto

lemma Split_Join: "Join (Split c s) [c] = s"
proof (induction s)
  case Nil
  then show ?case by simp
next
  case (Cons x s)
  then obtain p ps where "Split c s = p # ps" by (cases "Split c s") auto
  with Cons show ?case by (cases ps) auto
qed

lemma Split_append_sep:
  "c \<notin> set p \<Longrightarrow> Split c (p @ c # s) = p # Split c s"
  by (induction p) auto

lemma Split_no_sep: "p \<in> set (Split c s) \<Longrightarrow> c \<notin> set p"
proof (induction s arbitrary: p)
  case Nil
  then show ?case by simp
next
  case (Cons x s)
  then obtain q qs where qs: "Split c s = q # qs" by (cases "Split c s") auto
  with Cons show ?case by (auto split: if_splits)
qed

lemma length_Split: "length (Split c s) = Suc (length (filter (\<lambda>x. x = c) s))"
proof (induction s)
  case Nil
  then show ?case by simp
next
  case (Cons x s)
  then show ?case by (cases "Split c s") auto
qed

lemma TrimSpace_Nil [simp]: "TrimSpace [] = []"
  by (simp add: TrimSpace_def)

lemma ToLower_append [simp]: "ToLower (s @ t) = ToLower s @ ToLower t"
  by (simp add: ToLower_def)

lemma length_ToLower [simp]: "length (ToLower s) = length s"
  by (simp add: ToLower_def)

lemma isUpperAZ_lowerByte [simp]: "\<not> isUpperAZ (lowerByte c)"
  by (auto simp: lowerByte_def isUpperAZ_def of_char_of)

lemma lowerByte_idem [simp]: "lowerByte (lowerByte c) = lowerByte c"
  using isUpperAZ_lowerByte [of c] unfolding lowerByte_def [of "lowerByte c"] by simp

lemma ToLower_idem [simp]: "ToLower (ToLower s) = ToLower s"
  by (simp add: ToLower_def)

end
