(* ===== verification/Constants.thy ===== *)
theory Constants
  imports Prelude
begin

text \<open>
  The constants of \<^verbatim>\<open>src/constants/constants.go\<close>: the vocabulary of statuses, stages, actions,
  storage options, checksum algorithms, file types and PREMIS event types that the components
  exchange as strings. \<open>const_defs\<close> unfolds them; the lemmas at the end say that the members of
  each vocabulary are pairwise distinct, which is what lets the components tell them apart.
\<close>

named_theorems const_defs \<open>the string constants\<close>

definition APTrustSystemUser :: string where
  [const_defs]: "APTrustSystemUser = ''system@aptrust.org''"

definition APTrustNamespace :: string where
  [const_defs]: "APTrustNamespace = ''urn:mace:aptrust.org''"

definition ReceiveBucketPrefix :: string where
  [const_defs]: "ReceiveBucketPrefix = ''aptrust.receiving.''"

definition ReceiveTestBucketPrefix :: string where
  [const_defs]: "ReceiveTestBucketPrefix = ''aptrust.receiving.test.''"

definition RestoreBucketPrefix :: string where
  [const_defs]: "RestoreBucketPrefix = ''aptrust.restore.''"

definition S3DateFormat :: string where
  [const_defs]: "S3DateFormat = ''2006-01-02T15:04:05.000Z''"

definition S3UriPrefix :: string where
  [const_defs]: "S3UriPrefix = ''https://s3.amazonaws.com/''"

definition StatusStarted :: string where
  [const_defs]: "StatusStarted = ''Started''"

definition StatusPending :: string where
  [const_defs]: "StatusPending = ''Pending''"

definition StatusSuccess :: string where
  [const_defs]: "StatusSuccess = ''Success''"

definition StatusFailed :: string where
  [const_defs]: "StatusFailed = ''Failed''"

definition StatusCancelled :: string where
  [const_defs]: "StatusCancelled = ''Cancelled''"

definition StageRequested :: string where
  [const_defs]: "StageRequested = ''Requested''"

definition StageReceive :: string where
  [const_defs]: "StageReceive = ''Receive''"

definition StageFetch :: string where
  [const_defs]: "StageFetch = ''Fetch''"

definition StageUnpack :: string where
  [const_defs]: "StageUnpack = ''Unpack''"

definition StageValidate :: string where
  [const_defs]: "StageValidate = ''Validate''"

definition StageStore :: string where
  [const_defs]: "StageStore = ''Store''"

definition StageRecord :: string where
  [const_defs]: "StageRecord = ''Record''"

definition StageCleanup :: string where
  [const_defs]: "StageCleanup = ''Cleanup''"

definition StageResolve :: string where
  [const_defs]: "StageResolve = ''Resolve''"

definition StagePackage :: string where
  [const_defs]: "StagePackage = ''Package''"

definition StageRestoring :: string where
  [const_defs]: "StageRestoring = ''Restoring''"

definition StageAvailableInS3 :: string where
  [const_defs]: "StageAvailableInS3 = ''Available in S3''"

definition ActionIngest :: string where
  [const_defs]: "ActionIngest = ''Ingest''"

definition ActionFixityCheck :: string where
  [const_defs]: "ActionFixityCheck = ''Fixity Check''"

definition ActionGlacierRestore :: string where
  [const_defs]: "ActionGlacierRestore = ''Glacier Restore''"

definition ActionRestore :: string where
  [const_defs]: "ActionRestore = ''Restore''"

definition ActionDelete :: string where
  [const_defs]: "ActionDelete = ''Delete''"

definition StorageStandard :: string where
  [const_defs]: "StorageStandard = ''Standard''"

definition StorageGlacierVA :: string where
  [const_defs]: "StorageGlacierVA = ''Glacier-VA''"

definition StorageGlacierOH :: string where
  [const_defs]: "StorageGlacierOH = ''Glacier-OH''"

definition StorageGlacierOR :: string where
  [const_defs]: "StorageGlacierOR = ''Glacier-OR''"

definition StorageGlacierDeepVA :: string where
  [const_defs]: "StorageGlacierDeepVA = ''Glacier-Deep-VA''"

definition StorageGlacierDeepOH :: string where
  [const_defs]: "StorageGlacierDeepOH = ''Glacier-Deep-OH''"

definition StorageGlacierDeepOR :: string where
  [const_defs]: "StorageGlacierDeepOR = ''Glacier-Deep-OR''"

definition AlgMd5 :: string where
  [const_defs]: "AlgMd5 = ''md5''"

definition AlgSha256 :: string where
  [const_defs]: "AlgSha256 = ''sha256''"

definition IdTypeStorageURL :: string where
  [const_defs]: "IdTypeStorageURL = ''url''"

definition IdTypeBagAndPath :: string where
  [const_defs]: "IdTypeBagAndPath = ''bag/filepath''"

definition AWSVirginia :: string where
  [const_defs]: "AWSVirginia = ''us-east-1''"

definition AWSOhio :: string where
  [const_defs]: "AWSOhio = ''us-east-2''"

definition AWSOregon :: string where
  [const_defs]: "AWSOregon = ''us-west-2''"

definition PAYLOAD_FILE :: string where
  [const_defs]: "PAYLOAD_FILE = ''payload_file''"

definition PAYLOAD_MANIFEST :: string where
  [const_defs]: "PAYLOAD_MANIFEST = ''payload_manifest''"

definition TAG_MANIFEST :: string where
  [const_defs]: "TAG_MANIFEST = ''tag_manifest''"

definition TAG_FILE :: string where
  [const_defs]: "TAG_FILE = ''tag_file''"

definition EventAccessAssignment :: string where
  [const_defs]: "EventAccessAssignment = ''access assignment''"

definition EventCapture :: string where
  [const_defs]: "EventCapture = ''capture''"

definition EventCompression :: string where
  [const_defs]: "EventCompression = ''compression''"

definition EventCreation :: string where
  [const_defs]: "EventCreation = ''creation''"

definition EventDeaccession :: string where
  [const_defs]: "EventDeaccession = ''deaccession''"

definition EventDecompression :: string where
  [const_defs]: "EventDecompression = ''decompression''"

definition EventDecryption :: string where
  [const_defs]: "EventDecryption = ''decryption''"

definition EventDeletion :: string where
  [const_defs]: "EventDeletion = ''deletion''"

definition EventDigestCalculation :: string where
  [const_defs]: "EventDigestCalculation = ''message digest calculation''"

definition EventFixityCheck :: string where
  [const_defs]: "EventFixityCheck = ''fixity check''"

definition EventIdentifierAssignment :: string where
  [const_defs]: "EventIdentifierAssignment = ''identifier assignment''"

definition EventIngestion :: string where
  [const_defs]: "EventIngestion = ''ingestion''"

definition EventMigration :: string where
  [const_defs]: "EventMigration = ''migration''"

definition EventNormalization :: string where
  [const_defs]: "EventNormalization = ''normalization''"

definition EventReplication :: string where
  [const_defs]: "EventReplication = ''replication''"

definition EventSignatureValidation :: string where
  [const_defs]: "EventSignatureValidation = ''digital signature validation''"

definition EventValidation :: string where
  [const_defs]: "EventValidation = ''validation''"

definition EventVirusCheck :: string where
  [const_defs]: "EventVirusCheck = ''virus check''"

definition OutcomeSuccess :: string where
  [const_defs]: "OutcomeSuccess = ''Success''"

definition OutcomeFailure :: string where
  [const_defs]: "OutcomeFailure = ''Failure''"

definition S3LargeFileSize :: int where
  "S3LargeFileSize = 100 * 1024 * 1024"

definition StatusTypes :: "string list" where
  "StatusTypes =
    [StatusStarted,
     StatusPending,
     StatusSuccess,
     StatusFailed,
     StatusCancelled]"

definition StageTypes :: "string list" where
  "StageTypes =
    [StageRequested,
     StageReceive,
     StageFetch,
     StageUnpack,
     StageValidate,
     StageStore,
     StageRecord,
     StageCleanup,
     StageResolve,
     StagePackage,
     StageRestoring,
     StageAvailableInS3]"

definition ActionTypes :: "string list" where
  "ActionTypes =
    [ActionIngest,
     ActionFixityCheck,
     ActionGlacierRestore,
     ActionRestore,
     ActionDelete]"

definition StorageOptions :: "string list" where
  "StorageOptions =
    [StorageStandard,
     StorageGlacierVA,
     StorageGlacierOH,
     StorageGlacierOR,
     StorageGlacierDeepVA,
     StorageGlacierDeepOH,
     StorageGlacierDeepOR]"

definition GlacierStandardOptions :: "string list" where
  "GlacierStandardOptions =
    [StorageGlacierVA,
     StorageGlacierOH,
     StorageGlacierOR]"

definition GlacierDeepOptions :: "string list" where
  "GlacierDeepOptions =
    [StorageGlacierDeepVA,
     StorageGlacierDeepOH,
     StorageGlacierDeepOR]"

definition ChecksumAlgorithms :: "string list" where
  "ChecksumAlgorithms =
    [AlgMd5,
     AlgSha256]"

definition AccessRights :: "string list" where
  "AccessRights =
    [''consortia'',
     ''institution'',
     ''restricted'']"

definition EventTypes :: "string list" where
  "EventTypes =
    [EventAccessAssignment,
     EventCapture,
     EventCompression,
     EventCreation,
     EventDeaccession,
     EventDecompression,
     EventDecryption,
     EventDeletion,
     EventDigestCalculation,
     EventFixityCheck,
     EventIngestion,
     EventIdentifierAssignment,
     EventMigration,
     EventNormalization,
     EventReplication,
     EventSignatureValidation,
     EventValidation,
     EventVirusCheck]"

lemmas const_list_defs = StatusTypes_def StageTypes_def ActionTypes_def StorageOptions_def GlacierStandardOptions_def GlacierDeepOptions_def ChecksumAlgorithms_def AccessRights_def EventTypes_def

section \<open>The vocabularies have no duplicates\<close>

lemma distinct_StatusTypes: "distinct StatusTypes"
  by (simp add: StatusTypes_def const_defs)

lemma distinct_StageTypes: "distinct StageTypes"
  by (simp add: StageTypes_def const_defs)

lemma distinct_ActionTypes: "distinct ActionTypes"
  by (simp add: ActionTypes_def const_defs)

lemma distinct_StorageOptions: "distinct StorageOptions"
  by (simp add: StorageOptions_def const_defs)

lemma distinct_EventTypes: "distinct EventTypes"
  by (simp add: EventTypes_def const_defs)

lemma distinct_ChecksumAlgorithms: "distinct ChecksumAlgorithms"
  by (simp add: ChecksumAlgorithms_def const_defs)

text \<open>Standard Glacier and Glacier Deep Archive options do not overlap and neither is the default.\<close>

lemma glacier_options_disjoint:
  "set GlacierStandardOptions \<inter> set GlacierDeepOptions = {}"
  "StorageStandard \<notin> set GlacierStandardOptions \<union> set GlacierDeepOptions"
  "set GlacierStandardOptions \<union> set GlacierDeepOptions \<union> {StorageStandard} = set StorageOptions"
  by (auto simp: GlacierStandardOptions_def GlacierDeepOptions_def StorageOptions_def const_defs)

text \<open>Every event type is its own lower-case form, as the case-insensitive lookups expect.\<close>

lemma EventTypes_lower: "ty \<in> set EventTypes \<Longrightarrow> ToLower ty = ty"
  by (auto simp: EventTypes_def const_defs ToLower_def lowerByte_def isUpperAZ_def)

lemma AccessRights_lower: "a \<in> set AccessRights \<Longrightarrow> ToLower a = a"
  by (auto simp: AccessRights_def ToLower_def lowerByte_def isUpperAZ_def)

end
