(* ===== verification/GoLib.thy ===== *)
theory GoLib
  imports Prelude
begin

text \<open>
  The functions of \<open>path\<close>, \<open>strconv\<close>, \<open>unicode/utf8\<close>, \<open>encoding/hex\<close>, \<open>encoding/base64\<close>, \<open>time\<close>
  and \<open>bufio\<close> that the components call, with the facts the component proofs use: printing and
  parsing decimal numbers are inverse, decoding a string to runes consumes it, the lines a scanner
  returns hold no line feed.
\<close>

section \<open>Package path\<close>

text \<open>\<open>path.Base\<close>: the last element; trailing slashes are removed first.\<close>

definition Base :: "string \<Rightarrow> string" where
  "Base p =
     (if p = [] then ''.''
      else (let q = rev (dropWhile (\<lambda>c. c = CHR ''/'') (rev p))
            in if q = [] then ''/'' else rev (takeWhile (\<lambda>c. c \<noteq> CHR ''/'') (rev q))))"

text \<open>\<open>path.Ext\<close>: the suffix that starts at the last dot of the last element, or nothing.\<close>

definition Ext :: "string \<Rightarrow> string" where
  "Ext p =
     (let base = takeWhile (\<lambda>c. c \<noteq> CHR ''/'') (rev p)
      in if CHR ''.'' \<in> set base
         then CHR ''.'' # rev (takeWhile (\<lambda>c. c \<noteq> CHR ''.'') base) else [])"

section \<open>Package strconv and the verbs of fmt\<close>

fun show_nat :: "nat \<Rightarrow> string" where
  "show_nat n =
     (if n < 10 then [char_of (48 + n)] else show_nat (n div 10) @ [char_of (48 + n mod 10)])"

declare show_nat.simps [simp del]

definition show_int :: "int \<Rightarrow> string" where
  "show_int i = (if i < 0 then CHR ''-'' # show_nat (nat (- i)) else show_nat (nat i))"

fun digits_value :: "nat \<Rightarrow> string \<Rightarrow> nat option" where
  "digits_value acc [] = Some acc"
| "digits_value acc (c # s) =
     (if isDigit09 c then digits_value (10 * acc + ((of_char c :: nat) - 48)) s else None)"

definition FormatUint :: "uint64 \<Rightarrow> string" where
  "FormatUint n = show_nat (unat n)"

text \<open>\<open>strconv.ParseUint(s, 10, 64)\<close>; \<open>None\<close> when it returns an error.\<close>

definition ParseUint :: "string \<Rightarrow> uint64 option" where
  "ParseUint s =
     (if s = [] then None
      else (case digits_value 0 s of
              None \<Rightarrow> None
            | Some n \<Rightarrow> if n < 2 ^ 64 then Some (of_nat n) else None))"

text \<open>\<open>strconv.Atoi\<close> on a 64-bit machine; \<open>None\<close> when it returns an error.\<close>

definition Atoi :: "string \<Rightarrow> int option" where
  "Atoi s =
     (let neg = (s \<noteq> [] \<and> hd s = CHR ''-'');
          body = (if s \<noteq> [] \<and> (hd s = CHR ''-'' \<or> hd s = CHR ''+'') then tl s else s)
      in if body = [] then None
         else (case digits_value 0 body of
                 None \<Rightarrow> None
               | Some n \<Rightarrow>
                   (let i = (if neg then - int n else int n)
                    in if - (2 ^ 63) \<le> i \<and> i < 2 ^ 63 then Some i else None)))"

text \<open>The text of a value in single quotes, as the message formats \<open>'%s'\<close> print it.\<close>

definition quoted :: "string \<Rightarrow> string" where
  "quoted s = CHR 0x27 # s @ [CHR 0x27]"

definition newline :: char where
  "newline = CHR 0x0A"

section \<open>Package unicode/utf8\<close>

definition inRange :: "nat \<Rightarrow> nat \<Rightarrow> char \<Rightarrow> bool" where
  "inRange lo hi c \<longleftrightarrow> lo \<le> (of_char c :: nat) \<and> (of_char c :: nat) \<le> hi"

definition contBits :: "char \<Rightarrow> nat" where
  "contBits c = (of_char c :: nat) - 128"

text \<open>
  The first rune of a non-empty string and the number of bytes it takes; a byte that starts no
  well-formed sequence is one rune of value U+FFFD.
\<close>

fun decodeRune :: "string \<Rightarrow> nat \<times> nat" where
  "decodeRune [] = (0xFFFD, 0)"
| "decodeRune (a # s) =
     (if (of_char a :: nat) < 0x80 then (of_char a, 1)
      else case s of
        [] \<Rightarrow> (0xFFFD, 1)
      | b # s2 \<Rightarrow>
          if inRange 0xC2 0xDF a \<and> inRange 0x80 0xBF b
          then (((of_char a :: nat) - 0xC0) * 64 + contBits b, 2)
          else case s2 of
            [] \<Rightarrow> (0xFFFD, 1)
          | c # s3 \<Rightarrow>
              if inRange 0xE0 0xEF a \<and> inRange 0x80 0xBF c \<and>
                 inRange (if (of_char a :: nat) = 0xE0 then 0xA0 else 0x80)
                         (if (of_char a :: nat) = 0xED then 0x9F else 0xBF) b
              then (((of_char a :: nat) - 0xE0) * 4096 + contBits b * 64 + contBits c, 3)
              else case s3 of
                [] \<Rightarrow> (0xFFFD, 1)
              | d # s4 \<Rightarrow>
                  if inRange 0xF0 0xF4 a \<and> inRange 0x80 0xBF c \<and> inRange 0x80 0xBF d \<and>
                     inRange (if (of_char a :: nat) = 0xF0 then 0x90 else 0x80)
                             (if (of_char a :: nat) = 0xF4 then 0x8F else 0xBF) b
                  then (((of_char a :: nat) - 0xF0) * 262144 + contBits b * 4096 +
                          contBits c * 64 + contBits d, 4)
                  else (0xFFFD, 1))"

lemma decodeRune_size: "s \<noteq> [] \<Longrightarrow> 1 \<le> snd (decodeRune s)"
proof (cases s)
  case (Cons a t)
  have if_snd: "1 \<le> snd p \<Longrightarrow> 1 \<le> snd q \<Longrightarrow> 1 \<le> snd (if c then p else q)" for p q :: "nat \<times> nat" and c
    by simp
  have case_snd: "1 \<le> snd p \<Longrightarrow> (\<And>b u. 1 \<le> snd (f b u)) \<Longrightarrow> 1 \<le> snd (case l of [] \<Rightarrow> p | b # u \<Rightarrow> f b u)"
    for p :: "nat \<times> nat" and f and l :: string by (cases l) simp_all
  show ?thesis unfolding Cons decodeRune.simps by (intro if_snd case_snd) simp_all
qed simp

text \<open>\<open>[]rune(s)\<close>.\<close>

function runes :: "string \<Rightarrow> nat list" where
  "runes [] = []"
| "runes (a # s) =
     (let (r, n) = decodeRune (a # s) in r # runes (drop n (a # s)))"
  by pat_completeness auto
termination
proof (relation "measure length", goal_cases)
  case 1
  then show ?case by simp
next
  case (2 a s p r n)
  then have "1 \<le> n" using decodeRune_size [of "a # s"] by (metis list.distinct(1) snd_conv)
  then show ?case by (simp add: less_Suc_eq_le)
qed

text \<open>\<open>unicode.IsControl\<close>: category Cc.\<close>

definition IsControl :: "nat \<Rightarrow> bool" where
  "IsControl r \<longleftrightarrow> r < 0x20 \<or> (0x7F \<le> r \<and> r < 0xA0)"

lemma runes_ascii: "list_all (\<lambda>c. (of_char c :: nat) < 0x80) s \<Longrightarrow> runes s = map of_char s"
  by (induction s) auto

section \<open>Packages encoding/hex and encoding/base64\<close>

definition hexVal :: "char \<Rightarrow> nat option" where
  "hexVal c =
     (if isDigit09 c then Some ((of_char c :: nat) - 48)
      else if 97 \<le> (of_char c :: nat) \<and> (of_char c :: nat) \<le> 102 then Some ((of_char c :: nat) - 87)
      else if 65 \<le> (of_char c :: nat) \<and> (of_char c :: nat) \<le> 70 then Some ((of_char c :: nat) - 55)
      else None)"

fun hexDecode :: "string \<Rightarrow> nat list option" where
  "hexDecode [] = Some []"
| "hexDecode [a] = None"
| "hexDecode (a # b # s) =
     (case (hexVal a, hexVal b, hexDecode s) of
        (Some x, Some y, Some r) \<Rightarrow> Some ((16 * x + y) # r)
      | _ \<Rightarrow> None)"

definition base64Char :: "nat \<Rightarrow> char" where
  "base64Char n =
     (if n < 26 then char_of (65 + n)
      else if n < 52 then char_of (97 + (n - 26))
      else if n < 62 then char_of (48 + (n - 52))
      else if n = 62 then CHR ''+'' else CHR ''/'')"

fun base64Encode :: "nat list \<Rightarrow> string" where
  "base64Encode [] = []"
| "base64Encode [a] = [base64Char (a div 4), base64Char ((a mod 4) * 16), CHR ''='', CHR ''='']"
| "base64Encode [a, b] =
     [base64Char (a div 4), base64Char ((a mod 4) * 16 + b div 16),
      base64Char ((b mod 16) * 4), CHR ''='']"
| "base64Encode (a # b # c # s) =
     base64Char (a div 4) # base64Char ((a mod 4) * 16 + b div 16) #
     base64Char ((b mod 16) * 4 + c div 64) # base64Char (c mod 64) # base64Encode s"

section \<open>Package time\<close>

text \<open>
  \<open>t.Format(time.RFC3339)\<close> of an instant in UTC: the civil date is counted in the proleptic
  Gregorian calendar in 400-year eras that start on 1 March.
\<close>

definition civil :: "int \<Rightarrow> int \<times> int \<times> int" where
  "civil days =
     (let z = days + 306;
          era = z div 146097;
          doe = z mod 146097;
          yoe = (doe - doe div 1460 + doe div 36524 - doe div 146096) div 365;
          doy = doe - (365 * yoe + yoe div 4 - yoe div 100);
          mp = (5 * doy + 2) div 153;
          d = doy - (153 * mp + 2) div 5 + 1;
          m = (if mp < 10 then mp + 3 else mp - 9);
          y = yoe + era * 400 + (if m \<le> 2 then 1 else 0)
      in (y, m, d))"

definition pad :: "nat \<Rightarrow> int \<Rightarrow> string" where
  "pad n i = (let s = show_int i in replicate (n - length s) (CHR ''0'') @ s)"

definition FormatRFC3339 :: "time \<Rightarrow> string" where
  "FormatRFC3339 t =
     (let secs = t div 1000000000;
          (y, m, d) = civil (secs div 86400);
          sod = secs mod 86400
      in pad 4 y @ ''-'' @ pad 2 m @ ''-'' @ pad 2 d @ ''T'' @
         pad 2 (sod div 3600) @ '':'' @ pad 2 (sod mod 3600 div 60) @ '':'' @
         pad 2 (sod mod 60) @ ''Z'')"

section \<open>Readers and line scanners\<close>

text \<open>
  A reader gives its bytes and then either the end of the data or an error. \<open>bufio.Scanner\<close> splits
  at line feeds, drops a carriage return before them, and gives up at a line of 64 KiB or more.
\<close>

record reader =
  rd_data :: string
  rd_err :: "go_error option"

definition maxScanTokenSize :: int where
  "maxScanTokenSize = 65536"

definition rawLines :: "string \<Rightarrow> string list" where
  "rawLines s = (let ls = Split newline s in if last ls = [] then butlast ls else ls)"

definition dropCR :: "string \<Rightarrow> string" where
  "dropCR l = (if l \<noteq> [] \<and> last l = CHR 0x0D then butlast l else l)"

definition ScanLines :: "reader \<Rightarrow> string list \<times> go_error option" where
  "ScanLines rd =
     (let raw = rawLines (rd_data rd);
          ok = takeWhile (\<lambda>l. int (length l) < maxScanTokenSize) raw
      in (map dropCR ok,
          if length ok < length raw then Some ''bufio.Scanner: token too long'' else rd_err rd))"

section \<open>Facts\<close>

lemma digits_value_append:
  "digits_value acc (s @ t) =
     (case digits_value acc s of None \<Rightarrow> None | Some n \<Rightarrow> digits_value n t)"
  by (induction s arbitrary: acc) auto

lemma digit_char [simp]: "d < 10 \<Longrightarrow> (of_char (char_of (48 + d) :: char) :: nat) = 48 + d"
  by (simp add: of_char_of)

lemma isDigit_char [simp]: "(d :: nat) < 10 \<Longrightarrow> isDigit09 (char_of (48 + d))"
  by (simp add: isDigit09_def)

lemma digits_value_show_nat: "digits_value 0 (show_nat n) = Some n"
proof (induction n rule: show_nat.induct)
  case (1 n)
  show ?case
  proof (cases "n < 10")
    case True
    then show ?thesis by (simp add: show_nat.simps [of n])
  next
    case False
    with 1 have "digits_value 0 (show_nat (n div 10)) = Some (n div 10)" by simp
    with False show ?thesis by (simp add: show_nat.simps [of n] digits_value_append)
  qed
qed

lemma show_nat_not_Nil [simp]: "show_nat n \<noteq> []"
  by (simp add: show_nat.simps [of n])

lemma show_nat_digits: "list_all isDigit09 (show_nat n)"
proof (induction n rule: show_nat.induct)
  case (1 n)
  then show ?case by (cases "n < 10") (simp_all add: show_nat.simps [of n])
qed

lemma ParseUint_FormatUint: "ParseUint (FormatUint n) = Some n"
  using unsigned_less [of n] by (simp add: ParseUint_def FormatUint_def digits_value_show_nat)

lemma hexDecode_length: "hexDecode s = Some bs \<Longrightarrow> length s = 2 * length bs"
  by (induction s arbitrary: bs rule: hexDecode.induct) (auto split: option.splits)

lemma base64Encode_length: "length (base64Encode bs) = 4 * ((length bs + 2) div 3)"
proof (induction bs rule: base64Encode.induct)
  case (4 a b c s)
  have "(5 + length s) div 3 = Suc ((2 + length s) div 3)" by simp
  with 4 show ?case by simp
qed auto

lemma rawLines_no_newline: "l \<in> set (rawLines s) \<Longrightarrow> newline \<notin> set l"
  unfolding rawLines_def Let_def
  by (metis Split_no_sep in_set_butlastD)

lemma ScanLines_no_newline: "l \<in> set (fst (ScanLines rd)) \<Longrightarrow> newline \<notin> set l"
  by (auto simp: ScanLines_def Let_def dropCR_def split: if_splits
      dest!: set_takeWhileD rawLines_no_newline dest: in_set_butlastD)

lemma Base_no_slash: "\<lbrakk>p \<noteq> []; CHR ''/'' \<notin> set p\<rbrakk> \<Longrightarrow> Base p = p"
proof -
  assume p: "p \<noteq> []" "CHR ''/'' \<notin> set p"
  then have "hd (rev p) \<noteq> CHR ''/''" by (metis hd_in_set rev_is_Nil_conv set_rev)
  then have dw: "dropWhile (\<lambda>c. c = CHR ''/'') (rev p) = rev p"
    by (simp add: dropWhile_eq_self_iff)
  have tw: "takeWhile (\<lambda>c. c \<noteq> CHR ''/'') (rev p) = rev p"
    using p by (auto simp: takeWhile_eq_all_conv)
  show ?thesis using p by (simp add: Base_def dw tw)
qed

end
