(* ===== verification/Regexp.thy ===== *)
theory Regexp
  imports Prelude
begin

text \<open>
  Regular expressions over bytes, as far as the patterns of the sources need them: \<open>matches\<close> says
  which strings an expression denotes, \<open>fullMatch\<close> decides it by Brzozowski derivatives (the
  matcher behind \<open>^r$\<close>), \<open>search\<close> is Go's unanchored \<open>MatchString\<close>. The matcher is proved equal to
  the denotation, so the patterns of the components can be read as what they denote.
\<close>

datatype rx = Zero | One | Cls "char \<Rightarrow> bool" | Seq rx rx | Alt rx rx | Star rx

inductive matches :: "rx \<Rightarrow> string \<Rightarrow> bool" where
  m_One: "matches One []"
| m_Cls: "p c \<Longrightarrow> matches (Cls p) [c]"
| m_Seq: "matches r s \<Longrightarrow> matches q t \<Longrightarrow> matches (Seq r q) (s @ t)"
| m_AltL: "matches r s \<Longrightarrow> matches (Alt r q) s"
| m_AltR: "matches q s \<Longrightarrow> matches (Alt r q) s"
| m_StarNil: "matches (Star r) []"
| m_StarStep: "matches r s \<Longrightarrow> matches (Star r) t \<Longrightarrow> matches (Star r) (s @ t)"

inductive_simps matches_Zero [simp]: "matches Zero s"
inductive_simps matches_One [simp]: "matches One s"
inductive_simps matches_Cls [simp]: "matches (Cls p) s"
inductive_simps matches_Seq: "matches (Seq r q) s"
inductive_simps matches_Alt [simp]: "matches (Alt r q) s"

fun nullable :: "rx \<Rightarrow> bool" where
  "nullable Zero = False"
| "nullable One = True"
| "nullable (Cls p) = False"
| "nullable (Seq r q) = (nullable r \<and> nullable q)"
| "nullable (Alt r q) = (nullable r \<or> nullable q)"
| "nullable (Star r) = True"

text \<open>Smart constructors keep the derivatives small.\<close>

fun seqx :: "rx \<Rightarrow> rx \<Rightarrow> rx" where
  "seqx Zero q = Zero"
| "seqx One q = q"
| "seqx r q = Seq r q"

fun altx :: "rx \<Rightarrow> rx \<Rightarrow> rx" where
  "altx Zero q = q"
| "altx r Zero = r"
| "altx r q = Alt r q"

fun deriv :: "char \<Rightarrow> rx \<Rightarrow> rx" where
  "deriv c Zero = Zero"
| "deriv c One = Zero"
| "deriv c (Cls p) = (if p c then One else Zero)"
| "deriv c (Seq r q) =
     (if nullable r then altx (seqx (deriv c r) q) (deriv c q) else seqx (deriv c r) q)"
| "deriv c (Alt r q) = altx (deriv c r) (deriv c q)"
| "deriv c (Star r) = seqx (deriv c r) (Star r)"

fun fullMatch :: "rx \<Rightarrow> string \<Rightarrow> bool" where
  "fullMatch r [] = nullable r"
| "fullMatch r (c # s) = fullMatch (deriv c r) s"

definition anyByte :: rx where
  "anyByte = Cls (\<lambda>_. True)"

definition search :: "rx \<Rightarrow> string \<Rightarrow> bool" where
  "search r s \<longleftrightarrow> fullMatch (Seq (Star anyByte) (Seq r (Star anyByte))) s"

text \<open>The operators of the concrete syntax.\<close>

definition Opt :: "rx \<Rightarrow> rx" where
  "Opt r = Alt r One"

definition Plus :: "rx \<Rightarrow> rx" where
  "Plus r = Seq r (Star r)"

fun Rep :: "nat \<Rightarrow> rx \<Rightarrow> rx" where
  "Rep 0 r = One"
| "Rep (Suc n) r = Seq r (Rep n r)"

fun Lit :: "string \<Rightarrow> rx" where
  "Lit [] = One"
| "Lit (c # s) = Seq (Cls (\<lambda>x. x = c)) (Lit s)"

definition isAlnum :: "char \<Rightarrow> bool" where
  "isAlnum c \<longleftrightarrow> isUpperAZ c \<or> isLowerAZ c \<or> isDigit09 c"

definition isHexLower :: "char \<Rightarrow> bool" where
  "isHexLower c \<longleftrightarrow> isDigit09 c \<or> (97 \<le> (of_char c :: nat) \<and> (of_char c :: nat) \<le> 102)"

definition isHexUpper :: "char \<Rightarrow> bool" where
  "isHexUpper c \<longleftrightarrow> isDigit09 c \<or> (65 \<le> (of_char c :: nat) \<and> (of_char c :: nat) \<le> 70)"

definition isHexAny :: "char \<Rightarrow> bool" where
  "isHexAny c \<longleftrightarrow> isHexLower c \<or> isHexUpper c"

section \<open>The matcher decides the denotation\<close>

lemma matches_seqx [simp]: "matches (seqx r q) s = matches (Seq r q) s"
  by (cases r) (auto simp: matches_Seq)

lemma matches_altx [simp]: "matches (altx r q) s = matches (Alt r q) s"
  by (cases r; cases q) auto

lemma nullable_iff: "nullable r \<longleftrightarrow> matches r []"
  by (induction r) (auto simp: matches_Seq intro: m_StarNil)

lemma matches_Seq_Cons:
  "matches (Seq r q) (c # s) \<longleftrightarrow>
     (matches r [] \<and> matches q (c # s)) \<or>
     (\<exists>s1 s2. s = s1 @ s2 \<and> matches r (c # s1) \<and> matches q s2)"
  by (auto simp: matches_Seq Cons_eq_append_conv)

lemma matches_Star_ConsD:
  "matches x t \<Longrightarrow> x = Star r \<Longrightarrow> t = c # s \<Longrightarrow>
     \<exists>s1 s2. s = s1 @ s2 \<and> matches r (c # s1) \<and> matches (Star r) s2"
proof (induction arbitrary: c s rule: matches.induct)
  case (m_StarStep r' u v)
  then show ?case by (cases u) auto
qed auto

lemma matches_Star_Cons:
  "matches (Star r) (c # s) \<longleftrightarrow>
     (\<exists>s1 s2. s = s1 @ s2 \<and> matches r (c # s1) \<and> matches (Star r) s2)"
  by (auto dest: matches_Star_ConsD intro: m_StarStep [of r "c # _", simplified])

lemma matches_deriv: "matches (deriv c r) s \<longleftrightarrow> matches r (c # s)"
proof (induction r arbitrary: s)
  case (Seq r q)
  then show ?case
    by (auto simp: matches_Seq_Cons nullable_iff matches_Seq [of "deriv c r" q s])
next
  case (Star r)
  then show ?case by (auto simp: matches_Seq [of "deriv c r" "Star r" s] matches_Star_Cons)
qed auto

theorem fullMatch_iff: "fullMatch r s \<longleftrightarrow> matches r s"
  by (induction s arbitrary: r) (auto simp: nullable_iff matches_deriv)

section \<open>Reading the operators\<close>

lemma matches_Lit [simp]: "matches (Lit p) s \<longleftrightarrow> s = p"
  by (induction p arbitrary: s) (auto simp: matches_Seq)

declare Lit.simps [simp del]

lemma matches_Opt [simp]: "matches (Opt r) s \<longleftrightarrow> s = [] \<or> matches r s"
  by (auto simp: Opt_def)

lemma matches_Star_Cls [simp]: "matches (Star (Cls p)) s \<longleftrightarrow> list_all p s"
  by (induction s) (auto simp: matches_Star_Cons intro: m_StarNil)

lemma matches_Plus_Cls [simp]: "matches (Plus (Cls p)) s \<longleftrightarrow> s \<noteq> [] \<and> list_all p s"
  by (cases s) (auto simp: Plus_def matches_Seq_Cons matches_Seq [of _ _ "[]"])

lemma matches_Rep_Cls [simp]: "matches (Rep n (Cls p)) s \<longleftrightarrow> length s = n \<and> list_all p s"
proof (induction n arbitrary: s)
  case 0
  then show ?case by auto
next
  case (Suc n)
  then show ?case by (cases s) (auto simp: matches_Seq_Cons matches_Seq [of _ _ "[]"])
qed

lemma matches_Seq_Lit: "matches (Seq (Lit p) r) s \<longleftrightarrow> (\<exists>t. s = p @ t \<and> matches r t)"
  by (auto simp: matches_Seq)

lemma search_iff: "search r s \<longleftrightarrow> (\<exists>a m b. s = a @ m @ b \<and> matches r m)"
  by (auto simp: search_def fullMatch_iff matches_Seq anyByte_def list_all_iff)

end
