(* ===== verification/Util.thy ===== *)
theory Util
  imports Constants GoLib Regexp
begin

text \<open>
  Package \<open>util\<close> (\<^verbatim>\<open>src/util/util.go\<close>) and the path check of \<open>fileutil\<close>: bucket names and their
  owners, bag names, S3 addresses, name filters and the list helpers. A function that slices or
  indexes a string it has not checked returns an \<open>outcome\<close>, with the run-time panic as a value.
\<close>

section \<open>Patterns\<close>

definition MultipartSuffix :: rx where
  "MultipartSuffix =
     Seq (Lit ''.b'') (Seq (Plus (Cls isDigit09)) (Seq (Lit ''.of'') (Plus (Cls isDigit09))))"

definition APTrustFileNamePattern :: "string \<Rightarrow> bool" where
  "APTrustFileNamePattern s \<longleftrightarrow>
     fullMatch (Alt (Cls isAlnum)
       (Seq (Cls (\<lambda>c. isAlnum c \<or> c = CHR ''.'' \<or> c = CHR ''_''))
            (Plus (Cls (\<lambda>c. isAlnum c \<or> c = CHR ''.'' \<or> c = CHR ''-'' \<or> c = CHR ''_'' \<or> c = CHR ''%''))))) s"

definition PosixFileNamePattern :: "string \<Rightarrow> bool" where
  "PosixFileNamePattern s \<longleftrightarrow>
     fullMatch (Plus (Cls (\<lambda>c. isAlnum c \<or> c = CHR ''.'' \<or> c = CHR ''_'' \<or> c = CHR ''-''))) s"

definition isVerticalOrBell :: "char \<Rightarrow> bool" where
  "isVerticalOrBell c \<longleftrightarrow>
     c = CHR 0x07 \<or> c = CHR 0x0C \<or> c = CHR 0x09 \<or> c = CHR 0x0A \<or> c = CHR 0x0D \<or> c = CHR 0x0B"

definition PermissivePattern :: "string \<Rightarrow> bool" where
  "PermissivePattern s \<longleftrightarrow> search (Plus (Cls (\<lambda>c. \<not> isVerticalOrBell c))) s"

definition reManifest :: rx where
  "reManifest = Seq (Lit ''manifest-'') (Seq (Plus (Cls isAlnum)) (Lit ''.txt''))"

definition reTagManifest :: rx where
  "reTagManifest = Seq (Lit ''tagmanifest-'') (Seq (Plus (Cls isAlnum)) (Lit ''.txt''))"

definition reUrl :: rx where
  "reUrl =
     Seq (Opt (Seq (Lit ''http'') (Seq (Opt (Lit ''s'')) (Lit ''://''))))
       (Seq (Plus (Cls (\<lambda>c. isDigit09 c \<or> isLowerAZ c \<or> c = CHR ''.'' \<or> c = CHR ''-'')))
       (Seq (Lit ''.'')
       (Seq (let z = Cls (\<lambda>c. isLowerAZ c \<or> c = CHR ''.'')
             in Seq (Rep 2 z) (Seq (Opt z) (Seq (Opt z) (Seq (Opt z) (Opt z)))))
       (Seq (Star (Star (Cls (\<lambda>c. isAlnum c \<or> c = CHR ''_'' \<or> c = CHR ''/'' \<or> c = CHR '' '' \<or>
                                    c = CHR ''.'' \<or> c = CHR ''-''))))
            (Opt (Lit ''/''))))))"

definition reUUID :: rx where
  "reUUID =
     Seq (Rep 8 (Cls isHexAny))
       (Seq (Rep 3 (Seq (Lit ''-'') (Rep 4 (Cls isHexAny))))
         (Seq (Lit ''-'') (Rep 12 (Cls isHexAny))))"

definition reControl :: rx where
  "reControl =
     Seq (Cls (\<lambda>c. c = CHR 0x5C)) (Seq (Cls (\<lambda>c. c = CHR ''U'' \<or> c = CHR ''u'')) (Seq (Lit ''00'')
       (Alt (Seq (Cls (\<lambda>c. c = CHR ''0'' \<or> c = CHR ''1'' \<or> c = CHR ''8'' \<or> c = CHR ''9'')) (Cls isHexAny))
            (Seq (Lit ''7'') (Cls (\<lambda>c. c = CHR ''F'' \<or> c = CHR ''f''))))))"

section \<open>Buckets and owners\<close>

text \<open>The three package-level maps that \<open>CacheBucketNames\<close> fills from Pharos.\<close>

record bucketCache =
  OwnerOfReceivingBucket :: "string \<rightharpoonup> string"
  OwnerOfRestoreBucket :: "string \<rightharpoonup> string"
  RestoreBucketFor :: "string \<rightharpoonup> string"

definition emptyCache :: bucketCache where
  "emptyCache = \<lparr>OwnerOfReceivingBucket = Map.empty, OwnerOfRestoreBucket = Map.empty,
                 RestoreBucketFor = Map.empty\<rparr>"

definition OwnerOf :: "bucketCache \<Rightarrow> string \<Rightarrow> string" where
  "OwnerOf cache bucketName =
     (case OwnerOfReceivingBucket cache bucketName of
        Some inst \<Rightarrow> inst
      | None \<Rightarrow>
     (case OwnerOfRestoreBucket cache bucketName of
        Some inst \<Rightarrow> inst
      | None \<Rightarrow>
     (if bucketName = ReceiveTestBucketPrefix @ ''edu'' then ''test.edu''
      else if HasPrefix bucketName ReceiveTestBucketPrefix
      then Replace1 bucketName ReceiveTestBucketPrefix []
      else if HasPrefix bucketName ReceiveBucketPrefix
      then Replace1 bucketName ReceiveBucketPrefix []
      else if HasPrefix bucketName RestoreBucketPrefix
      then Replace1 bucketName RestoreBucketPrefix []
      else if bucketName = ''aptrust.test.receiving'' \<or> bucketName = ''aptrust.integration.test''
      then ''test.edu''
      else [])))"

definition RestorationBucketFor :: "bucketCache \<Rightarrow> string \<Rightarrow> bool \<Rightarrow> string" where
  "RestorationBucketFor cache institution restoreToTestBuckets =
     (if restoreToTestBuckets then RestoreBucketPrefix @ ''test.'' @ institution
      else (case RestoreBucketFor cache institution of
              Some bucket \<Rightarrow> bucket
            | None \<Rightarrow> RestoreBucketPrefix @ institution))"

section \<open>Bag names\<close>

text \<open>\<open>re.ReplaceAll(s, "")\<close> for a pattern anchored at the end of the text.\<close>

fun stripMatch :: "rx \<Rightarrow> string \<Rightarrow> string" where
  "stripMatch r [] = []"
| "stripMatch r (c # s) = (if fullMatch r (c # s) then [] else c # stripMatch r s)"

definition CleanBagName :: "string \<Rightarrow> string" where
  "CleanBagName bagName =
     (let nameWithoutTar =
            (if HasSuffix bagName ''.tar'' then take (length bagName - 4) bagName else bagName)
      in stripMatch MultipartSuffix nameWithoutTar)"

definition BagNameFromTarFileName :: "string \<Rightarrow> string" where
  "BagNameFromTarFileName pathToTarFile = CleanBagName (Base pathToTarFile)"

definition GetInstitutionFromBagName :: "string \<Rightarrow> string \<times> go_error option" where
  "GetInstitutionFromBagName bagName =
     (let parts = Split (CHR ''.'') bagName
      in if length parts < 3
         then ([], Some (''Bag name '' @ quoted bagName @ '' should start with your institution ID,'' @
                [newline] @ ''followed by a period and the object name.'' @ [newline] @
                ''For example, '' @ quoted ''miami.my_archive.tar'' @ '' for a tar file,'' @ [newline] @
                ''or '' @ quoted ''miami.my_archive'' @ '' for a directory.''))
         else if 3 < length parts \<and> (parts ! 1 = ''edu'' \<or> parts ! 1 = ''org'')
         then (parts ! 0 @ ''.'' @ parts ! 1, None)
         else (parts ! 0, None))"

section \<open>Small helpers\<close>

definition Min_int :: "int \<Rightarrow> int \<Rightarrow> int" where
  "Min_int x y = (if x < y then x else y)"

definition Base64EncodeMd5 :: "string \<Rightarrow> string \<times> go_error option" where
  "Base64EncodeMd5 md5Digest =
     (case hexDecode md5Digest of
        None \<Rightarrow> ([], Some (''Md5 sum '' @ quoted md5Digest @ '' contains invalid characters.''))
      | Some md5Bytes \<Rightarrow> (base64Encode md5Bytes, None))"

definition LooksLikeURL :: "string \<Rightarrow> bool" where
  "LooksLikeURL url \<longleftrightarrow> fullMatch reUrl url"

definition LooksLikeUUID :: "string \<Rightarrow> bool" where
  "LooksLikeUUID uuid \<longleftrightarrow> fullMatch reUUID uuid"

text \<open>\<open>cleanStr[1 : len(cleanStr)-1]\<close> panics when the string is a single quote character.\<close>

definition CleanString :: "string \<Rightarrow> string outcome" where
  "CleanString str =
     (let cleanStr = TrimSpace str
      in if (HasPrefix cleanStr [CHR 0x27] \<and> HasSuffix cleanStr [CHR 0x27]) \<or>
            (HasPrefix cleanStr [CHR 0x22] \<and> HasSuffix cleanStr [CHR 0x22])
         then (if length cleanStr < 2 then Panics
               else Returns (take (length cleanStr - 2) (drop 1 cleanStr)))
         else Returns cleanStr)"

text \<open>\<open>parts[1]\<close> panics when the URI has no slash after the bucket name.\<close>

definition BucketNameAndKey :: "string \<Rightarrow> (string \<times> string) outcome" where
  "BucketNameAndKey uri =
     (let relativeUri = Replace1 uri S3UriPrefix [];
          parts = SplitN2 (CHR ''/'') relativeUri
      in if length parts < 2 then Panics else Returns (parts ! 0, parts ! 1))"

definition HasSavableName :: "string \<Rightarrow> bool" where
  "HasSavableName filename \<longleftrightarrow>
     \<not> (filename = ''.'' \<or>
        filename = ''..'' \<or>
        filename = ''bagit.txt'' \<or>
        HasPrefix filename ''._'' \<or>
        Contains filename ''/._'' \<or>
        fullMatch reTagManifest filename \<or>
        fullMatch reManifest filename)"

definition LooksLikeJunkFile :: "string \<Rightarrow> bool" where
  "LooksLikeJunkFile filename \<longleftrightarrow> HasPrefix filename ''._'' \<or> Contains filename ''/._''"

fun StringListContains :: "string list \<Rightarrow> string \<Rightarrow> bool" where
  "StringListContains [] item = False"
| "StringListContains (x # list) item = (if x = item then True else StringListContains list item)"

fun IntListContains :: "int list \<Rightarrow> int \<Rightarrow> bool" where
  "IntListContains [] item = False"
| "IntListContains (x # list) item = (if x = item then True else IntListContains list item)"

definition PointerToString :: "string option \<Rightarrow> string" where
  "PointerToString strPointer = (case strPointer of None \<Rightarrow> [] | Some s \<Rightarrow> s)"

fun DeleteFromStringList :: "string list \<Rightarrow> string \<Rightarrow> string list" where
  "DeleteFromStringList [] item = []"
| "DeleteFromStringList (x # list) item =
     (if x \<noteq> item then x # DeleteFromStringList list item else DeleteFromStringList list item)"

definition ContainsControlCharacter :: "string \<Rightarrow> bool" where
  "ContainsControlCharacter str \<longleftrightarrow> list_ex IsControl (runes str)"

definition LooksLikeEscapedControl :: "string \<Rightarrow> bool" where
  "LooksLikeEscapedControl str \<longleftrightarrow> search reControl str"

definition IsGlacierDeepArchive :: "string \<Rightarrow> bool" where
  "IsGlacierDeepArchive storageOption \<longleftrightarrow> StringListContains GlacierDeepOptions storageOption"

definition LooksSafeToDelete :: "string \<Rightarrow> nat \<Rightarrow> nat \<Rightarrow> bool" where
  "LooksSafeToDelete dir minLength minSeparators \<longleftrightarrow>
     (let separatorCount = length dir - length (RemoveAll (CHR ''/'') dir)
      in minLength \<le> length dir \<and> minSeparators \<le> separatorCount)"

section \<open>Facts the components use\<close>

lemma StringListContains_iff [simp]: "StringListContains list item \<longleftrightarrow> item \<in> set list"
  by (induction list) auto

lemma IntListContains_iff [simp]: "IntListContains list item \<longleftrightarrow> item \<in> set list"
  by (induction list) auto

lemma DeleteFromStringList_filter: "DeleteFromStringList list item = filter (\<lambda>x. x \<noteq> item) list"
  by (induction list) auto

lemma LooksLikeJunkFile_not_savable: "LooksLikeJunkFile f \<Longrightarrow> \<not> HasSavableName f"
  by (auto simp: LooksLikeJunkFile_def HasSavableName_def)

lemma matches_MultipartSuffix:
  "matches MultipartSuffix s \<longleftrightarrow>
     (\<exists>p q. s = ''.b'' @ p @ ''.of'' @ q \<and> p \<noteq> [] \<and> q \<noteq> [] \<and>
            list_all isDigit09 p \<and> list_all isDigit09 q)"
proof -
  have "matches (Seq (Plus (Cls isDigit09)) (Seq (Lit ''.of'') (Plus (Cls isDigit09)))) t \<longleftrightarrow>
      (\<exists>p q. t = p @ ''.of'' @ q \<and> p \<noteq> [] \<and> q \<noteq> [] \<and>
            list_all isDigit09 p \<and> list_all isDigit09 q)" for t
    by (subst matches_Seq) (auto simp: matches_Seq_Lit)
  then show ?thesis by (auto simp: MultipartSuffix_def matches_Seq_Lit)
qed

lemma digits_no_dot: "list_all isDigit09 p \<Longrightarrow> filter (\<lambda>c. c = CHR ''.'') p = []"
  by (induction p) (auto simp: isDigit09_def)

lemma MultipartSuffix_dots:
  "matches MultipartSuffix s \<Longrightarrow> length (filter (\<lambda>c. c = CHR ''.'') s) = 2"
  by (auto simp: matches_MultipartSuffix digits_no_dot)

text \<open>A match starts at the last dot but one, so no proper extension of a match matches.\<close>

lemma MultipartSuffix_unique:
  assumes "matches MultipartSuffix s" and "matches MultipartSuffix (t @ s)"
  shows "t = []"
proof (rule ccontr)
  assume "t \<noteq> []"
  moreover from assms(2) have "hd (t @ s) = CHR ''.''" by (auto simp: matches_MultipartSuffix)
  ultimately have "CHR ''.'' \<in> set t" by (metis hd_append2 hd_in_set)
  then have "filter (\<lambda>c. c = CHR ''.'') t \<noteq> []" by (auto simp: filter_empty_conv)
  then have "0 < length (filter (\<lambda>c. c = CHR ''.'') t)" by simp
  with assms [THEN MultipartSuffix_dots] show False by simp
qed

lemma stripMatch_absent:
  "(\<And>t u. s = t @ u \<Longrightarrow> \<not> matches r u) \<Longrightarrow> stripMatch r s = s"
proof (induction s)
  case Nil
  then show ?case by simp
next
  case (Cons c s)
  have "stripMatch r s = s"
    by (rule Cons.IH) (use Cons.prems in \<open>metis append_Cons\<close>)
  moreover have "\<not> fullMatch r (c # s)" using Cons.prems [of "[]"] by (simp only: fullMatch_iff) simp
  ultimately show ?case by simp
qed

lemma stripMatch_MultipartSuffix:
  "matches MultipartSuffix m \<Longrightarrow> stripMatch MultipartSuffix (name @ m) = name"
proof (induction name)
  case Nil
  then show ?case by (cases m) (auto simp: fullMatch_iff simp del: fullMatch.simps)
next
  case (Cons c name)
  then have "\<not> matches MultipartSuffix ((c # name) @ m)"
    using MultipartSuffix_unique [of m "c # name"] by blast
  with Cons show ?case by (simp add: fullMatch_iff del: fullMatch.simps)
qed

lemma Base_dir:
  assumes "f \<noteq> []" "CHR ''/'' \<notin> set f"
  shows "Base (dir @ CHR ''/'' # f) = f"
proof -
  have "hd (rev f) \<noteq> CHR ''/''" using assms by (metis hd_in_set rev_is_Nil_conv set_rev)
  then have dw: "dropWhile (\<lambda>c. c = CHR ''/'') (rev f @ CHR ''/'' # rev dir) = rev f @ CHR ''/'' # rev dir"
    using assms by (simp add: dropWhile_eq_self_iff hd_append)
  have tw: "takeWhile (\<lambda>c. c \<noteq> CHR ''/'') (rev f @ CHR ''/'' # rev dir) = rev f"
    using assms by (subst takeWhile_append2) auto
  show ?thesis by (simp add: Base_def dw tw)
qed

lemma CleanBagName_tar: "CleanBagName (name @ ''.tar'') = stripMatch MultipartSuffix name"
  by (simp add: CleanBagName_def HasSuffix_def)

lemma cut_char_append: "c \<notin> set a \<Longrightarrow> cut [c] (a @ c # b) = Some (a, b)"
  by (induction a) (auto simp: HasPrefix_def)

lemma cut_char_None: "c \<notin> set s \<Longrightarrow> cut [c] s = None"
  by (induction s) (auto simp: HasPrefix_def)

section \<open>Correctness\<close>

text \<open>C37: The bag name of a part of a multi-part upload is the name all parts share: a tar file named
  \<open>name.bP.ofQ.tar\<close>, in any directory, gives \<open>name\<close>.\<close>

theorem BagNameFromTarFileName_multipart:
  assumes "p \<noteq> []" "q \<noteq> []" "list_all isDigit09 p" "list_all isDigit09 q" "CHR ''/'' \<notin> set name"
  shows "BagNameFromTarFileName (dir @ ''/'' @ name @ ''.b'' @ p @ ''.of'' @ q @ ''.tar'') = name"
proof -
  let ?m = "''.b'' @ p @ ''.of'' @ q"
  have "CHR ''/'' \<notin> set r" if "list_all isDigit09 r" for r
    using that by (induction r) (auto simp: isDigit09_def)
  with assms have "CHR ''/'' \<notin> set ((name @ ?m) @ ''.tar'')" by simp
  then have "Base (dir @ CHR ''/'' # (name @ ?m) @ ''.tar'') = (name @ ?m) @ ''.tar''"
    by (intro Base_dir) simp_all
  moreover have "matches MultipartSuffix ?m"
    unfolding matches_MultipartSuffix using assms by blast
  ultimately show ?thesis
    using CleanBagName_tar [of "name @ ?m"] stripMatch_MultipartSuffix [of ?m name]
    by (simp add: BagNameFromTarFileName_def)
qed

theorem BagNameFromTarFileName_multipart_witness:
  "list_all isDigit09 ''01'' \<and> list_all isDigit09 ''12'' \<and> CHR ''/'' \<notin> set ''test.edu.my_bag'' \<and>
   BagNameFromTarFileName (''/mnt'' @ ''/'' @ ''test.edu.my_bag'' @ ''.b'' @ ''01'' @ ''.of'' @ ''12'' @ ''.tar'') =
     ''test.edu.my_bag''"
proof -
  have d: "list_all isDigit09 ''01''" "list_all isDigit09 ''12''" by (simp_all add: isDigit09_def)
  show ?thesis
    using BagNameFromTarFileName_multipart [OF _ _ d, of "''test.edu.my_bag''" "''/mnt''"] d by simp
qed

text \<open>Without names cached from Pharos, the owner of an institution's restoration bucket is that
  institution, whatever its identifier; the owner of its test restoration bucket is reported with
  the prefix \<open>test.\<close>.\<close>

theorem OwnerOf_RestorationBucketFor:
  "OwnerOf emptyCache (RestorationBucketFor emptyCache inst test) = (if test then ''test.'' @ inst else inst)"
proof -
  have pre: "HasPrefix (RestoreBucketPrefix @ s) RestoreBucketPrefix" for s by (simp add: HasPrefix_def)
  have "OwnerOf emptyCache (RestoreBucketPrefix @ s) = s" for s
    using pre [of s] Replace1_prefix [of RestoreBucketPrefix s "[]"]
    by (simp add: OwnerOf_def emptyCache_def const_defs HasPrefix_def)
  then show ?thesis by (simp add: RestorationBucketFor_def emptyCache_def)
qed

text \<open>C38: The URI of an S3 object splits back into its bucket and key, including keys that contain
  slashes; a URI with no slash after the bucket name makes the function panic.\<close>

theorem BucketNameAndKey_roundtrip:
  assumes "CHR ''/'' \<notin> set bucket"
  shows "BucketNameAndKey (S3UriPrefix @ bucket @ ''/'' @ key) = Returns (bucket, key) \<and>
         BucketNameAndKey (S3UriPrefix @ bucket) = Panics"
  using cut_char_append [OF assms, of key] cut_char_None [OF assms]
  by (simp add: BucketNameAndKey_def SplitN2_def)

theorem BucketNameAndKey_roundtrip_witness:
  "CHR ''/'' \<notin> set ''aptrust.restore'' \<and>
   BucketNameAndKey (S3UriPrefix @ ''aptrust.restore'' @ ''/'' @ ''a/b'') = Returns (''aptrust.restore'', ''a/b'') \<and>
   BucketNameAndKey (S3UriPrefix @ ''aptrust.restore'') = Panics"
  using BucketNameAndKey_roundtrip [of "''aptrust.restore''" "''a/b''"] by simp

end
