(* ===== verification/WorkSummary.thy ===== *)
theory WorkSummary
  imports Prelude
begin

text \<open>
  \<^verbatim>\<open>src/models/work_summary.go\<close>: the record every worker keeps of one attempt at one step of its
  work, with the list of error messages that decides whether the step succeeded. The interface
  the validator and the workers rely on is the locale \<open>error_log\<close>: once something was reported,
  no later report hides it. The last section takes the locking of \<open>AddError\<close> apart and bounds the
  list when several goroutines report at the same time.
\<close>

record WorkSummary =
  ws_Attempted :: bool
  ws_AttemptNumber :: uint16
  ws_ErrorIsFatal :: bool
  ws_Errors :: "string list"
  ws_StartedAt :: time
  ws_FinishedAt :: time
  ws_Retry :: bool

definition NewWorkSummary :: WorkSummary where
  "NewWorkSummary = \<lparr>ws_Attempted = False, ws_AttemptNumber = 0, ws_ErrorIsFatal = False,
     ws_Errors = [], ws_StartedAt = zeroTime, ws_FinishedAt = zeroTime, ws_Retry = True\<rparr>"

text \<open>\<open>now\<close> is what \<open>time.Now().UTC()\<close> returns.\<close>

definition Start :: "time \<Rightarrow> WorkSummary \<Rightarrow> WorkSummary" where
  "Start now summary = summary\<lparr>ws_StartedAt := now\<rparr>"

definition Started :: "WorkSummary \<Rightarrow> bool" where
  "Started summary \<longleftrightarrow> \<not> IsZero (ws_StartedAt summary)"

definition Finish :: "time \<Rightarrow> WorkSummary \<Rightarrow> WorkSummary" where
  "Finish now summary = summary\<lparr>ws_FinishedAt := now\<rparr>"

definition Finished :: "WorkSummary \<Rightarrow> bool" where
  "Finished summary \<longleftrightarrow> \<not> IsZero (ws_FinishedAt summary)"

definition RunTime :: "time \<Rightarrow> WorkSummary \<Rightarrow> int" where
  "RunTime now summary =
     (let startTime = ws_StartedAt summary
      in if IsZero startTime then 0
         else (let endTime = (if IsZero (ws_FinishedAt summary) then now else ws_FinishedAt summary)
               in Sub endTime startTime))"

definition Succeeded :: "WorkSummary \<Rightarrow> bool" where
  "Succeeded summary \<longleftrightarrow> Finished summary \<and> length (ws_Errors summary) = 0"

text \<open>\<open>message\<close> is the text that \<open>fmt.Sprintf(format, a...)\<close> gives.\<close>

definition AddError :: "WorkSummary \<Rightarrow> string \<Rightarrow> WorkSummary" where
  "AddError summary message =
     (if 29 < length (ws_Errors summary) then summary
      else if length (ws_Errors summary) = 29
      then summary\<lparr>ws_Errors := ws_Errors summary @ [''Too many errors'']\<rparr>
      else summary\<lparr>ws_Errors := ws_Errors summary @ [message]\<rparr>)"

definition ClearErrors :: "WorkSummary \<Rightarrow> WorkSummary" where
  "ClearErrors summary = summary\<lparr>ws_ErrorIsFatal := False, ws_Errors := []\<rparr>"

definition HasErrors :: "WorkSummary \<Rightarrow> bool" where
  "HasErrors summary \<longleftrightarrow> 0 < length (ws_Errors summary)"

definition FirstError :: "WorkSummary \<Rightarrow> string" where
  "FirstError summary = (if 0 < length (ws_Errors summary) then ws_Errors summary ! 0 else [])"

definition AllErrorsAsString :: "WorkSummary \<Rightarrow> string" where
  "AllErrorsAsString summary =
     (if 0 < length (ws_Errors summary) then Join (ws_Errors summary) [CHR 0x0A] else [])"

lemmas ws_defs = Start_def Started_def Finish_def Finished_def Succeeded_def ClearErrors_def
  HasErrors_def NewWorkSummary_def time_defs

section \<open>The interface: a log that does not forget\<close>

locale error_log =
  fixes add :: "'s \<Rightarrow> string \<Rightarrow> 's"
    and has :: "'s \<Rightarrow> bool"
    and fresh :: 's
  assumes has_add: "has (add s m)"
    and not_has_fresh: "\<not> has fresh"
begin

definition report :: "string list \<Rightarrow> 's \<Rightarrow> 's" where
  "report ms s = foldl add s ms"

lemma report_Nil [simp]: "report [] s = s"
  by (simp add: report_def)

lemma report_Cons [simp]: "report (m # ms) s = report ms (add s m)"
  by (simp add: report_def)

lemma has_mono: "has s \<Longrightarrow> has (report ms s)"
  by (induction ms arbitrary: s) (simp_all add: has_add)

lemma has_report_iff: "has (report ms s) \<longleftrightarrow> has s \<or> ms \<noteq> []"
  by (cases ms) (auto simp: has_add has_mono)

lemma clean_report: "\<not> has (report ms fresh) \<longleftrightarrow> ms = []"
  by (simp add: has_report_iff not_has_fresh)

end

interpretation summary_log: error_log AddError HasErrors NewWorkSummary
  by unfold_locales (auto simp: AddError_def ws_defs)

text \<open>What \<open>AddError\<close> leaves alone, and what it makes of the list.\<close>

lemma AddError_frame [simp]:
  "ws_Attempted (AddError s m) = ws_Attempted s"
  "ws_AttemptNumber (AddError s m) = ws_AttemptNumber s"
  "ws_ErrorIsFatal (AddError s m) = ws_ErrorIsFatal s"
  "ws_StartedAt (AddError s m) = ws_StartedAt s"
  "ws_FinishedAt (AddError s m) = ws_FinishedAt s"
  "ws_Retry (AddError s m) = ws_Retry s"
  by (simp_all add: AddError_def)

lemma HasErrors_AddError [simp]: "HasErrors (AddError s m)"
  by (rule summary_log.has_add)

lemma HasErrors_AddError_mono [err_mono]: "HasErrors s \<Longrightarrow> HasErrors (AddError s m)"
  by simp

lemma Errors_AddError:
  "length (ws_Errors s) \<le> 30 \<Longrightarrow>
     ws_Errors (AddError s m) =
       take 30 (ws_Errors s @ (if length (ws_Errors s) = 29 then [''Too many errors''] else [m]))"
  by (auto simp: AddError_def)

lemma AddError_length:
  "length (ws_Errors s) \<le> 30 \<Longrightarrow> length (ws_Errors (AddError s m)) = min 30 (Suc (length (ws_Errors s)))"
  by (auto simp: AddError_def)

lemma report_length:
  "length (ws_Errors s) \<le> 30 \<Longrightarrow>
     length (ws_Errors (summary_log.report ms s)) = min 30 (length (ws_Errors s) + length ms)"
  by (induction ms arbitrary: s) (simp_all add: AddError_length)

text \<open>The messages that survive are the first 29, then the marker.\<close>

lemma report_first_29:
  "length (ws_Errors s) + length ms \<le> 29 \<Longrightarrow>
     ws_Errors (summary_log.report ms s) = ws_Errors s @ ms"
  by (induction ms arbitrary: s) (simp_all add: AddError_def)

lemma report_full:
  "length (ws_Errors s) = 30 \<Longrightarrow> summary_log.report ms s = s"
  by (induction ms) (simp_all add: AddError_def)

lemma report_append: "summary_log.report (xs @ ys) s = summary_log.report ys (summary_log.report xs s)"
  by (induction xs arbitrary: s) simp_all

text \<open>C34: Reporting any sequence of errors to a new summary records all of them up to 29, and beyond
  that exactly the first 29 followed by one marker: never more than 30 entries, and success
  is impossible as soon as one error was reported.\<close>

theorem AddError_cap:
  "ws_Errors (foldl AddError NewWorkSummary ms) =
     (if length ms \<le> 29 then ms else take 29 ms @ [''Too many errors'']) \<and>
   (Succeeded (Finish now (foldl AddError NewWorkSummary ms)) \<longleftrightarrow> ms = [] \<and> now \<noteq> zeroTime)"
  unfolding summary_log.report_def [symmetric]
proof (intro conjI)
  show "ws_Errors (summary_log.report ms NewWorkSummary) =
     (if length ms \<le> 29 then ms else take 29 ms @ [''Too many errors''])"
  proof (cases "length ms \<le> 29")
    case True
    then show ?thesis using report_first_29 [of NewWorkSummary ms] by (simp add: NewWorkSummary_def)
  next
    case False
    define s where "s = summary_log.report (take 29 ms) NewWorkSummary"
    have s: "ws_Errors s = take 29 ms"
      using report_first_29 [of NewWorkSummary "take 29 ms"] by (simp add: s_def NewWorkSummary_def)
    from False obtain m rest where m: "drop 29 ms = m # rest"
      by (cases "drop 29 ms") auto
    have a: "ws_Errors (AddError s m) = take 29 ms @ [''Too many errors'']"
      using False s by (simp add: AddError_def)
    then have "summary_log.report rest (AddError s m) = AddError s m"
      using False by (intro report_full) simp
    moreover have "ms = take 29 ms @ m # rest" by (metis append_take_drop_id m)
    ultimately have "summary_log.report ms NewWorkSummary = AddError s m"
      using report_append [of "take 29 ms" "m # rest" NewWorkSummary] by (simp add: s_def)
    with a False show ?thesis by simp
  qed
next
  show "Succeeded (Finish now (summary_log.report ms NewWorkSummary)) \<longleftrightarrow> ms = [] \<and> now \<noteq> zeroTime"
    using summary_log.clean_report [of ms] by (auto simp: ws_defs)
qed

section \<open>Concurrent callers of \<open>AddError\<close>\<close>

text \<open>
  \<open>AddError\<close> reads the length before it takes the lock. A goroutine that has passed that test is
  pending; the locked part then appends. \<open>n\<close> is the number of goroutines that may be inside the
  call at once.
\<close>

record add_state =
  as_Errors :: "string list"
  as_Pending :: "string list"

definition lockedAppend :: "string list \<Rightarrow> string \<Rightarrow> string list" where
  "lockedAppend errors message =
     (if length errors = 29 then errors @ [''Too many errors''] else errors @ [message])"

inductive add_step :: "nat \<Rightarrow> add_state \<Rightarrow> add_state \<Rightarrow> bool" for n :: nat where
  enter: "\<not> 29 < length (as_Errors s) \<Longrightarrow> length (as_Pending s) < n \<Longrightarrow>
     add_step n s (s\<lparr>as_Pending := as_Pending s @ [m]\<rparr>)"
| locked: "as_Pending s = ps @ m # qs \<Longrightarrow>
     add_step n s (s\<lparr>as_Errors := lockedAppend (as_Errors s) m, as_Pending := ps @ qs\<rparr>)"

inductive add_reachable :: "nat \<Rightarrow> add_state \<Rightarrow> bool" for n :: nat where
  init: "add_reachable n \<lparr>as_Errors = [], as_Pending = []\<rparr>"
| step: "add_reachable n s \<Longrightarrow> add_step n s t \<Longrightarrow> add_reachable n t"


lemma lockedAppend_length [simp]: "length (lockedAppend es m) = Suc (length es)"
  by (simp add: lockedAppend_def)





lemma add_reachable_enter:
  "add_reachable n \<lparr>as_Errors = es, as_Pending = ps\<rparr> \<Longrightarrow> length es \<le> 29 \<Longrightarrow> length ps < n \<Longrightarrow>
     add_reachable n \<lparr>as_Errors = es, as_Pending = ps @ [m]\<rparr>"
  using add_reachable.step [OF _ add_step.enter, of n "\<lparr>as_Errors = es, as_Pending = ps\<rparr>" m] by simp

lemma add_reachable_locked:
  "add_reachable n \<lparr>as_Errors = es, as_Pending = m # ps\<rparr> \<Longrightarrow>
     add_reachable n \<lparr>as_Errors = lockedAppend es m, as_Pending = ps\<rparr>"
  using add_reachable.step [OF _ add_step.locked [where ps = "[]"],
    of n "\<lparr>as_Errors = es, as_Pending = m # ps\<rparr>" m ps] by simp

lemma add_reachable_seq:
  assumes "0 < n"
  shows "k \<le> 29 \<Longrightarrow> add_reachable n \<lparr>as_Errors = replicate k m, as_Pending = []\<rparr>"
proof (induction k)
  case 0
  show ?case using add_reachable.init [of n] by simp
next
  case (Suc k)
  then have "add_reachable n \<lparr>as_Errors = replicate k m, as_Pending = [] @ [m]\<rparr>"
    using assms by (intro add_reachable_enter) simp_all
  then have "add_reachable n \<lparr>as_Errors = lockedAppend (replicate k m) m, as_Pending = []\<rparr>"
    using add_reachable_locked by simp
  then show ?case using Suc.prems by (simp add: lockedAppend_def replicate_append_same)
qed

lemma add_reachable_pending:
  assumes "add_reachable n \<lparr>as_Errors = es, as_Pending = []\<rparr>" and "length es \<le> 29"
  shows "k \<le> n \<Longrightarrow> add_reachable n \<lparr>as_Errors = es, as_Pending = replicate k m\<rparr>"
proof (induction k)
  case 0
  show ?case using assms(1) by simp
next
  case (Suc k)
  then have "add_reachable n \<lparr>as_Errors = es, as_Pending = replicate k m @ [m]\<rparr>"
    using assms(2) by (intro add_reachable_enter) simp_all
  then show ?case by (simp add: replicate_append_same)
qed

lemma add_reachable_drain:
  "add_reachable n \<lparr>as_Errors = es, as_Pending = replicate k m\<rparr> \<Longrightarrow>
     \<exists>es'. add_reachable n \<lparr>as_Errors = es', as_Pending = []\<rparr> \<and> length es' = length es + k"
proof (induction k arbitrary: es)
  case 0
  then show ?case by auto
next
  case (Suc k)
  then have "add_reachable n \<lparr>as_Errors = lockedAppend es m, as_Pending = replicate k m\<rparr>"
    using add_reachable_locked by simp
  from Suc.IH [OF this] show ?case by simp
qed

text \<open>C36: The bound is reached: for every number of goroutines there is an interleaving that leaves
  \<open>29 + n\<close> messages, so with two reporters the promised cap of 30 is broken.\<close>

theorem AddError_cap_race:
  assumes "0 < n"
  shows "\<exists>s. add_reachable n s \<and> as_Pending s = [] \<and> length (as_Errors s) = 29 + n"
proof -
  have "add_reachable n \<lparr>as_Errors = replicate 29 ''e'', as_Pending = []\<rparr>"
    using assms by (rule add_reachable_seq) simp
  then have "add_reachable n \<lparr>as_Errors = replicate 29 ''e'', as_Pending = replicate n ''e''\<rparr>"
    by (rule add_reachable_pending) simp_all
  from add_reachable_drain [OF this] show ?thesis by auto
qed


theorem AddError_cap_race_witness:
  "(0::nat) < 2 \<and> (\<exists>s. add_reachable 2 s \<and> as_Pending s = [] \<and> length (as_Errors s) = 31)"
  using AddError_cap_race [of 2] by simp

end
