(* ===== verification/Containers.thy ===== *)
theory Containers
  imports Prelude
begin

text \<open>
  The two shared containers of \<open>models\<close>: the circular list of \<^verbatim>\<open>src/models/ring_list.go\<close> and the
  string map of \<^verbatim>\<open>src/models/synchronized_map.go\<close>. Each method body is one critical section, so a
  method is one transition of the container's state; the two places where a method reads outside
  its lock (the length in \<open>Keys\<close> and \<open>Values\<close>) take that earlier reading as an argument.
\<close>

section \<open>RingList\<close>

record RingList =
  rl_capacity :: int
  rl_index :: int
  rl_items :: "string list"

definition NewRingList :: "int \<Rightarrow> RingList outcome" where
  "NewRingList capacity =
     (if capacity < 0 then Panics
      else Returns \<lparr>rl_capacity = capacity, rl_index = 0, rl_items = replicate (nat capacity) []\<rparr>)"

definition RingList_Add :: "RingList \<Rightarrow> string \<Rightarrow> RingList outcome" where
  "RingList_Add list item =
     (let index = rl_index list + 1;
          index = (if index = rl_capacity list then 0 else index)
      in if 0 \<le> index \<and> index < int (length (rl_items list))
         then Returns (list\<lparr>rl_index := index, rl_items := (rl_items list)[nat index := item]\<rparr>)
         else Panics)"

fun contains_loop :: "string list \<Rightarrow> string \<Rightarrow> bool" where
  "contains_loop [] item = False"
| "contains_loop (value # values) item = (if value = item then True else contains_loop values item)"

definition RingList_Contains :: "RingList \<Rightarrow> string \<Rightarrow> bool" where
  "RingList_Contains list item = contains_loop (rl_items list) item"

lemma contains_loop_iff [simp]: "contains_loop xs item \<longleftrightarrow> item \<in> set xs"
  by (induction xs) auto

fun RingList_addAll :: "string list \<Rightarrow> RingList \<Rightarrow> RingList outcome" where
  "RingList_addAll [] list = Returns list"
| "RingList_addAll (x # xs) list = and_then (RingList_Add list x) (RingList_addAll xs)"

text \<open>The invariant, and the abstraction: the items from the newest to the oldest slot.\<close>

definition ring_ok :: "RingList \<Rightarrow> bool" where
  "ring_ok r \<longleftrightarrow> 0 < rl_capacity r \<and> rl_capacity r = int (length (rl_items r)) \<and>
     0 \<le> rl_index r \<and> rl_index r < rl_capacity r"

definition recent :: "RingList \<Rightarrow> string list" where
  "recent r = (let c = length (rl_items r)
               in map (\<lambda>k. rl_items r ! ((nat (rl_index r) + c - k) mod c)) [0..<c])"

lemma length_recent [simp]: "length (recent r) = length (rl_items r)"
  by (simp add: recent_def Let_def)

lemma RingList_Add_ok:
  assumes "ring_ok r"
  obtains r' where "RingList_Add r x = Returns r'" and "ring_ok r'"
    and "rl_items r' = (rl_items r)[Suc (nat (rl_index r)) mod length (rl_items r) := x]"
    and "nat (rl_index r') = Suc (nat (rl_index r)) mod length (rl_items r)"
proof -
  define c where "c = length (rl_items r)"
  define i where "i = nat (rl_index r)"
  have ci: "0 < c" "i < c" "rl_index r = int i" "rl_capacity r = int c"
    using assms unfolding ring_ok_def c_def i_def by linarith+
  define j where "j = (if int i + 1 = int c then 0 else int i + 1)"
  have j: "nat j = Suc i mod c" "0 \<le> j" "j < int c"
    using ci by (auto simp: j_def mod_Suc)
  have "RingList_Add r x = Returns (r\<lparr>rl_index := j, rl_items := (rl_items r)[nat j := x]\<rparr>)"
    using ci j by (simp add: RingList_Add_def Let_def j_def c_def)
  moreover have "ring_ok (r\<lparr>rl_index := j, rl_items := (rl_items r)[nat j := x]\<rparr>)"
    using ci j by (simp add: ring_ok_def c_def)
  ultimately show thesis using that j(1) unfolding c_def i_def by simp
qed

text \<open>Distinct offsets from the index reach distinct slots.\<close>

lemma ring_slot_neq:
  fixes c i k :: nat
  assumes "i < c" "Suc k < c"
  shows "(i + c - k) mod c \<noteq> Suc i mod c"
proof
  assume eq: "(i + c - k) mod c = Suc i mod c"
  have "(i + c - k) mod c = (if k \<le> i then i - k else i + c - k)"
    using assms by (auto simp: mod_if)
  moreover have "Suc i mod c = (if Suc i = c then 0 else Suc i)"
    using assms by (auto simp: mod_if)
  ultimately show False using eq assms by (auto split: if_splits)
qed

lemma ring_slot_shift:
  fixes c i k :: nat
  assumes "i < c" "Suc k < c"
  shows "(Suc i mod c + c - Suc k) mod c = (i + c - k) mod c"
proof (cases "Suc i = c")
  case True
  with assms show ?thesis by (auto simp: mod_if)
next
  case False
  with assms have "Suc i mod c = Suc i" by simp
  with assms show ?thesis by simp
qed

lemma recent_Add:
  assumes ok: "ring_ok r" and add: "RingList_Add r x = Returns r'"
  shows "recent r' = x # butlast (recent r)"
proof -
  define c where "c = length (rl_items r)"
  define i where "i = nat (rl_index r)"
  have ci: "0 < c" "i < c" using ok unfolding ring_ok_def c_def i_def by linarith+
  obtain r'' where "RingList_Add r x = Returns r''" "rl_items r'' = (rl_items r)[Suc i mod c := x]"
    "nat (rl_index r'') = Suc i mod c"
    using RingList_Add_ok [OF ok, of x] unfolding c_def i_def by metis
  with add have items: "rl_items r' = (rl_items r)[Suc i mod c := x]"
    and idx: "nat (rl_index r') = Suc i mod c" by simp_all
  have len: "length (rl_items r') = c" by (simp add: items c_def)
  show ?thesis
  proof (rule nth_equalityI)
    show "length (recent r') = length (x # butlast (recent r))"
      using ci len by (simp add: c_def)
    fix k assume "k < length (recent r')"
    then have k: "k < c" by (simp add: len)
    show "recent r' ! k = (x # butlast (recent r)) ! k"
    proof (cases k)
      case 0
      have "recent r' ! 0 = rl_items r' ! ((Suc i mod c + c) mod c)"
        using ci by (simp add: recent_def Let_def len idx)
      with 0 ci show ?thesis by (simp add: items c_def)
    next
      case (Suc l)
      with k have l: "Suc l < c" by simp
      have "recent r' ! k = rl_items r' ! ((Suc i mod c + c - Suc l) mod c)"
        using Suc k by (simp add: recent_def Let_def len idx)
      also have "\<dots> = rl_items r ! ((i + c - l) mod c)"
        using ring_slot_shift [OF ci(2) l] ring_slot_neq [OF ci(2) l] by (simp add: items)
      also have "\<dots> = butlast (recent r) ! l"
        using l by (simp add: nth_butlast recent_def Let_def c_def i_def)
      finally show ?thesis by (simp add: Suc)
    qed
  qed
qed

lemma set_recent: "ring_ok r \<Longrightarrow> set (recent r) = set (rl_items r)"
proof -
  assume ok: "ring_ok r"
  define c where "c = length (rl_items r)"
  define i where "i = nat (rl_index r)"
  have ci: "0 < c" "i < c" using ok unfolding ring_ok_def c_def i_def by linarith+
  have "(\<lambda>k. (i + c - k) mod c) ` {0..<c} = {0..<c}"
  proof
    show "(\<lambda>k. (i + c - k) mod c) ` {0..<c} \<subseteq> {0..<c}" using ci by auto
    show "{0..<c} \<subseteq> (\<lambda>k. (i + c - k) mod c) ` {0..<c}"
    proof
      fix j assume j: "j \<in> {0..<c}"
      define k where "k = (if j \<le> i then i - j else i + c - j)"
      have "k \<in> {0..<c}" "(i + c - k) mod c = j"
        using ci j by (auto simp: k_def mod_if)
      then show "j \<in> (\<lambda>k. (i + c - k) mod c) ` {0..<c}" by blast
    qed
  qed
  then have "set (recent r) = (!) (rl_items r) ` {0..<c}"
    unfolding recent_def Let_def c_def [symmetric] i_def [symmetric] set_map set_upt
    by (metis (no_types, lifting) image_cong image_image)
  then show ?thesis by (force simp: c_def in_set_conv_nth image_iff)
qed

lemma recent_addAll:
  "ring_ok r \<Longrightarrow> \<exists>r'. RingList_addAll xs r = Returns r' \<and> ring_ok r' \<and>
     length (rl_items r') = length (rl_items r) \<and>
     recent r' = take (length (rl_items r)) (rev xs @ recent r)"
proof (induction xs arbitrary: r)
  case Nil
  then show ?case by simp
next
  case (Cons x xs)
  obtain r1 where r1: "RingList_Add r x = Returns r1" "ring_ok r1"
    "length (rl_items r1) = length (rl_items r)"
    using RingList_Add_ok [OF Cons.prems, of x] by (metis length_list_update)
  from Cons.IH [OF r1(2)] obtain r' where r': "RingList_addAll xs r1 = Returns r'" "ring_ok r'"
    "length (rl_items r') = length (rl_items r)"
    "recent r' = take (length (rl_items r)) (rev xs @ recent r1)"
    using r1(3) by auto
  have "recent r1 = x # butlast (recent r)" by (rule recent_Add [OF Cons.prems r1(1)])
  moreover have "0 < length (rl_items r)" using Cons.prems unfolding ring_ok_def by linarith
  ultimately have "recent r' = take (length (rl_items r)) (rev (x # xs) @ recent r)"
    unfolding r'(4) by (cases "length xs < length (rl_items r)")
      (auto simp: butlast_conv_take take_Cons' min_def)
  with r' r1 show ?case by simp
qed

text \<open>C32: A ring list of positive capacity \<open>c\<close> never panics, and after any sequence of additions it
  contains exactly the last \<open>c\<close> items added; while fewer than \<open>c\<close> were added it also reports the
  empty string, the content of its unused slots.\<close>

theorem RingList_contains_recent:
  assumes "0 < c"
  shows "\<exists>r r'. NewRingList c = Returns r \<and> RingList_addAll xs r = Returns r' \<and>
     (\<forall>item. RingList_Contains r' item \<longleftrightarrow>
        item \<in> set (take (nat c) (rev xs)) \<or> (item = [] \<and> length xs < nat c))"
proof -
  define r where "r = \<lparr>rl_capacity = c, rl_index = 0, rl_items = replicate (nat c) []\<rparr>"
  have ok: "ring_ok r" using assms by (simp add: ring_ok_def r_def)
  have rec: "recent r = replicate (nat c) []"
    using assms by (intro nth_equalityI) (simp_all add: recent_def r_def Let_def)
  from recent_addAll [OF ok, of xs] obtain r' where r': "RingList_addAll xs r = Returns r'"
    "ring_ok r'" "recent r' = take (nat c) (rev xs @ replicate (nat c) [])"
    unfolding rec by (auto simp: r_def)
  have "RingList_Contains r' item \<longleftrightarrow>
        item \<in> set (take (nat c) (rev xs)) \<or> (item = [] \<and> length xs < nat c)" for item
  proof -
    have "RingList_Contains r' item \<longleftrightarrow> item \<in> set (recent r')"
      unfolding RingList_Contains_def contains_loop_iff set_recent [OF r'(2)] ..
    also have "\<dots> \<longleftrightarrow> item \<in> set (take (nat c) (rev xs)) \<or> (item = [] \<and> nat c - length xs \<noteq> 0)"
      unfolding r'(3) by (simp add: in_set_replicate)
    also have "nat c - length xs \<noteq> 0 \<longleftrightarrow> length xs < nat c" by linarith
    finally show ?thesis .
  qed
  moreover have "NewRingList c = Returns r" using assms by (simp add: NewRingList_def r_def)
  ultimately show ?thesis using r'(1) by blast
qed

theorem RingList_contains_recent_witness:
  "(0::int) < 2 \<and> (\<exists>r r'. NewRingList 2 = Returns r \<and> RingList_addAll [''a'', ''b'', ''c''] r = Returns r' \<and>
     (\<forall>item. RingList_Contains r' item \<longleftrightarrow>
        item \<in> set (take (nat 2) (rev [''a'', ''b'', ''c''])) \<or> (item = [] \<and> length [''a'', ''b'', ''c''] < nat 2)))"
  using RingList_contains_recent [of 2 "[''a'', ''b'', ''c'']"] by simp

section \<open>SynchronizedMap\<close>

record SynchronizedMap =
  sm_data :: "string \<rightharpoonup> string"

definition NewSynchronizedMap :: SynchronizedMap where
  "NewSynchronizedMap = \<lparr>sm_data = Map.empty\<rparr>"

definition HasKey :: "SynchronizedMap \<Rightarrow> string \<Rightarrow> bool" where
  "HasKey syncMap key \<longleftrightarrow> (case sm_data syncMap key of None \<Rightarrow> False | Some _ \<Rightarrow> True)"

definition SynchronizedMap_Add :: "SynchronizedMap \<Rightarrow> string \<Rightarrow> string \<Rightarrow> SynchronizedMap" where
  "SynchronizedMap_Add syncMap key value = syncMap\<lparr>sm_data := (sm_data syncMap)(key \<mapsto> value)\<rparr>"

definition SynchronizedMap_Get :: "SynchronizedMap \<Rightarrow> string \<Rightarrow> string" where
  "SynchronizedMap_Get syncMap key = (case sm_data syncMap key of None \<Rightarrow> [] | Some v \<Rightarrow> v)"

definition SynchronizedMap_Delete :: "SynchronizedMap \<Rightarrow> string \<Rightarrow> SynchronizedMap" where
  "SynchronizedMap_Delete syncMap key = syncMap\<lparr>sm_data := (sm_data syncMap)(key := None)\<rparr>"


definition Values :: "nat \<Rightarrow> SynchronizedMap \<Rightarrow> string list \<Rightarrow> string list outcome" where
  "Values before syncMap ks =
     (let vs = map (SynchronizedMap_Get syncMap) ks
      in if before < length vs then Panics else Returns (vs @ replicate (before - length vs) []))"

text \<open>The contract of a table of strings, with what its clients derive from it.\<close>

locale string_table =
  fixes empty :: 't
    and put :: "'t \<Rightarrow> string \<Rightarrow> string \<Rightarrow> 't"
    and remove :: "'t \<Rightarrow> string \<Rightarrow> 't"
    and member :: "'t \<Rightarrow> string \<Rightarrow> bool"
    and get :: "'t \<Rightarrow> string \<Rightarrow> string"
  assumes member_empty: "\<not> member empty k"
    and member_put: "member (put t k v) k' \<longleftrightarrow> k' = k \<or> member t k'"
    and member_remove: "member (remove t k) k' \<longleftrightarrow> k' \<noteq> k \<and> member t k'"
    and get_put: "get (put t k v) k' = (if k' = k then v else get t k')"
    and get_remove: "get (remove t k) k' = (if k' = k then [] else get t k')"
    and get_absent: "\<not> member t k \<Longrightarrow> get t k = []"
begin

definition load :: "(string \<times> string) list \<Rightarrow> 't \<Rightarrow> 't" where
  "load kvs t = foldl (\<lambda>t (k, v). put t k v) t kvs"

lemma load_simps [simp]: "load [] t = t" "load ((k, v) # kvs) t = load kvs (put t k v)"
  by (simp_all add: load_def)

lemma member_load: "member (load kvs t) k \<longleftrightarrow> k \<in> fst ` set kvs \<or> member t k"
proof (induction kvs arbitrary: t)
  case (Cons kv kvs)
  then show ?case by (cases kv) (auto simp: member_put)
qed simp

lemma get_load: "get (load kvs t) k = (case map_of (rev kvs) k of None \<Rightarrow> get t k | Some v \<Rightarrow> v)"
  by (induction kvs arbitrary: t) (auto simp: get_put map_add_def split: option.splits)

end

interpretation sync_table: string_table NewSynchronizedMap SynchronizedMap_Add SynchronizedMap_Delete
  HasKey SynchronizedMap_Get
  by unfold_locales
    (auto simp: NewSynchronizedMap_def SynchronizedMap_Add_def SynchronizedMap_Delete_def HasKey_def
      SynchronizedMap_Get_def split: option.splits)

text \<open>A synchronized map filled with a sequence of key/value pairs has exactly the keys that were
  added and gives, for each, the value added last.\<close>

theorem SynchronizedMap_last_write_wins:
  "let m = foldl (\<lambda>t (k, v). SynchronizedMap_Add t k v) NewSynchronizedMap kvs
   in (HasKey m k \<longleftrightarrow> k \<in> fst ` set kvs) \<and>
      SynchronizedMap_Get m k = (case map_of (rev kvs) k of None \<Rightarrow> [] | Some v \<Rightarrow> v)"
  using sync_table.member_load [of kvs NewSynchronizedMap k] sync_table.get_load [of kvs NewSynchronizedMap k]
    sync_table.member_empty [of k] sync_table.get_absent [OF sync_table.member_empty [of k]]
  by (simp add: sync_table.load_def Let_def split: option.splits)



end
