(* ===== verification/Volume.thy ===== *)
theory Volume
  imports GoLib
begin

text \<open>
  The disk space ledger of \<^verbatim>\<open>src/models/volume.go\<close>: the record, its operations, the contract of a
  ledger as a locale, and what the bookkeeping guarantees. \<open>statfs\<close> stands for the system call: it
  gives an error or the fields \<open>Bsize\<close> and \<open>Bavail\<close> of the volume at a mount point.
\<close>

section \<open>The model\<close>

record Volume =
  vol_mountPoint :: string
  vol_claimed :: uint64
  vol_reservations :: "string \<rightharpoonup> uint64"

type_synonym statfs = "string \<Rightarrow> go_error + (int64 \<times> uint64)"

definition NewVolume :: "string \<Rightarrow> Volume" where
  "NewVolume mountPoint =
     \<lparr>vol_mountPoint = mountPoint, vol_claimed = 0, vol_reservations = Map.empty\<rparr>"

definition MountPoint :: "Volume \<Rightarrow> string" where
  "MountPoint volume = vol_mountPoint volume"

definition ClaimedSpace :: "Volume \<Rightarrow> uint64" where
  "ClaimedSpace volume = vol_claimed volume"

definition currentFreeSpace :: "statfs \<Rightarrow> Volume \<Rightarrow> uint64 \<times> go_error option" where
  "currentFreeSpace statfs volume =
     (case statfs (vol_mountPoint volume) of
        Inl err \<Rightarrow> (0, Some err)
      | Inr (Bsize, Bavail) \<Rightarrow> (Bsize * Bavail, None))"

definition AvailableSpace :: "statfs \<Rightarrow> Volume \<Rightarrow> uint64 \<times> go_error option" where
  "AvailableSpace statfs volume =
     (case currentFreeSpace statfs volume of
        (available, Some err) \<Rightarrow> (0, Some err)
      | (available, None) \<Rightarrow> (available - vol_claimed volume, None))"

text \<open>The critical section of \<open>Reserve\<close>.\<close>

definition claimSpace :: "Volume \<Rightarrow> string \<Rightarrow> uint64 \<Rightarrow> Volume" where
  "claimSpace volume path numBytes =
     volume\<lparr>vol_reservations := (vol_reservations volume)(path \<mapsto> numBytes),
            vol_claimed := vol_claimed volume + numBytes\<rparr>"

definition Reserve :: "statfs \<Rightarrow> Volume \<Rightarrow> string \<Rightarrow> uint64 \<Rightarrow> go_error option \<times> Volume" where
  "Reserve statfs volume path numBytes =
     (case AvailableSpace statfs volume of
        (available, Some err) \<Rightarrow> (Some err, volume)
      | (available, None) \<Rightarrow>
          if numBytes \<ge> available
          then (Some (''Requested '' @ FormatUint numBytes @ '' bytes on volume, but only '' @
                      FormatUint available @ '' are available''), volume)
          else (None, claimSpace volume path numBytes))"

definition Release :: "Volume \<Rightarrow> string \<Rightarrow> Volume" where
  "Release volume path =
     (let volume = (case vol_reservations volume path of
                      Some numBytes \<Rightarrow> volume\<lparr>vol_claimed := vol_claimed volume - numBytes\<rparr>
                    | None \<Rightarrow> volume)
      in volume\<lparr>vol_reservations := (vol_reservations volume)(path := None)\<rparr>)"

definition Reservations :: "Volume \<Rightarrow> string \<rightharpoonup> uint64" where
  "Reservations volume = vol_reservations volume"

section \<open>The contract of a ledger\<close>

text \<open>
  What a client of a ledger relies on: a grant records the amount and adds it to the total, a
  release forgets the entry and subtracts what it held. \<open>balanced\<close> says the total is the sum of
  the entries; it survives a grant exactly when the entry is new.
\<close>

locale space_ledger =
  fixes total :: "'v \<Rightarrow> uint64"
    and held :: "'v \<Rightarrow> string \<rightharpoonup> uint64"
    and grant :: "'v \<Rightarrow> string \<Rightarrow> uint64 \<Rightarrow> 'v"
    and give_back :: "'v \<Rightarrow> string \<Rightarrow> 'v"
  assumes held_grant: "held (grant v p n) = (held v)(p \<mapsto> n)"
    and total_grant: "total (grant v p n) = total v + n"
    and held_give_back: "held (give_back v p) = (held v)(p := None)"
    and total_give_back: "total (give_back v p) = total v - (case held v p of None \<Rightarrow> 0 | Some n \<Rightarrow> n)"
begin

definition sum_held :: "'v \<Rightarrow> uint64" where
  "sum_held v = (\<Sum>p\<in>dom (held v). the (held v p))"

definition balanced :: "'v \<Rightarrow> bool" where
  "balanced v \<longleftrightarrow> finite (dom (held v)) \<and> total v = sum_held v"

lemma sum_fresh:
  assumes "finite (dom h)" "h p = None"
  shows "(\<Sum>q\<in>dom (h(p \<mapsto> n)). the ((h(p \<mapsto> n)) q)) = n + (\<Sum>q\<in>dom h. the (h q :: uint64 option))"
proof -
  have "(\<Sum>q\<in>dom h. the ((h(p \<mapsto> n)) q)) = (\<Sum>q\<in>dom h. the (h q))"
    using assms by (intro sum.cong) auto
  moreover have "p \<notin> dom h" using assms by auto
  ultimately show ?thesis using assms by (simp add: sum.insert)
qed

lemma sum_drop:
  assumes "finite (dom h)" "h p = Some n"
  shows "(\<Sum>q\<in>dom (h(p := None)). the ((h(p := None)) q)) = (\<Sum>q\<in>dom h. the (h q :: uint64 option)) - n"
proof -
  have "(\<Sum>q\<in>dom h - {p}. the ((h(p := None)) q)) = (\<Sum>q\<in>dom h - {p}. the (h q))"
    by (intro sum.cong) auto
  moreover have "(\<Sum>q\<in>dom h. the (h q)) = n + (\<Sum>q\<in>dom h - {p}. the (h q))"
    using assms by (subst sum.remove [of _ p]) auto
  ultimately show ?thesis by simp
qed

lemma grant_balanced: "balanced v \<Longrightarrow> held v p = None \<Longrightarrow> balanced (grant v p n)"
  using sum_fresh [of "held v" p n] by (simp add: balanced_def sum_held_def held_grant total_grant)

lemma give_back_balanced: "balanced v \<Longrightarrow> balanced (give_back v p)"
  using sum_drop [of "held v" p]
  by (cases "held v p")
    (auto simp: balanced_def sum_held_def held_give_back total_give_back fun_upd_idem)

lemma regrant_leaks:
  assumes "balanced v" "held v p = Some m"
  shows "total (grant v p n) = sum_held (grant v p n) + m"
proof -
  let ?h = "(held v)(p := None)"
  have fin: "finite (dom ?h)" using assms by (simp add: balanced_def)
  have "sum_held (grant v p n) = n + (\<Sum>q\<in>dom ?h. the (?h q))"
    using sum_fresh [OF fin, of p n] by (simp add: sum_held_def held_grant)
  also have "\<dots> = n + (sum_held v - m)"
    using sum_drop [of "held v" p m] assms by (simp add: balanced_def sum_held_def)
  finally show ?thesis using assms by (simp add: balanced_def total_grant)
qed

lemma give_back_all_total:
  "total (foldl give_back v ps) = total v - (\<Sum>p\<leftarrow>remdups ps. case held v p of None \<Rightarrow> 0 | Some n \<Rightarrow> n)"
proof (induction ps arbitrary: v)
  case Nil
  then show ?case by simp
next
  case (Cons p ps)
  let ?amt = "\<lambda>h p. case h p of None \<Rightarrow> (0::uint64) | Some n \<Rightarrow> n"
  have *: "(\<Sum>q\<leftarrow>remdups qs. ?amt ((held v)(p := None)) q) =
        (\<Sum>q\<leftarrow>remdups qs. ?amt (held v) q) - (if p \<in> set qs then ?amt (held v) p else 0)" for qs
    by (induction qs) auto
  have "total (foldl give_back v (p # ps)) = total v - ?amt (held v) p -
      (\<Sum>q\<leftarrow>remdups ps. ?amt ((held v)(p := None)) q)"
    unfolding foldl.simps Cons.IH held_give_back total_give_back ..
  then show ?case unfolding * by simp
qed

end

interpretation volume_ledger: space_ledger vol_claimed vol_reservations claimSpace Release
  by unfold_locales (auto simp: claimSpace_def Release_def Let_def split: option.splits)

section \<open>Runs of the ledger\<close>

datatype vol_op = VReserve statfs string uint64 | VRelease string

fun vol_exec :: "Volume \<Rightarrow> vol_op \<Rightarrow> Volume" where
  "vol_exec v (VReserve statfs path n) = snd (Reserve statfs v path n)"
| "vol_exec v (VRelease path) = Release v path"

lemma Reserve_cases:
  obtains (Refused) e where "Reserve statfs v path n = (Some e, v)"
  | (Granted) bs ba where "statfs (vol_mountPoint v) = Inr (bs, ba)" "n < bs * ba - vol_claimed v"
      "Reserve statfs v path n = (None, claimSpace v path n)"
proof (cases "statfs (vol_mountPoint v)")
  case (Inl e)
  with Refused show ?thesis by (simp add: Reserve_def AvailableSpace_def currentFreeSpace_def)
next
  case (Inr b)
  obtain bs ba where b: "b = (bs, ba)" by (cases b)
  show ?thesis
  proof (cases "bs * ba - vol_claimed v \<le> n")
    case True
    with Inr b Refused show ?thesis
      by (simp add: Reserve_def AvailableSpace_def currentFreeSpace_def)
  next
    case False
    with Inr b Granted [of bs ba] show ?thesis
      by (simp add: Reserve_def AvailableSpace_def currentFreeSpace_def)
  qed
qed

lemma MountPoint_exec [simp]: "vol_mountPoint (vol_exec v op) = vol_mountPoint v"
  by (cases op) (auto simp: Reserve_def AvailableSpace_def claimSpace_def Release_def Let_def
      split: prod.splits option.splits)

text \<open>A run respects the workers' discipline when no path is reserved while it still holds space.\<close>

fun disciplined :: "Volume \<Rightarrow> vol_op list \<Rightarrow> bool" where
  "disciplined v [] = True"
| "disciplined v (op # ops) =
     ((case op of VReserve _ path _ \<Rightarrow> vol_reservations v path = None | VRelease _ \<Rightarrow> True) \<and>
      disciplined (vol_exec v op) ops)"

lemma run_balanced:
  "volume_ledger.balanced v \<Longrightarrow> disciplined v ops \<Longrightarrow> volume_ledger.balanced (foldl vol_exec v ops)"
proof (induction ops arbitrary: v)
  case Nil
  then show ?case by simp
next
  case (Cons op ops)
  have "volume_ledger.balanced (vol_exec v op)"
  proof (cases op)
    case (VReserve statfs path n)
    with Cons.prems have "vol_reservations v path = None" by simp
    with Cons.prems VReserve show ?thesis
      by (cases rule: Reserve_cases [of statfs v path n]) (auto intro: volume_ledger.grant_balanced)
  next
    case (VRelease path)
    with Cons.prems show ?thesis by (simp add: volume_ledger.give_back_balanced)
  qed
  with Cons show ?case by simp
qed

text \<open>C25: After any run in which no path is reserved again before it is released, the claimed space of
  a volume is the sum of its open reservations (in the 64-bit arithmetic of the code).\<close>

theorem Volume_claimed_is_sum:
  assumes "disciplined (NewVolume mp) ops"
  shows "let v = foldl vol_exec (NewVolume mp) ops
         in finite (dom (Reservations v)) \<and>
            ClaimedSpace v = (\<Sum>p\<in>dom (Reservations v). the (Reservations v p))"
proof -
  have "volume_ledger.balanced (NewVolume mp)"
    by (simp add: volume_ledger.balanced_def volume_ledger.sum_held_def NewVolume_def)
  from run_balanced [OF this assms] show ?thesis
    by (simp add: volume_ledger.balanced_def volume_ledger.sum_held_def Let_def ClaimedSpace_def
        Reservations_def)
qed

theorem Volume_claimed_is_sum_witness:
  "let st = (\<lambda>_. Inr (4096, 1000));
       ops = [VReserve st ''a'' 10, VReserve st ''b'' 20, VRelease ''a''];
       v = foldl vol_exec (NewVolume ''/'') ops
   in disciplined (NewVolume ''/'') ops \<and> finite (dom (Reservations v)) \<and>
      ClaimedSpace v = (\<Sum>p\<in>dom (Reservations v). the (Reservations v p))"
  using Volume_claimed_is_sum [of "''/''"
      "[VReserve (\<lambda>_. Inr (4096, 1000)) ''a'' 10, VReserve (\<lambda>_. Inr (4096, 1000)) ''b'' 20, VRelease ''a'']"]
  by (simp add: Let_def NewVolume_def Reserve_def AvailableSpace_def currentFreeSpace_def claimSpace_def
      Release_def)

text \<open>C28: Reserving a path that already holds space leaks the first amount: once both calls are granted
  and the path is released, the ledger has no entry for the path, yet the claimed space is higher
  by the first amount than before, and no sequence of further releases of that path lowers it.\<close>

theorem Volume_double_reserve_leaks:
  assumes "vol_reservations v p = None"
    and "Reserve st v p m = (None, v1)" and "Reserve st' v1 p n = (None, v2)"
  shows "let v3 = foldl Release v2 (p # replicate k p)
         in Reservations v3 p = None \<and> ClaimedSpace v3 = ClaimedSpace v + m"
proof -
  have v1: "v1 = claimSpace v p m"
    using assms(2) by (cases rule: Reserve_cases [of st v p m]) auto
  have v2: "v2 = claimSpace v1 p n"
    using assms(3) by (cases rule: Reserve_cases [of st' v1 p n]) auto
  have rd: "remdups (p # replicate k p) = [p]" by (induction k) auto
  have "vol_claimed (foldl Release v2 (p # replicate k p)) = vol_claimed v + m"
    unfolding volume_ledger.give_back_all_total rd
    by (simp add: v1 v2 volume_ledger.total_grant volume_ledger.held_grant)
  moreover have "vol_reservations (foldl Release u (p # replicate k p)) p = None" for u
    by (induction k arbitrary: u) (simp_all add: volume_ledger.held_give_back)
  ultimately show ?thesis by (simp only: Let_def Reservations_def ClaimedSpace_def simp_thms)
qed

theorem Volume_double_reserve_leaks_witness:
  "let st = (\<lambda>_. Inr (1, 1000)); v = NewVolume ''/'';
       v1 = snd (Reserve st v ''f'' 100); v2 = snd (Reserve st v1 ''f'' 50);
       v3 = foldl Release v2 (''f'' # replicate 2 ''f'')
   in vol_reservations v ''f'' = None \<and> Reserve st v ''f'' 100 = (None, v1) \<and>
      Reserve st v1 ''f'' 50 = (None, v2) \<and>
      Reservations v3 ''f'' = None \<and> ClaimedSpace v3 = ClaimedSpace v + 100"
  using Volume_double_reserve_leaks [of "NewVolume ''/''" "''f''" "\<lambda>_. Inr (1, 1000)" 100
      "snd (Reserve (\<lambda>_. Inr (1, 1000)) (NewVolume ''/'') ''f'' 100)" "\<lambda>_. Inr (1, 1000)" 50
      "snd (Reserve (\<lambda>_. Inr (1, 1000)) (snd (Reserve (\<lambda>_. Inr (1, 1000)) (NewVolume ''/'') ''f'' 100)) ''f'' 50)" 2]
  by (simp add: Let_def NewVolume_def Reserve_def AvailableSpace_def currentFreeSpace_def claimSpace_def)

section \<open>Overcommitment\<close>

text \<open>
  While the disk reports a constant amount of free space, the claim never exceeds it; the sum of
  the recorded amounts never exceeds the claim either, so no release underflows.
\<close>

definition free_is :: "uint64 \<Rightarrow> vol_op \<Rightarrow> bool" where
  "free_is f op = (case op of
     VReserve statfs _ _ \<Rightarrow> (\<forall>m. case statfs m of Inl _ \<Rightarrow> True | Inr (bs, ba) \<Rightarrow> bs * ba = f)
   | VRelease _ \<Rightarrow> True)"

definition usum :: "(string \<rightharpoonup> uint64) \<Rightarrow> int" where
  "usum h = (\<Sum>p\<in>dom h. uint (the (h p)))"

definition within :: "uint64 \<Rightarrow> Volume \<Rightarrow> bool" where
  "within f v \<longleftrightarrow> finite (dom (vol_reservations v)) \<and>
     usum (vol_reservations v) \<le> uint (vol_claimed v) \<and> vol_claimed v \<le> f"

lemma usum_upd_le:
  assumes "finite (dom h)"
  shows "usum (h(p \<mapsto> n)) \<le> usum h + uint n"
proof -
  have "(\<Sum>q\<in>dom h - {p}. uint (the ((h(p \<mapsto> n)) q))) = (\<Sum>q\<in>dom h - {p}. uint (the (h q)))"
    by (intro sum.cong) auto
  moreover have "\<dots> \<le> usum h" unfolding usum_def using assms by (intro sum_mono2) auto
  ultimately show ?thesis using assms unfolding usum_def by (simp add: sum.insert_remove)
qed

lemma usum_drop:
  assumes "finite (dom h)" "h p = Some n"
  shows "usum (h(p := None)) = usum h - uint n"
proof -
  have "(\<Sum>q\<in>dom h - {p}. uint (the ((h(p := None)) q))) = (\<Sum>q\<in>dom h - {p}. uint (the (h q)))"
    by (intro sum.cong) auto
  moreover have "usum h = uint n + (\<Sum>q\<in>dom h - {p}. uint (the (h q)))"
    unfolding usum_def using assms by (subst sum.remove [of _ p]) auto
  ultimately show ?thesis by (simp add: usum_def)
qed

lemma usum_nonneg: "0 \<le> usum h"
  unfolding usum_def by (intro sum_nonneg) simp

lemma grant_within:
  assumes "within f v" "n < f - vol_claimed v"
  shows "within f (claimSpace v p n)"
proof -
  have le: "vol_claimed v \<le> f" using assms by (simp add: within_def)
  have "uint (f - vol_claimed v) = uint f - uint (vol_claimed v)"
    using le by (simp add: uint_sub_if' word_le_def)
  then have lt: "uint n < uint f - uint (vol_claimed v)"
    using assms(2) by (simp add: word_less_def)
  have "uint (vol_claimed v + n) = uint (vol_claimed v) + uint n"
    using lt uint_lt2p [of f] by (simp add: uint_plus_if')
  with lt assms usum_upd_le [of "vol_reservations v" p n] show ?thesis
    by (auto simp: within_def claimSpace_def word_le_def)
qed

lemma release_within:
  assumes "within f v"
  shows "within f (Release v p)"
proof (cases "vol_reservations v p")
  case None
  with assms show ?thesis by (simp add: within_def Release_def fun_upd_idem)
next
  case (Some n)
  have fin: "finite (dom (vol_reservations v))" using assms by (simp add: within_def)
  have "0 \<le> usum ((vol_reservations v)(p := None))" by (rule usum_nonneg)
  with usum_drop [OF fin Some] assms have le: "uint n \<le> uint (vol_claimed v)"
    by (simp add: within_def)
  then have "uint (vol_claimed v - n) = uint (vol_claimed v) - uint n"
    by (simp add: uint_sub_if')
  with Some usum_drop [OF fin Some] assms show ?thesis
    by (simp add: within_def Release_def word_le_def) (use uint_ge_0 [of n] in linarith)
qed

lemma exec_within:
  assumes "within f v" "free_is f op"
  shows "within f (vol_exec v op)"
proof (cases op)
  case (VReserve st p n)
  show ?thesis
  proof (cases rule: Reserve_cases [of st v p n])
    case (Granted bs ba)
    have "case st (vol_mountPoint v) of Inl _ \<Rightarrow> True | Inr (bs, ba) \<Rightarrow> bs * ba = f"
      using assms(2) VReserve by (simp add: free_is_def)
    with Granted have "n < f - vol_claimed v" by simp
    from grant_within [OF assms(1) this] VReserve Granted(3) show ?thesis by simp
  qed (use VReserve assms in simp)
next
  case (VRelease p)
  with assms show ?thesis by (simp add: release_within)
qed

lemma run_within:
  "within f v \<Longrightarrow> \<forall>op\<in>set ops. free_is f op \<Longrightarrow> within f (foldl vol_exec v ops)"
proof (induction ops arbitrary: v)
  case (Cons op ops)
  then have "within f (vol_exec v op)" by (intro exec_within) simp_all
  with Cons show ?case by simp
qed simp

text \<open>C24: As long as the operating system reports the same free space, sequential reservations and
  releases in any order never claim more bytes than are free, and every granted amount is still
  covered by the claim.\<close>

theorem Volume_never_overcommits:
  assumes "\<forall>op\<in>set ops. free_is f op"
  shows "let v = foldl vol_exec (NewVolume mp) ops
         in ClaimedSpace v \<le> f \<and> usum (Reservations v) \<le> uint (ClaimedSpace v)"
proof -
  have "within f (NewVolume mp)" by (simp add: within_def NewVolume_def usum_def)
  from run_within [OF this assms] show ?thesis
    by (simp add: within_def Let_def ClaimedSpace_def Reservations_def)
qed

theorem Volume_never_overcommits_witness:
  "let ops = [VReserve (\<lambda>_. Inr (1, 100)) ''a'' 60, VReserve (\<lambda>_. Inr (1, 100)) ''b'' 60];
       v = foldl vol_exec (NewVolume ''/'') ops
   in (\<forall>op\<in>set ops. free_is 100 op) \<and> ClaimedSpace v \<le> 100 \<and> usum (Reservations v) \<le> uint (ClaimedSpace v)"
  using Volume_never_overcommits
    [of "[VReserve (\<lambda>_. Inr (1, 100)) ''a'' 60, VReserve (\<lambda>_. Inr (1, 100)) ''b'' 60]" 100 "''/''"]
  by (simp add: Let_def free_is_def)

text \<open>C29: When the claimed space exceeds the free space the operating system reports (data was written
  but its reservation not yet released), the subtraction wraps around and \<open>Reserve\<close> grants every
  request smaller than \<open>2 ^ 64\<close> minus the shortfall, although no byte is available.\<close>

theorem Volume_underflow_grants:
  assumes "st (vol_mountPoint v) = Inr (bs, ba)"
    and "bs * ba < vol_claimed v"
    and "uint n + (uint (vol_claimed v) - uint (bs * ba)) < 2 ^ 64"
  shows "Reserve st v p n = (None, claimSpace v p n)"
proof -
  have "uint (bs * ba - vol_claimed v) = 2 ^ 64 + uint (bs * ba) - uint (vol_claimed v)"
    using assms(2) by (simp add: uint_sub_if' word_less_def)
  then have "n < bs * ba - vol_claimed v"
    using assms(3) by (simp add: word_less_def)
  then show ?thesis
    using assms(1) by (simp add: Reserve_def AvailableSpace_def currentFreeSpace_def)
qed

theorem Volume_underflow_grants_witness:
  "let v = claimSpace (NewVolume ''/'') ''a'' 100; st = (\<lambda>_. Inr (1, 99))
   in st (vol_mountPoint v) = Inr (1, 99) \<and> (1::uint64) * 99 < vol_claimed v \<and>
      Reserve st v ''b'' 1000000000 = (None, claimSpace v ''b'' 1000000000)"
  using Volume_underflow_grants [of "\<lambda>_. Inr (1, 99)" "claimSpace (NewVolume ''/'') ''a'' 100" 1 99 1000000000 "''b''"]
  by (simp add: Let_def claimSpace_def NewVolume_def)



end
