(* ===== verification/VolumeService.thy ===== *)
theory VolumeService
  imports Volume
begin

text \<open>
  The HTTP service around the ledger (\<^verbatim>\<open>src/service/volume_service.go\<close>), the lookup of mount points
  (\<^verbatim>\<open>src/platform/posix.go\<close>), the response it sends (\<^verbatim>\<open>src/models/volume_response.go\<close>) and the
  client the workers call (\<^verbatim>\<open>src/network/volume_client.go\<close>). A handler maps the service state and
  the form values of a request to the status, the response and the new state. \<open>df\<close> stands for the
  output of the \<^verbatim>\<open>df\<close> command, \<open>statfs\<close> for the system call. On the client's side \<open>post\<close> stands
  for the HTTP exchange: it gives the decoded response or the error of one of its steps. The log
  lines are left out. The client formats the service's error message with \<open>fmt.Errorf\<close>; the model
  takes the text as it is, which is what happens for text without a percent sign.
\<close>

section \<open>Mount points\<close>

type_synonym df = "go_error + string"

fun mountpoint_loop :: "string \<Rightarrow> nat \<Rightarrow> string \<Rightarrow> string list \<Rightarrow> string" where
  "mountpoint_loop path maxPrefixLen matching [] = matching"
| "mountpoint_loop path maxPrefixLen matching (line # lines) =
     (let mountpoint = last (Split CHR '' '' line)
      in if HasPrefix path mountpoint \<and> length mountpoint > maxPrefixLen
         then mountpoint_loop path maxPrefixLen mountpoint lines
         else mountpoint_loop path maxPrefixLen matching lines)"

definition GetMountPointFromPath :: "df \<Rightarrow> string \<Rightarrow> string \<times> go_error option" where
  "GetMountPointFromPath df path =
     (case df of
        Inl err \<Rightarrow> ([], Some err)
      | Inr out \<Rightarrow> (mountpoint_loop path 0 [] (tl (Split (CHR 0x0A) out)), None))"

lemma mountpoint_loop_last:
  "mountpoint_loop path 0 m lines =
     last (m # filter (\<lambda>p. p \<noteq> [] \<and> prefix p path) (map (\<lambda>l. last (Split CHR '' '' l)) lines))"
  by (induction lines arbitrary: m) (auto simp: Let_def HasPrefix_prefix)

text \<open>C31: \<open>GetMountPointFromPath\<close> gives the LAST mount point in the output of \<open>df\<close> that is a prefix of
  the path (the length of the longest match is never updated), or the empty string when none is.\<close>

theorem GetMountPointFromPath_last_match:
  "GetMountPointFromPath (Inr out) path =
     (last ([] # filter (\<lambda>p. p \<noteq> [] \<and> prefix p path)
        (map (\<lambda>l. last (Split CHR '' '' l)) (tl (Split (CHR 0x0A) out)))), None)"
  by (simp add: GetMountPointFromPath_def mountpoint_loop_last)

section \<open>The service\<close>

record VolumeResponse =
  vr_Succeeded :: bool
  vr_ErrorMessage :: string
  vr_Data :: "string \<rightharpoonup> uint64"

definition emptyResponse :: VolumeResponse where
  "emptyResponse = \<lparr>vr_Succeeded = False, vr_ErrorMessage = [], vr_Data = Map.empty\<rparr>"

record VolumeService =
  svc_port :: int
  svc_volumes :: "string \<rightharpoonup> Volume"

definition NewVolumeService :: "int \<Rightarrow> VolumeService" where
  "NewVolumeService port = \<lparr>svc_port = port, svc_volumes = Map.empty\<rparr>"

text \<open>\<open>getVolume\<close> gives the key of the volume and the volume the service holds there; the handlers write
  the volume back under that key.\<close>

definition getVolume :: "df \<Rightarrow> VolumeService \<Rightarrow> string \<Rightarrow> string \<times> Volume \<times> VolumeService" where
  "getVolume df service path =
     (let mountpoint = (case GetMountPointFromPath df path of
                          (m, None) \<Rightarrow> m | (m, Some _) \<Rightarrow> ''/'')
      in case svc_volumes service mountpoint of
           Some volume \<Rightarrow> (mountpoint, volume, service)
         | None \<Rightarrow> (let volume = NewVolume mountpoint
                    in (mountpoint, volume,
                        service\<lparr>svc_volumes := (svc_volumes service)(mountpoint \<mapsto> volume)\<rparr>)))"

definition putVolume :: "VolumeService \<Rightarrow> string \<Rightarrow> Volume \<Rightarrow> VolumeService" where
  "putVolume service key volume = service\<lparr>svc_volumes := (svc_volumes service)(key \<mapsto> volume)\<rparr>"

type_synonym form = "string \<rightharpoonup> string"

definition FormValue :: "form \<Rightarrow> string \<Rightarrow> string" where
  "FormValue form key = (case form key of None \<Rightarrow> [] | Some v \<Rightarrow> v)"

type_synonym handler = "VolumeService \<Rightarrow> form \<Rightarrow> int \<times> VolumeResponse \<times> VolumeService"

definition makeReserveHandler :: "statfs \<Rightarrow> df \<Rightarrow> handler" where
  "makeReserveHandler statfs df service r =
     (let path = FormValue r ''path''; parsed = ParseUint (FormValue r ''bytes'')
      in if path = []
         then (400, emptyResponse\<lparr>vr_ErrorMessage := ''Param '' @ quoted ''path'' @ '' is required.''\<rparr>, service)
         else case parsed of
           None \<Rightarrow> (400, emptyResponse\<lparr>vr_ErrorMessage :=
                     ''Param '' @ quoted ''bytes'' @ '' must be an integer greater than zero.''\<rparr>, service)
         | Some bytes \<Rightarrow>
             if bytes < 1
             then (400, emptyResponse\<lparr>vr_ErrorMessage :=
                     ''Param '' @ quoted ''bytes'' @ '' must be an integer greater than zero.''\<rparr>, service)
             else (case getVolume df service path of (key, volume, service) \<Rightarrow>
               case Reserve statfs volume path bytes of
                 (Some err, volume) \<Rightarrow>
                   (500, emptyResponse\<lparr>vr_ErrorMessage :=
                      ''Could not reserve '' @ FormatUint bytes @ '' bytes for file '' @ quoted path @
                      '': '' @ err\<rparr>, putVolume service key volume)
               | (None, volume) \<Rightarrow>
                   (200, emptyResponse\<lparr>vr_Succeeded := True\<rparr>, putVolume service key volume)))"

definition makeReleaseHandler :: "df \<Rightarrow> handler" where
  "makeReleaseHandler df service r =
     (let path = FormValue r ''path''
      in if path = []
         then (400, emptyResponse\<lparr>vr_ErrorMessage := ''Param '' @ quoted ''path'' @ '' is required.''\<rparr>, service)
         else (case getVolume df service path of (key, volume, service) \<Rightarrow>
           (200, emptyResponse\<lparr>vr_Succeeded := True\<rparr>, putVolume service key (Release volume path))))"

definition makeReportHandler :: "df \<Rightarrow> handler" where
  "makeReportHandler df service r =
     (let path = FormValue r ''path''
      in if path = []
         then (400, emptyResponse\<lparr>vr_ErrorMessage := ''Param '' @ quoted ''path'' @ '' is required.''\<rparr>, service)
         else (case getVolume df service path of (key, volume, service) \<Rightarrow>
           (200, emptyResponse\<lparr>vr_Succeeded := True, vr_Data := Reservations volume\<rparr>, service)))"

definition makePingHandler :: handler where
  "makePingHandler service r = (200, emptyResponse\<lparr>vr_Succeeded := True\<rparr>, service)"

text \<open>The routes \<open>Serve\<close> registers; the multiplexer answers any other path with status 404.\<close>

definition Serve :: "statfs \<Rightarrow> df \<Rightarrow> string \<Rightarrow> handler option" where
  "Serve statfs df urlPath =
     (if HasPrefix urlPath ''/reserve/'' then Some (makeReserveHandler statfs df)
      else if HasPrefix urlPath ''/release/'' then Some (makeReleaseHandler df)
      else if HasPrefix urlPath ''/report/'' then Some (makeReportHandler df)
      else if HasPrefix urlPath ''/ping/'' then Some makePingHandler
      else None)"

section \<open>The client\<close>

record VolumeClient =
  vc_serviceUrl :: string

definition NewVolumeClient :: "int \<Rightarrow> VolumeClient" where
  "NewVolumeClient port = \<lparr>vc_serviceUrl = ''http://127.0.0.1:'' @ show_int port\<rparr>"

definition BaseURL :: "VolumeClient \<Rightarrow> string" where
  "BaseURL client = vc_serviceUrl client"

type_synonym 's post = "'s \<Rightarrow> string \<Rightarrow> form \<Rightarrow> (go_error + VolumeResponse) \<times> 's"

definition doRequest :: "'s post \<Rightarrow> 's \<Rightarrow> string \<Rightarrow> form \<Rightarrow> bool \<times> go_error option \<times> 's" where
  "doRequest post s url params =
     (case post s url params of
        (Inl err, s) \<Rightarrow> (False, Some err, s)
      | (Inr resp, s) \<Rightarrow>
          if vr_ErrorMessage resp \<noteq> [] then (False, Some (vr_ErrorMessage resp), s)
          else (vr_Succeeded resp, None, s))"

definition Client_Reserve ::
  "'s post \<Rightarrow> VolumeClient \<Rightarrow> 's \<Rightarrow> string \<Rightarrow> uint64 \<Rightarrow> bool \<times> go_error option \<times> 's" where
  "Client_Reserve post client s path bytes =
     (if path = [] then (False, Some ''Path cannot be empty.'', s)
      else if bytes < 1 then (False, Some ''You must request at least one byte of storage.'', s)
      else doRequest post s (vc_serviceUrl client @ ''/reserve/'')
             [''path'' \<mapsto> path, ''bytes'' \<mapsto> FormatUint bytes])"

definition Client_Release ::
  "'s post \<Rightarrow> VolumeClient \<Rightarrow> 's \<Rightarrow> string \<Rightarrow> go_error option \<times> 's" where
  "Client_Release post client s path =
     (if path = [] then (Some ''Path cannot be empty.'', s)
      else case doRequest post s (vc_serviceUrl client @ ''/release/'') [''path'' \<mapsto> path] of
             (_, err, s) \<Rightarrow> (err, s))"

text \<open>\<open>Ping\<close> and \<open>Report\<close> use GET requests; \<open>get\<close> stands for the exchange. \<open>Report\<close> puts the path into
  the query as it is, without escaping.\<close>

definition Ping :: "('s \<Rightarrow> string \<Rightarrow> int \<Rightarrow> go_error option \<times> 's) \<Rightarrow> VolumeClient \<Rightarrow> 's \<Rightarrow> int \<Rightarrow> go_error option \<times> 's" where
  "Ping get client s msTimeout = get s (vc_serviceUrl client @ ''/ping/'') (msTimeout * 1000000)"

definition Report ::
  "('s \<Rightarrow> string \<Rightarrow> (go_error + VolumeResponse) \<times> 's) \<Rightarrow> VolumeClient \<Rightarrow> 's \<Rightarrow> string \<Rightarrow>
     (string \<rightharpoonup> uint64) option \<times> go_error option \<times> 's" where
  "Report get client s path =
     (if path = [] then (None, Some ''Path cannot be empty.'', s)
      else case get s (vc_serviceUrl client @ ''/report/?path='' @ path) of
        (Inl err, s) \<Rightarrow> (None, Some err, s)
      | (Inr resp, s) \<Rightarrow>
          if vr_ErrorMessage resp \<noteq> [] then (None, Some (vr_ErrorMessage resp), s)
          else (Some (vr_Data resp), None, s))"

section \<open>Client and service together\<close>

text \<open>An exchange with the service at the client's address.\<close>

definition loopback :: "statfs \<Rightarrow> df \<Rightarrow> string \<Rightarrow> VolumeService post" where
  "loopback statfs df base service url form =
     (if HasPrefix url base
      then case Serve statfs df (drop (length base) url) of
             None \<Rightarrow> (Inl ''invalid character in response'', service)
           | Some h \<Rightarrow> (case h service form of (_, resp, service) \<Rightarrow> (Inr resp, service))
      else (Inl ''connection refused'', service))"

lemma loopback_reserve:
  "loopback statfs df base svc (base @ ''/reserve/'') form =
     (case makeReserveHandler statfs df svc form of (_, resp, svc) \<Rightarrow> (Inr resp, svc))"
  by (simp add: loopback_def Serve_def HasPrefix_def)

lemma loopback_release:
  "loopback statfs df base svc (base @ ''/release/'') form =
     (case makeReleaseHandler df svc form of (_, resp, svc) \<Rightarrow> (Inr resp, svc))"
  by (simp add: loopback_def Serve_def HasPrefix_def)

lemmas service_defs = makeReserveHandler_def makeReleaseHandler_def makeReportHandler_def
  makePingHandler_def FormValue_def emptyResponse_def putVolume_def

lemmas client_defs = Client_Reserve_def Client_Release_def doRequest_def



lemma getVolume_put:
  "getVolume df svc path = (key, vol, svc') \<Longrightarrow> vol_mountPoint vol' = vol_mountPoint vol \<Longrightarrow>
   getVolume df (putVolume svc' key vol') path = (key, vol', putVolume svc' key vol')"
  by (auto simp: getVolume_def putVolume_def Let_def split: option.splits prod.splits)

text \<open>C27: Reserving and then releasing a path through the service gives the ledger back as it was: when
  the path held no space before, a granted reservation followed by a release leaves the volume of
  its mount point unchanged.\<close>

theorem Client_reserve_release_roundtrip:
  assumes "path \<noteq> []" and "n \<noteq> 0" and "getVolume df svc path = (key, vol, svc')"
    and "vol_reservations vol path = None"
    and "Client_Reserve (loopback statfs df base) \<lparr>vc_serviceUrl = base\<rparr> svc path n = (True, None, svc1)"
  shows "Client_Release (loopback statfs df base) \<lparr>vc_serviceUrl = base\<rparr> svc1 path =
           (None, putVolume svc' key vol)"
proof -
  obtain e vol' where R: "Reserve statfs vol path n = (e, vol')" by (cases "Reserve statfs vol path n")
  have e: "e = None" and svc1: "svc1 = putVolume svc' key vol'"
    using assms(1,2,3,5) R by (cases e;
      simp add: client_defs loopback_reserve service_defs Let_def ParseUint_FormatUint)+
  have r: "Reserve statfs vol path n = (None, vol')" using R e by simp
  have vol': "vol' = claimSpace vol path n"
    using r by (cases rule: Reserve_cases [of statfs vol path n]) auto
  have "getVolume df svc1 path = (key, vol', svc1)"
    unfolding svc1 by (rule getVolume_put [OF assms(3)]) (simp add: vol' claimSpace_def)
  moreover have "Release vol' path = vol"
    using assms(4) by (simp add: vol' claimSpace_def Release_def Let_def fun_upd_idem)
  ultimately show ?thesis
    using assms(1) by (simp add: client_defs loopback_release service_defs svc1 Let_def)
qed

theorem Client_reserve_release_roundtrip_witness:
  "vol_reservations (NewVolume ''/'') ''f'' = None \<and>
   Client_Release (loopback (\<lambda>_. Inr (1, 100)) (Inl ''e'') ''u'') \<lparr>vc_serviceUrl = ''u''\<rparr>
     (putVolume (NewVolumeService 1) ''/'' (claimSpace (NewVolume ''/'') ''f'' 5)) ''f'' =
   (None, putVolume (NewVolumeService 1) ''/'' (NewVolume ''/''))"
  using Client_reserve_release_roundtrip [of "''f''" 5 "Inl ''e''" "NewVolumeService 1" "''/''" "NewVolume ''/''"
      "putVolume (NewVolumeService 1) ''/'' (NewVolume ''/'')" "\<lambda>_. Inr (1, 100)" "''u''"
      "putVolume (NewVolumeService 1) ''/'' (claimSpace (NewVolume ''/'') ''f'' 5)"]
  by (simp add: getVolume_def GetMountPointFromPath_def NewVolumeService_def NewVolume_def Reserve_def
      AvailableSpace_def currentFreeSpace_def claimSpace_def putVolume_def Let_def client_defs
      loopback_def Serve_def HasPrefix_def service_defs ParseUint_FormatUint)

end
