(* ===== verification/PremisEvent.thy ===== *)
theory PremisEvent
  imports Util
begin

text \<open>
  The PREMIS events of \<^verbatim>\<open>src/models/premis_event.go\<close> and the checksums of
  \<^verbatim>\<open>src/models/checksum.go\<close>. A constructor draws an identifier from the UUID source of the world
  it is given; one that can refuse its arguments returns the error or the event. The serialised
  form of a checksum is in the theory of the Pharos models.
\<close>

section \<open>Events\<close>

record PremisEvent =
  ev_Id :: int
  ev_Identifier :: string
  ev_EventType :: string
  ev_DateTime :: time
  ev_Detail :: string
  ev_Outcome :: string
  ev_OutcomeDetail :: string
  ev_Object :: string
  ev_Agent :: string
  ev_OutcomeInformation :: string
  ev_IntellectualObjectId :: int
  ev_IntellectualObjectIdentifier :: string
  ev_GenericFileId :: int
  ev_GenericFileIdentifier :: string
  ev_CreatedAt :: time
  ev_UpdatedAt :: time

text \<open>The zero value, which the composite literals of the source start from.\<close>

definition zeroEvent :: PremisEvent where
  "zeroEvent = \<lparr>ev_Id = 0, ev_Identifier = [], ev_EventType = [], ev_DateTime = zeroTime,
     ev_Detail = [], ev_Outcome = [], ev_OutcomeDetail = [], ev_Object = [], ev_Agent = [],
     ev_OutcomeInformation = [], ev_IntellectualObjectId = 0, ev_IntellectualObjectIdentifier = [],
     ev_GenericFileId = 0, ev_GenericFileIdentifier = [], ev_CreatedAt = zeroTime, ev_UpdatedAt = zeroTime\<rparr>"

definition EventTypeValid :: "PremisEvent \<Rightarrow> bool" where
  "EventTypeValid premisEvent \<longleftrightarrow> list_ex (\<lambda>value. value = ToLower (ev_EventType premisEvent)) EventTypes"

type_synonym event_result = "(go_error + PremisEvent) \<times> world"

definition NewEventObjectCreation :: "world \<Rightarrow> PremisEvent \<times> world" where
  "NewEventObjectCreation w =
     (case uuidNew w of (eventId, w) \<Rightarrow> case timeNow w of (now, w) \<Rightarrow>
        (zeroEvent\<lparr>ev_Identifier := eventId,
          ev_EventType := EventCreation,
          ev_DateTime := now,
          ev_Detail := ''Object created.'',
          ev_Outcome := StatusSuccess,
          ev_OutcomeDetail := ''Intellectual object created.'',
          ev_Object := ''APTrust Exchange ingest services'',
          ev_Agent := ''https://github.com/APTrust/exchange'',
          ev_OutcomeInformation := ''Object created, files stored and replicated, awaiting recording of all files '' @
            ''and events in Pharos.''\<rparr>, w))"

definition NewEventObjectIngest :: "int \<Rightarrow> world \<Rightarrow> event_result" where
  "NewEventObjectIngest numberOfFilesIngested w =
     (if numberOfFilesIngested \<le> 0
      then (Inl (''Param numberOfFilesIngested must be greater than zero.''), w) else
     (case uuidNew w of (eventId, w) \<Rightarrow> case timeNow w of (now, w) \<Rightarrow>
        (Inr (zeroEvent\<lparr>ev_Identifier := eventId,
          ev_EventType := EventIngestion,
          ev_DateTime := now,
          ev_Detail := ''Copied all files to perservation bucket'',
          ev_Outcome := StatusSuccess,
          ev_OutcomeDetail := show_int numberOfFilesIngested @ '' files copied'',
          ev_Object := ''AWS Go SDK S3 client'',
          ev_Agent := ''https://github.com/aws/aws-sdk-go'',
          ev_OutcomeInformation := ''Multipart put using md5 checksum''\<rparr>), w)))"

definition NewEventObjectIdentifierAssignment :: "string \<Rightarrow> world \<Rightarrow> event_result" where
  "NewEventObjectIdentifierAssignment objectIdentifier w =
     (if objectIdentifier = []
      then (Inl (''Param objectIdentifier cannot be empty.''), w) else
     (case uuidNew w of (eventId, w) \<Rightarrow> case timeNow w of (now, w) \<Rightarrow>
        (Inr (zeroEvent\<lparr>ev_Identifier := eventId,
          ev_EventType := EventIdentifierAssignment,
          ev_DateTime := now,
          ev_Detail := ''Assigned bag identifier'',
          ev_Outcome := StatusSuccess,
          ev_OutcomeDetail := objectIdentifier,
          ev_Object := ''APTrust exchange'',
          ev_Agent := ''https://github.com/APTrust/exchange'',
          ev_OutcomeInformation := ''Institution domain + tar file name''\<rparr>), w)))"

definition NewEventObjectRights :: "string \<Rightarrow> world \<Rightarrow> event_result" where
  "NewEventObjectRights accessSetting w =
     (if \<not> StringListContains AccessRights (ToLower accessSetting)
      then (Inl (''Param accessSetting '' @ quoted accessSetting @ '' is not valid.''), w) else
     (case uuidNew w of (eventId, w) \<Rightarrow> case timeNow w of (now, w) \<Rightarrow>
        (Inr (zeroEvent\<lparr>ev_Identifier := eventId,
          ev_EventType := EventAccessAssignment,
          ev_DateTime := now,
          ev_Detail := ''Assigned bag access rights'',
          ev_Outcome := StatusSuccess,
          ev_OutcomeDetail := accessSetting,
          ev_Object := ''APTrust exchange'',
          ev_Agent := ''https://github.com/APTrust/exchange'',
          ev_OutcomeInformation := ''Set access to '' @ accessSetting\<rparr>), w)))"

definition NewEventGenericFileIngest :: "time \<Rightarrow> string \<Rightarrow> string \<Rightarrow> world \<Rightarrow> event_result" where
  "NewEventGenericFileIngest storedAt md5Digest fileUuid w =
     (if IsZero storedAt
      then (Inl (''Param storedAt cannot be empty.''), w) else
     (if length md5Digest \<noteq> 32
      then (Inl (''Param md5Digest must have 32 characters. '' @ quoted md5Digest @ '' doesn'' @ [CHR 0x27] @ ''t.''), w) else
     (if \<not> LooksLikeUUID fileUuid
      then (Inl (''Param _uuid with value '' @ quoted fileUuid @ '' doesn'' @ [CHR 0x27] @ ''t look like a uuid.''), w) else
     (case uuidNew w of (eventId, w) \<Rightarrow>
        (Inr (zeroEvent\<lparr>ev_Identifier := eventId,
          ev_EventType := EventIngestion,
          ev_DateTime := storedAt,
          ev_Detail := ''Completed copy to S3 ('' @ fileUuid @ '')'',
          ev_Outcome := StatusSuccess,
          ev_OutcomeDetail := ''md5:'' @ md5Digest,
          ev_Object := ''exchange + AWS Go SDK S3 client'',
          ev_Agent := ''https://github.com/aws/aws-sdk-go'',
          ev_OutcomeInformation := ''Put using md5 checksum''\<rparr>), w)))))"

definition NewEventGenericFileFixityCheck :: "time \<Rightarrow> string \<Rightarrow> string \<Rightarrow> bool \<Rightarrow> world \<Rightarrow> event_result" where
  "NewEventGenericFileFixityCheck checksumVerifiedAt fixityAlg digest fixityMatched w =
     (if IsZero checksumVerifiedAt
      then (Inl (''Param checksumVerifiedAt cannot be empty.''), w) else
     (if \<not> StringListContains ChecksumAlgorithms fixityAlg
      then (Inl (''Param fixityAlg '' @ quoted fixityAlg @ '' is not valid.''), w) else
     (if length digest \<noteq> 32 \<and> length digest \<noteq> 64
      then (Inl (''Param digest must have 32 or 64 characters. '' @ quoted digest @ '' doesn'' @ [CHR 0x27] @ ''t.''), w) else
     (case uuidNew w of (eventId, w) \<Rightarrow>
        (Inr (zeroEvent\<lparr>ev_Identifier := eventId,
          ev_EventType := EventFixityCheck,
          ev_DateTime := checksumVerifiedAt,
          ev_Detail := ''Fixity check against registered hash'',
          ev_Outcome := (if fixityMatched then StatusSuccess else StatusFailed),
          ev_OutcomeDetail := fixityAlg @ '':'' @ digest,
          ev_Object := (if fixityAlg = AlgSha256 then ''Go language crypto/sha256'' else ''Go language crypto/md5''),
          ev_Agent := (if fixityAlg = AlgSha256 then ''http://golang.org/pkg/crypto/sha256/''
            else ''http://golang.org/pkg/crypto/md5/''),
          ev_OutcomeInformation := (if fixityMatched then ''Fixity matches'' else ''Fixity did not match'')\<rparr>), w)))))"

definition NewEventGenericFileDigestCalculation :: "time \<Rightarrow> string \<Rightarrow> string \<Rightarrow> world \<Rightarrow> event_result" where
  "NewEventGenericFileDigestCalculation checksumGeneratedAt fixityAlg digest w =
     (if IsZero checksumGeneratedAt
      then (Inl (''Param checksumVerifiedAt cannot be empty.''), w) else
     (if \<not> StringListContains ChecksumAlgorithms fixityAlg
      then (Inl (''Param fixityAlg '' @ quoted fixityAlg @ '' is not valid.''), w) else
     (if length digest \<noteq> 32 \<and> length digest \<noteq> 64
      then (Inl (''Param digest must have 32 or 64 characters. '' @ quoted digest @ '' doesn'' @ [CHR 0x27] @ ''t.''), w) else
     (case uuidNew w of (eventId, w) \<Rightarrow>
        (Inr (zeroEvent\<lparr>ev_Identifier := eventId,
          ev_EventType := EventDigestCalculation,
          ev_DateTime := checksumGeneratedAt,
          ev_Detail := ''Calculated fixity value'',
          ev_Outcome := StatusSuccess,
          ev_OutcomeDetail := fixityAlg @ '':'' @ digest,
          ev_Object := (if fixityAlg = AlgSha256 then ''Go language crypto/sha256'' else ''Go language crypto/md5''),
          ev_Agent := (if fixityAlg = AlgSha256 then ''http://golang.org/pkg/crypto/sha256/''
            else ''http://golang.org/pkg/crypto/md5/''),
          ev_OutcomeInformation := ''Calculated fixity value''\<rparr>), w)))))"

definition NewEventGenericFileIdentifierAssignment :: "time \<Rightarrow> string \<Rightarrow> string \<Rightarrow> world \<Rightarrow> event_result" where
  "NewEventGenericFileIdentifierAssignment identifierGeneratedAt identifierType identifier w =
     (if IsZero identifierGeneratedAt
      then (Inl (''Param identifierGeneratedAt cannot be empty.''), w) else
     (if identifierType \<noteq> IdTypeStorageURL \<and> identifierType \<noteq> IdTypeBagAndPath
      then (Inl (''Param identifierType '' @ quoted identifierType @ '' is not valid.''), w) else
     (if identifier = []
      then (Inl (''Param identifier cannot be empty.''), w) else
     (case uuidNew w of (eventId, w) \<Rightarrow>
        (Inr (zeroEvent\<lparr>ev_Identifier := eventId,
          ev_EventType := EventIdentifierAssignment,
          ev_DateTime := identifierGeneratedAt,
          ev_Detail := (if identifierType = IdTypeStorageURL
            then ''Assigned new storage URL identifier, and item was stored at '' @
                 FormatRFC3339 identifierGeneratedAt
            else ''Assigned new institution.bag/path identifier''),
          ev_Outcome := StatusSuccess,
          ev_OutcomeDetail := identifier,
          ev_Object := (if identifierType = IdTypeStorageURL then ''Go uuid library + AWS Go SDK S3 library''
            else ''APTrust exchange/ingest processor''),
          ev_Agent := (if identifierType = IdTypeStorageURL then ''http://github.com/google/uuid''
            else ''https://github.com/APTrust/exchange''),
          ev_OutcomeInformation := ''Assigned '' @ identifierType @ '' identifier''\<rparr>), w)))))"

definition NewEventGenericFileReplication :: "time \<Rightarrow> string \<Rightarrow> world \<Rightarrow> event_result" where
  "NewEventGenericFileReplication replicatedAt replicationUrl w =
     (if IsZero replicatedAt
      then (Inl (''Param replicatedAt cannot be empty.''), w) else
     (if replicationUrl = []
      then (Inl (''Param identifier cannot be empty.''), w) else
     (case uuidNew w of (eventId, w) \<Rightarrow>
        (Inr (zeroEvent\<lparr>ev_Identifier := eventId,
          ev_EventType := EventReplication,
          ev_DateTime := replicatedAt,
          ev_Detail := ''Copied to replication storage and assigned replication URL identifier'',
          ev_Outcome := StatusSuccess,
          ev_OutcomeDetail := replicationUrl,
          ev_Object := ''Go uuid library + AWS Go SDK S3 library'',
          ev_Agent := ''http://github.com/google/uuid'',
          ev_OutcomeInformation := ''Replicated to secondary storage''\<rparr>), w))))"

definition NewEventFileDeletion :: "string \<Rightarrow> string \<Rightarrow> string \<Rightarrow> string \<Rightarrow> time \<Rightarrow> world \<Rightarrow> PremisEvent \<times> world" where
  "NewEventFileDeletion fileUUID requestedBy instApprover aptrustApprover timestamp w =
     (case uuidNew w of (eventId, w) \<Rightarrow>
        (zeroEvent\<lparr>ev_Identifier := eventId,
          ev_EventType := EventDeletion,
          ev_DateTime := timestamp,
          ev_Detail := ''File '' @ fileUUID @ '' deleted from long-term storage.'',
          ev_Outcome := StatusSuccess,
          ev_OutcomeDetail := requestedBy,
          ev_Object := ''APTrust Exchange apt_delete service'',
          ev_Agent := ''https://github.com/APTrust/exchange'',
          ev_OutcomeInformation := ''File deleted at the request of '' @ requestedBy @ ''.'' @
            (if instApprover \<noteq> [] then '' Institutional approver: '' @ instApprover @ ''.'' else []) @
            (if aptrustApprover \<noteq> [] then '' APTrust approver: '' @ aptrustApprover @ ''.'' else [])\<rparr>, w))"

definition Event_MergeAttributes :: "PremisEvent \<Rightarrow> PremisEvent option \<Rightarrow> go_error option \<times> PremisEvent" where
  "Event_MergeAttributes event savedEvent =
     (case savedEvent of
        None \<Rightarrow> (Some ''Param savedEvent cannot be nil.'', event)
      | Some saved \<Rightarrow> (None, event\<lparr>ev_Id := ev_Id saved, ev_CreatedAt := ev_CreatedAt saved,
                              ev_UpdatedAt := ev_UpdatedAt saved\<rparr>))"

definition IsUrlAssignment :: "PremisEvent \<Rightarrow> bool" where
  "IsUrlAssignment event \<longleftrightarrow>
     ev_EventType event = EventIdentifierAssignment \<and> HasPrefix (ev_Detail event) ''Assigned new storage URL''"

definition Event_Clone :: "PremisEvent \<Rightarrow> PremisEvent" where
  "Event_Clone event =
     \<lparr>ev_Id = ev_Id event,
      ev_Identifier = ev_Identifier event,
      ev_EventType = ev_EventType event,
      ev_DateTime = ev_DateTime event,
      ev_Detail = ev_Detail event,
      ev_Outcome = ev_Outcome event,
      ev_OutcomeDetail = ev_OutcomeDetail event,
      ev_Object = ev_Object event,
      ev_Agent = ev_Agent event,
      ev_OutcomeInformation = ev_OutcomeInformation event,
      ev_IntellectualObjectId = ev_IntellectualObjectId event,
      ev_IntellectualObjectIdentifier = ev_IntellectualObjectIdentifier event,
      ev_GenericFileId = ev_GenericFileId event,
      ev_GenericFileIdentifier = ev_GenericFileIdentifier event,
      ev_CreatedAt = ev_CreatedAt event,
      ev_UpdatedAt = ev_UpdatedAt event\<rparr>"

section \<open>Checksums\<close>

record Checksum =
  cs_Id :: int
  cs_GenericFileId :: int
  cs_Algorithm :: string
  cs_DateTime :: time
  cs_Digest :: string
  cs_CreatedAt :: time
  cs_UpdatedAt :: time

definition Checksum_MergeAttributes :: "Checksum \<Rightarrow> Checksum option \<Rightarrow> go_error option \<times> Checksum" where
  "Checksum_MergeAttributes checksum savedChecksum =
     (case savedChecksum of
        None \<Rightarrow> (Some ''Param savedChecksum cannot be nil.'', checksum)
      | Some saved \<Rightarrow> (None, checksum\<lparr>cs_Id := cs_Id saved, cs_CreatedAt := cs_CreatedAt saved,
                              cs_UpdatedAt := cs_UpdatedAt saved\<rparr>))"

definition Checksum_Clone :: "Checksum \<Rightarrow> Checksum" where
  "Checksum_Clone checksum =
     \<lparr>cs_Id = cs_Id checksum,
      cs_GenericFileId = cs_GenericFileId checksum,
      cs_Algorithm = cs_Algorithm checksum,
      cs_DateTime = cs_DateTime checksum,
      cs_Digest = cs_Digest checksum,
      cs_CreatedAt = cs_CreatedAt checksum,
      cs_UpdatedAt = cs_UpdatedAt checksum\<rparr>"

section \<open>Facts the builders use\<close>

lemmas event_ctor_defs = NewEventObjectCreation_def NewEventObjectIngest_def
  NewEventObjectIdentifierAssignment_def NewEventObjectRights_def NewEventGenericFileIngest_def
  NewEventGenericFileFixityCheck_def NewEventGenericFileDigestCalculation_def
  NewEventGenericFileIdentifierAssignment_def NewEventGenericFileReplication_def
  NewEventFileDeletion_def

lemma Event_Clone_eq [simp]: "Event_Clone e = e"
  by (simp add: Event_Clone_def)

lemma Checksum_Clone_eq [simp]: "Checksum_Clone c = c"
  by (simp add: Checksum_Clone_def)

lemma valid_EventTypes: "ev_EventType e \<in> set EventTypes \<Longrightarrow> EventTypeValid e"
  using EventTypes_lower by (auto simp: EventTypeValid_def list_ex_iff)

end
