(* ===== verification/Builders.thy ===== *)
theory Builders
  imports Prelude
begin

text \<open>
  The shape shared by the \<open>build...\<close> methods of \<open>GenericFile\<close> and \<open>IntellectualObject\<close>: a step that
  does nothing when its result is already there, and otherwise adds it or returns an error. The
  methods that call several of them stop at the first error. The locales state the contract of such
  a step and of two steps in sequence; what a caller wants is that a second run changes nothing.
\<close>

type_synonym 's builder = "world \<Rightarrow> 's \<Rightarrow> go_error option \<times> 's \<times> world"

definition seq_build :: "'s builder \<Rightarrow> 's builder \<Rightarrow> 's builder" where
  "seq_build first second w s =
     (case first w s of
        (Some err, s', w') \<Rightarrow> (Some err, s', w')
      | (None, s', w') \<Rightarrow> second w' s')"

lemma seq_build_None:
  "seq_build f g w s = (None, s', w') \<longleftrightarrow> (\<exists>s1 w1. f w s = (None, s1, w1) \<and> g w1 s1 = (None, s', w'))"
  by (auto simp: seq_build_def split: prod.splits option.splits)

lemma seq_buildE:
  assumes "seq_build f g w s = (r, s', w')"
  obtains s1 w1 r1 where "f w s = (r1, s1, w1)" "s' = s1 \<or> (\<exists>r2. g w1 s1 = (r2, s', w'))"
  using assms by (cases "f w s") (auto simp: seq_build_def split: option.splits)

text \<open>\<open>ok\<close> is what the data must satisfy, \<open>built\<close> says the result of the step is there.\<close>

locale guarded_build =
  fixes ok :: "'s \<Rightarrow> bool"
    and built :: "'s \<Rightarrow> bool"
    and build :: "'s builder"
  assumes noop: "built s \<Longrightarrow> build w s = (None, s, w)"
    and establishes: "ok s \<Longrightarrow> build w s = (None, s', w') \<Longrightarrow> built s'"
    and keeps_ok: "ok s \<Longrightarrow> build w s = (r, s', w') \<Longrightarrow> ok s'"
begin

lemma idempotent:
  "ok s \<Longrightarrow> build w s = (None, s', w') \<Longrightarrow> build w2 s' = (None, s', w2)"
  using establishes noop by blast

end

locale guarded_pair =
  first: guarded_build ok built1 build1 + second: guarded_build ok built2 build2
  for ok :: "'s \<Rightarrow> bool" and built1 build1 built2 build2 +
  assumes second_keeps: "built1 s \<Longrightarrow> build2 w s = (r, s', w') \<Longrightarrow> built1 s'"

sublocale guarded_pair \<subseteq> both: guarded_build ok "\<lambda>s. built1 s \<and> built2 s" "seq_build build1 build2"
proof
  fix s w assume "built1 s \<and> built2 s"
  then show "seq_build build1 build2 w s = (None, s, w)"
    by (simp add: seq_build_def first.noop second.noop)
next
  fix s w s' w' assume ok: "ok s" and "seq_build build1 build2 w s = (None, s', w')"
  then obtain s1 w1 where 1: "build1 w s = (None, s1, w1)" and 2: "build2 w1 s1 = (None, s', w')"
    by (auto simp: seq_build_None)
  from first.establishes [OF ok 1] first.keeps_ok [OF ok 1]
  have "built1 s1" "ok s1" .
  with 2 show "built1 s' \<and> built2 s'" using second_keeps second.establishes by blast
next
  fix s w r s' w' assume ok: "ok s" and "seq_build build1 build2 w s = (r, s', w')"
  then show "ok s'"
    by (elim seq_buildE) (use first.keeps_ok second.keeps_ok ok in blast)
qed

text \<open>A loop over a slice that runs a step on the elements that need it and stops at the first error.\<close>

fun each_build :: "('s \<Rightarrow> bool) \<Rightarrow> 's builder \<Rightarrow> 's list builder" where
  "each_build needs b w [] = (None, [], w)"
| "each_build needs b w (x # xs) =
     (if needs x then
        (case b w x of
           (Some err, x', w') \<Rightarrow> (Some err, x' # xs, w')
         | (None, x', w') \<Rightarrow> (case each_build needs b w' xs of (r, xs', w2) \<Rightarrow> (r, x' # xs', w2)))
      else (case each_build needs b w xs of (r, xs', w2) \<Rightarrow> (r, x # xs', w2)))"

locale guarded_each = elem: guarded_build ok built build
  for ok :: "'s \<Rightarrow> bool" and built build +
  fixes needs :: "'s \<Rightarrow> bool"

sublocale guarded_each \<subseteq> each: guarded_build "list_all ok" "list_all (\<lambda>x. needs x \<longrightarrow> built x)"
  "each_build needs build"
proof
  show "each_build needs build w xs = (None, xs, w)" if "list_all (\<lambda>x. needs x \<longrightarrow> built x) xs" for xs w
    using that by (induction xs) (auto simp: elem.noop)
  show "list_all (\<lambda>x. needs x \<longrightarrow> built x) xs'"
    if "list_all ok xs" "each_build needs build w xs = (None, xs', w')" for xs w xs' w'
    using that
  proof (induction xs arbitrary: w xs' w')
    case (Cons x xs)
    then show ?case
      by (cases "build w x") (auto split: if_splits option.splits prod.splits intro: elem.establishes)
  qed simp
  show "list_all ok xs'"
    if "list_all ok xs" "each_build needs build w xs = (r, xs', w')" for xs w r xs' w'
    using that
  proof (induction xs arbitrary: w xs' w' r)
    case (Cons x xs)
    then show ?case
      by (cases "build w x") (auto split: if_splits option.splits prod.splits intro: elem.keeps_ok)
  qed simp
qed

end
