(* ===== verification/GenericFile.thy ===== *)
theory GenericFile
  imports PremisEvent Builders
begin

text \<open>
  \<^verbatim>\<open>src/models/generic_file.go\<close>: the file record that travels through ingest, its queries, its
  merge with the record Pharos returns, and the builders of its ingest events and checksums. The
  slices of pointers are lists of options, so that the nil checks of the code (and the places that
  have none) stay visible. Distinct elements of a slice are distinct objects.
\<close>

section \<open>The record\<close>

record GenericFile =
  gf_Id :: int
  gf_Identifier :: string
  gf_IntellectualObjectId :: int
  gf_IntellectualObjectIdentifier :: string
  gf_FileFormat :: string
  gf_URI :: string
  gf_Size :: int64
  gf_FileCreated :: time
  gf_FileModified :: time
  gf_CreatedAt :: time
  gf_UpdatedAt :: time
  gf_Checksums :: "Checksum option list"
  gf_PremisEvents :: "PremisEvent option list"
  gf_LastFixityCheck :: time
  gf_State :: string
  gf_StorageOption :: string
  gf_IngestFileType :: string
  gf_IngestLocalPath :: string
  gf_IngestManifestMd5 :: string
  gf_IngestMd5 :: string
  gf_IngestMd5GeneratedAt :: time
  gf_IngestMd5VerifiedAt :: time
  gf_IngestManifestSha256 :: string
  gf_IngestSha256 :: string
  gf_IngestSha256GeneratedAt :: time
  gf_IngestSha256VerifiedAt :: time
  gf_IngestUUID :: string
  gf_IngestUUIDGeneratedAt :: time
  gf_IngestStorageURL :: string
  gf_IngestStoredAt :: time
  gf_IngestReplicationURL :: string
  gf_IngestReplicatedAt :: time
  gf_IngestPreviousVersionExists :: bool
  gf_IngestNeedsSave :: bool
  gf_IngestErrorMessage :: string
  gf_IngestFileUid :: int
  gf_IngestFileGid :: int
  gf_IngestFileUname :: string
  gf_IngestFileGname :: string
  gf_IngestFileMode :: int64
  gf_FetchLocalPath :: string
  gf_FetchMd5Value :: string
  gf_FetchSha256Value :: string
  gf_FetchErrorMessage :: string

definition NewGenericFile :: GenericFile where
  "NewGenericFile =
     \<lparr>gf_Id = 0,
      gf_Identifier = [],
      gf_IntellectualObjectId = 0,
      gf_IntellectualObjectIdentifier = [],
      gf_FileFormat = [],
      gf_URI = [],
      gf_Size = 0,
      gf_FileCreated = zeroTime,
      gf_FileModified = zeroTime,
      gf_CreatedAt = zeroTime,
      gf_UpdatedAt = zeroTime,
      gf_Checksums = [],
      gf_PremisEvents = [],
      gf_LastFixityCheck = zeroTime,
      gf_State = [],
      gf_StorageOption = StorageStandard,
      gf_IngestFileType = [],
      gf_IngestLocalPath = [],
      gf_IngestManifestMd5 = [],
      gf_IngestMd5 = [],
      gf_IngestMd5GeneratedAt = zeroTime,
      gf_IngestMd5VerifiedAt = zeroTime,
      gf_IngestManifestSha256 = [],
      gf_IngestSha256 = [],
      gf_IngestSha256GeneratedAt = zeroTime,
      gf_IngestSha256VerifiedAt = zeroTime,
      gf_IngestUUID = [],
      gf_IngestUUIDGeneratedAt = zeroTime,
      gf_IngestStorageURL = [],
      gf_IngestStoredAt = zeroTime,
      gf_IngestReplicationURL = [],
      gf_IngestReplicatedAt = zeroTime,
      gf_IngestPreviousVersionExists = False,
      gf_IngestNeedsSave = True,
      gf_IngestErrorMessage = [],
      gf_IngestFileUid = 0,
      gf_IngestFileGid = 0,
      gf_IngestFileUname = [],
      gf_IngestFileGname = [],
      gf_IngestFileMode = 0,
      gf_FetchLocalPath = [],
      gf_FetchMd5Value = [],
      gf_FetchSha256Value = [],
      gf_FetchErrorMessage = []\<rparr>"

text \<open>\<open>event.Clone()\<close> dereferences its receiver, so a nil entry panics.\<close>

definition GenericFile_Clone :: "GenericFile \<Rightarrow> GenericFile outcome" where
  "GenericFile_Clone gf =
     and_then (map_outcome (\<lambda>event. and_then (deref event) (\<lambda>e. Returns (Some (Event_Clone e)))) (gf_PremisEvents gf))
       (\<lambda>events.
     and_then (map_outcome (\<lambda>checksum. and_then (deref checksum) (\<lambda>c. Returns (Some (Checksum_Clone c)))) (gf_Checksums gf))
       (\<lambda>checksums.
     Returns (NewGenericFile\<lparr>gf_Id := gf_Id gf,
       gf_Identifier := gf_Identifier gf,
       gf_IntellectualObjectId := gf_IntellectualObjectId gf,
       gf_IntellectualObjectIdentifier := gf_IntellectualObjectIdentifier gf,
       gf_FileFormat := gf_FileFormat gf,
       gf_URI := gf_URI gf,
       gf_Size := gf_Size gf,
       gf_FileCreated := gf_FileCreated gf,
       gf_FileModified := gf_FileModified gf,
       gf_CreatedAt := gf_CreatedAt gf,
       gf_UpdatedAt := gf_UpdatedAt gf,
       gf_LastFixityCheck := gf_LastFixityCheck gf,
       gf_State := gf_State gf,
       gf_StorageOption := gf_StorageOption gf,
       gf_IngestFileType := gf_IngestFileType gf,
       gf_IngestLocalPath := gf_IngestLocalPath gf,
       gf_IngestManifestMd5 := gf_IngestManifestMd5 gf,
       gf_IngestMd5 := gf_IngestMd5 gf,
       gf_IngestMd5GeneratedAt := gf_IngestMd5GeneratedAt gf,
       gf_IngestMd5VerifiedAt := gf_IngestMd5VerifiedAt gf,
       gf_IngestManifestSha256 := gf_IngestManifestSha256 gf,
       gf_IngestSha256 := gf_IngestSha256 gf,
       gf_IngestSha256GeneratedAt := gf_IngestSha256GeneratedAt gf,
       gf_IngestSha256VerifiedAt := gf_IngestSha256VerifiedAt gf,
       gf_IngestUUID := gf_IngestUUID gf,
       gf_IngestUUIDGeneratedAt := gf_IngestUUIDGeneratedAt gf,
       gf_IngestStorageURL := gf_IngestStorageURL gf,
       gf_IngestStoredAt := gf_IngestStoredAt gf,
       gf_IngestReplicationURL := gf_IngestReplicationURL gf,
       gf_IngestReplicatedAt := gf_IngestReplicatedAt gf,
       gf_IngestPreviousVersionExists := gf_IngestPreviousVersionExists gf,
       gf_IngestNeedsSave := gf_IngestNeedsSave gf,
       gf_IngestErrorMessage := gf_IngestErrorMessage gf,
       gf_IngestFileUid := gf_IngestFileUid gf,
       gf_IngestFileGid := gf_IngestFileGid gf,
       gf_IngestFileUname := gf_IngestFileUname gf,
       gf_IngestFileGname := gf_IngestFileGname gf,
       gf_IngestFileMode := gf_IngestFileMode gf,
       gf_FetchLocalPath := gf_FetchLocalPath gf,
       gf_FetchMd5Value := gf_FetchMd5Value gf,
       gf_FetchSha256Value := gf_FetchSha256Value gf,
       gf_FetchErrorMessage := gf_FetchErrorMessage gf,
       gf_PremisEvents := events,
       gf_Checksums := checksums\<rparr>)))"

section \<open>Queries\<close>

definition OriginalPath :: "GenericFile \<Rightarrow> string" where
  "OriginalPath gf = Replace1 (gf_Identifier gf) (gf_IntellectualObjectIdentifier gf @ ''/'') []"

definition InstitutionIdentifier :: "GenericFile \<Rightarrow> string \<times> go_error option" where
  "InstitutionIdentifier gf =
     (let parts = Split (CHR ''/'') (gf_Identifier gf)
      in if length parts < 2
         then ([], Some (''GenericFile identifier '' @ quoted (gf_Identifier gf) @ '' is not valid''))
         else (parts ! 0, None))"

definition OriginalPathWithBagName :: "GenericFile \<Rightarrow> string \<times> go_error option" where
  "OriginalPathWithBagName gf =
     (case InstitutionIdentifier gf of
        (_, Some err) \<Rightarrow> ([], Some err)
      | (instIdentifier, None) \<Rightarrow> (Replace1 (gf_Identifier gf) (instIdentifier @ ''/'') [], None))"

fun latestChecksum :: "string \<Rightarrow> Checksum option \<Rightarrow> time \<Rightarrow> Checksum option list \<Rightarrow> Checksum option" where
  "latestChecksum algorithm checksum latest [] = checksum"
| "latestChecksum algorithm checksum latest (None # rest) = latestChecksum algorithm checksum latest rest"
| "latestChecksum algorithm checksum latest (Some cs # rest) =
     (if cs_Algorithm cs = algorithm \<and> After (cs_DateTime cs) latest
      then latestChecksum algorithm (Some cs) (cs_DateTime cs) rest
      else latestChecksum algorithm checksum latest rest)"

definition GetChecksumByAlgorithm :: "GenericFile \<Rightarrow> string \<Rightarrow> Checksum option" where
  "GetChecksumByAlgorithm gf algorithm = latestChecksum algorithm None zeroTime (gf_Checksums gf)"

text \<open>The queries that return a pointer into a slice give its index; the caller updates the entry there.\<close>

fun findDigest :: "string \<Rightarrow> nat \<Rightarrow> Checksum option list \<Rightarrow> nat option" where
  "findDigest digest i [] = None"
| "findDigest digest i (None # rest) = findDigest digest (Suc i) rest"
| "findDigest digest i (Some cs # rest) =
     (if cs_Digest cs = digest then Some i else findDigest digest (Suc i) rest)"

definition GetChecksumByDigest :: "GenericFile \<Rightarrow> string \<Rightarrow> nat option" where
  "GetChecksumByDigest gf digest = findDigest digest 0 (gf_Checksums gf)"

fun eventsOfType :: "string \<Rightarrow> PremisEvent option list \<Rightarrow> PremisEvent list" where
  "eventsOfType eventType [] = []"
| "eventsOfType eventType (None # rest) = eventsOfType eventType rest"
| "eventsOfType eventType (Some event # rest) =
     (if ev_EventType event = eventType then event # eventsOfType eventType rest
      else eventsOfType eventType rest)"

definition FindEventsByType :: "GenericFile \<Rightarrow> string \<Rightarrow> PremisEvent list" where
  "FindEventsByType gf eventType = eventsOfType eventType (gf_PremisEvents gf)"

fun findIdentifier :: "string \<Rightarrow> nat \<Rightarrow> PremisEvent option list \<Rightarrow> nat option outcome" where
  "findIdentifier identifier i [] = Returns None"
| "findIdentifier identifier i (None # rest) = Panics"
| "findIdentifier identifier i (Some event # rest) =
     (if ev_Identifier event = identifier then Returns (Some i)
      else findIdentifier identifier (Suc i) rest)"

definition FindEventByIdentifier :: "GenericFile \<Rightarrow> string \<Rightarrow> nat option outcome" where
  "FindEventByIdentifier gf identifier = findIdentifier identifier 0 (gf_PremisEvents gf)"

definition PreservationStorageFileName :: "GenericFile \<Rightarrow> string \<times> go_error option" where
  "PreservationStorageFileName gf =
     (if \<not> Contains (gf_URI gf) ''/''
      then ([], Some (''Cannot get preservation storage file name because GenericFile has an invalid URI''))
      else (last (Split (CHR ''/'') (gf_URI gf)), None))"

section \<open>Merging the saved record\<close>

definition linkEvent :: "GenericFile \<Rightarrow> PremisEvent \<Rightarrow> PremisEvent" where
  "linkEvent gf event =
     event\<lparr>ev_IntellectualObjectId := gf_IntellectualObjectId gf,
           ev_IntellectualObjectIdentifier := gf_IntellectualObjectIdentifier gf,
           ev_GenericFileId := gf_Id gf,
           ev_GenericFileIdentifier := gf_Identifier gf\<rparr>"

definition PropagateIdsToChildren :: "GenericFile \<Rightarrow> GenericFile outcome" where
  "PropagateIdsToChildren gf =
     and_then (map_outcome (\<lambda>event. and_then (deref event) (\<lambda>e. Returns (Some (linkEvent gf e)))) (gf_PremisEvents gf))
       (\<lambda>events.
     and_then (map_outcome (\<lambda>checksum. and_then (deref checksum)
                 (\<lambda>c. Returns (Some (c\<lparr>cs_GenericFileId := gf_Id gf\<rparr>)))) (gf_Checksums gf))
       (\<lambda>checksums. Returns (gf\<lparr>gf_PremisEvents := events, gf_Checksums := checksums\<rparr>)))"

definition eventNotFound :: "GenericFile \<Rightarrow> PremisEvent \<Rightarrow> go_error" where
  "eventNotFound gf savedEvent =
     ''After save, could not find event '' @ quoted (ev_Identifier savedEvent) @
     '' in GenericFile '' @ gf_Identifier gf @ ''.''"

definition checksumNotFound :: "GenericFile \<Rightarrow> Checksum \<Rightarrow> go_error" where
  "checksumNotFound gf savedChecksum =
     ''After save, could not find '' @ cs_Algorithm savedChecksum @
     '' checksum in GenericFile '' @ gf_Identifier gf @ ''.''"

fun mergeEvents :: "PremisEvent option list \<Rightarrow> GenericFile \<Rightarrow> (go_error list \<times> GenericFile) outcome" where
  "mergeEvents [] gf = Returns ([], gf)"
| "mergeEvents (None # rest) gf = Panics"
| "mergeEvents (Some savedEvent # rest) gf =
     and_then (FindEventByIdentifier gf (ev_Identifier savedEvent)) (\<lambda>found.
       case found of
         None \<Rightarrow> and_then (mergeEvents rest gf) (\<lambda>(errors, gf).
           Returns (eventNotFound gf savedEvent # errors, gf))
       | Some i \<Rightarrow> and_then (deref (gf_PremisEvents gf ! i)) (\<lambda>event.
           case Event_MergeAttributes event (Some savedEvent) of (err, event) \<Rightarrow>
             and_then (mergeEvents rest (gf\<lparr>gf_PremisEvents := (gf_PremisEvents gf)[i := Some event]\<rparr>))
               (\<lambda>(errors, gf). Returns ((case err of None \<Rightarrow> errors | Some e \<Rightarrow> e # errors), gf))))"

fun mergeChecksums :: "Checksum option list \<Rightarrow> GenericFile \<Rightarrow> (go_error list \<times> GenericFile) outcome" where
  "mergeChecksums [] gf = Returns ([], gf)"
| "mergeChecksums (None # rest) gf = Panics"
| "mergeChecksums (Some savedChecksum # rest) gf =
     (case GetChecksumByDigest gf (cs_Digest savedChecksum) of
        None \<Rightarrow> and_then (mergeChecksums rest gf) (\<lambda>(errors, gf).
          Returns (checksumNotFound gf savedChecksum # errors, gf))
      | Some i \<Rightarrow> and_then (deref (gf_Checksums gf ! i)) (\<lambda>checksum.
          case Checksum_MergeAttributes checksum (Some savedChecksum) of (err, checksum) \<Rightarrow>
            and_then (mergeChecksums rest (gf\<lparr>gf_Checksums := (gf_Checksums gf)[i := Some checksum]\<rparr>))
              (\<lambda>(errors, gf). Returns ((case err of None \<Rightarrow> errors | Some e \<Rightarrow> e # errors), gf))))"

definition GenericFile_MergeAttributes :: "GenericFile \<Rightarrow> GenericFile \<Rightarrow> (go_error list \<times> GenericFile) outcome" where
  "GenericFile_MergeAttributes gf savedFile =
     (let gf = gf\<lparr>gf_Id := gf_Id savedFile, gf_CreatedAt := gf_CreatedAt savedFile,
                  gf_UpdatedAt := gf_UpdatedAt savedFile\<rparr>
      in and_then (PropagateIdsToChildren gf) (\<lambda>gf.
         and_then (mergeEvents (gf_PremisEvents savedFile) gf) (\<lambda>(errors1, gf).
         and_then (mergeChecksums (gf_Checksums savedFile) gf) (\<lambda>(errors2, gf).
         Returns (errors1 @ errors2, gf)))))"

section \<open>Building the ingest events\<close>

definition appendEvent :: "GenericFile \<Rightarrow> PremisEvent \<Rightarrow> GenericFile" where
  "appendEvent gf event = gf\<lparr>gf_PremisEvents := gf_PremisEvents gf @ [Some (linkEvent gf event)]\<rparr>"

definition buildIngestFixityCheck :: "GenericFile builder" where
  "buildIngestFixityCheck w gf =
     (if FindEventsByType gf EventFixityCheck = [] then
        (let timestamp = (if IsZero (gf_IngestSha256VerifiedAt gf) then gf_IngestMd5VerifiedAt gf
                          else gf_IngestSha256VerifiedAt gf);
             fixityMatched = (\<not> IsZero timestamp)
         in case NewEventGenericFileFixityCheck timestamp AlgMd5 (gf_IngestMd5 gf) fixityMatched w of
              (Inl err, w) \<Rightarrow>
                (Some (''Error building fixity check event for '' @ gf_Identifier gf @ '': '' @ err), gf, w)
            | (Inr event, w) \<Rightarrow> (None, (appendEvent gf event)\<lparr>gf_LastFixityCheck := timestamp\<rparr>, w))
      else (None, gf, w))"

definition buildDigestCalculationEvent :: "GenericFile builder" where
  "buildDigestCalculationEvent w gf =
     (if FindEventsByType gf EventDigestCalculation = [] then
        (case NewEventGenericFileDigestCalculation (gf_IngestSha256GeneratedAt gf) AlgSha256 (gf_IngestSha256 gf) w of
           (Inl err, w) \<Rightarrow>
             (Some (''Error building replication event for '' @ gf_Identifier gf @ '': '' @ err), gf, w)
         | (Inr event, w) \<Rightarrow> (None, appendEvent gf event, w))
      else (None, gf, w))"

definition buildFileIdentifierAssignmentEvent :: "GenericFile builder" where
  "buildFileIdentifierAssignmentEvent w gf =
     (let events = FindEventsByType gf EventIdentifierAssignment;
          hasIdentifierAssignment = list_ex (\<lambda>existingEvent. \<not> IsUrlAssignment existingEvent) events
      in if \<not> hasIdentifierAssignment \<and> \<not> gf_IngestPreviousVersionExists gf then
        (case NewEventGenericFileIdentifierAssignment (gf_IngestUUIDGeneratedAt gf) IdTypeBagAndPath (gf_Identifier gf) w of
           (Inl err, w) \<Rightarrow>
             (Some (''Error building file identifier assignment event for '' @ gf_Identifier gf @ '': '' @ err), gf, w)
         | (Inr event, w) \<Rightarrow> (None, appendEvent gf event, w))
      else (None, gf, w))"

definition buildS3URLAssignmentEvent :: "GenericFile builder" where
  "buildS3URLAssignmentEvent w gf =
     (let events = FindEventsByType gf EventIdentifierAssignment;
          hasS3URLAssignment = list_ex (\<lambda>e. HasPrefix (ev_OutcomeDetail e) ''http://'' \<or>
                                             HasPrefix (ev_OutcomeDetail e) ''https://'') events
      in if \<not> hasS3URLAssignment \<and> gf_IngestNeedsSave gf then
        (case NewEventGenericFileIdentifierAssignment (gf_IngestStoredAt gf) IdTypeStorageURL (gf_IngestStorageURL gf) w of
           (Inl err, w) \<Rightarrow>
             (Some (''Error building S3 URL identifier assignment event for '' @ gf_Identifier gf @ '': '' @ err), gf, w)
         | (Inr event, w) \<Rightarrow> (None, appendEvent gf event, w))
      else (None, gf, w))"

definition buildReplicationEvent :: "GenericFile builder" where
  "buildReplicationEvent w gf =
     (if FindEventsByType gf EventReplication = [] then
        (case NewEventGenericFileReplication (gf_IngestReplicatedAt gf) (gf_IngestReplicationURL gf) w of
           (Inl err, w) \<Rightarrow>
             (Some (''Error building replication event for '' @ gf_Identifier gf @ '': '' @ err), gf, w)
         | (Inr event, w) \<Rightarrow> (None, appendEvent gf event, w))
      else (None, gf, w))"

definition buildFileIngestEvent :: "GenericFile builder" where
  "buildFileIngestEvent w gf =
     (if FindEventsByType gf EventIngestion = [] then
        (case NewEventGenericFileIngest (gf_IngestStoredAt gf) (gf_IngestMd5 gf) (gf_IngestUUID gf) w of
           (Inl err, w) \<Rightarrow>
             (Some (''Error building ingest event for '' @ gf_Identifier gf @ '': '' @ err), gf, w)
         | (Inr event, w) \<Rightarrow>
             (None, appendEvent gf
                (if gf_StorageOption gf \<noteq> StorageStandard
                 then event\<lparr>ev_Detail := ''Completed copy to '' @ gf_StorageOption gf @ '' ('' @ gf_IngestUUID gf @ '')''\<rparr>
                 else event), w))
      else (None, gf, w))"

text \<open>There is no replication for Glacier-only storage.\<close>

definition buildReplicationIfStandard :: "GenericFile builder" where
  "buildReplicationIfStandard w gf =
     (if gf_StorageOption gf = StorageStandard then buildReplicationEvent w gf else (None, gf, w))"

definition GenericFile_BuildIngestEvents :: "GenericFile builder" where
  "GenericFile_BuildIngestEvents =
     seq_build buildIngestFixityCheck
    (seq_build buildDigestCalculationEvent
    (seq_build buildFileIdentifierAssignmentEvent
    (seq_build buildS3URLAssignmentEvent
    (seq_build buildReplicationIfStandard
     buildFileIngestEvent))))"

section \<open>Building the checksums\<close>

definition buildIngestMd5 :: "GenericFile builder" where
  "buildIngestMd5 w gf =
     (case GetChecksumByAlgorithm gf AlgMd5 of
        None \<Rightarrow>
          if length (gf_IngestMd5 gf) \<noteq> 32
          then (Some (''Cannot create md5 Checksum object: IngestMd5 '' @ quoted (gf_IngestMd5 gf) @
                      '' is missing or invalid.''), gf, w)
          else if IsZero (gf_IngestMd5GeneratedAt gf)
          then (Some (''Cannot create md5 Checksum object: IngestMd5GeneratedAt is missing.''), gf, w)
          else (None, gf\<lparr>gf_Checksums := gf_Checksums gf @
                  [Some \<lparr>cs_Id = 0, cs_GenericFileId = gf_Id gf, cs_Algorithm = AlgMd5,
                         cs_DateTime = gf_IngestMd5GeneratedAt gf, cs_Digest = gf_IngestMd5 gf,
                         cs_CreatedAt = zeroTime, cs_UpdatedAt = zeroTime\<rparr>]\<rparr>, w)
      | Some md5 \<Rightarrow> (None, gf, w))"

definition buildIngestSha256 :: "GenericFile builder" where
  "buildIngestSha256 w gf =
     (case GetChecksumByAlgorithm gf AlgSha256 of
        None \<Rightarrow>
          if length (gf_IngestSha256 gf) \<noteq> 64
          then (Some (''Cannot create sha256 Checksum object: IngestSha256 '' @ quoted (gf_IngestSha256 gf) @
                      '' is missing or invalid.''), gf, w)
          else if IsZero (gf_IngestSha256GeneratedAt gf)
          then (Some (''Cannot create sha256 Checksum object: IngestSha256GeneratedAt is missing.''), gf, w)
          else (None, gf\<lparr>gf_Checksums := gf_Checksums gf @
                  [Some \<lparr>cs_Id = 0, cs_GenericFileId = gf_Id gf, cs_Algorithm = AlgSha256,
                         cs_DateTime = gf_IngestSha256GeneratedAt gf, cs_Digest = gf_IngestSha256 gf,
                         cs_CreatedAt = zeroTime, cs_UpdatedAt = zeroTime\<rparr>]\<rparr>, w)
      | Some sha256 \<Rightarrow> (None, gf, w))"

definition GenericFile_BuildIngestChecksums :: "GenericFile builder" where
  "GenericFile_BuildIngestChecksums = seq_build buildIngestMd5 buildIngestSha256"

section \<open>Idempotence of the builders\<close>

lemma eventsOfType_append [simp]:
  "eventsOfType ty (xs @ ys) = eventsOfType ty xs @ eventsOfType ty ys"
  by (induction ty xs rule: eventsOfType.induct) auto

lemma linkEvent_simps [simp]:
  "ev_EventType (linkEvent gf e) = ev_EventType e" "ev_Detail (linkEvent gf e) = ev_Detail e"
  "ev_OutcomeDetail (linkEvent gf e) = ev_OutcomeDetail e" "ev_Identifier (linkEvent gf e) = ev_Identifier e"
  "ev_GenericFileId (linkEvent gf e) = gf_Id gf" "ev_GenericFileIdentifier (linkEvent gf e) = gf_Identifier gf"
  by (simp_all add: linkEvent_def)

text \<open>The builders only append events and set the time of the last fixity check.\<close>

definition extends :: "GenericFile \<Rightarrow> GenericFile \<Rightarrow> bool" where
  "extends gf gf' \<longleftrightarrow>
     (\<exists>es t. gf' = gf\<lparr>gf_PremisEvents := gf_PremisEvents gf @ es, gf_LastFixityCheck := t\<rparr>)"

lemma extends_refl [simp]: "extends gf gf"
  unfolding extends_def by (intro exI [of _ "[]"] exI [of _ "gf_LastFixityCheck gf"]) simp

lemma extends_append [simp]: "extends gf (appendEvent gf e)"
  unfolding extends_def appendEvent_def
  by (intro exI [of _ "[Some (linkEvent gf e)]"] exI [of _ "gf_LastFixityCheck gf"]) simp

lemma extends_append_time [simp]: "extends gf ((appendEvent gf e)\<lparr>gf_LastFixityCheck := t\<rparr>)"
  unfolding extends_def appendEvent_def
  by (intro exI [of _ "[Some (linkEvent gf e)]"] exI [of _ t]) simp

lemma extends_trans: "extends a b \<Longrightarrow> extends b c \<Longrightarrow> extends a c"
  unfolding extends_def by force

lemmas event_builder_defs = buildIngestFixityCheck_def buildDigestCalculationEvent_def
  buildFileIdentifierAssignmentEvent_def buildS3URLAssignmentEvent_def buildReplicationIfStandard_def
  buildReplicationEvent_def buildFileIngestEvent_def

lemma builders_extend:
  "buildIngestFixityCheck w gf = (r, gf', w') \<Longrightarrow> extends gf gf'"
  "buildDigestCalculationEvent w gf = (r, gf', w') \<Longrightarrow> extends gf gf'"
  "buildFileIdentifierAssignmentEvent w gf = (r, gf', w') \<Longrightarrow> extends gf gf'"
  "buildS3URLAssignmentEvent w gf = (r, gf', w') \<Longrightarrow> extends gf gf'"
  "buildReplicationIfStandard w gf = (r, gf', w') \<Longrightarrow> extends gf gf'"
  "buildFileIngestEvent w gf = (r, gf', w') \<Longrightarrow> extends gf gf'"
  by (auto simp: event_builder_defs Let_def split: if_splits prod.splits sum.splits)

lemma seq_build_extends:
  assumes "\<And>w gf r gf' w'. f w gf = (r, gf', w') \<Longrightarrow> extends gf gf'"
    and "\<And>w gf r gf' w'. g w gf = (r, gf', w') \<Longrightarrow> extends gf gf'"
    and "seq_build f g w gf = (r, gf', w')"
  shows "extends gf gf'"
  using assms(3) by (elim seq_buildE) (use assms(1,2) extends_trans in blast)

text \<open>What each step looks for, and the data the URL step needs.\<close>

definition hasEvent :: "string \<Rightarrow> GenericFile \<Rightarrow> bool" where
  "hasEvent ty gf \<longleftrightarrow> FindEventsByType gf ty \<noteq> []"

definition identifierBuilt :: "GenericFile \<Rightarrow> bool" where
  "identifierBuilt gf \<longleftrightarrow> gf_IngestPreviousVersionExists gf \<or>
     list_ex (\<lambda>e. \<not> IsUrlAssignment e) (FindEventsByType gf EventIdentifierAssignment)"

definition isHttp :: "string \<Rightarrow> bool" where
  "isHttp s \<longleftrightarrow> HasPrefix s ''http://'' \<or> HasPrefix s ''https://''"

definition urlBuilt :: "GenericFile \<Rightarrow> bool" where
  "urlBuilt gf \<longleftrightarrow> \<not> gf_IngestNeedsSave gf \<or>
     list_ex (\<lambda>e. isHttp (ev_OutcomeDetail e)) (FindEventsByType gf EventIdentifierAssignment)"

definition replicationBuilt :: "GenericFile \<Rightarrow> bool" where
  "replicationBuilt gf \<longleftrightarrow> gf_StorageOption gf \<noteq> StorageStandard \<or> hasEvent EventReplication gf"

definition storageUrlOk :: "GenericFile \<Rightarrow> bool" where
  "storageUrlOk gf \<longleftrightarrow> gf_IngestNeedsSave gf \<longrightarrow> isHttp (gf_IngestStorageURL gf)"

lemma built_mono:
  assumes "extends gf gf'"
  shows "hasEvent ty gf \<Longrightarrow> hasEvent ty gf'" "identifierBuilt gf \<Longrightarrow> identifierBuilt gf'"
    "urlBuilt gf \<Longrightarrow> urlBuilt gf'" "replicationBuilt gf \<Longrightarrow> replicationBuilt gf'"
    "storageUrlOk gf \<Longrightarrow> storageUrlOk gf'"
  using assms by (auto simp: extends_def hasEvent_def identifierBuilt_def urlBuilt_def
      replicationBuilt_def storageUrlOk_def FindEventsByType_def)

lemma establish_simps:
  "hasEvent ty (appendEvent gf e) \<longleftrightarrow> hasEvent ty gf \<or> ev_EventType e = ty"
  "hasEvent ty (gf\<lparr>gf_LastFixityCheck := t\<rparr>) \<longleftrightarrow> hasEvent ty gf"
  "identifierBuilt (appendEvent gf e) \<longleftrightarrow>
     identifierBuilt gf \<or> ev_EventType e = EventIdentifierAssignment \<and> \<not> IsUrlAssignment (linkEvent gf e)"
  "urlBuilt (appendEvent gf e) \<longleftrightarrow>
     urlBuilt gf \<or> ev_EventType e = EventIdentifierAssignment \<and> isHttp (ev_OutcomeDetail e)"
  "gf_StorageOption (appendEvent gf e) = gf_StorageOption gf"
  by (auto simp: hasEvent_def identifierBuilt_def urlBuilt_def appendEvent_def FindEventsByType_def)

lemma builder_noops:
  "hasEvent EventFixityCheck gf \<Longrightarrow> buildIngestFixityCheck w gf = (None, gf, w)"
  "hasEvent EventDigestCalculation gf \<Longrightarrow> buildDigestCalculationEvent w gf = (None, gf, w)"
  "identifierBuilt gf \<Longrightarrow> buildFileIdentifierAssignmentEvent w gf = (None, gf, w)"
  "urlBuilt gf \<Longrightarrow> buildS3URLAssignmentEvent w gf = (None, gf, w)"
  "replicationBuilt gf \<Longrightarrow> buildReplicationIfStandard w gf = (None, gf, w)"
  "hasEvent EventIngestion gf \<Longrightarrow> buildFileIngestEvent w gf = (None, gf, w)"
  by (auto simp: event_builder_defs hasEvent_def identifierBuilt_def urlBuilt_def replicationBuilt_def
      isHttp_def Let_def)

lemma ctor_types:
  "NewEventGenericFileFixityCheck t a d b w = (Inr e, w') \<Longrightarrow> ev_EventType e = EventFixityCheck"
  "NewEventGenericFileDigestCalculation t a d w = (Inr e, w') \<Longrightarrow> ev_EventType e = EventDigestCalculation"
  "NewEventGenericFileIdentifierAssignment t ty i w = (Inr e, w') \<Longrightarrow>
     ev_EventType e = EventIdentifierAssignment \<and> ev_OutcomeDetail e = i \<and>
     (ty = IdTypeBagAndPath \<longrightarrow> \<not> IsUrlAssignment (linkEvent gf e))"
  "NewEventGenericFileReplication t u w = (Inr e, w') \<Longrightarrow> ev_EventType e = EventReplication"
  "NewEventGenericFileIngest t m u w = (Inr e, w') \<Longrightarrow> ev_EventType e = EventIngestion"
  by (auto simp: event_ctor_defs IdTypeBagAndPath_def IdTypeStorageURL_def IsUrlAssignment_def HasPrefix_def
      split: if_splits prod.splits)

lemma builders_establish:
  "buildIngestFixityCheck w gf = (None, gf', w') \<Longrightarrow> hasEvent EventFixityCheck gf'"
  "buildDigestCalculationEvent w gf = (None, gf', w') \<Longrightarrow> hasEvent EventDigestCalculation gf'"
  "buildFileIdentifierAssignmentEvent w gf = (None, gf', w') \<Longrightarrow> identifierBuilt gf'"
  "storageUrlOk gf \<Longrightarrow> buildS3URLAssignmentEvent w gf = (None, gf', w') \<Longrightarrow> urlBuilt gf'"
  "buildReplicationIfStandard w gf = (None, gf', w') \<Longrightarrow> replicationBuilt gf'"
  "buildFileIngestEvent w gf = (None, gf', w') \<Longrightarrow> hasEvent EventIngestion gf'"
  subgoal
    by (auto simp: buildIngestFixityCheck_def Let_def establish_simps dest: ctor_types
        split: if_splits prod.splits sum.splits) (simp_all add: hasEvent_def)
  subgoal
    by (auto simp: buildDigestCalculationEvent_def establish_simps dest: ctor_types
        split: if_splits prod.splits sum.splits) (simp_all add: hasEvent_def)
  subgoal
    by (auto simp: buildFileIdentifierAssignmentEvent_def Let_def establish_simps
        dest: ctor_types split: if_splits prod.splits sum.splits)
      (auto simp: identifierBuilt_def)
  subgoal
    by (auto simp: buildS3URLAssignmentEvent_def Let_def establish_simps storageUrlOk_def
        dest: ctor_types split: if_splits prod.splits sum.splits) (auto simp: urlBuilt_def isHttp_def)
  subgoal
    by (auto simp: buildReplicationIfStandard_def buildReplicationEvent_def replicationBuilt_def establish_simps
        dest: ctor_types split: if_splits prod.splits sum.splits) (simp_all add: hasEvent_def)
  subgoal
    by (auto simp: buildFileIngestEvent_def establish_simps dest: ctor_types
        split: if_splits prod.splits sum.splits) (simp_all add: hasEvent_def)
  done

text \<open>The six steps keep the contract of a guarded step, alone and paired from the last to the first.\<close>

lemma event_steps:
  "guarded_build storageUrlOk (hasEvent EventFixityCheck) buildIngestFixityCheck"
  "guarded_build storageUrlOk (hasEvent EventDigestCalculation) buildDigestCalculationEvent"
  "guarded_build storageUrlOk identifierBuilt buildFileIdentifierAssignmentEvent"
  "guarded_build storageUrlOk urlBuilt buildS3URLAssignmentEvent"
  "guarded_build storageUrlOk replicationBuilt buildReplicationIfStandard"
  "guarded_build storageUrlOk (hasEvent EventIngestion) buildFileIngestEvent"
  by (unfold_locales; (erule builder_noops | erule (1) builders_establish | erule builders_establish |
        blast dest: builders_extend built_mono(5)))+

abbreviation events56 :: "GenericFile builder" where
  "events56 \<equiv> seq_build buildReplicationIfStandard buildFileIngestEvent"

abbreviation events456 :: "GenericFile builder" where
  "events456 \<equiv> seq_build buildS3URLAssignmentEvent events56"

abbreviation events3456 :: "GenericFile builder" where
  "events3456 \<equiv> seq_build buildFileIdentifierAssignmentEvent events456"

abbreviation events23456 :: "GenericFile builder" where
  "events23456 \<equiv> seq_build buildDigestCalculationEvent events3456"

lemma events_extend:
  "events56 w gf = (r, gf', w') \<Longrightarrow> extends gf gf'"
  "events456 w gf = (r, gf', w') \<Longrightarrow> extends gf gf'"
  "events3456 w gf = (r, gf', w') \<Longrightarrow> extends gf gf'"
  "events23456 w gf = (r, gf', w') \<Longrightarrow> extends gf gf'"
  "GenericFile_BuildIngestEvents w gf = (r, gf', w') \<Longrightarrow> extends gf gf'"
proof -
  note seq = seq_build_extends
  have 1: "events56 w gf = (r, gf', w') \<Longrightarrow> extends gf gf'" for w gf r gf' w'
    by (rule seq [OF builders_extend(5,6)])
  have 2: "events456 w gf = (r, gf', w') \<Longrightarrow> extends gf gf'" for w gf r gf' w'
    by (rule seq [OF builders_extend(4) 1])
  have 3: "events3456 w gf = (r, gf', w') \<Longrightarrow> extends gf gf'" for w gf r gf' w'
    by (rule seq [OF builders_extend(3) 2])
  have 4: "events23456 w gf = (r, gf', w') \<Longrightarrow> extends gf gf'" for w gf r gf' w'
    by (rule seq [OF builders_extend(2) 3])
  have 5: "GenericFile_BuildIngestEvents w gf = (r, gf', w') \<Longrightarrow> extends gf gf'" for w gf r gf' w'
    unfolding GenericFile_BuildIngestEvents_def by (rule seq [OF builders_extend(1) 4])
  show "events56 w gf = (r, gf', w') \<Longrightarrow> extends gf gf'" by (rule 1)
  show "events456 w gf = (r, gf', w') \<Longrightarrow> extends gf gf'" by (rule 2)
  show "events3456 w gf = (r, gf', w') \<Longrightarrow> extends gf gf'" by (rule 3)
  show "events23456 w gf = (r, gf', w') \<Longrightarrow> extends gf gf'" by (rule 4)
  show "GenericFile_BuildIngestEvents w gf = (r, gf', w') \<Longrightarrow> extends gf gf'" by (rule 5)
qed

interpretation ev56: guarded_pair storageUrlOk replicationBuilt buildReplicationIfStandard
  "hasEvent EventIngestion" buildFileIngestEvent
  by (intro guarded_pair.intro guarded_pair_axioms.intro event_steps)
    (rule built_mono(4) [OF builders_extend(6)])

interpretation ev456: guarded_pair storageUrlOk urlBuilt buildS3URLAssignmentEvent
  "\<lambda>gf. replicationBuilt gf \<and> hasEvent EventIngestion gf" events56
  by (intro guarded_pair.intro guarded_pair_axioms.intro event_steps ev56.both.guarded_build_axioms)
    (rule built_mono(3) [OF events_extend(1)])

interpretation ev3456: guarded_pair storageUrlOk identifierBuilt buildFileIdentifierAssignmentEvent
  "\<lambda>gf. urlBuilt gf \<and> replicationBuilt gf \<and> hasEvent EventIngestion gf" events456
  by (intro guarded_pair.intro guarded_pair_axioms.intro event_steps ev456.both.guarded_build_axioms)
    (rule built_mono(2) [OF events_extend(2)])

interpretation ev23456: guarded_pair storageUrlOk "hasEvent EventDigestCalculation" buildDigestCalculationEvent
  "\<lambda>gf. identifierBuilt gf \<and> urlBuilt gf \<and> replicationBuilt gf \<and> hasEvent EventIngestion gf" events3456
  by (intro guarded_pair.intro guarded_pair_axioms.intro event_steps ev3456.both.guarded_build_axioms)
    (rule built_mono(1) [OF events_extend(3)])

interpretation ev_all: guarded_pair storageUrlOk "hasEvent EventFixityCheck" buildIngestFixityCheck
  "\<lambda>gf. hasEvent EventDigestCalculation gf \<and> identifierBuilt gf \<and> urlBuilt gf \<and> replicationBuilt gf \<and>
        hasEvent EventIngestion gf" events23456
  by (intro guarded_pair.intro guarded_pair_axioms.intro event_steps ev23456.both.guarded_build_axioms)
    (rule built_mono(1) [OF events_extend(4)])

text \<open>C14: Building the ingest events is idempotent, as its comment promises: once it has succeeded for a
  file whose storage URL starts with http:// or https:// (or that needs no saving), every further
  call succeeds, adds nothing and draws no identifier.\<close>

theorem BuildIngestEvents_idempotent:
  assumes "gf_IngestNeedsSave gf \<longrightarrow>
             HasPrefix (gf_IngestStorageURL gf) ''http://'' \<or> HasPrefix (gf_IngestStorageURL gf) ''https://''"
    and "GenericFile_BuildIngestEvents w gf = (None, gf', w')"
  shows "GenericFile_BuildIngestEvents w2 gf' = (None, gf', w2)"
  using ev_all.both.idempotent [of gf w gf' w' w2] assms
  by (simp add: GenericFile_BuildIngestEvents_def storageUrlOk_def isHttp_def)

section \<open>The events of a new file\<close>

definition ingestReady :: "GenericFile \<Rightarrow> bool" where
  "ingestReady gf \<longleftrightarrow>
     (gf_IngestSha256VerifiedAt gf \<noteq> zeroTime \<or> gf_IngestMd5VerifiedAt gf \<noteq> zeroTime) \<and>
     length (gf_IngestMd5 gf) = 32 \<and>
     gf_IngestSha256GeneratedAt gf \<noteq> zeroTime \<and>
     (length (gf_IngestSha256 gf) = 32 \<or> length (gf_IngestSha256 gf) = 64) \<and>
     (gf_IngestPreviousVersionExists gf \<or> gf_IngestUUIDGeneratedAt gf \<noteq> zeroTime \<and> gf_Identifier gf \<noteq> []) \<and>
     gf_IngestStoredAt gf \<noteq> zeroTime \<and>
     (gf_IngestNeedsSave gf \<longrightarrow> gf_IngestStorageURL gf \<noteq> []) \<and>
     (gf_StorageOption gf = StorageStandard \<longrightarrow>
        gf_IngestReplicatedAt gf \<noteq> zeroTime \<and> gf_IngestReplicationURL gf \<noteq> []) \<and>
     LooksLikeUUID (gf_IngestUUID gf)"

text \<open>The events of a new file in order, each with its type and outcome detail.\<close>

definition ingestEventKeys :: "GenericFile \<Rightarrow> (string \<times> string) list" where
  "ingestEventKeys gf =
     [(EventFixityCheck, AlgMd5 @ '':'' @ gf_IngestMd5 gf)] @
     [(EventDigestCalculation, AlgSha256 @ '':'' @ gf_IngestSha256 gf)] @
     (if gf_IngestPreviousVersionExists gf then [] else [(EventIdentifierAssignment, gf_Identifier gf)]) @
     (if gf_IngestNeedsSave gf then [(EventIdentifierAssignment, gf_IngestStorageURL gf)] else []) @
     (if gf_StorageOption gf = StorageStandard then [(EventReplication, gf_IngestReplicationURL gf)] else []) @
     [(EventIngestion, ''md5:'' @ gf_IngestMd5 gf)]"

text \<open>The state of a file after some steps: the file it was, with a list of linked events.\<close>

definition withEvents :: "GenericFile \<Rightarrow> time \<Rightarrow> PremisEvent list \<Rightarrow> GenericFile" where
  "withEvents gf t es = gf\<lparr>gf_PremisEvents := map (\<lambda>e. Some (linkEvent gf e)) es, gf_LastFixityCheck := t\<rparr>"

lemma linkEvent_withEvents: "linkEvent (withEvents gf t es) e = linkEvent gf e"
  by (simp add: withEvents_def linkEvent_def)

lemma appendEvent_withEvents: "appendEvent (withEvents gf t es) e = withEvents gf t (es @ [e])"
  by (simp add: appendEvent_def linkEvent_withEvents) (simp add: withEvents_def)

lemma withEvents_time: "(withEvents gf t es)\<lparr>gf_LastFixityCheck := t'\<rparr> = withEvents gf t' es"
  by (simp add: withEvents_def)

lemma Find_withEvents:
  "FindEventsByType (withEvents gf t es) ty = map (linkEvent gf) (filter (\<lambda>e. ev_EventType e = ty) es)"
  by (induction es) (simp_all add: FindEventsByType_def withEvents_def)

lemma withEvents_simps [simp]:
  "gf_IngestSha256VerifiedAt (withEvents gf t es) = gf_IngestSha256VerifiedAt gf"
  "gf_IngestMd5VerifiedAt (withEvents gf t es) = gf_IngestMd5VerifiedAt gf"
  "gf_IngestMd5 (withEvents gf t es) = gf_IngestMd5 gf"
  "gf_IngestSha256GeneratedAt (withEvents gf t es) = gf_IngestSha256GeneratedAt gf"
  "gf_IngestSha256 (withEvents gf t es) = gf_IngestSha256 gf"
  "gf_IngestPreviousVersionExists (withEvents gf t es) = gf_IngestPreviousVersionExists gf"
  "gf_IngestUUIDGeneratedAt (withEvents gf t es) = gf_IngestUUIDGeneratedAt gf"
  "gf_Identifier (withEvents gf t es) = gf_Identifier gf"
  "gf_IngestStoredAt (withEvents gf t es) = gf_IngestStoredAt gf"
  "gf_IngestNeedsSave (withEvents gf t es) = gf_IngestNeedsSave gf"
  "gf_IngestStorageURL (withEvents gf t es) = gf_IngestStorageURL gf"
  "gf_StorageOption (withEvents gf t es) = gf_StorageOption gf"
  "gf_IngestReplicatedAt (withEvents gf t es) = gf_IngestReplicatedAt gf"
  "gf_IngestReplicationURL (withEvents gf t es) = gf_IngestReplicationURL gf"
  "gf_IngestUUID (withEvents gf t es) = gf_IngestUUID gf"
  by (simp_all add: withEvents_def)

lemma event_type_distinct [simp]:
  "EventFixityCheck \<noteq> EventDigestCalculation" "EventFixityCheck \<noteq> EventIdentifierAssignment"
  "EventFixityCheck \<noteq> EventReplication" "EventFixityCheck \<noteq> EventIngestion"
  "EventDigestCalculation \<noteq> EventFixityCheck" "EventDigestCalculation \<noteq> EventIdentifierAssignment"
  "EventDigestCalculation \<noteq> EventReplication" "EventDigestCalculation \<noteq> EventIngestion"
  "EventIdentifierAssignment \<noteq> EventFixityCheck" "EventIdentifierAssignment \<noteq> EventDigestCalculation"
  "EventIdentifierAssignment \<noteq> EventReplication" "EventIdentifierAssignment \<noteq> EventIngestion"
  "EventReplication \<noteq> EventFixityCheck" "EventReplication \<noteq> EventDigestCalculation"
  "EventReplication \<noteq> EventIdentifierAssignment" "EventReplication \<noteq> EventIngestion"
  "EventIngestion \<noteq> EventFixityCheck" "EventIngestion \<noteq> EventDigestCalculation"
  "EventIngestion \<noteq> EventIdentifierAssignment" "EventIngestion \<noteq> EventReplication"
  "IdTypeStorageURL \<noteq> IdTypeBagAndPath" "IdTypeBagAndPath \<noteq> IdTypeStorageURL"
  "AlgMd5 \<in> set ChecksumAlgorithms" "AlgSha256 \<in> set ChecksumAlgorithms"
  by (simp_all add: const_defs const_list_defs)

definition eventKey :: "PremisEvent \<Rightarrow> string \<times> string" where
  "eventKey e = (ev_EventType e, ev_OutcomeDetail e)"

lemma eventKey_link [simp]: "eventKey (linkEvent gf e) = eventKey e"
  by (simp add: eventKey_def)

text \<open>
  What a step does to the file \<open>gf\<close> with some events whose keys satisfy \<open>pre\<close>: under the condition
  \<open>c\<close> it appends events with the keys \<open>ks\<close>, identified by the next values of the UUID source;
  otherwise it returns an error. Steps in sequence concatenate the keys.
\<close>

definition adds ::
  "GenericFile \<Rightarrow> ((string \<times> string) list \<Rightarrow> bool) \<Rightarrow> (string \<times> string) list \<Rightarrow> bool \<Rightarrow> GenericFile builder \<Rightarrow> bool" where
  "adds gf pre ks c b \<longleftrightarrow>
     (\<forall>w t es. pre (map eventKey es) \<longrightarrow>
        (if c
         then \<exists>t' es'. b w (withEvents gf t es) =
                  (None, withEvents gf t' (es @ es'), w\<lparr>tick := tick w + length ks\<rparr>) \<and>
                map eventKey es' = ks \<and>
                map ev_Identifier es' = map (uuids w) [tick w..<tick w + length ks]
         else fst (b w (withEvents gf t es)) \<noteq> None))"

lemma adds_one:
  assumes "\<And>w t es. pre (map eventKey es) \<Longrightarrow> c \<Longrightarrow>
      \<exists>t' e. b w (withEvents gf t es) = (None, withEvents gf t' (es @ [e]), w\<lparr>tick := Suc (tick w)\<rparr>) \<and>
        eventKey e = k \<and> ev_Identifier e = uuids w (tick w)"
    and "\<And>w t es. pre (map eventKey es) \<Longrightarrow> \<not> c \<Longrightarrow> fst (b w (withEvents gf t es)) \<noteq> None"
  shows "adds gf pre [k] c b"
  unfolding adds_def
proof (intro allI impI)
  fix w t es assume pre: "pre (map eventKey es)"
  show "if c
        then \<exists>t' es'. b w (withEvents gf t es) =
               (None, withEvents gf t' (es @ es'), w\<lparr>tick := tick w + length [k]\<rparr>) \<and>
             map eventKey es' = [k] \<and>
             map ev_Identifier es' = map (uuids w) [tick w..<tick w + length [k]]
        else fst (b w (withEvents gf t es)) \<noteq> None"
  proof (cases c)
    case True
    with assms(1) [OF pre True, of w t] obtain t' e where
      "b w (withEvents gf t es) = (None, withEvents gf t' (es @ [e]), w\<lparr>tick := Suc (tick w)\<rparr>)"
      "eventKey e = k" "ev_Identifier e = uuids w (tick w)" by blast
    with True show ?thesis by (intro if_P [THEN iffD2] exI [of _ t'] exI [of _ "[e]"]) simp_all
  next
    case False
    with assms(2) [OF pre False] show ?thesis by simp
  qed
qed

lemma adds_seq:
  assumes 1: "adds gf pre1 ks1 c1 b1" and 2: "adds gf pre2 ks2 c2 b2"
    and pre: "\<And>ks. pre1 ks \<Longrightarrow> pre2 (ks @ ks1)"
  shows "adds gf pre1 (ks1 @ ks2) (c1 \<and> c2) (seq_build b1 b2)"
  unfolding adds_def
proof (intro allI impI)
  fix w t es assume p1: "pre1 (map eventKey es)"
  let ?goal = "if c1 \<and> c2
        then \<exists>t' es'. seq_build b1 b2 w (withEvents gf t es) =
               (None, withEvents gf t' (es @ es'), w\<lparr>tick := tick w + length (ks1 @ ks2)\<rparr>) \<and>
             map eventKey es' = ks1 @ ks2 \<and>
             map ev_Identifier es' = map (uuids w) [tick w..<tick w + length (ks1 @ ks2)]
        else fst (seq_build b1 b2 w (withEvents gf t es)) \<noteq> None"
  show ?goal
  proof (cases c1)
    case False
    with 1 p1 have "fst (b1 w (withEvents gf t es)) \<noteq> None" unfolding adds_def by simp
    with False show ?thesis by (auto simp: seq_build_def split: prod.splits option.splits)
  next
    case True
    with 1 p1 obtain t1 es1 where b1: "b1 w (withEvents gf t es) =
        (None, withEvents gf t1 (es @ es1), w\<lparr>tick := tick w + length ks1\<rparr>)"
      and k1: "map eventKey es1 = ks1" "map ev_Identifier es1 = map (uuids w) [tick w..<tick w + length ks1]"
      unfolding adds_def by fastforce
    have p2: "pre2 (map eventKey (es @ es1))" using pre [OF p1] k1 by simp
    let ?w = "w\<lparr>tick := tick w + length ks1\<rparr>"
    from b1 have sq: "seq_build b1 b2 w (withEvents gf t es) = b2 ?w (withEvents gf t1 (es @ es1))"
      by (simp add: seq_build_def)
    show ?thesis
    proof (cases c2)
      case False
      with 2 p2 have "fst (b2 ?w (withEvents gf t1 (es @ es1))) \<noteq> None" unfolding adds_def by simp
      with False show ?thesis by (simp add: sq)
    next
      case c2: True
      with 2 p2 obtain t2 es2 where b2: "b2 ?w (withEvents gf t1 (es @ es1)) =
          (None, withEvents gf t2 ((es @ es1) @ es2), ?w\<lparr>tick := tick ?w + length ks2\<rparr>)"
        and k2: "map eventKey es2 = ks2" "map ev_Identifier es2 = map (uuids ?w) [tick ?w..<tick ?w + length ks2]"
        unfolding adds_def by metis
      have "[tick w..<tick w + (length ks1 + length ks2)] =
          [tick w..<tick w + length ks1] @ [tick w + length ks1..<tick w + length ks1 + length ks2]"
        using upt_add_eq_append [of "tick w" "tick w + length ks1" "length ks2"] by (simp add: add.assoc)
      with True c2 b2 k1 k2 show ?thesis
        by (simp add: sq) (intro exI [of _ t2] exI [of _ "es1 @ es2"], simp add: add.assoc)
    qed
  qed
qed

definition lacks :: "string \<Rightarrow> (string \<times> string) list \<Rightarrow> bool" where
  "lacks ty ks \<longleftrightarrow> ty \<notin> fst ` set ks"

definition lacksUrl :: "(string \<times> string) list \<Rightarrow> bool" where
  "lacksUrl ks \<longleftrightarrow> (\<forall>k\<in>set ks. fst k = EventIdentifierAssignment \<longrightarrow> \<not> isHttp (snd k))"

lemma lacks_Find: "lacks ty (map eventKey es) \<Longrightarrow> FindEventsByType (withEvents gf t es) ty = []"
  by (force simp: Find_withEvents lacks_def eventKey_def filter_empty_conv)

lemma lacksUrl_Find:
  "lacksUrl (map eventKey es) \<Longrightarrow>
   \<not> list_ex (\<lambda>e. HasPrefix (ev_OutcomeDetail e) ''http://'' \<or> HasPrefix (ev_OutcomeDetail e) ''https://'')
       (FindEventsByType (withEvents gf t es) EventIdentifierAssignment)"
  by (force simp: Find_withEvents lacksUrl_def eventKey_def list_ex_iff isHttp_def)

text \<open>A constructor gives an event with a known key and the next identifier, or refuses.\<close>

definition gives :: "(world \<Rightarrow> event_result) \<Rightarrow> bool \<Rightarrow> string \<times> string \<Rightarrow> bool" where
  "gives ctor c k \<longleftrightarrow> (\<forall>w.
     (c \<longrightarrow> (\<exists>e. ctor w = (Inr e, w\<lparr>tick := Suc (tick w)\<rparr>) \<and> eventKey e = k \<and> ev_Identifier e = uuids w (tick w))) \<and>
     (\<not> c \<longrightarrow> (\<exists>err. ctor w = (Inl err, w))))"

lemma ctors_give:
  "gives (NewEventGenericFileFixityCheck t AlgMd5 d b) (t \<noteq> zeroTime \<and> (length d = 32 \<or> length d = 64))
     (EventFixityCheck, AlgMd5 @ '':'' @ d)"
  "gives (NewEventGenericFileDigestCalculation t AlgSha256 d) (t \<noteq> zeroTime \<and> (length d = 32 \<or> length d = 64))
     (EventDigestCalculation, AlgSha256 @ '':'' @ d)"
  "gives (NewEventGenericFileIdentifierAssignment t IdTypeBagAndPath i) (t \<noteq> zeroTime \<and> i \<noteq> []) (EventIdentifierAssignment, i)"
  "gives (NewEventGenericFileIdentifierAssignment t IdTypeStorageURL i) (t \<noteq> zeroTime \<and> i \<noteq> []) (EventIdentifierAssignment, i)"
  "gives (NewEventGenericFileReplication t i) (t \<noteq> zeroTime \<and> i \<noteq> []) (EventReplication, i)"
  "gives (NewEventGenericFileIngest t d u) (t \<noteq> zeroTime \<and> length d = 32 \<and> LooksLikeUUID u) (EventIngestion, ''md5:'' @ d)"
  by (auto simp: gives_def event_ctor_defs uuidNew_def IsZero_def eventKey_def)

lemma adds_ctor:
  assumes ctor: "gives ctor c k"
    and ok: "\<And>w t es e w'. pre (map eventKey es) \<Longrightarrow> ctor w = (Inr e, w') \<Longrightarrow>
        b w (withEvents gf t es) = (None, withEvents gf (t' t) (es @ [f e]), w')"
    and err: "\<And>w t es err w'. pre (map eventKey es) \<Longrightarrow> ctor w = (Inl err, w') \<Longrightarrow>
        fst (b w (withEvents gf t es)) \<noteq> None"
    and f: "\<And>e. eventKey (f e) = eventKey e" "\<And>e. ev_Identifier (f e) = ev_Identifier e"
  shows "adds gf pre [k] c b"
proof (rule adds_one)
  fix w t es assume pre: "pre (map eventKey es)" and c
  with ctor obtain e where "ctor w = (Inr e, w\<lparr>tick := Suc (tick w)\<rparr>)" "eventKey e = k"
    "ev_Identifier e = uuids w (tick w)" unfolding gives_def by blast
  with ok [OF pre, of w e _ t] f show "\<exists>t' e. b w (withEvents gf t es) =
      (None, withEvents gf t' (es @ [e]), w\<lparr>tick := Suc (tick w)\<rparr>) \<and> eventKey e = k \<and> ev_Identifier e = uuids w (tick w)"
    by (intro exI [of _ "t' t"] exI [of _ "f e"]) simp
next
  fix w t es assume "pre (map eventKey es)" "\<not> c"
  with err ctor show "fst (b w (withEvents gf t es)) \<noteq> None" unfolding gives_def by blast
qed

lemma adds_skip:
  "(\<And>w t es. b w (withEvents gf t es) = (None, withEvents gf t es, w)) \<Longrightarrow> adds gf pre [] True b"
  unfolding adds_def by (auto intro!: exI [of _ "[]"])

lemmas step_simps = lacks_Find lacksUrl_Find appendEvent_withEvents withEvents_time Let_def IsZero_def

lemma fixity_adds:
  "adds gf (lacks EventFixityCheck) [(EventFixityCheck, AlgMd5 @ '':'' @ gf_IngestMd5 gf)]
     ((if gf_IngestSha256VerifiedAt gf = zeroTime then gf_IngestMd5VerifiedAt gf
       else gf_IngestSha256VerifiedAt gf) \<noteq> zeroTime \<and>
      (length (gf_IngestMd5 gf) = 32 \<or> length (gf_IngestMd5 gf) = 64))
     buildIngestFixityCheck"
proof -
  define ts where "ts = (if gf_IngestSha256VerifiedAt gf = zeroTime then gf_IngestMd5VerifiedAt gf
    else gf_IngestSha256VerifiedAt gf)"
  have step: "buildIngestFixityCheck w (withEvents gf t es) =
      (case NewEventGenericFileFixityCheck ts AlgMd5 (gf_IngestMd5 gf) (ts \<noteq> zeroTime) w of
         (Inl err, w) \<Rightarrow>
           (Some (''Error building fixity check event for '' @ gf_Identifier gf @ '': '' @ err), withEvents gf t es, w)
       | (Inr e, w) \<Rightarrow> (None, withEvents gf ts (es @ [e]), w))"
    if "lacks EventFixityCheck (map eventKey es)" for w t es
    unfolding buildIngestFixityCheck_def Let_def IsZero_def withEvents_simps ts_def [symmetric]
      lacks_Find [OF that] appendEvent_withEvents withEvents_time by simp
  show ?thesis unfolding ts_def [symmetric]
    by (rule adds_ctor [OF ctors_give(1) [where b = "ts \<noteq> zeroTime"], where f = id and t' = "\<lambda>_. ts"])
      (simp_all add: step)
qed

lemma digest_adds:
  "adds gf (lacks EventDigestCalculation) [(EventDigestCalculation, AlgSha256 @ '':'' @ gf_IngestSha256 gf)]
     (gf_IngestSha256GeneratedAt gf \<noteq> zeroTime \<and>
      (length (gf_IngestSha256 gf) = 32 \<or> length (gf_IngestSha256 gf) = 64))
     buildDigestCalculationEvent"
  by (rule adds_ctor [OF ctors_give(2), where f = id and t' = id])
    (simp_all add: buildDigestCalculationEvent_def step_simps)

lemma identifier_adds:
  "adds gf (lacks EventIdentifierAssignment)
     (if gf_IngestPreviousVersionExists gf then [] else [(EventIdentifierAssignment, gf_Identifier gf)])
     (gf_IngestPreviousVersionExists gf \<or> gf_IngestUUIDGeneratedAt gf \<noteq> zeroTime \<and> gf_Identifier gf \<noteq> [])
     buildFileIdentifierAssignmentEvent"
proof (cases "gf_IngestPreviousVersionExists gf")
  case True
  then show ?thesis by (simp add: adds_skip buildFileIdentifierAssignmentEvent_def Let_def)
next
  case False
  have "adds gf (lacks EventIdentifierAssignment) [(EventIdentifierAssignment, gf_Identifier gf)]
      (gf_IngestUUIDGeneratedAt gf \<noteq> zeroTime \<and> gf_Identifier gf \<noteq> []) buildFileIdentifierAssignmentEvent"
    by (rule adds_ctor [OF ctors_give(3), where f = id and t' = id])
      (simp_all add: buildFileIdentifierAssignmentEvent_def step_simps False)
  with False show ?thesis by simp
qed

lemma url_adds:
  "adds gf lacksUrl
     (if gf_IngestNeedsSave gf then [(EventIdentifierAssignment, gf_IngestStorageURL gf)] else [])
     (gf_IngestNeedsSave gf \<longrightarrow> gf_IngestStoredAt gf \<noteq> zeroTime \<and> gf_IngestStorageURL gf \<noteq> [])
     buildS3URLAssignmentEvent"
proof (cases "gf_IngestNeedsSave gf")
  case False
  then show ?thesis by (simp add: adds_skip buildS3URLAssignmentEvent_def Let_def)
next
  case True
  have "adds gf lacksUrl [(EventIdentifierAssignment, gf_IngestStorageURL gf)]
      (gf_IngestStoredAt gf \<noteq> zeroTime \<and> gf_IngestStorageURL gf \<noteq> []) buildS3URLAssignmentEvent"
    by (rule adds_ctor [OF ctors_give(4), where f = id and t' = id])
      (simp_all add: buildS3URLAssignmentEvent_def step_simps True)
  with True show ?thesis by simp
qed

lemma replication_adds:
  "adds gf (lacks EventReplication)
     (if gf_StorageOption gf = StorageStandard then [(EventReplication, gf_IngestReplicationURL gf)] else [])
     (gf_StorageOption gf = StorageStandard \<longrightarrow>
        gf_IngestReplicatedAt gf \<noteq> zeroTime \<and> gf_IngestReplicationURL gf \<noteq> [])
     buildReplicationIfStandard"
proof (cases "gf_StorageOption gf = StorageStandard")
  case False
  then show ?thesis by (simp add: adds_skip buildReplicationIfStandard_def)
next
  case True
  have "adds gf (lacks EventReplication) [(EventReplication, gf_IngestReplicationURL gf)]
      (gf_IngestReplicatedAt gf \<noteq> zeroTime \<and> gf_IngestReplicationURL gf \<noteq> []) buildReplicationIfStandard"
    by (rule adds_ctor [OF ctors_give(5), where f = id and t' = id])
      (simp_all add: buildReplicationIfStandard_def buildReplicationEvent_def step_simps True)
  with True show ?thesis by simp
qed

lemma ingest_adds:
  "adds gf (lacks EventIngestion) [(EventIngestion, ''md5:'' @ gf_IngestMd5 gf)]
     (gf_IngestStoredAt gf \<noteq> zeroTime \<and> length (gf_IngestMd5 gf) = 32 \<and> LooksLikeUUID (gf_IngestUUID gf))
     buildFileIngestEvent"
  by (rule adds_ctor [OF ctors_give(6), where t' = id and
        f = "\<lambda>e. if gf_StorageOption gf \<noteq> StorageStandard
               then e\<lparr>ev_Detail := ''Completed copy to '' @ gf_StorageOption gf @ '' ('' @ gf_IngestUUID gf @ '')''\<rparr>
               else e"])
    (simp_all add: buildFileIngestEvent_def step_simps eventKey_def)

lemma adds_pre: "adds gf pre ks c b \<Longrightarrow> (\<And>ks. pre' ks \<Longrightarrow> pre ks) \<Longrightarrow> adds gf pre' ks c b"
  unfolding adds_def by blast

lemma BuildIngestEvents_adds:
  assumes "\<not> isHttp (gf_Identifier gf)"
  shows "\<exists>c. adds gf (\<lambda>ks. ks = []) (ingestEventKeys gf) c GenericFile_BuildIngestEvents \<and> (c \<longleftrightarrow> ingestReady gf)"
proof -
  let ?pre5 = "\<lambda>ks. lacks EventReplication ks \<and> lacks EventIngestion ks"
  let ?pre4 = "\<lambda>ks. lacksUrl ks \<and> ?pre5 ks"
  let ?pre3 = "\<lambda>ks. lacks EventIdentifierAssignment ks \<and> ?pre5 ks"
  let ?pre2 = "\<lambda>ks. lacks EventDigestCalculation ks \<and> ?pre3 ks"
  note s5 = adds_seq [OF adds_pre [OF replication_adds, of ?pre5] ingest_adds]
  note s4 = adds_seq [OF adds_pre [OF url_adds, of ?pre4] s5]
  note s3 = adds_seq [OF adds_pre [OF identifier_adds, of ?pre3] s4]
  note s2 = adds_seq [OF adds_pre [OF digest_adds, of ?pre2] s3]
  note s1 = adds_seq [OF adds_pre [OF fixity_adds, of "\<lambda>ks. ks = []"] s2]
  show ?thesis
    unfolding GenericFile_BuildIngestEvents_def ingestEventKeys_def
    by (intro exI conjI, rule s1)
      (use assms in \<open>force simp: lacks_def lacksUrl_def ingestReady_def\<close>)+
qed

lemma BuildIngestEvents_fresh:
  assumes "gf_PremisEvents gf = []"
    and "\<not> HasPrefix (gf_Identifier gf) ''http://''" "\<not> HasPrefix (gf_Identifier gf) ''https://''"
  shows "if ingestReady gf
         then \<exists>t es. GenericFile_BuildIngestEvents w gf =
                  (None, gf\<lparr>gf_PremisEvents := map (\<lambda>e. Some (linkEvent gf e)) es, gf_LastFixityCheck := t\<rparr>,
                   w\<lparr>tick := tick w + length (ingestEventKeys gf)\<rparr>) \<and>
                map (\<lambda>e. (ev_EventType e, ev_OutcomeDetail e)) es = ingestEventKeys gf \<and>
                map ev_Identifier es = map (uuids w) [tick w..<tick w + length (ingestEventKeys gf)]
         else fst (GenericFile_BuildIngestEvents w gf) \<noteq> None"
proof -
  from assms have "\<not> isHttp (gf_Identifier gf)" by (simp add: isHttp_def)
  then obtain c where adds: "adds gf (\<lambda>ks. ks = []) (ingestEventKeys gf) c GenericFile_BuildIngestEvents"
    and c: "c \<longleftrightarrow> ingestReady gf" using BuildIngestEvents_adds by blast
  have gf: "withEvents gf (gf_LastFixityCheck gf) [] = gf" using assms(1) by (simp add: withEvents_def)
  have "if c
        then \<exists>t es. GenericFile_BuildIngestEvents w gf =
               (None, withEvents gf t es, w\<lparr>tick := tick w + length (ingestEventKeys gf)\<rparr>) \<and>
             map eventKey es = ingestEventKeys gf \<and>
             map ev_Identifier es = map (uuids w) [tick w..<tick w + length (ingestEventKeys gf)]
        else fst (GenericFile_BuildIngestEvents w gf) \<noteq> None"
    using adds [unfolded adds_def, rule_format, of "[]" w "gf_LastFixityCheck gf"]
    unfolding gf append_Nil by simp
  then show ?thesis unfolding c withEvents_def eventKey_def [abs_def] .
qed

text \<open>C13: For a file without events, building the ingest events succeeds exactly when the ingest data is
  complete (a verified digest, well-formed digests, storage time and URL, a replication URL for standard storage,
  a UUID). The events are then, in order, the fixity check, the digest calculation, the identifier
  assignment of a new file, the URL assignment of a file that was saved, the replication under standard storage
  and the ingestion, each with its outcome detail, linked to the file and object, and identified by
  successive values of the UUID source.\<close>

theorem BuildIngestEvents_new_file:
  assumes "gf_PremisEvents gf = []"
    and "\<not> HasPrefix (gf_Identifier gf) ''http://''" "\<not> HasPrefix (gf_Identifier gf) ''https://''"
  shows "if ingestReady gf
         then \<exists>t es. GenericFile_BuildIngestEvents w gf =
                  (None, gf\<lparr>gf_PremisEvents := map (\<lambda>e. Some (linkEvent gf e)) es, gf_LastFixityCheck := t\<rparr>,
                   w\<lparr>tick := tick w + length (ingestEventKeys gf)\<rparr>) \<and>
                map (\<lambda>e. (ev_EventType e, ev_OutcomeDetail e)) es = ingestEventKeys gf \<and>
                map ev_Identifier es = map (uuids w) [tick w..<tick w + length (ingestEventKeys gf)]
         else fst (GenericFile_BuildIngestEvents w gf) \<noteq> None"
  using BuildIngestEvents_fresh [OF assms] .

text \<open>A complete file, for the witnesses.\<close>

definition exampleFile :: GenericFile where
  "exampleFile = NewGenericFile\<lparr>gf_Identifier := ''test.edu/bag/data/f'', gf_IngestMd5 := replicate 32 CHR ''a'',
     gf_IngestSha256 := replicate 64 CHR ''b'', gf_IngestMd5GeneratedAt := 1, gf_IngestSha256GeneratedAt := 1,
     gf_IngestMd5VerifiedAt := 2, gf_IngestUUIDGeneratedAt := 1,
     gf_IngestUUID := ''12345678-1234-1234-1234-123456789abc'', gf_IngestStoredAt := 3,
     gf_IngestStorageURL := ''https://s3.amazonaws.com/bucket/key'', gf_IngestReplicatedAt := 4,
     gf_IngestReplicationURL := ''https://s3.amazonaws.com/replica/key''\<rparr>"

definition exampleWorld :: world where
  "exampleWorld = \<lparr>uuids = show_nat, clock = int, tick = 0\<rparr>"

lemma exampleFile_ready: "ingestReady exampleFile"
proof -
  have "LooksLikeUUID ''12345678-1234-1234-1234-123456789abc''" by code_simp
  then show ?thesis by (simp add: ingestReady_def exampleFile_def NewGenericFile_def zeroTime_def)
qed

lemma exampleFile_identifier:
  "gf_PremisEvents exampleFile = []" "\<not> HasPrefix (gf_Identifier exampleFile) ''http://''"
  "\<not> HasPrefix (gf_Identifier exampleFile) ''https://''"
  by (simp_all add: exampleFile_def NewGenericFile_def HasPrefix_def)

theorem BuildIngestEvents_new_file_witness:
  "gf_PremisEvents exampleFile = [] \<and> ingestReady exampleFile \<and>
   (\<exists>gf' w'. GenericFile_BuildIngestEvents exampleWorld exampleFile = (None, gf', w') \<and> length (gf_PremisEvents gf') = 6)"
proof -
  have "length (ingestEventKeys exampleFile) = 6"
    by (simp add: ingestEventKeys_def exampleFile_def NewGenericFile_def)
  then show ?thesis
    using BuildIngestEvents_new_file [OF exampleFile_identifier, of exampleWorld] exampleFile_ready
      exampleFile_identifier(1) by (auto dest: arg_cong [where f = length])
qed

theorem BuildIngestEvents_idempotent_witness:
  "\<exists>gf' w'. gf_IngestNeedsSave exampleFile \<and> HasPrefix (gf_IngestStorageURL exampleFile) ''https://'' \<and>
     GenericFile_BuildIngestEvents exampleWorld exampleFile = (None, gf', w') \<and>
     GenericFile_BuildIngestEvents exampleWorld gf' = (None, gf', exampleWorld)"
proof -
  obtain gf' w' where b: "GenericFile_BuildIngestEvents exampleWorld exampleFile = (None, gf', w')"
    using BuildIngestEvents_fresh [OF exampleFile_identifier, of exampleWorld] exampleFile_ready by auto
  have h: "gf_IngestNeedsSave exampleFile" "HasPrefix (gf_IngestStorageURL exampleFile) ''https://''"
    by (simp_all add: exampleFile_def NewGenericFile_def HasPrefix_def)
  from BuildIngestEvents_idempotent [OF _ b, of exampleWorld] b h show ?thesis by blast
qed

section \<open>Clone, merge and checksums\<close>

lemma map_outcome_clone:
  "map_outcome (\<lambda>x. and_then (deref x) (\<lambda>y. Returns (Some (f y)))) (map Some xs) = Returns (map (\<lambda>y. Some (f y)) xs)"
  by (induction xs) simp_all

lemma map_outcome_nil:
  "None \<in> set xs \<Longrightarrow> map_outcome (\<lambda>x. and_then (deref x) (\<lambda>y. Returns (Some (f y)))) xs = Panics"
  by (rule map_outcome_Panics [of None]) (simp_all only: deref.simps and_then.simps)

lemma no_nil: "None \<notin> set xs \<Longrightarrow> \<exists>ys. xs = map Some ys"
  by (induction xs) (auto, metis list.simps(9) not_Some_eq)

text \<open>\<open>Clone\<close> copies every field: for a file with no nil event and no nil checksum the clone equals
  the file, and a nil entry makes it panic.\<close>

theorem GenericFile_Clone_exact:
  "GenericFile_Clone gf =
     (if None \<in> set (gf_PremisEvents gf) \<or> None \<in> set (gf_Checksums gf) then Panics else Returns gf)"
proof (cases "None \<in> set (gf_PremisEvents gf) \<or> None \<in> set (gf_Checksums gf)")
  case True
  then consider (ev) "None \<in> set (gf_PremisEvents gf)"
    | (cs) es where "gf_PremisEvents gf = map Some es" "None \<in> set (gf_Checksums gf)"
    using no_nil by blast
  then show ?thesis
  proof cases
    case ev
    then show ?thesis by (simp add: GenericFile_Clone_def map_outcome_nil)
  next
    case cs
    then show ?thesis by (simp add: GenericFile_Clone_def map_outcome_nil map_outcome_clone)
  qed
next
  case False
  then obtain es cs where "gf_PremisEvents gf = map Some es" "gf_Checksums gf = map Some cs"
    using no_nil by meson
  then show ?thesis by (auto simp: GenericFile_Clone_def map_outcome_clone NewGenericFile_def)
qed

text \<open>What Pharos returned for an event or a checksum; the last saved record with the key wins.\<close>

definition mergedEvent :: "PremisEvent list \<Rightarrow> PremisEvent \<Rightarrow> PremisEvent" where
  "mergedEvent saved e = fold (\<lambda>s e. if ev_Identifier e = ev_Identifier s
     then e\<lparr>ev_Id := ev_Id s, ev_CreatedAt := ev_CreatedAt s, ev_UpdatedAt := ev_UpdatedAt s\<rparr> else e) saved e"

definition mergedChecksum :: "Checksum list \<Rightarrow> Checksum \<Rightarrow> Checksum" where
  "mergedChecksum saved c = fold (\<lambda>s c. if cs_Digest c = cs_Digest s
     then c\<lparr>cs_Id := cs_Id s, cs_CreatedAt := cs_CreatedAt s, cs_UpdatedAt := cs_UpdatedAt s\<rparr> else c) saved c"

lemma merged_Nil [simp]: "mergedEvent [] = (\<lambda>e. e)" "mergedChecksum [] = (\<lambda>c. c)"
  by (auto simp: mergedEvent_def mergedChecksum_def)

lemma findIdentifier_absent:
  "ident \<notin> ev_Identifier ` set es \<Longrightarrow> findIdentifier ident k (map Some es) = Returns None"
  by (induction es arbitrary: k) auto

lemma findIdentifier_first:
  "\<lbrakk>ident \<notin> ev_Identifier ` set xs; ev_Identifier e = ident\<rbrakk> \<Longrightarrow>
   findIdentifier ident k (map Some (xs @ e # ys)) = Returns (Some (k + length xs))"
  by (induction xs arbitrary: k) auto

lemma findDigest_absent: "d \<notin> cs_Digest ` set cs \<Longrightarrow> findDigest d k (map Some cs) = None"
  by (induction cs arbitrary: k) auto

lemma findDigest_first:
  "\<lbrakk>d \<notin> cs_Digest ` set xs; cs_Digest c = d\<rbrakk> \<Longrightarrow>
   findDigest d k (map Some (xs @ c # ys)) = Some (k + length xs)"
  by (induction xs arbitrary: k) auto

lemma split_unique:
  assumes "x \<in> f ` set es" "distinct (map f es)"
  obtains xs e ys where "es = xs @ e # ys" "f e = x" "x \<notin> f ` set xs" "x \<notin> f ` set ys"
proof -
  from assms(1) obtain e where e: "e \<in> set es" "f e = x" by auto
  from split_list [OF e(1)] obtain xs ys where "es = xs @ e # ys" by blast
  with that e assms(2) show ?thesis by (auto simp: image_iff)
qed

lemma mergeEvents_spec:
  assumes "gf_PremisEvents gf = map Some es" "distinct (map ev_Identifier es)"
  shows "mergeEvents (map Some ss) gf =
     Returns (map (eventNotFound gf) (filter (\<lambda>s. ev_Identifier s \<notin> ev_Identifier ` set es) ss),
              gf\<lparr>gf_PremisEvents := map (\<lambda>e. Some (mergedEvent ss e)) es\<rparr>)"
  using assms
proof (induction ss arbitrary: gf es)
  case Nil
  then show ?case by simp
next
  case (Cons s ss)
  define f :: "PremisEvent \<Rightarrow> PremisEvent" where "f = (\<lambda>e. if ev_Identifier e = ev_Identifier s
     then e\<lparr>ev_Id := ev_Id s, ev_CreatedAt := ev_CreatedAt s, ev_UpdatedAt := ev_UpdatedAt s\<rparr> else e)"
  have m: "mergedEvent (s # ss) e = mergedEvent ss (f e)" for e by (simp add: mergedEvent_def f_def)
  have id: "ev_Identifier (f e) = ev_Identifier e" for e by (simp add: f_def)
  have neq: "ev_Identifier e \<noteq> ev_Identifier s \<Longrightarrow> f e = e" for e by (simp add: f_def)
  show ?case
  proof (cases "ev_Identifier s \<in> ev_Identifier ` set es")
    case False
    then have "map (\<lambda>e. Some (mergedEvent (s # ss) e)) es = map (\<lambda>e. Some (mergedEvent ss e)) es"
      by (auto simp: m image_iff intro!: arg_cong [OF neq])
    with False Cons show ?thesis
      by (simp add: FindEventByIdentifier_def findIdentifier_absent eventNotFound_def)
  next
    case True
    from split_unique [OF True Cons.prems(2)] obtain xs e ys where es: "es = xs @ e # ys"
      "ev_Identifier e = ev_Identifier s" "ev_Identifier s \<notin> ev_Identifier ` set xs"
      "ev_Identifier s \<notin> ev_Identifier ` set ys" by blast
    let ?gf = "gf\<lparr>gf_PremisEvents := map Some (map f es)\<rparr>"
    have mes: "map f es = xs @ f e # ys"
      using es by (auto simp: image_iff intro!: map_idI neq)
    have step: "mergeEvents (map Some (s # ss)) gf =
        and_then (mergeEvents (map Some ss) ?gf) (\<lambda>(errors, gf). Returns (errors, gf))"
      unfolding mes using es Cons.prems(1) findIdentifier_first [of "ev_Identifier s" xs e 0 ys]
      by (simp add: FindEventByIdentifier_def Event_MergeAttributes_def f_def list_update_append nth_append)
    have "distinct (map ev_Identifier (map f es))" using Cons.prems(2) by (simp add: id o_def)
    moreover have "eventNotFound ?gf = eventNotFound gf" by (auto simp: eventNotFound_def)
    ultimately show ?thesis unfolding step
      using Cons.IH [of ?gf "map f es"] True by (simp add: m id image_image o_def)
  qed
qed

lemma mergeChecksums_spec:
  assumes "gf_Checksums gf = map Some cs" "distinct (map cs_Digest cs)"
  shows "mergeChecksums (map Some ss) gf =
     Returns (map (checksumNotFound gf) (filter (\<lambda>s. cs_Digest s \<notin> cs_Digest ` set cs) ss),
              gf\<lparr>gf_Checksums := map (\<lambda>c. Some (mergedChecksum ss c)) cs\<rparr>)"
  using assms
proof (induction ss arbitrary: gf cs)
  case Nil
  then show ?case by simp
next
  case (Cons s ss)
  define f :: "Checksum \<Rightarrow> Checksum" where "f = (\<lambda>c. if cs_Digest c = cs_Digest s
     then c\<lparr>cs_Id := cs_Id s, cs_CreatedAt := cs_CreatedAt s, cs_UpdatedAt := cs_UpdatedAt s\<rparr> else c)"
  have m: "mergedChecksum (s # ss) c = mergedChecksum ss (f c)" for c by (simp add: mergedChecksum_def f_def)
  have id: "cs_Digest (f c) = cs_Digest c" for c by (simp add: f_def)
  have neq: "cs_Digest c \<noteq> cs_Digest s \<Longrightarrow> f c = c" for c by (simp add: f_def)
  show ?case
  proof (cases "cs_Digest s \<in> cs_Digest ` set cs")
    case False
    then have "map (\<lambda>c. Some (mergedChecksum (s # ss) c)) cs = map (\<lambda>c. Some (mergedChecksum ss c)) cs"
      by (auto simp: m image_iff intro!: arg_cong [OF neq])
    with False Cons show ?thesis
      by (simp add: GetChecksumByDigest_def findDigest_absent checksumNotFound_def)
  next
    case True
    from split_unique [OF True Cons.prems(2)] obtain xs c ys where cs: "cs = xs @ c # ys"
      "cs_Digest c = cs_Digest s" "cs_Digest s \<notin> cs_Digest ` set xs"
      "cs_Digest s \<notin> cs_Digest ` set ys" by blast
    let ?gf = "gf\<lparr>gf_Checksums := map Some (map f cs)\<rparr>"
    have mcs: "map f cs = xs @ f c # ys"
      using cs by (auto simp: image_iff intro!: map_idI neq)
    have step: "mergeChecksums (map Some (s # ss)) gf =
        and_then (mergeChecksums (map Some ss) ?gf) (\<lambda>(errors, gf). Returns (errors, gf))"
      unfolding mcs using cs Cons.prems(1) findDigest_first [of "cs_Digest s" xs c 0 ys]
      by (simp add: GetChecksumByDigest_def Checksum_MergeAttributes_def f_def list_update_append nth_append)
    have "distinct (map cs_Digest (map f cs))" using Cons.prems(2) by (simp add: id o_def)
    moreover have "checksumNotFound ?gf = checksumNotFound gf" by (auto simp: checksumNotFound_def)
    ultimately show ?thesis unfolding step
      using Cons.IH [of ?gf "map f cs"] True by (simp add: m id image_image o_def)
  qed
qed

text \<open>C16: Merging the record Pharos returned gives the file its id and timestamps, links every event and
  checksum to that id, copies the saved id and timestamps into exactly the events with the same
  identifier and the checksums with the same digest, and reports one error for each saved child that
  the file does not have, events first.\<close>

theorem GenericFile_MergeAttributes_spec:
  assumes "gf_PremisEvents gf = map Some es" and "distinct (map ev_Identifier es)"
    and "gf_Checksums gf = map Some cs" and "distinct (map cs_Digest cs)"
    and "gf_PremisEvents saved = map Some ses" and "gf_Checksums saved = map Some scs"
  shows "let gf0 = gf\<lparr>gf_Id := gf_Id saved, gf_CreatedAt := gf_CreatedAt saved, gf_UpdatedAt := gf_UpdatedAt saved\<rparr>
         in GenericFile_MergeAttributes gf saved =
              Returns (map (eventNotFound gf) (filter (\<lambda>s. ev_Identifier s \<notin> ev_Identifier ` set es) ses) @
                       map (checksumNotFound gf) (filter (\<lambda>s. cs_Digest s \<notin> cs_Digest ` set cs) scs),
                gf0\<lparr>gf_PremisEvents := map (\<lambda>e. Some (mergedEvent ses (linkEvent gf0 e))) es,
                    gf_Checksums := map (\<lambda>c. Some (mergedChecksum scs (c\<lparr>cs_GenericFileId := gf_Id saved\<rparr>))) cs\<rparr>)"
proof -
  define gf0 where "gf0 = gf\<lparr>gf_Id := gf_Id saved, gf_CreatedAt := gf_CreatedAt saved,
    gf_UpdatedAt := gf_UpdatedAt saved\<rparr>"
  define les where "les = map (linkEvent gf0) es"
  define lcs where "lcs = map (\<lambda>c. c\<lparr>cs_GenericFileId := gf_Id saved\<rparr>) cs"
  define gf1 where "gf1 = gf0\<lparr>gf_PremisEvents := map Some les, gf_Checksums := map Some lcs\<rparr>"
  have linked: "PropagateIdsToChildren gf0 = Returns gf1"
    using assms by (simp add: PropagateIdsToChildren_def map_outcome_clone gf0_def gf1_def les_def lcs_def o_def)
  have les: "distinct (map ev_Identifier les)" "ev_Identifier ` set les = ev_Identifier ` set es"
    using assms(2) by (simp_all add: les_def o_def image_image)
  have lcs: "distinct (map cs_Digest lcs)" "cs_Digest ` set lcs = cs_Digest ` set cs"
    using assms(4) by (simp_all add: lcs_def o_def image_image)
  define gf2 where "gf2 = gf1\<lparr>gf_PremisEvents := map (\<lambda>e. Some (mergedEvent ses e)) les\<rparr>"
  have ev: "mergeEvents (map Some ses) gf1 =
      Returns (map (eventNotFound gf1) (filter (\<lambda>s. ev_Identifier s \<notin> ev_Identifier ` set es) ses), gf2)"
    using mergeEvents_spec [of gf1 les ses] les by (simp add: gf1_def gf2_def)
  have cs: "mergeChecksums (map Some scs) gf2 =
      Returns (map (checksumNotFound gf2) (filter (\<lambda>s. cs_Digest s \<notin> cs_Digest ` set cs) scs),
        gf2\<lparr>gf_Checksums := map (\<lambda>c. Some (mergedChecksum scs c)) lcs\<rparr>)"
    using mergeChecksums_spec [of gf2 lcs scs] lcs by (simp add: gf2_def gf1_def)
  have ids: "eventNotFound gf1 = eventNotFound gf" "checksumNotFound gf2 = checksumNotFound gf"
    by (auto simp: eventNotFound_def checksumNotFound_def gf2_def gf1_def gf0_def)
  have "GenericFile_MergeAttributes gf saved =
      Returns (map (eventNotFound gf) (filter (\<lambda>s. ev_Identifier s \<notin> ev_Identifier ` set es) ses) @
               map (checksumNotFound gf) (filter (\<lambda>s. cs_Digest s \<notin> cs_Digest ` set cs) scs),
        gf2\<lparr>gf_Checksums := map (\<lambda>c. Some (mergedChecksum scs c)) lcs\<rparr>)"
    unfolding GenericFile_MergeAttributes_def Let_def gf0_def [symmetric]
    by (simp add: linked assms(5,6) ev cs ids)
  then show ?thesis
    unfolding Let_def gf0_def [symmetric] by (simp add: gf2_def gf1_def les_def lcs_def o_def)
qed

theorem GenericFile_MergeAttributes_spec_witness:
  "\<exists>gf'. GenericFile_MergeAttributes
      (NewGenericFile\<lparr>gf_PremisEvents := [Some (zeroEvent\<lparr>ev_Identifier := ''u''\<rparr>)]\<rparr>)
      (NewGenericFile\<lparr>gf_Id := 7, gf_PremisEvents := [Some (zeroEvent\<lparr>ev_Identifier := ''u'', ev_Id := 9\<rparr>)]\<rparr>) =
        Returns ([], gf') \<and> gf_Id gf' = 7 \<and>
      map (map_option (\<lambda>e. (ev_Id e, ev_GenericFileId e))) (gf_PremisEvents gf') = [Some (9, 7)]"
  using GenericFile_MergeAttributes_spec [of
      "NewGenericFile\<lparr>gf_PremisEvents := [Some (zeroEvent\<lparr>ev_Identifier := ''u''\<rparr>)]\<rparr>"
      "[zeroEvent\<lparr>ev_Identifier := ''u''\<rparr>]" "[]"
      "NewGenericFile\<lparr>gf_Id := 7, gf_PremisEvents := [Some (zeroEvent\<lparr>ev_Identifier := ''u'', ev_Id := 9\<rparr>)]\<rparr>"
      "[zeroEvent\<lparr>ev_Identifier := ''u'', ev_Id := 9\<rparr>]" "[]"]
  by (simp add: NewGenericFile_def Let_def mergedEvent_def)

lemma latestChecksum_spec:
  assumes "case c of None \<Rightarrow> l = zeroTime | Some c \<Rightarrow> cs_DateTime c = l \<and> cs_Algorithm c = alg \<and> zeroTime < l"
  shows "case latestChecksum alg c l xs of
       None \<Rightarrow> c = None \<and> (\<forall>d. Some d \<in> set xs \<and> cs_Algorithm d = alg \<longrightarrow> cs_DateTime d \<le> zeroTime)
     | Some r \<Rightarrow> (c = Some r \<or> Some r \<in> set xs) \<and> cs_Algorithm r = alg \<and> zeroTime < cs_DateTime r \<and> l \<le> cs_DateTime r \<and>
         (\<forall>d. Some d \<in> set xs \<and> cs_Algorithm d = alg \<longrightarrow> cs_DateTime d \<le> cs_DateTime r)"
  using assms
proof (induction alg c l xs rule: latestChecksum.induct)
  case (3 alg c l cs xs)
  show ?case
  proof (cases "cs_Algorithm cs = alg \<and> After (cs_DateTime cs) l")
    case True
    then have "case Some cs of None \<Rightarrow> cs_DateTime cs = zeroTime
      | Some c \<Rightarrow> cs_DateTime c = cs_DateTime cs \<and> cs_Algorithm c = alg \<and> zeroTime < cs_DateTime cs"
      using 3(3) by (auto simp: After_def split: option.splits)
    from 3(1) [OF True this] True show ?thesis
      by (auto simp: After_def split: option.splits)
  next
    case False
    from 3(2) [OF False 3(3)] False 3(3) show ?thesis
      by (auto simp: After_def split: option.splits)
  qed
qed (auto split: option.splits)

text \<open>C20: \<open>GetChecksumByAlgorithm\<close> returns a checksum of the algorithm with the latest date among all
  of them; it returns none exactly when no checksum of the algorithm has a date after the zero time.\<close>

theorem GetChecksumByAlgorithm_latest:
  "case GetChecksumByAlgorithm gf alg of
     None \<Rightarrow> \<forall>d. Some d \<in> set (gf_Checksums gf) \<and> cs_Algorithm d = alg \<longrightarrow> cs_DateTime d \<le> zeroTime
   | Some c \<Rightarrow> Some c \<in> set (gf_Checksums gf) \<and> cs_Algorithm c = alg \<and> zeroTime < cs_DateTime c \<and>
       (\<forall>d. Some d \<in> set (gf_Checksums gf) \<and> cs_Algorithm d = alg \<longrightarrow> cs_DateTime d \<le> cs_DateTime c)"
  using latestChecksum_spec [where c = None and l = zeroTime and alg = alg and xs = "gf_Checksums gf"]
  by (auto simp: GetChecksumByAlgorithm_def split: option.splits)

theorem GetChecksumByAlgorithm_latest_witness:
  "let c = (\<lambda>t. \<lparr>cs_Id = 0, cs_GenericFileId = 0, cs_Algorithm = ''md5'', cs_DateTime = t, cs_Digest = [],
                cs_CreatedAt = 0, cs_UpdatedAt = 0\<rparr>);
       gf = NewGenericFile\<lparr>gf_Checksums := [Some (c 1), None, Some (c 5), Some (c 3)]\<rparr>
   in GetChecksumByAlgorithm gf ''md5'' = Some (c 5) \<and> Some (c 3) \<in> set (gf_Checksums gf) \<and>
      cs_DateTime (c 3) \<le> cs_DateTime (c 5)"
  using GetChecksumByAlgorithm_latest [of "NewGenericFile\<lparr>gf_Checksums :=
      [Some \<lparr>cs_Id = 0, cs_GenericFileId = 0, cs_Algorithm = ''md5'', cs_DateTime = 1, cs_Digest = [], cs_CreatedAt = 0, cs_UpdatedAt = 0\<rparr>,
       None,
       Some \<lparr>cs_Id = 0, cs_GenericFileId = 0, cs_Algorithm = ''md5'', cs_DateTime = 5, cs_Digest = [], cs_CreatedAt = 0, cs_UpdatedAt = 0\<rparr>,
       Some \<lparr>cs_Id = 0, cs_GenericFileId = 0, cs_Algorithm = ''md5'', cs_DateTime = 3, cs_Digest = [], cs_CreatedAt = 0, cs_UpdatedAt = 0\<rparr>]\<rparr>" "''md5''"]
  by (simp add: Let_def GetChecksumByAlgorithm_def After_def zeroTime_def)

text \<open>The checksum builders keep the contract of a guarded step.\<close>

definition checksumTimesOk :: "GenericFile \<Rightarrow> bool" where
  "checksumTimesOk gf \<longleftrightarrow> zeroTime \<le> gf_IngestMd5GeneratedAt gf \<and> zeroTime \<le> gf_IngestSha256GeneratedAt gf"

definition hasChecksum :: "string \<Rightarrow> GenericFile \<Rightarrow> bool" where
  "hasChecksum alg gf \<longleftrightarrow> GetChecksumByAlgorithm gf alg \<noteq> None"

lemma hasChecksum_iff:
  "hasChecksum alg gf \<longleftrightarrow> (\<exists>d. Some d \<in> set (gf_Checksums gf) \<and> cs_Algorithm d = alg \<and> zeroTime < cs_DateTime d)"
  using latestChecksum_spec [where c = None and l = zeroTime and alg = alg and xs = "gf_Checksums gf"]
  unfolding hasChecksum_def GetChecksumByAlgorithm_def
  by (cases "latestChecksum alg None zeroTime (gf_Checksums gf)") force+

lemma hasChecksum_append: "hasChecksum alg gf \<Longrightarrow> hasChecksum alg (gf\<lparr>gf_Checksums := gf_Checksums gf @ cs\<rparr>)"
  by (auto simp: hasChecksum_iff)

interpretation checksum_steps: guarded_pair checksumTimesOk "hasChecksum AlgMd5" buildIngestMd5
  "hasChecksum AlgSha256" buildIngestSha256
proof unfold_locales
  show "buildIngestMd5 w s = (None, s, w)" if "hasChecksum AlgMd5 s" for s w
    using that by (auto simp: hasChecksum_def buildIngestMd5_def)
  show "buildIngestSha256 w s = (None, s, w)" if "hasChecksum AlgSha256 s" for s w
    using that by (auto simp: hasChecksum_def buildIngestSha256_def)
  show "hasChecksum AlgMd5 s'" if "checksumTimesOk s" "buildIngestMd5 w s = (None, s', w')" for s w s' w'
    using that by (cases "GetChecksumByAlgorithm s AlgMd5")
      (auto simp: buildIngestMd5_def checksumTimesOk_def IsZero_def hasChecksum_iff split: if_splits,
       auto simp: hasChecksum_def simp flip: hasChecksum_iff)
  show "hasChecksum AlgSha256 s'" if "checksumTimesOk s" "buildIngestSha256 w s = (None, s', w')" for s w s' w'
    using that by (cases "GetChecksumByAlgorithm s AlgSha256")
      (auto simp: buildIngestSha256_def checksumTimesOk_def IsZero_def hasChecksum_iff split: if_splits,
       auto simp: hasChecksum_def simp flip: hasChecksum_iff)
  show "checksumTimesOk s'" if "checksumTimesOk s" "buildIngestMd5 w s = (r, s', w')" for s w r s' w'
    using that by (auto simp: buildIngestMd5_def checksumTimesOk_def split: if_splits option.splits)
  show "checksumTimesOk s'" if "checksumTimesOk s" "buildIngestSha256 w s = (r, s', w')" for s w r s' w'
    using that by (auto simp: buildIngestSha256_def checksumTimesOk_def split: if_splits option.splits)
  show "hasChecksum AlgMd5 s'" if "hasChecksum AlgMd5 s" "buildIngestSha256 w s = (r, s', w')" for s w r s' w'
    using that by (auto simp: buildIngestSha256_def hasChecksum_append split: if_splits option.splits)
qed

text \<open>Building the ingest checksums is idempotent: after a successful call, for digests generated
  after the zero time, another call succeeds and changes nothing; the file then has a checksum of
  both algorithms.\<close>

theorem BuildIngestChecksums_idempotent:
  assumes "zeroTime \<le> gf_IngestMd5GeneratedAt gf" "zeroTime \<le> gf_IngestSha256GeneratedAt gf"
    and "GenericFile_BuildIngestChecksums w gf = (None, gf', w')"
  shows "GenericFile_BuildIngestChecksums w2 gf' = (None, gf', w2) \<and>
         GetChecksumByAlgorithm gf' AlgMd5 \<noteq> None \<and> GetChecksumByAlgorithm gf' AlgSha256 \<noteq> None"
proof -
  from assms have ok: "checksumTimesOk gf" by (simp add: checksumTimesOk_def)
  from checksum_steps.both.idempotent [OF ok] checksum_steps.both.establishes [OF ok] assms(3)
  show ?thesis unfolding GenericFile_BuildIngestChecksums_def hasChecksum_def by blast
qed

theorem BuildIngestChecksums_idempotent_witness:
  "\<exists>gf' w'. GenericFile_BuildIngestChecksums exampleWorld exampleFile = (None, gf', w') \<and>
     GenericFile_BuildIngestChecksums exampleWorld gf' = (None, gf', exampleWorld)"
proof -
  have t: "zeroTime \<le> gf_IngestMd5GeneratedAt exampleFile" "zeroTime \<le> gf_IngestSha256GeneratedAt exampleFile"
    by (simp_all add: exampleFile_def zeroTime_def)
  obtain gf' w' where b: "GenericFile_BuildIngestChecksums exampleWorld exampleFile = (None, gf', w')"
    by (simp add: GenericFile_BuildIngestChecksums_def seq_build_def buildIngestMd5_def buildIngestSha256_def
        GetChecksumByAlgorithm_def exampleFile_def NewGenericFile_def IsZero_def zeroTime_def const_defs)
  from BuildIngestChecksums_idempotent [OF t b, of exampleWorld] b show ?thesis by blast
qed


end
