(* ===== verification/IntellectualObject.thy ===== *)
theory IntellectualObject
  imports GenericFile "HOL-Library.AList"
begin

text \<open>
  \<^verbatim>\<open>src/models/intellectual_object.go\<close>: the bag as an object, with its files, events and the tags found
  during validation. The two private caches are part of the state: \<open>genericFileMap\<close> maps the path of
  a file to its position in the list of files (the pointer of the code), \<open>tagMap\<close> maps a label to its
  tags. A method that fills a cache returns the updated object.
\<close>

section \<open>The record\<close>

record MissingFile =
  mf_Manifest :: string
  mf_LineNumber :: int
  mf_FilePath :: string
  mf_Digest :: string

definition NewMissingFile :: "string \<Rightarrow> int \<Rightarrow> string \<Rightarrow> string \<Rightarrow> MissingFile" where
  "NewMissingFile manifest lineNumber filePath digest =
     \<lparr>mf_Manifest = manifest, mf_LineNumber = lineNumber, mf_FilePath = filePath, mf_Digest = digest\<rparr>"

record Tag =
  tag_SourceFile :: string
  tag_Label :: string
  tag_Value :: string

definition NewTag :: "string \<Rightarrow> string \<Rightarrow> string \<Rightarrow> Tag" where
  "NewTag sourceFile label value = \<lparr>tag_SourceFile = sourceFile, tag_Label = label, tag_Value = value\<rparr>"

record IntellectualObject =
  obj_Id :: int
  obj_Identifier :: string
  obj_BagName :: string
  obj_BagGroupIdentifier :: string
  obj_Institution :: string
  obj_InstitutionId :: int
  obj_Title :: string
  obj_Description :: string
  obj_Access :: string
  obj_AltIdentifier :: string
  obj_DPNUUID :: string
  obj_ETag :: string
  obj_GenericFiles :: "GenericFile list"
  obj_PremisEvents :: "PremisEvent option list"
  obj_State :: string
  obj_StorageOption :: string
  obj_CreatedAt :: time
  obj_UpdatedAt :: time
  obj_FileCount :: int
  obj_FileSize :: int64
  obj_BagItProfileIdentifier :: string
  obj_SourceOrganization :: string
  obj_IngestS3Bucket :: string
  obj_IngestS3Key :: string
  obj_IngestTarFilePath :: string
  obj_IngestUntarredPath :: string
  obj_IngestSize :: int64
  obj_IngestRemoteMd5 :: string
  obj_IngestLocalMd5 :: string
  obj_IngestMd5Verified :: bool
  obj_IngestMd5Verifiable :: bool
  obj_IngestManifests :: "string list"
  obj_IngestTagManifests :: "string list"
  obj_IngestFilesIgnored :: "string list"
  obj_IngestTags :: "Tag list"
  obj_IngestMissingFiles :: "MissingFile list"
  obj_IngestTopLevelDirNames :: "string list"
  obj_IngestErrorMessage :: string
  obj_IngestDeletedFromReceivingAt :: time
  obj_genericFileMap :: "(string \<times> nat) list option"
  obj_tagMap :: "(string \<rightharpoonup> Tag list) option"

definition NewIntellectualObject :: IntellectualObject where
  "NewIntellectualObject =
     \<lparr>obj_Id = 0,
      obj_Identifier = [],
      obj_BagName = [],
      obj_BagGroupIdentifier = [],
      obj_Institution = [],
      obj_InstitutionId = 0,
      obj_Title = [],
      obj_Description = [],
      obj_Access = [],
      obj_AltIdentifier = [],
      obj_DPNUUID = [],
      obj_ETag = [],
      obj_GenericFiles = [],
      obj_PremisEvents = [],
      obj_State = ''A'',
      obj_StorageOption = StorageStandard,
      obj_CreatedAt = zeroTime,
      obj_UpdatedAt = zeroTime,
      obj_FileCount = 0,
      obj_FileSize = 0,
      obj_BagItProfileIdentifier = [],
      obj_SourceOrganization = [],
      obj_IngestS3Bucket = [],
      obj_IngestS3Key = [],
      obj_IngestTarFilePath = [],
      obj_IngestUntarredPath = [],
      obj_IngestSize = 0,
      obj_IngestRemoteMd5 = [],
      obj_IngestLocalMd5 = [],
      obj_IngestMd5Verified = False,
      obj_IngestMd5Verifiable = False,
      obj_IngestManifests = [],
      obj_IngestTagManifests = [],
      obj_IngestFilesIgnored = [],
      obj_IngestTags = [],
      obj_IngestMissingFiles = [],
      obj_IngestTopLevelDirNames = [],
      obj_IngestErrorMessage = [],
      obj_IngestDeletedFromReceivingAt = zeroTime,
      obj_genericFileMap = None,
      obj_tagMap = None\<rparr>"

section \<open>Queries\<close>

fun sumSizes :: "int64 \<Rightarrow> GenericFile list \<Rightarrow> int64" where
  "sumSizes acc [] = acc"
| "sumSizes acc (genericFile # rest) = sumSizes (acc + gf_Size genericFile) rest"

definition TotalFileSize :: "IntellectualObject \<Rightarrow> int64" where
  "TotalFileSize obj = sumSizes 0 (obj_GenericFiles obj)"

fun payloadLoop :: "int64 \<Rightarrow> int \<Rightarrow> GenericFile list \<Rightarrow> int64 \<times> int" where
  "payloadLoop byteCount fileCount [] = (byteCount, fileCount)"
| "payloadLoop byteCount fileCount (genericFile # rest) =
     (if HasPrefix (OriginalPath genericFile) ''data/''
      then payloadLoop (byteCount + gf_Size genericFile) (fileCount + 1) rest
      else payloadLoop byteCount fileCount rest)"

definition PayloadBytesAndFiles :: "IntellectualObject \<Rightarrow> int64 \<times> int" where
  "PayloadBytesAndFiles obj = payloadLoop 0 0 (obj_GenericFiles obj)"

definition AccessValid :: "IntellectualObject \<Rightarrow> bool" where
  "AccessValid obj \<longleftrightarrow> list_ex (\<lambda>value. value = ToLower (obj_Access obj)) AccessRights"

fun fillFileMap :: "nat \<Rightarrow> GenericFile list \<Rightarrow> (string \<times> nat) list \<Rightarrow> (string \<times> nat) list" where
  "fillFileMap i [] m = m"
| "fillFileMap i (gf # rest) m = fillFileMap (Suc i) rest (AList.update (OriginalPath gf) i m)"

definition FindGenericFile :: "IntellectualObject \<Rightarrow> string \<Rightarrow> nat option \<times> IntellectualObject" where
  "FindGenericFile obj filePath =
     (let fresh = fillFileMap 0 (obj_GenericFiles obj) [];
          m = (case obj_genericFileMap obj of
                 None \<Rightarrow> fresh
               | Some m \<Rightarrow> if length m \<noteq> length (obj_GenericFiles obj) then fresh else m)
      in (map_of m filePath, obj\<lparr>obj_genericFileMap := Some m\<rparr>))"

fun fillTagMap :: "Tag list \<Rightarrow> (string \<rightharpoonup> Tag list) \<Rightarrow> (string \<rightharpoonup> Tag list)" where
  "fillTagMap [] m = m"
| "fillTagMap (tag # rest) m =
     fillTagMap rest (m(tag_Label tag \<mapsto> (case m (tag_Label tag) of None \<Rightarrow> [] | Some ts \<Rightarrow> ts) @ [tag]))"

definition FindTag :: "IntellectualObject \<Rightarrow> string \<Rightarrow> Tag list \<times> IntellectualObject" where
  "FindTag obj tagName =
     (let m = (case obj_tagMap obj of None \<Rightarrow> fillTagMap (obj_IngestTags obj) Map.empty | Some m \<Rightarrow> m)
      in (case m tagName of None \<Rightarrow> [] | Some ts \<Rightarrow> ts, obj\<lparr>obj_tagMap := Some m\<rparr>))"

fun allSavedLoop :: "GenericFile list \<Rightarrow> bool" where
  "allSavedLoop [] = True"
| "allSavedLoop (gf # rest) =
     (if gf_IngestNeedsSave gf \<and>
         (gf_IngestStorageURL gf = [] \<or> gf_IngestReplicationURL gf = [] \<or>
          IsZero (gf_IngestStoredAt gf) \<or> IsZero (gf_IngestReplicatedAt gf))
      then False else allSavedLoop rest)"

definition AllFilesSaved :: "IntellectualObject \<Rightarrow> bool" where
  "AllFilesSaved obj = allSavedLoop (obj_GenericFiles obj)"

definition Object_FindEventsByType :: "IntellectualObject \<Rightarrow> string \<Rightarrow> PremisEvent list" where
  "Object_FindEventsByType obj eventType = eventsOfType eventType (obj_PremisEvents obj)"

section \<open>Building events and checksums\<close>

definition appendObjectEvent :: "IntellectualObject \<Rightarrow> PremisEvent \<Rightarrow> IntellectualObject" where
  "appendObjectEvent obj event =
     obj\<lparr>obj_PremisEvents := obj_PremisEvents obj @
           [Some (event\<lparr>ev_IntellectualObjectId := obj_Id obj,
                        ev_IntellectualObjectIdentifier := obj_Identifier obj\<rparr>)]\<rparr>"

definition buildEventCreation :: "IntellectualObject builder" where
  "buildEventCreation w obj =
     (if Object_FindEventsByType obj EventCreation = []
      then (case NewEventObjectCreation w of (event, w) \<Rightarrow> (None, appendObjectEvent obj event, w))
      else (None, obj, w))"

definition buildEventIdentifierAssignment :: "IntellectualObject builder" where
  "buildEventIdentifierAssignment w obj =
     (if Object_FindEventsByType obj EventIdentifierAssignment = []
      then (case NewEventObjectIdentifierAssignment (obj_Identifier obj) w of
              (Inl err, w) \<Rightarrow> (Some err, obj, w)
            | (Inr event, w) \<Rightarrow> (None, appendObjectEvent obj event, w))
      else (None, obj, w))"

definition buildEventAccessAssignment :: "IntellectualObject builder" where
  "buildEventAccessAssignment w obj =
     (if Object_FindEventsByType obj EventAccessAssignment = []
      then (case NewEventObjectRights (obj_Access obj) w of
              (Inl err, w) \<Rightarrow> (Some err, obj, w)
            | (Inr event, w) \<Rightarrow> (None, appendObjectEvent obj event, w))
      else (None, obj, w))"

definition buildEventIngest :: "int \<Rightarrow> IntellectualObject builder" where
  "buildEventIngest numberOfFiles w obj =
     (if Object_FindEventsByType obj EventIngestion = []
      then (case NewEventObjectIngest numberOfFiles w of
              (Inl err, w) \<Rightarrow> (Some err, obj, w)
            | (Inr event, w) \<Rightarrow> (None, appendObjectEvent obj event, w))
      else (None, obj, w))"

definition onFiles :: "GenericFile list builder \<Rightarrow> IntellectualObject builder" where
  "onFiles b w obj =
     (case b w (obj_GenericFiles obj) of (r, gfs, w') \<Rightarrow> (r, obj\<lparr>obj_GenericFiles := gfs\<rparr>, w'))"

definition Object_BuildIngestEvents :: "int \<Rightarrow> IntellectualObject builder" where
  "Object_BuildIngestEvents numberOfFiles =
     seq_build buildEventCreation
    (seq_build buildEventIdentifierAssignment
    (seq_build buildEventAccessAssignment
    (seq_build (buildEventIngest numberOfFiles)
     (onFiles (each_build gf_IngestNeedsSave GenericFile_BuildIngestEvents)))))"

definition Object_BuildIngestChecksums :: "IntellectualObject builder" where
  "Object_BuildIngestChecksums =
     onFiles (each_build (\<lambda>gf. True) GenericFile_BuildIngestChecksums)"

definition Object_PropagateIdsToChildren :: "IntellectualObject \<Rightarrow> IntellectualObject outcome" where
  "Object_PropagateIdsToChildren obj =
     and_then (map_outcome (\<lambda>event. and_then (deref event) (\<lambda>e.
         Returns (Some (e\<lparr>ev_IntellectualObjectId := obj_Id obj,
                          ev_IntellectualObjectIdentifier := obj_Identifier obj\<rparr>)))) (obj_PremisEvents obj))
       (\<lambda>events.
     and_then (map_outcome (\<lambda>gf. PropagateIdsToChildren
         (gf\<lparr>gf_IntellectualObjectId := obj_Id obj, gf_IntellectualObjectIdentifier := obj_Identifier obj\<rparr>))
         (obj_GenericFiles obj))
       (\<lambda>gfs. Returns (obj\<lparr>obj_PremisEvents := events, obj_GenericFiles := gfs\<rparr>)))"

section \<open>Idempotence\<close>

definition filesOk :: "IntellectualObject \<Rightarrow> bool" where
  "filesOk obj \<longleftrightarrow> list_all storageUrlOk (obj_GenericFiles obj)"

definition hasObjectEvent :: "string \<Rightarrow> IntellectualObject \<Rightarrow> bool" where
  "hasObjectEvent ty obj \<longleftrightarrow> Object_FindEventsByType obj ty \<noteq> []"

definition fileEventsBuilt :: "GenericFile \<Rightarrow> bool" where
  "fileEventsBuilt gf \<longleftrightarrow> hasEvent EventFixityCheck gf \<and> hasEvent EventDigestCalculation gf \<and> identifierBuilt gf \<and>
     urlBuilt gf \<and> replicationBuilt gf \<and> hasEvent EventIngestion gf"

definition allFileEventsBuilt :: "IntellectualObject \<Rightarrow> bool" where
  "allFileEventsBuilt obj \<longleftrightarrow> list_all (\<lambda>gf. gf_IngestNeedsSave gf \<longrightarrow> fileEventsBuilt gf) (obj_GenericFiles obj)"

interpretation file_events: guarded_each storageUrlOk fileEventsBuilt GenericFile_BuildIngestEvents gf_IngestNeedsSave
  using ev_all.both.guarded_build_axioms
  unfolding guarded_each_def fileEventsBuilt_def GenericFile_BuildIngestEvents_def .

lemma onFiles_guarded:
  assumes "guarded_build okL builtL b"
  shows "guarded_build (\<lambda>obj. okL (obj_GenericFiles obj)) (\<lambda>obj. builtL (obj_GenericFiles obj)) (onFiles b)"
proof
  show "onFiles b w obj = (None, obj, w)" if "builtL (obj_GenericFiles obj)" for obj w
    by (simp add: onFiles_def guarded_build.noop [OF assms that])
  show "builtL (obj_GenericFiles obj')"
    if "okL (obj_GenericFiles obj)" "onFiles b w obj = (None, obj', w')" for obj w obj' w'
    using that(2) guarded_build.establishes [OF assms that(1), of w]
    by (cases "b w (obj_GenericFiles obj)") (auto simp: onFiles_def)
  show "okL (obj_GenericFiles obj')"
    if "okL (obj_GenericFiles obj)" "onFiles b w obj = (r, obj', w')" for obj w r obj' w'
    using that(2) guarded_build.keeps_ok [OF assms that(1), of w]
    by (cases "b w (obj_GenericFiles obj)") (auto simp: onFiles_def)
qed

lemmas object_builder_defs = buildEventCreation_def buildEventIdentifierAssignment_def
  buildEventAccessAssignment_def buildEventIngest_def

lemma appendObjectEvent_simps [simp]:
  "obj_GenericFiles (appendObjectEvent obj e) = obj_GenericFiles obj"
  "Object_FindEventsByType (appendObjectEvent obj e) ty =
     Object_FindEventsByType obj ty @
     (if ev_EventType e = ty then [e\<lparr>ev_IntellectualObjectId := obj_Id obj,
        ev_IntellectualObjectIdentifier := obj_Identifier obj\<rparr>] else [])"
  by (simp_all add: appendObjectEvent_def Object_FindEventsByType_def)

lemma object_ctor_types:
  "NewEventObjectCreation w = (e, w') \<Longrightarrow> ev_EventType e = EventCreation"
  "NewEventObjectIdentifierAssignment i w = (Inr e, w') \<Longrightarrow> ev_EventType e = EventIdentifierAssignment"
  "NewEventObjectRights a w = (Inr e, w') \<Longrightarrow> ev_EventType e = EventAccessAssignment"
  "NewEventObjectIngest n w = (Inr e, w') \<Longrightarrow> ev_EventType e = EventIngestion"
  by (auto simp: event_ctor_defs split: if_splits prod.splits)

lemma object_steps:
  "guarded_build filesOk (hasObjectEvent EventCreation) buildEventCreation"
  "guarded_build filesOk (hasObjectEvent EventIdentifierAssignment) buildEventIdentifierAssignment"
  "guarded_build filesOk (hasObjectEvent EventAccessAssignment) buildEventAccessAssignment"
  "guarded_build filesOk (hasObjectEvent EventIngestion) (buildEventIngest n)"
  by (unfold_locales; auto simp: object_builder_defs hasObjectEvent_def filesOk_def
      split: if_splits prod.splits sum.splits dest: object_ctor_types)+

lemma file_step:
  "guarded_build filesOk allFileEventsBuilt (onFiles (each_build gf_IngestNeedsSave GenericFile_BuildIngestEvents))"
  using onFiles_guarded [OF file_events.each.guarded_build_axioms]
  unfolding filesOk_def [abs_def] allFileEventsBuilt_def [abs_def] .

text \<open>The later steps keep the object's events.\<close>

lemma keeps_object_event:
  assumes "hasObjectEvent ty obj"
  shows "buildEventIdentifierAssignment w obj = (r, obj', w') \<Longrightarrow> hasObjectEvent ty obj'"
    "buildEventAccessAssignment w obj = (r, obj', w') \<Longrightarrow> hasObjectEvent ty obj'"
    "buildEventIngest n w obj = (r, obj', w') \<Longrightarrow> hasObjectEvent ty obj'"
    "onFiles b w obj = (r, obj', w') \<Longrightarrow> hasObjectEvent ty obj'"
  using assms by (auto simp: object_builder_defs hasObjectEvent_def onFiles_def Object_FindEventsByType_def
      appendObjectEvent_def split: if_splits prod.splits sum.splits)

lemma keeps_seq:
  assumes "\<And>w s r s' w'. P s \<Longrightarrow> f w s = (r, s', w') \<Longrightarrow> P s'"
    and "\<And>w s r s' w'. P s \<Longrightarrow> g w s = (r, s', w') \<Longrightarrow> P s'"
    and "P s" "seq_build f g w s = (r, s', w')"
  shows "P s'"
  using assms(4) by (elim seq_buildE) (use assms(1-3) in blast)

lemmas keeps_files = keeps_object_event(4)
lemmas keeps_ingest = keeps_seq [of "hasObjectEvent ty" for ty, OF keeps_object_event(3) keeps_files]
lemmas keeps_access = keeps_seq [of "hasObjectEvent ty" for ty, OF keeps_object_event(2) keeps_ingest]
lemmas keeps_identifier = keeps_seq [of "hasObjectEvent ty" for ty, OF keeps_object_event(1) keeps_access]

abbreviation buildFiles :: "IntellectualObject builder" where
  "buildFiles \<equiv> onFiles (each_build gf_IngestNeedsSave GenericFile_BuildIngestEvents)"

interpretation obj_ingest: guarded_pair filesOk "hasObjectEvent EventIngestion" "buildEventIngest n"
  allFileEventsBuilt buildFiles for n
  by (intro guarded_pair.intro guarded_pair_axioms.intro object_steps file_step) (rule keeps_files)

interpretation obj_access: guarded_pair filesOk "hasObjectEvent EventAccessAssignment" buildEventAccessAssignment
  "\<lambda>obj. hasObjectEvent EventIngestion obj \<and> allFileEventsBuilt obj" "seq_build (buildEventIngest n) buildFiles" for n
  by (intro guarded_pair.intro guarded_pair_axioms.intro object_steps obj_ingest.both.guarded_build_axioms)
    (rule keeps_ingest)

interpretation obj_identifier: guarded_pair filesOk "hasObjectEvent EventIdentifierAssignment"
  buildEventIdentifierAssignment
  "\<lambda>obj. hasObjectEvent EventAccessAssignment obj \<and> hasObjectEvent EventIngestion obj \<and> allFileEventsBuilt obj"
  "seq_build buildEventAccessAssignment (seq_build (buildEventIngest n) buildFiles)" for n
  by (intro guarded_pair.intro guarded_pair_axioms.intro object_steps obj_access.both.guarded_build_axioms)
    (rule keeps_access)

interpretation obj_all: guarded_pair filesOk "hasObjectEvent EventCreation" buildEventCreation
  "\<lambda>obj. hasObjectEvent EventIdentifierAssignment obj \<and> hasObjectEvent EventAccessAssignment obj \<and>
         hasObjectEvent EventIngestion obj \<and> allFileEventsBuilt obj"
  "seq_build buildEventIdentifierAssignment
     (seq_build buildEventAccessAssignment (seq_build (buildEventIngest n) buildFiles))" for n
  by (intro guarded_pair.intro guarded_pair_axioms.intro object_steps obj_identifier.both.guarded_build_axioms)
    (rule keeps_identifier)

text \<open>C15: Building all ingest events of an object, its own and those of its files, is idempotent: when
  the files to be saved have http(s) storage URLs, a successful call leaves the object with the four
  object events and makes every further call, with any file count, succeed without changing anything.\<close>

theorem Object_BuildIngestEvents_idempotent:
  assumes "\<forall>gf\<in>set (obj_GenericFiles obj). gf_IngestNeedsSave gf \<longrightarrow>
             HasPrefix (gf_IngestStorageURL gf) ''http://'' \<or> HasPrefix (gf_IngestStorageURL gf) ''https://''"
    and "Object_BuildIngestEvents n w obj = (None, obj', w')"
  shows "Object_BuildIngestEvents m w2 obj' = (None, obj', w2) \<and>
         (\<forall>ty\<in>set [EventCreation, EventIdentifierAssignment, EventAccessAssignment, EventIngestion].
            Object_FindEventsByType obj' ty \<noteq> [])"
proof -
  have ok: "filesOk obj" using assms(1) by (auto simp: filesOk_def storageUrlOk_def isHttp_def list_all_iff)
  note built = obj_all.both.establishes [OF ok assms(2) [unfolded Object_BuildIngestEvents_def]]
  from obj_all.both.noop [OF built] built show ?thesis
    by (simp add: Object_BuildIngestEvents_def hasObjectEvent_def)
qed

theorem Object_BuildIngestEvents_idempotent_witness:
  "\<exists>obj' w'. Object_BuildIngestEvents 1 exampleWorld
        (NewIntellectualObject\<lparr>obj_Identifier := ''test.edu/bag'', obj_Access := ''consortia''\<rparr>) = (None, obj', w') \<and>
      Object_BuildIngestEvents 2 exampleWorld obj' = (None, obj', exampleWorld)"
proof -
  let ?obj = "NewIntellectualObject\<lparr>obj_Identifier := ''test.edu/bag'', obj_Access := ''consortia''\<rparr>"
  have "fst (Object_BuildIngestEvents 1 exampleWorld ?obj) = None" by code_simp
  then obtain obj' w' where b: "Object_BuildIngestEvents 1 exampleWorld ?obj = (None, obj', w')"
    by (metis eq_fst_iff)
  have "\<forall>gf\<in>set (obj_GenericFiles ?obj). gf_IngestNeedsSave gf \<longrightarrow>
      HasPrefix (gf_IngestStorageURL gf) ''http://'' \<or> HasPrefix (gf_IngestStorageURL gf) ''https://''"
    by (simp add: NewIntellectualObject_def)
  from Object_BuildIngestEvents_idempotent [OF this b, of 2 exampleWorld] b show ?thesis by blast
qed

interpretation file_checksums: guarded_each checksumTimesOk
  "\<lambda>gf. hasChecksum AlgMd5 gf \<and> hasChecksum AlgSha256 gf" GenericFile_BuildIngestChecksums "\<lambda>gf. True"
  using checksum_steps.both.guarded_build_axioms
  unfolding guarded_each_def GenericFile_BuildIngestChecksums_def .

lemma Object_BuildIngestChecksums_idempotent:
  assumes "\<forall>gf\<in>set (obj_GenericFiles obj). checksumTimesOk gf"
    and "Object_BuildIngestChecksums w obj = (None, obj', w')"
  shows "Object_BuildIngestChecksums w2 obj' = (None, obj', w2)"
proof -
  note g = onFiles_guarded [OF file_checksums.each.guarded_build_axioms]
  have "list_all checksumTimesOk (obj_GenericFiles obj)" using assms(1) by (simp add: list_all_iff)
  from guarded_build.idempotent [OF g this assms(2) [unfolded Object_BuildIngestChecksums_def]]
  show ?thesis by (simp add: Object_BuildIngestChecksums_def)
qed

section \<open>The caches\<close>

lemma map_of_update: "map_of (AList.update k v m) = (map_of m)(k \<mapsto> v)"
  by (rule ext) (simp add: update_conv')

lemma length_update_le: "length (AList.update k v m) \<le> Suc (length m)"
  by (induction m) auto

lemma fillFileMap_append:
  "fillFileMap i (gfs @ [gf]) m = AList.update (OriginalPath gf) (i + length gfs) (fillFileMap i gfs m)"
  by (induction gfs arbitrary: i m) auto

lemma length_fillFileMap: "length (fillFileMap i gfs m) \<le> length gfs + length m"
proof (induction gfs arbitrary: i m)
  case (Cons gf gfs)
  from Cons.IH [of "Suc i" "AList.update (OriginalPath gf) i m"] length_update_le [of "OriginalPath gf" i m]
  show ?case by simp
qed simp

text \<open>The position of the last file with a path.\<close>

definition lastWithPath :: "GenericFile list \<Rightarrow> string \<Rightarrow> nat option" where
  "lastWithPath gfs path = map_of (rev (zip (map OriginalPath gfs) [0..<length gfs])) path"

lemma map_of_fillFileMap: "map_of (fillFileMap 0 gfs []) = lastWithPath gfs"
  by (induction gfs rule: rev_induct)
    (auto simp: lastWithPath_def fillFileMap_append map_of_update fun_eq_iff)

lemma lastWithPath_spec:
  "case lastWithPath gfs path of
     None \<Rightarrow> path \<notin> OriginalPath ` set gfs
   | Some i \<Rightarrow> i < length gfs \<and> OriginalPath (gfs ! i) = path \<and>
       (\<forall>j<length gfs. i < j \<longrightarrow> OriginalPath (gfs ! j) \<noteq> path)"
proof (induction gfs rule: rev_induct)
  case Nil
  then show ?case by (simp add: lastWithPath_def)
next
  case (snoc gf gfs)
  have "lastWithPath (gfs @ [gf]) path = (if OriginalPath gf = path then Some (length gfs) else lastWithPath gfs path)"
    by (simp add: lastWithPath_def)
  with snoc show ?case
    by (auto simp: nth_append less_Suc_eq split: option.splits)
qed

text \<open>The cache was filled from the files that were there at some earlier point.\<close>

definition cacheOk :: "IntellectualObject \<Rightarrow> bool" where
  "cacheOk obj \<longleftrightarrow> (case obj_genericFileMap obj of None \<Rightarrow> True
     | Some m \<Rightarrow> \<exists>k \<le> length (obj_GenericFiles obj). m = fillFileMap 0 (take k (obj_GenericFiles obj)) [])"

lemma cacheOk_append:
  assumes "cacheOk obj"
  shows "cacheOk (obj\<lparr>obj_GenericFiles := obj_GenericFiles obj @ gfs\<rparr>)"
proof (cases "obj_genericFileMap obj")
  case None
  then show ?thesis by (simp add: cacheOk_def)
next
  case (Some m)
  with assms obtain k where "k \<le> length (obj_GenericFiles obj)"
    "m = fillFileMap 0 (take k (obj_GenericFiles obj)) []" by (auto simp: cacheOk_def)
  with Some show ?thesis by (auto simp: cacheOk_def intro!: exI [of _ k])
qed

lemma FindGenericFile_ok:
  assumes "cacheOk obj"
  shows "fst (FindGenericFile obj path) = lastWithPath (obj_GenericFiles obj) path"
    and "cacheOk (snd (FindGenericFile obj path))"
    and "obj_GenericFiles (snd (FindGenericFile obj path)) = obj_GenericFiles obj"
proof -
  have fresh: "m = fillFileMap 0 (obj_GenericFiles obj) []"
    if "obj_genericFileMap obj = Some m" "length m = length (obj_GenericFiles obj)" for m
  proof -
    from assms that obtain k where k: "k \<le> length (obj_GenericFiles obj)"
      "m = fillFileMap 0 (take k (obj_GenericFiles obj)) []" by (auto simp: cacheOk_def)
    from length_fillFileMap [of 0 "take k (obj_GenericFiles obj)" "[]"] k that(2)
    show ?thesis by simp
  qed
  show "fst (FindGenericFile obj path) = lastWithPath (obj_GenericFiles obj) path"
    using fresh by (auto simp: FindGenericFile_def Let_def map_of_fillFileMap split: option.splits)
  show "cacheOk (snd (FindGenericFile obj path))"
    using fresh by (auto simp: FindGenericFile_def Let_def cacheOk_def split: option.splits)
  show "obj_GenericFiles (snd (FindGenericFile obj path)) = obj_GenericFiles obj"
    by (simp add: FindGenericFile_def Let_def)
qed

text \<open>A client looks files up and appends files in any order.\<close>

datatype file_op = Lookup string | Append GenericFile

fun file_exec :: "IntellectualObject \<Rightarrow> file_op \<Rightarrow> IntellectualObject" where
  "file_exec obj (Lookup path) = snd (FindGenericFile obj path)"
| "file_exec obj (Append gf) = obj\<lparr>obj_GenericFiles := obj_GenericFiles obj @ [gf]\<rparr>"

lemma file_exec_cacheOk: "cacheOk obj \<Longrightarrow> cacheOk (foldl file_exec obj ops)"
proof (induction ops arbitrary: obj)
  case (Cons op ops)
  then show ?case by (cases op) (simp_all add: FindGenericFile_ok cacheOk_append)
qed simp

text \<open>C17: The cache of \<open>FindGenericFile\<close> is never stale while files are only appended: after any sequence
  of lookups and appends to a new object, a lookup gives the position of the last file with that
  path within the bag, or nothing when there is none.\<close>

theorem FindGenericFile_cache_correct:
  "let obj = foldl file_exec NewIntellectualObject ops; gfs = obj_GenericFiles obj
   in case fst (FindGenericFile obj path) of
        None \<Rightarrow> path \<notin> OriginalPath ` set gfs
      | Some i \<Rightarrow> i < length gfs \<and> OriginalPath (gfs ! i) = path \<and>
          (\<forall>j<length gfs. i < j \<longrightarrow> OriginalPath (gfs ! j) \<noteq> path)"
proof -
  have "cacheOk NewIntellectualObject" by (simp add: cacheOk_def NewIntellectualObject_def)
  from FindGenericFile_ok(1) [OF file_exec_cacheOk [OF this], of ops path]
  have *: "fst (FindGenericFile (foldl file_exec NewIntellectualObject ops) path) =
      lastWithPath (obj_GenericFiles (foldl file_exec NewIntellectualObject ops)) path" .
  show ?thesis unfolding Let_def * by (rule lastWithPath_spec)
qed

theorem FindGenericFile_cache_correct_witness:
  "let gf = NewGenericFile\<lparr>gf_Identifier := ''i/b/data/f'', gf_IntellectualObjectIdentifier := ''i/b''\<rparr>;
       obj = foldl file_exec NewIntellectualObject [Append gf, Lookup ''data/f'', Append gf]
   in fst (FindGenericFile obj ''data/f'') = Some 1 \<and> (\<forall>j<2. 1 < j \<longrightarrow> OriginalPath (obj_GenericFiles obj ! j) \<noteq> ''data/f'')"
proof -
  let ?gf = "NewGenericFile\<lparr>gf_Identifier := ''i/b/data/f'', gf_IntellectualObjectIdentifier := ''i/b''\<rparr>"
  let ?obj = "foldl file_exec NewIntellectualObject [Append ?gf, Lookup ''data/f'', Append ?gf]"
  have "fst (FindGenericFile ?obj ''data/f'') = Some 1" by code_simp
  with FindGenericFile_cache_correct [of "[Append ?gf, Lookup ''data/f'', Append ?gf]" "''data/f''"]
  show ?thesis by (simp add: Let_def)
qed

lemma fillTagMap_spec:
  "(case fillTagMap tags m l of None \<Rightarrow> [] | Some ts \<Rightarrow> ts) =
   (case m l of None \<Rightarrow> [] | Some ts \<Rightarrow> ts) @ filter (\<lambda>t. tag_Label t = l) tags"
  by (induction tags arbitrary: m) (auto split: option.splits)

text \<open>C22: \<open>FindTag\<close> gives the tags with a label in the order of the tag files, as they were when it was
  first called: tags added after the first call are never found, because the cache is never
  refreshed.\<close>

theorem FindTag_first_snapshot:
  assumes "obj_tagMap obj = None"
  shows "let (ts, obj1) = FindTag obj l0
         in ts = filter (\<lambda>t. tag_Label t = l0) (obj_IngestTags obj) \<and>
            fst (FindTag (obj1\<lparr>obj_IngestTags := laterTags\<rparr>) l) = filter (\<lambda>t. tag_Label t = l) (obj_IngestTags obj)"
  using assms fillTagMap_spec [of "obj_IngestTags obj" Map.empty] by (simp add: FindTag_def Let_def)

theorem FindTag_first_snapshot_witness:
  "let obj = NewIntellectualObject\<lparr>obj_IngestTags := [NewTag ''bag-info.txt'' ''Title'' ''T'']\<rparr>;
       (ts, obj1) = FindTag obj ''Title''
   in obj_tagMap obj = None \<and> ts = [NewTag ''bag-info.txt'' ''Title'' ''T''] \<and>
      fst (FindTag (obj1\<lparr>obj_IngestTags := obj_IngestTags obj @ [NewTag ''aptrust-info.txt'' ''Access'' ''consortia'']\<rparr>) ''Access'') = []"
  using FindTag_first_snapshot [of "NewIntellectualObject\<lparr>obj_IngestTags := [NewTag ''bag-info.txt'' ''Title'' ''T'']\<rparr>"
      "''Title''" "[NewTag ''bag-info.txt'' ''Title'' ''T'', NewTag ''aptrust-info.txt'' ''Access'' ''consortia'']" "''Access''"]
  by (simp add: Let_def NewIntellectualObject_def NewTag_def case_prod_beta)

section \<open>Sizes and links\<close>

lemma sumSizes_sum: "sumSizes acc gfs = acc + sum_list (map gf_Size gfs)"
  by (induction gfs arbitrary: acc) (auto simp: add.assoc)

lemma payloadLoop_sum:
  "payloadLoop b n gfs =
     (b + sum_list (map gf_Size (filter (\<lambda>gf. HasPrefix (OriginalPath gf) ''data/'') gfs)),
      n + int (length (filter (\<lambda>gf. HasPrefix (OriginalPath gf) ''data/'') gfs)))"
  by (induction gfs arbitrary: b n) (auto simp: add.assoc)

lemma sint_sum_list:
  fixes ws :: "int64 list"
  assumes "\<forall>w\<in>set ws. 0 \<le> sint w" "sum_list (map sint ws) < 2 ^ 63"
  shows "sint (sum_list ws) = sum_list (map sint ws)"
proof -
  have "sum_list ws = word_of_int (sum_list (map sint ws))"
    by (induction ws) simp_all
  moreover have "0 \<le> sum_list (map sint ws)" using assms(1) by (intro sum_list_nonneg) auto
  ultimately show ?thesis using assms(2) by (simp add: signed_of_int signed_take_bit_int_eq_self)
qed

text \<open>C21: The octet and stream counts of the payload are the sum of the sizes and the number of the
  files under \<^verbatim>\<open>data/\<close>; the byte count is exact as long as the sizes are not negative and their sum
  fits into 63 bits.\<close>

theorem PayloadBytesAndFiles_exact:
  assumes "payload = filter (\<lambda>gf. HasPrefix (OriginalPath gf) ''data/'') (obj_GenericFiles obj)"
    and "\<forall>gf\<in>set payload. 0 \<le> sint (gf_Size gf)" and "(\<Sum>gf\<leftarrow>payload. sint (gf_Size gf)) < 2 ^ 63"
  shows "sint (fst (PayloadBytesAndFiles obj)) = (\<Sum>gf\<leftarrow>payload. sint (gf_Size gf)) \<and>
         snd (PayloadBytesAndFiles obj) = int (length payload)"
proof -
  have "sint (sum_list (map gf_Size payload)) = sum_list (map sint (map gf_Size payload))"
    by (rule sint_sum_list) (use assms(2,3) in \<open>auto simp: o_def\<close>)
  then show ?thesis
    unfolding PayloadBytesAndFiles_def payloadLoop_sum by (simp add: assms(1) o_def)
qed

theorem PayloadBytesAndFiles_exact_witness:
  "let gf = NewGenericFile\<lparr>gf_Identifier := ''i/b/data/f'', gf_IntellectualObjectIdentifier := ''i/b'', gf_Size := 5\<rparr>;
       obj = NewIntellectualObject\<lparr>obj_GenericFiles := [gf, gf]\<rparr>
   in sint (fst (PayloadBytesAndFiles obj)) = 10 \<and> snd (PayloadBytesAndFiles obj) = 2"
proof -
  let ?gf = "NewGenericFile\<lparr>gf_Identifier := ''i/b/data/f'', gf_IntellectualObjectIdentifier := ''i/b'', gf_Size := 5\<rparr>"
  let ?obj = "NewIntellectualObject\<lparr>obj_GenericFiles := [?gf, ?gf]\<rparr>"
  have "HasPrefix (OriginalPath ?gf) ''data/''" by code_simp
  then have "filter (\<lambda>gf. HasPrefix (OriginalPath gf) ''data/'') (obj_GenericFiles ?obj) = [?gf, ?gf]" by simp
  from PayloadBytesAndFiles_exact [OF this [symmetric]] show ?thesis by simp
qed

end
