(* ===== verification/WorkItem.thy ===== *)
theory WorkItem
  imports Util
begin

text \<open>
  \<^verbatim>\<open>src/models/work_item.go\<close>: the unit of work the services pass around, the predicates that decide
  whether a worker takes it, and its ownership by a node and process. The host name (or the error of
  looking it up) and the process id are arguments. A nil pointer is \<open>None\<close>.
\<close>

section \<open>The model\<close>

record WorkItem =
  wi_Id :: int
  wi_ObjectIdentifier :: string
  wi_GenericFileIdentifier :: string
  wi_Name :: string
  wi_Bucket :: string
  wi_ETag :: string
  wi_Size :: int64
  wi_BagDate :: time
  wi_InstitutionId :: int
  wi_WorkItemStateId :: "int option"
  wi_User :: string
  wi_InstitutionalApprover :: "string option"
  wi_APTrustApprover :: "string option"
  wi_Date :: time
  wi_Note :: string
  wi_Action :: string
  wi_Stage :: string
  wi_StageStartedAt :: "time option"
  wi_Status :: string
  wi_Outcome :: string
  wi_Retry :: bool
  wi_Node :: string
  wi_Pid :: int
  wi_NeedsAdminReview :: bool
  wi_QueuedAt :: "time option"
  wi_CreatedAt :: time
  wi_UpdatedAt :: time

definition zeroWorkItem :: WorkItem where
  "zeroWorkItem = \<lparr>wi_Id = 0, wi_ObjectIdentifier = [], wi_GenericFileIdentifier = [], wi_Name = [],
     wi_Bucket = [], wi_ETag = [], wi_Size = 0, wi_BagDate = zeroTime, wi_InstitutionId = 0,
     wi_WorkItemStateId = None, wi_User = [], wi_InstitutionalApprover = None, wi_APTrustApprover = None,
     wi_Date = zeroTime, wi_Note = [], wi_Action = [], wi_Stage = [], wi_StageStartedAt = None,
     wi_Status = [], wi_Outcome = [], wi_Retry = False, wi_Node = [], wi_Pid = 0,
     wi_NeedsAdminReview = False, wi_QueuedAt = None, wi_CreatedAt = zeroTime, wi_UpdatedAt = zeroTime\<rparr>"

definition HasBeenStored :: "WorkItem \<Rightarrow> bool" where
  "HasBeenStored item \<longleftrightarrow>
     (if wi_Action item = ActionIngest
      then wi_Stage item = StageRecord \<or>
           wi_Stage item = StageCleanup \<or>
           wi_Stage item = StageResolve \<or>
           (wi_Stage item = StageStore \<and> wi_Status item = StatusPending)
      else True)"

definition IsStoring :: "WorkItem \<Rightarrow> bool" where
  "IsStoring item \<longleftrightarrow>
     wi_Action item = ActionIngest \<and> wi_Stage item = StageStore \<and> wi_Status item = StatusStarted"

definition ShouldTryIngest :: "WorkItem \<Rightarrow> bool" where
  "ShouldTryIngest item \<longleftrightarrow> HasBeenStored item = False \<and> IsStoring item = False \<and> wi_Retry item = True"

fun hasPending :: "string \<Rightarrow> WorkItem list \<Rightarrow> bool" where
  "hasPending action [] = False"
| "hasPending action (record # workItems) =
     (if wi_Action record = action \<and> (wi_Status record = StatusStarted \<or> wi_Status record = StatusPending)
      then True else hasPending action workItems)"

definition HasPendingDeleteRequest :: "WorkItem list \<Rightarrow> bool" where
  "HasPendingDeleteRequest workItems = hasPending ActionDelete workItems"

definition HasPendingRestoreRequest :: "WorkItem list \<Rightarrow> bool" where
  "HasPendingRestoreRequest workItems = hasPending ActionRestore workItems"

definition HasPendingIngestRequest :: "WorkItem list \<Rightarrow> bool" where
  "HasPendingIngestRequest workItems = hasPending ActionIngest workItems"

type_synonym host = "go_error + string"

definition SetNodeAndPid :: "host \<Rightarrow> int \<Rightarrow> WorkItem \<Rightarrow> WorkItem" where
  "SetNodeAndPid host pid item =
     item\<lparr>wi_Node := (case host of Inl err \<Rightarrow> ''hostname?'' | Inr hostname \<Rightarrow> hostname), wi_Pid := pid\<rparr>"

text \<open>\<open>hostname, _ := os.Hostname()\<close> gives the empty string when the call fails.\<close>

definition BelongsToAnotherWorker :: "host \<Rightarrow> int \<Rightarrow> WorkItem \<Rightarrow> bool" where
  "BelongsToAnotherWorker host pid item \<longleftrightarrow>
     (if wi_Node item = [] then False
      else (let hostname = (case host of Inl err \<Rightarrow> [] | Inr hostname \<Rightarrow> hostname)
            in wi_Node item \<noteq> hostname \<or> wi_Pid item \<noteq> pid))"

definition IsInProgress :: "WorkItem \<Rightarrow> bool" where
  "IsInProgress item \<longleftrightarrow> wi_Node item \<noteq> [] \<and> wi_Pid item \<noteq> 0"

definition IsPastIngest :: "WorkItem \<Rightarrow> bool" where
  "IsPastIngest item \<longleftrightarrow>
     wi_Stage item \<noteq> StageReceive \<and> wi_Stage item \<noteq> StageFetch \<and>
     wi_Stage item \<noteq> StageUnpack \<and> wi_Stage item \<noteq> StageValidate"

definition MsgPastIngest :: "WorkItem \<Rightarrow> string" where
  "MsgPastIngest item =
     ''Marking NSQ Message for WorkItem '' @ show_int (wi_Id item) @ '' ('' @ wi_Name item @ '') as finished '' @
     ''without doing any work, because this item is already past the ingest phase.''"

definition MsgAlreadyOnDisk :: "WorkItem \<Rightarrow> string" where
  "MsgAlreadyOnDisk item = ''Bag '' @ wi_Name item @ '' is already on disk and appears to be complete.''"

definition MsgAlreadyValidated :: "WorkItem \<Rightarrow> string" where
  "MsgAlreadyValidated item =
     ''Bag '' @ wi_Name item @ '' has already been validated. Now it'' @ [CHR 0x27] @ ''s going to the cleanup channel.''"

definition MsgGoingToValidation :: "WorkItem \<Rightarrow> string" where
  "MsgGoingToValidation item = ''Bag '' @ wi_Name item @ '' is going into the validation channel.''"

definition MsgGoingToFetch :: "WorkItem \<Rightarrow> string" where
  "MsgGoingToFetch item = ''Bag '' @ wi_Name item @ '' is going into the fetch channel.''"

section \<open>Taking and owning items\<close>

lemma hasPending_iff:
  "hasPending action items \<longleftrightarrow>
     (\<exists>item\<in>set items. wi_Action item = action \<and> wi_Status item \<in> {StatusStarted, StatusPending})"
  by (induction items) auto

text \<open>A worker tries to ingest an item exactly when it is a retryable ingest that is either before
  the store stage or has failed, succeeded or been cancelled in it; in particular never when its files have been stored
  or are being stored.\<close>

theorem ShouldTryIngest_iff:
  "ShouldTryIngest item \<longleftrightarrow>
     wi_Action item = ActionIngest \<and> wi_Retry item \<and>
     wi_Stage item \<notin> {StageRecord, StageCleanup, StageResolve} \<and>
     (wi_Stage item = StageStore \<longrightarrow> wi_Status item \<notin> {StatusStarted, StatusPending})"
  by (auto simp: ShouldTryIngest_def HasBeenStored_def IsStoring_def)

theorem ShouldTryIngest_iff_witness:
  "ShouldTryIngest (zeroWorkItem\<lparr>wi_Action := ActionIngest, wi_Retry := True, wi_Stage := StageStore, wi_Status := StatusFailed\<rparr>)"
  using ShouldTryIngest_iff [of "zeroWorkItem\<lparr>wi_Action := ActionIngest, wi_Retry := True, wi_Stage := StageStore, wi_Status := StatusFailed\<rparr>"]
  by (simp add: const_defs)

text \<open>C23: A worker recognises the items it has marked: after \<open>SetNodeAndPid\<close> an item belongs to another
  worker exactly for workers on other hosts or with other process ids, provided the host name can
  be read. When it cannot, the worker takes its own item for another worker's.\<close>

theorem SetNodeAndPid_owner:
  assumes "h \<noteq> []"
  shows "(BelongsToAnotherWorker (Inr h') pid' (SetNodeAndPid (Inr h) pid item) \<longleftrightarrow> (h', pid') \<noteq> (h, pid)) \<and>
         BelongsToAnotherWorker (Inl e') pid (SetNodeAndPid (Inl e) pid item)"
  using assms by (auto simp: BelongsToAnotherWorker_def SetNodeAndPid_def)

theorem SetNodeAndPid_owner_witness:
  "''apt1'' \<noteq> [] \<and> \<not> BelongsToAnotherWorker (Inr ''apt1'') 7 (SetNodeAndPid (Inr ''apt1'') 7 zeroWorkItem) \<and>
   BelongsToAnotherWorker (Inl ''e'') 7 (SetNodeAndPid (Inl ''e'') 7 zeroWorkItem)"
  using SetNodeAndPid_owner [of "''apt1''" "''apt1''" 7 7 zeroWorkItem "''e''" "''e''"] by simp

end
