(* ===== verification/GlacierRestore.thy ===== *)
theory GlacierRestore
  imports IntellectualObject WorkItem WorkSummary
begin

text \<open>
  \<^verbatim>\<open>src/models/glacier_restore_state.go\<close>: the requests made to Glacier for an object or a file, and the
  report that tells the worker what is left to do and how long the restored files stay in S3.
\<close>

section \<open>The model\<close>

text \<open>What a handle to an NSQ message was told; the handle itself is not serialised.\<close>

datatype nsq_command = NsqTouch | NsqFinish | NsqRequeue int | NsqDisableAutoResponse

type_synonym nsq_message = "nsq_command list option"

record GlacierRestoreRequest =
  gr_GenericFileIdentifier :: string
  gr_GlacierBucket :: string
  gr_GlacierKey :: string
  gr_RequestAccepted :: bool
  gr_RequestedAt :: time
  gr_EstimatedDeletionFromS3 :: time
  gr_SomeoneElseRequested :: bool
  gr_IsAvailableInS3 :: bool
  gr_LastChecked :: time

record GlacierRestoreState =
  gs_NSQMessage :: nsq_message
  gs_WorkItem :: "WorkItem option"
  gs_WorkSummary :: "WorkSummary option"
  gs_GenericFile :: "GenericFile option"
  gs_IntellectualObject :: "IntellectualObject option"
  gs_Requests :: "GlacierRestoreRequest list"

definition NewGlacierRestoreState :: "nsq_message \<Rightarrow> WorkItem option \<Rightarrow> GlacierRestoreState" where
  "NewGlacierRestoreState message workItem =
     \<lparr>gs_NSQMessage = message, gs_WorkItem = workItem, gs_WorkSummary = Some NewWorkSummary,
      gs_GenericFile = None, gs_IntellectualObject = None, gs_Requests = []\<rparr>"

definition FindRequest :: "GlacierRestoreState \<Rightarrow> string \<Rightarrow> GlacierRestoreRequest option" where
  "FindRequest state gfIdentifier = find (\<lambda>req. gr_GenericFileIdentifier req = gfIdentifier) (gs_Requests state)"

record GlacierRequestReport =
  rp_FilesRequired :: int
  rp_FilesRequested :: int
  rp_FilesNotRequested :: "string list"
  rp_RequestsNotAccepted :: "string list"
  rp_FilesNotYetInS3 :: "string list"
  rp_EarliestRequest :: time
  rp_LatestRequest :: time
  rp_EarliestExpiry :: time
  rp_LatestExpiry :: time

definition NewGlacierRequestReport :: GlacierRequestReport where
  "NewGlacierRequestReport = \<lparr>rp_FilesRequired = 0, rp_FilesRequested = 0, rp_FilesNotRequested = [],
     rp_RequestsNotAccepted = [], rp_FilesNotYetInS3 = [], rp_EarliestRequest = zeroTime,
     rp_LatestRequest = zeroTime, rp_EarliestExpiry = zeroTime, rp_LatestExpiry = zeroTime\<rparr>"

text \<open>The body of the loop over the requests. Each statement reads and writes its own field.\<close>

definition reportRequest :: "GlacierRequestReport \<Rightarrow> GlacierRestoreRequest \<Rightarrow> GlacierRequestReport" where
  "reportRequest report req =
     report\<lparr>rp_FilesRequested := rp_FilesRequested report + 1,
       rp_RequestsNotAccepted :=
         (if \<not> gr_RequestAccepted req
          then rp_RequestsNotAccepted report @ [gr_GenericFileIdentifier req] else rp_RequestsNotAccepted report),
       rp_FilesNotYetInS3 :=
         (if \<not> gr_IsAvailableInS3 req
          then rp_FilesNotYetInS3 report @ [gr_GenericFileIdentifier req] else rp_FilesNotYetInS3 report),
       rp_EarliestRequest :=
         (if IsZero (rp_EarliestRequest report) \<or> Before (gr_RequestedAt req) (rp_EarliestRequest report)
          then gr_RequestedAt req else rp_EarliestRequest report),
       rp_LatestRequest :=
         (if IsZero (rp_LatestRequest report) \<or> After (gr_RequestedAt req) (rp_LatestRequest report)
          then gr_RequestedAt req else rp_LatestRequest report),
       rp_EarliestExpiry :=
         (if IsZero (rp_EarliestExpiry report) \<or> Before (gr_EstimatedDeletionFromS3 req) (rp_EarliestExpiry report)
          then (if gr_RequestAccepted req then gr_EstimatedDeletionFromS3 req else rp_EarliestExpiry report)
          else rp_EarliestExpiry report),
       rp_LatestExpiry :=
         (if IsZero (rp_LatestExpiry report) \<or> After (gr_EstimatedDeletionFromS3 req) (rp_LatestExpiry report)
          then (if gr_RequestAccepted req then gr_EstimatedDeletionFromS3 req else rp_LatestExpiry report)
          else rp_LatestExpiry report)\<rparr>"

definition GetReport :: "GlacierRestoreState \<Rightarrow> string list \<Rightarrow> GlacierRequestReport" where
  "GetReport state gfIdentifiers =
     (let report = NewGlacierRequestReport\<lparr>rp_FilesRequired := int (length gfIdentifiers)\<rparr>;
          report = foldl reportRequest report (gs_Requests state);
          requests = map gr_GenericFileIdentifier (gs_Requests state)
      in report\<lparr>rp_FilesNotRequested := rp_FilesNotRequested report @
                  filter (\<lambda>identifier. identifier \<notin> set requests) gfIdentifiers\<rparr>)"

definition GetFileIdentifiers :: "GlacierRestoreState \<Rightarrow> string list" where
  "GetFileIdentifiers state =
     (case gs_GenericFile state of
        Some gf \<Rightarrow> [gf_Identifier gf]
      | None \<Rightarrow> (case gs_IntellectualObject state of
          Some obj \<Rightarrow> map gf_Identifier (obj_GenericFiles obj)
        | None \<Rightarrow> []))"

definition GetStorageOption :: "GlacierRestoreState \<Rightarrow> string \<times> go_error option" where
  "GetStorageOption state =
     (case gs_IntellectualObject state of
        Some obj \<Rightarrow> (obj_StorageOption obj, None)
      | None \<Rightarrow> (case gs_GenericFile state of
          Some gf \<Rightarrow> (gf_StorageOption gf, None)
        | None \<Rightarrow> ([], Some ''State has neither IntellectualObject nor GenericFile'')))"

definition AllRetrievalsInitiated :: "GlacierRequestReport \<Rightarrow> bool" where
  "AllRetrievalsInitiated report \<longleftrightarrow>
     length (rp_FilesNotRequested report) = 0 \<and> length (rp_RequestsNotAccepted report) = 0"

definition AllItemsInS3 :: "GlacierRequestReport \<Rightarrow> bool" where
  "AllItemsInS3 report \<longleftrightarrow>
     length (rp_FilesNotRequested report) = 0 \<and> length (rp_FilesNotYetInS3 report) = 0"

section \<open>What the report says\<close>

lemma reportRequest_lists [simp]:
  "rp_FilesNotRequested (reportRequest rp req) = rp_FilesNotRequested rp"
  "rp_FilesRequired (reportRequest rp req) = rp_FilesRequired rp"
  "rp_FilesRequested (reportRequest rp req) = rp_FilesRequested rp + 1"
  "rp_RequestsNotAccepted (reportRequest rp req) =
     rp_RequestsNotAccepted rp @ (if gr_RequestAccepted req then [] else [gr_GenericFileIdentifier req])"
  "rp_FilesNotYetInS3 (reportRequest rp req) =
     rp_FilesNotYetInS3 rp @ (if gr_IsAvailableInS3 req then [] else [gr_GenericFileIdentifier req])"
  by (simp_all add: reportRequest_def)

lemma foldl_report_lists:
  "rp_FilesNotRequested (foldl reportRequest rp reqs) = rp_FilesNotRequested rp"
  "rp_FilesRequired (foldl reportRequest rp reqs) = rp_FilesRequired rp"
  "rp_FilesRequested (foldl reportRequest rp reqs) = rp_FilesRequested rp + int (length reqs)"
  "rp_RequestsNotAccepted (foldl reportRequest rp reqs) = rp_RequestsNotAccepted rp @
     map gr_GenericFileIdentifier (filter (\<lambda>r. \<not> gr_RequestAccepted r) reqs)"
  "rp_FilesNotYetInS3 (foldl reportRequest rp reqs) = rp_FilesNotYetInS3 rp @
     map gr_GenericFileIdentifier (filter (\<lambda>r. \<not> gr_IsAvailableInS3 r) reqs)"
  by (induction reqs arbitrary: rp) auto

text \<open>C18: The report answers the worker's two questions exactly: all retrievals are initiated when every
  file has a request and every request was accepted; all items are in S3 when every file has a
  request and every requested file is available.\<close>

theorem GetReport_answers:
  "(AllRetrievalsInitiated (GetReport state ids) \<longleftrightarrow>
      set ids \<subseteq> gr_GenericFileIdentifier ` set (gs_Requests state) \<and> list_all gr_RequestAccepted (gs_Requests state)) \<and>
   (AllItemsInS3 (GetReport state ids) \<longleftrightarrow>
      set ids \<subseteq> gr_GenericFileIdentifier ` set (gs_Requests state) \<and> list_all gr_IsAvailableInS3 (gs_Requests state)) \<and>
   rp_FilesRequired (GetReport state ids) = int (length ids) \<and>
   rp_FilesRequested (GetReport state ids) = int (length (gs_Requests state))"
  by (auto simp: GetReport_def Let_def AllRetrievalsInitiated_def AllItemsInS3_def foldl_report_lists
      NewGlacierRequestReport_def filter_empty_conv list_all_iff)

text \<open>The running minimum and maximum of dates, with the zero time for none.\<close>

definition earlier :: "time \<Rightarrow> time \<Rightarrow> time" where
  "earlier e t = (if IsZero e \<or> Before t e then t else e)"

definition later :: "time \<Rightarrow> time \<Rightarrow> time" where
  "later l t = (if IsZero l \<or> After t l then t else l)"

lemma foldl_earlier:
  "\<forall>t\<in>set ts. zeroTime < t \<Longrightarrow>
   (zeroTime < e \<longrightarrow> foldl earlier e ts = Min (set (e # ts))) \<and>
   foldl earlier zeroTime ts = (if ts = [] then zeroTime else Min (set ts))"
proof (induction ts arbitrary: e)
  case (Cons t ts)
  then have "foldl earlier t ts = Min (set (t # ts))" by simp
  moreover have "foldl earlier (min e t) ts = Min (set (min e t # ts))" if "zeroTime < e"
    using Cons that by simp
  moreover have "earlier e t = (if e = zeroTime then t else min e t)" for e
    by (auto simp: earlier_def time_defs)
  moreover have "Min (insert (min e t) (set ts)) = Min (insert e (insert t (set ts)))"
    by (cases "ts = []") (simp_all add: min.assoc)
  ultimately show ?case by auto
qed simp

lemma foldl_later:
  "\<forall>t\<in>set ts. zeroTime < t \<Longrightarrow>
   (zeroTime < l \<longrightarrow> foldl later l ts = Max (set (l # ts))) \<and>
   foldl later zeroTime ts = (if ts = [] then zeroTime else Max (set ts))"
proof (induction ts arbitrary: l)
  case (Cons t ts)
  then have "foldl later t ts = Max (set (t # ts))" by simp
  moreover have "foldl later (max l t) ts = Max (set (max l t # ts))" if "zeroTime < l"
    using Cons that by simp
  moreover have "later l t = (if l = zeroTime then t else max l t)" for l
    by (auto simp: later_def time_defs)
  moreover have "Max (insert (max l t) (set ts)) = Max (insert l (insert t (set ts)))"
    by (cases "ts = []") (simp_all add: max.assoc)
  ultimately show ?case by auto
qed simp

lemma foldl_dates:
  assumes "\<forall>t\<in>set ts. zeroTime < t"
  shows "foldl earlier zeroTime ts = (if set ts = {} then zeroTime else Min (set ts))"
    and "foldl later zeroTime ts = (if set ts = {} then zeroTime else Max (set ts))"
  using foldl_earlier [OF assms] foldl_later [OF assms] by simp_all

lemma reportRequest_dates:
  "rp_EarliestRequest (reportRequest rp req) = earlier (rp_EarliestRequest rp) (gr_RequestedAt req)"
  "rp_LatestRequest (reportRequest rp req) = later (rp_LatestRequest rp) (gr_RequestedAt req)"
  "rp_EarliestExpiry (reportRequest rp req) =
     (if gr_RequestAccepted req then earlier (rp_EarliestExpiry rp) (gr_EstimatedDeletionFromS3 req) else rp_EarliestExpiry rp)"
  "rp_LatestExpiry (reportRequest rp req) =
     (if gr_RequestAccepted req then later (rp_LatestExpiry rp) (gr_EstimatedDeletionFromS3 req) else rp_LatestExpiry rp)"
  by (auto simp: reportRequest_def earlier_def later_def)

lemma foldl_report_dates:
  "rp_EarliestRequest (foldl reportRequest rp reqs) = foldl earlier (rp_EarliestRequest rp) (map gr_RequestedAt reqs)"
  "rp_LatestRequest (foldl reportRequest rp reqs) = foldl later (rp_LatestRequest rp) (map gr_RequestedAt reqs)"
  "rp_EarliestExpiry (foldl reportRequest rp reqs) =
     foldl earlier (rp_EarliestExpiry rp) (map gr_EstimatedDeletionFromS3 (filter gr_RequestAccepted reqs))"
  "rp_LatestExpiry (foldl reportRequest rp reqs) =
     foldl later (rp_LatestExpiry rp) (map gr_EstimatedDeletionFromS3 (filter gr_RequestAccepted reqs))"
  by (induction reqs arbitrary: rp) (simp_all add: reportRequest_dates)

text \<open>C19: The dates of the report are the earliest and latest request, and the earliest and latest
  expiry among the accepted requests, when the requests carry real dates; without such a request
  the date is the zero time.\<close>

theorem GetReport_dates:
  assumes "\<forall>r\<in>set (gs_Requests state). zeroTime < gr_RequestedAt r"
    and "\<forall>r\<in>set (gs_Requests state). gr_RequestAccepted r \<longrightarrow> zeroTime < gr_EstimatedDeletionFromS3 r"
    and "requested = gr_RequestedAt ` set (gs_Requests state)"
    and "expiry = gr_EstimatedDeletionFromS3 ` {r \<in> set (gs_Requests state). gr_RequestAccepted r}"
  shows "rp_EarliestRequest (GetReport state ids) = (if requested = {} then zeroTime else Min requested) \<and>
         rp_LatestRequest (GetReport state ids) = (if requested = {} then zeroTime else Max requested) \<and>
         rp_EarliestExpiry (GetReport state ids) = (if expiry = {} then zeroTime else Min expiry) \<and>
         rp_LatestExpiry (GetReport state ids) = (if expiry = {} then zeroTime else Max expiry)"
proof -
  let ?rs = "map gr_RequestedAt (gs_Requests state)"
  let ?es = "map gr_EstimatedDeletionFromS3 (filter gr_RequestAccepted (gs_Requests state))"
  have pos: "\<forall>t\<in>set ?rs. zeroTime < t" "\<forall>t\<in>set ?es. zeroTime < t" using assms by auto
  have sets: "requested = set ?rs" "expiry = set ?es" using assms by auto
  have dates: "rp_EarliestRequest (GetReport state ids) = foldl earlier zeroTime ?rs"
    "rp_LatestRequest (GetReport state ids) = foldl later zeroTime ?rs"
    "rp_EarliestExpiry (GetReport state ids) = foldl earlier zeroTime ?es"
    "rp_LatestExpiry (GetReport state ids) = foldl later zeroTime ?es"
    by (simp_all add: GetReport_def Let_def foldl_report_dates NewGlacierRequestReport_def)
  show ?thesis
    unfolding dates sets foldl_dates [OF pos(1)] foldl_dates [OF pos(2)] by blast
qed

definition exampleRequest :: GlacierRestoreRequest where
  "exampleRequest = \<lparr>gr_GenericFileIdentifier = ''f'', gr_GlacierBucket = [], gr_GlacierKey = [], gr_RequestAccepted = True,
     gr_RequestedAt = 5, gr_EstimatedDeletionFromS3 = 9, gr_SomeoneElseRequested = False,
     gr_IsAvailableInS3 = False, gr_LastChecked = 0\<rparr>"

theorem GetReport_dates_witness:
  "let state = (NewGlacierRestoreState None None)\<lparr>gs_Requests := [exampleRequest, exampleRequest\<lparr>gr_RequestedAt := 7\<rparr>]\<rparr>
   in rp_EarliestRequest (GetReport state []) = 5 \<and> rp_LatestRequest (GetReport state []) = 7 \<and>
      rp_EarliestExpiry (GetReport state []) = 9"
proof -
  define state where "state = (NewGlacierRestoreState None None)\<lparr>gs_Requests := [exampleRequest, exampleRequest\<lparr>gr_RequestedAt := 7\<rparr>]\<rparr>"
  have reqs: "gs_Requests state = [exampleRequest, exampleRequest\<lparr>gr_RequestedAt := 7\<rparr>]" by (simp add: state_def)
  have "\<forall>r\<in>set (gs_Requests state). zeroTime < gr_RequestedAt r"
    "\<forall>r\<in>set (gs_Requests state). gr_RequestAccepted r \<longrightarrow> zeroTime < gr_EstimatedDeletionFromS3 r"
    "{5, 7} = gr_RequestedAt ` set (gs_Requests state)"
    "{9} = gr_EstimatedDeletionFromS3 ` {r \<in> set (gs_Requests state). gr_RequestAccepted r}"
    unfolding reqs
    by (auto simp: exampleRequest_def zeroTime_def intro: image_eqI [of _ _ exampleRequest])
  from GetReport_dates [OF this, of "[]"] show ?thesis unfolding Let_def state_def by simp
qed

end
