(* ===== verification/FileUtil.thy ===== *)
theory FileUtil
  imports GoLib Util
begin

text \<open>
  \<^verbatim>\<open>src/util/fileutil\<close> without the table of MIME types: the file helpers of \<^verbatim>\<open>fileutil.go\<close> and the two
  iterators behind the interface \<open>ReadIterator\<close>. The disk is an argument, read only. A tar file is
  what \<open>archive/tar\<close> makes of it: the entries it returns one after another, and then either the end
  of the archive or an error, which the tar reader repeats on every further call.
\<close>

section \<open>The disk\<close>

datatype stat_error = NotExist go_error | StatError go_error

datatype file_kind = RegularFile | Directory | OtherKind

record FileInfo =
  fi_Mode :: nat
  fi_Size :: int64
  fi_ModTime :: time
  fi_Kind :: file_kind
  fi_Uid :: int
  fi_Gid :: int

record tar_header =
  th_Name :: string
  th_Mode :: nat
  th_Size :: int64
  th_ModTime :: time
  th_Typeflag :: char
  th_Uid :: int
  th_Gid :: int

record tarball =
  tb_entries :: "(tar_header \<times> reader) list"
  tb_end :: "go_error option"

text \<open>\<open>fs_walk\<close> gives the paths \<open>filepath.Walk\<close> visits below a directory, with what it knows of
  each; \<open>fs_tar\<close> opens a file and reads it as an archive.\<close>

record disk =
  fs_stat :: "string \<Rightarrow> stat_error + FileInfo"
  fs_open :: "string \<Rightarrow> go_error + reader"
  fs_walk :: "string \<Rightarrow> (string \<times> FileInfo option) list"
  fs_tar :: "string \<Rightarrow> go_error + tarball"

section \<open>File helpers\<close>

definition FileExists :: "disk \<Rightarrow> string \<Rightarrow> bool" where
  "FileExists fs path = (case fs_stat fs path of Inl (NotExist _) \<Rightarrow> False | _ \<Rightarrow> True)"

text \<open>\<open>home\<close> is the home directory of the user, or the error of \<open>user.Current()\<close>.\<close>

definition ExpandTilde :: "go_error + string \<Rightarrow> string \<Rightarrow> string \<times> go_error option" where
  "ExpandTilde home filePath =
     (if \<not> Contains filePath ''~'' then (filePath, None)
      else (case home of
              Inl err \<Rightarrow> ([], Some err)
            | Inr dir \<Rightarrow> (Replace1 filePath ''~/'' (dir @ ''/''), None)))"

definition RecursiveFileList :: "disk \<Rightarrow> string \<Rightarrow> string list" where
  "RecursiveFileList fs dir =
     map fst (filter (\<lambda>(filePath, f). case f of None \<Rightarrow> False | Some fi \<Rightarrow> fi_Kind fi \<noteq> Directory) (fs_walk fs dir))"

text \<open>The two digests, in hexadecimal, are functions of the bytes.\<close>

record digests =
  dg_md5 :: "string \<Rightarrow> string"
  dg_sha256 :: "string \<Rightarrow> string"

definition CalculateChecksum :: "disk \<Rightarrow> digests \<Rightarrow> string \<Rightarrow> string \<Rightarrow> string \<times> go_error option" where
  "CalculateChecksum fs dg pathToFile algorithm =
     (if \<not> StringListContains ChecksumAlgorithms algorithm
      then ([], Some (''Unsupported algorithm: '' @ algorithm))
      else if algorithm \<noteq> AlgMd5 \<and> algorithm \<noteq> AlgSha256
      then ([], Some (''Need to write in support for new digest algorithm '' @ algorithm))
      else (case fs_open fs pathToFile of
              Inl err \<Rightarrow> ([], Some err)
            | Inr rd \<Rightarrow>
                ((if algorithm = AlgMd5 then dg_md5 dg else dg_sha256 dg) (rd_data rd), None)))"

section \<open>Iterators\<close>

record FileSummary =
  sum_RelPath :: string
  sum_AbsPath :: string
  sum_Mode :: nat
  sum_Size :: int64
  sum_ModTime :: time
  sum_IsDir :: bool
  sum_IsRegularFile :: bool
  sum_Uid :: int
  sum_Gid :: int

text \<open>What a call of \<open>Next\<close> reports: \<open>io.EOF\<close>, another error, or an open reader and its summary.\<close>

datatype next_file = AtEOF | NextError go_error | NextFile reader FileSummary

record TarFileIterator =
  ti_rest :: "(tar_header \<times> reader) list"
  ti_end :: "go_error option"
  ti_topLevelDirNames :: "string list"

definition NewTarFileIterator :: "disk \<Rightarrow> string \<Rightarrow> go_error + TarFileIterator" where
  "NewTarFileIterator fs pathToTarFile =
     (case fs_tar fs pathToTarFile of
        Inl err \<Rightarrow> Inl err
      | Inr tb \<Rightarrow> Inr \<lparr>ti_rest = tb_entries tb, ti_end = tb_end tb, ti_topLevelDirNames = []\<rparr>)"

definition setTopLevelDirName :: "string \<Rightarrow> TarFileIterator \<Rightarrow> TarFileIterator" where
  "setTopLevelDirName headerName iter =
     (let topLevelDir = hd (Split (CHR ''/'') headerName)
      in if topLevelDir \<in> set (ti_topLevelDirNames iter) then iter
         else iter\<lparr>ti_topLevelDirNames := ti_topLevelDirNames iter @ [topLevelDir]\<rparr>)"

definition tarSummary :: "tar_header \<Rightarrow> FileSummary" where
  "tarSummary header =
     \<lparr>sum_RelPath = Join (tl (Split (CHR ''/'') (th_Name header))) ''/'', sum_AbsPath = [],
      sum_Mode = th_Mode header, sum_Size = th_Size header, sum_ModTime = th_ModTime header,
      sum_IsDir = (th_Typeflag header = CHR ''5''),
      sum_IsRegularFile = (th_Typeflag header = CHR ''0'' \<or> th_Typeflag header = CHR 0x00),
      sum_Uid = th_Uid header, sum_Gid = th_Gid header\<rparr>"

definition tarNext :: "TarFileIterator \<Rightarrow> next_file \<times> TarFileIterator" where
  "tarNext iter =
     (case ti_rest iter of
        [] \<Rightarrow> (case ti_end iter of None \<Rightarrow> AtEOF | Some err \<Rightarrow> NextError err, iter)
      | (header, rd) # rest \<Rightarrow>
          (NextFile rd (tarSummary header), setTopLevelDirName (th_Name header) (iter\<lparr>ti_rest := rest\<rparr>)))"

text \<open>\<open>Find\<close> reads on until the name matches; the iterator is forward-only.\<close>

fun tarFind :: "string \<Rightarrow> (tar_header \<times> reader) list \<Rightarrow> go_error + (reader \<times> (tar_header \<times> reader) list)" where
  "tarFind name [] = Inl (''File '' @ quoted name @ '' not found in archive'')"
| "tarFind name ((header, rd) # rest) = (if th_Name header = name then Inr (rd, rest) else tarFind name rest)"

definition Find :: "TarFileIterator \<Rightarrow> string \<Rightarrow> (go_error + reader) \<times> TarFileIterator" where
  "Find iter originalPathWithBagName =
     (case tarFind originalPathWithBagName (ti_rest iter) of
        Inl err \<Rightarrow> (Inl err, iter\<lparr>ti_rest := []\<rparr>)
      | Inr (rd, rest) \<Rightarrow> (Inr rd, iter\<lparr>ti_rest := rest\<rparr>))"

record FileSystemIterator =
  fsi_rootPath :: string
  fsi_files :: "string list"
  fsi_index :: int

definition IsAbs :: "string \<Rightarrow> bool" where
  "IsAbs p \<longleftrightarrow> HasPrefix p ''/''"

text \<open>An error of \<open>os.Stat\<close> other than a missing file leaves \<open>stat\<close> nil, and its use panics.\<close>

definition NewFileSystemIterator :: "disk \<Rightarrow> string \<Rightarrow> (go_error + FileSystemIterator) outcome" where
  "NewFileSystemIterator fs pathToDir =
     (if \<not> IsAbs pathToDir then Returns (Inl (''Path '' @ quoted pathToDir @ '' must be absolute.''))
      else case fs_stat fs pathToDir of
        Inl (NotExist _) \<Rightarrow> Returns (Inl (''Directory '' @ quoted pathToDir @ '' does not exist.''))
      | Inl (StatError _) \<Rightarrow> Panics
      | Inr stat \<Rightarrow>
          if fi_Kind stat \<noteq> Directory then Returns (Inl (''Path '' @ quoted pathToDir @ '' is not a directory.''))
          else Returns (Inr \<lparr>fsi_rootPath = pathToDir, fsi_files = RecursiveFileList fs pathToDir, fsi_index = - 1\<rparr>))"

definition fsNext :: "disk \<Rightarrow> FileSystemIterator \<Rightarrow> (next_file \<times> FileSystemIterator) outcome" where
  "fsNext fs iter0 =
     (let iter = iter0\<lparr>fsi_index := fsi_index iter0 + 1\<rparr>
      in if int (length (fsi_files iter)) \<le> fsi_index iter then Returns (AtEOF, iter)
         else let filePath = fsi_files iter ! nat (fsi_index iter)
              in case fs_stat fs filePath of
                   Inl (NotExist _) \<Rightarrow> Returns (NextError (''File '' @ quoted filePath @ '' does not exist.''), iter)
                 | Inl (StatError _) \<Rightarrow> Panics
                 | Inr stat \<Rightarrow>
                     (let s = \<lparr>sum_RelPath = Replace1 filePath (fsi_rootPath iter @ ''/'') [], sum_AbsPath = filePath,
                               sum_Mode = fi_Mode stat, sum_Size = fi_Size stat, sum_ModTime = fi_ModTime stat,
                               sum_IsDir = (fi_Kind stat = Directory), sum_IsRegularFile = (fi_Kind stat = RegularFile),
                               sum_Uid = fi_Uid stat, sum_Gid = fi_Gid stat\<rparr>
                      in case fs_open fs filePath of
                           Inl err \<Rightarrow> Returns (NextError (''Cannot read file '' @ quoted filePath @ '': '' @ err), iter)
                         | Inr rd \<Rightarrow> Returns (NextFile rd s, iter)))"

definition fsTopLevelDirNames :: "FileSystemIterator \<Rightarrow> string list" where
  "fsTopLevelDirNames iter = [last (Split (CHR ''/'') (fsi_rootPath iter))]"

text \<open>The interface type: a value of either kind, with the methods dispatched.\<close>

datatype ReadIterator = TarIter TarFileIterator | FsIter FileSystemIterator

fun Next :: "disk \<Rightarrow> ReadIterator \<Rightarrow> (next_file \<times> ReadIterator) outcome" where
  "Next fs (TarIter i) = Returns (map_prod id TarIter (tarNext i))"
| "Next fs (FsIter i) = and_then (fsNext fs i) (\<lambda>p. Returns (map_prod id FsIter p))"

fun GetTopLevelDirNames :: "ReadIterator \<Rightarrow> string list" where
  "GetTopLevelDirNames (TarIter i) = ti_topLevelDirNames i"
| "GetTopLevelDirNames (FsIter i) = fsTopLevelDirNames i"

section \<open>The contract of an iterator\<close>

text \<open>
  What a loop over an iterator relies on: every file that is returned brings the end nearer, and
  the end is final.
\<close>

locale read_iterator =
  fixes nxt :: "'i \<Rightarrow> (next_file \<times> 'i) outcome"
    and left :: "'i \<Rightarrow> nat"
  assumes file_progress: "nxt i = Returns (NextFile rd s, i') \<Longrightarrow> left i' < left i"
    and eof_final: "nxt i = Returns (AtEOF, i') \<Longrightarrow> \<exists>i''. nxt i' = Returns (AtEOF, i'')"
begin

inductive reads :: "'i \<Rightarrow> (reader \<times> FileSummary) list \<Rightarrow> 'i \<Rightarrow> bool" where
  reads_none: "reads i [] i"
| reads_file: "nxt i = Returns (NextFile rd s, i') \<Longrightarrow> reads i' xs j \<Longrightarrow> reads i ((rd, s) # xs) j"

lemma reads_bound: "reads i xs j \<Longrightarrow> length xs + left j \<le> left i"
proof (induction rule: reads.induct)
  case (reads_file i rd s i' xs j)
  from file_progress [OF reads_file(1)] reads_file.IH show ?case by simp
qed simp

lemma reads_stuck: "reads i xs j \<Longrightarrow> length xs \<le> left i"
  using reads_bound by (metis add_leD1)

end

definition tarLeft :: "TarFileIterator \<Rightarrow> nat" where
  "tarLeft i = length (ti_rest i)"

definition fsLeft :: "FileSystemIterator \<Rightarrow> nat" where
  "fsLeft i = nat (int (length (fsi_files i)) - fsi_index i)"

fun filesLeft :: "ReadIterator \<Rightarrow> nat" where
  "filesLeft (TarIter i) = tarLeft i"
| "filesLeft (FsIter i) = fsLeft i"

lemma setTopLevelDirName_rest [simp]:
  "ti_rest (setTopLevelDirName n i) = ti_rest i" "ti_end (setTopLevelDirName n i) = ti_end i"
  by (simp_all add: setTopLevelDirName_def Let_def)

lemma tarNext_file: "tarNext i = (NextFile rd s, i') \<Longrightarrow> tarLeft i' < tarLeft i"
  by (auto simp: tarNext_def tarLeft_def split: list.splits option.splits)

lemma fsNext_file: "fsNext fs i = Returns (NextFile rd s, i') \<Longrightarrow> fsLeft i' < fsLeft i"
  by (auto simp: fsNext_def fsLeft_def Let_def split: if_splits sum.splits stat_error.splits)

lemma fsNext_error: "fsNext fs i = Returns (NextError e, i') \<Longrightarrow> fsLeft i' < fsLeft i"
  by (auto simp: fsNext_def fsLeft_def Let_def split: if_splits sum.splits stat_error.splits)

lemma fsNext_eof: "fsNext fs i = Returns (AtEOF, i') \<Longrightarrow> \<exists>i''. fsNext fs i' = Returns (AtEOF, i'')"
  by (auto simp: fsNext_def Let_def split: if_splits sum.splits stat_error.splits)

interpretation tar_files: read_iterator "\<lambda>i. Returns (tarNext i)" tarLeft
proof
  fix i rd s i'
  assume "Returns (tarNext i) = Returns (NextFile rd s, i')"
  then show "tarLeft i' < tarLeft i" by (simp add: tarNext_file)
next
  fix i i'
  assume "Returns (tarNext i) = Returns (AtEOF, i')"
  then show "\<exists>i''. Returns (tarNext i') = Returns (AtEOF, i'')"
    by (auto simp: tarNext_def split: list.splits option.splits)
qed

interpretation disk_files: read_iterator "fsNext fs" fsLeft for fs
  by unfold_locales (erule fsNext_file fsNext_eof)+

lemma Next_progress:
  assumes "Next fs i = Returns (NextFile rd s, i')"
  shows "filesLeft i' < filesLeft i"
proof (cases i)
  case (TarIter t)
  with assms show ?thesis by (cases "tarNext t") (auto dest: tarNext_file)
next
  case (FsIter t)
  with assms obtain t' where t': "fsNext fs t = Returns (NextFile rd s, t')" "i' = FsIter t'"
    by (cases "fsNext fs t") auto
  from fsNext_file [OF t'(1)] t'(2) FsIter show ?thesis by simp
qed

lemma Next_final:
  assumes "Next fs i = Returns (AtEOF, i')"
  shows "\<exists>i''. Next fs i' = Returns (AtEOF, i'')"
proof (cases i)
  case (TarIter t)
  with assms show ?thesis by (auto simp: map_prod_def tarNext_def split: list.splits option.splits)
next
  case (FsIter t)
  with assms obtain t' where t': "fsNext fs t = Returns (AtEOF, t')" "i' = FsIter t'"
    by (cases "fsNext fs t") auto
  then obtain t'' where "fsNext fs t' = Returns (AtEOF, t'')" using fsNext_eof by blast
  with t'(2) show ?thesis by simp
qed

interpretation any_files: read_iterator "Next fs" filesLeft for fs
  by unfold_locales (erule Next_progress Next_final)+

section \<open>What an iterator yields\<close>

text \<open>The files up to the first call that returns none, and what that call reports.\<close>

function yields :: "disk \<Rightarrow> ReadIterator \<Rightarrow> (reader \<times> FileSummary) list" where
  "yields fs it =
     (case Next fs it of
        Panics \<Rightarrow> []
      | Returns (AtEOF, it') \<Rightarrow> []
      | Returns (NextError err, it') \<Rightarrow> []
      | Returns (NextFile rd s, it') \<Rightarrow> (rd, s) # yields fs it')"
  by pat_completeness auto
termination
  by (relation "measure (\<lambda>(fs, it). filesLeft it)") (auto dest: Next_progress)

declare yields.simps [simp del]

lemma yields_Next:
  "Next fs it = Returns (NextFile rd s, it') \<Longrightarrow> yields fs it = (rd, s) # yields fs it'"
  "Next fs it = Returns (AtEOF, it') \<Longrightarrow> yields fs it = []"
  "Next fs it = Returns (NextError e, it') \<Longrightarrow> yields fs it = []"
  "Next fs it = Panics \<Longrightarrow> yields fs it = []"
  by (simp_all add: yields.simps [of fs it])

lemma yields_reads: "\<exists>j. any_files.reads fs it (yields fs it) j"
proof (induction fs it rule: yields.induct)
  case (1 fs it)
  show ?case
  proof (cases "\<exists>rd s it'. Next fs it = Returns (NextFile rd s, it')")
    case True
    then obtain rd s it' where n: "Next fs it = Returns (NextFile rd s, it')" by blast
    with 1 obtain j where "any_files.reads fs it' (yields fs it') j" by blast
    with n show ?thesis by (auto simp: yields_Next intro: any_files.reads_file)
  next
    case False
    then have "yields fs it = []"
      by (auto simp: yields.simps [of fs it] split: outcome.splits prod.splits next_file.splits)
    then show ?thesis by (auto intro: any_files.reads_none)
  qed
qed

lemma Next_kind:
  assumes "Next fs it = Returns (NextFile rd s, it')" and "sum_IsRegularFile s"
  shows "\<not> sum_IsDir s"
proof (cases it)
  case (TarIter t)
  with assms show ?thesis by (auto simp: tarNext_def tarSummary_def split: list.splits option.splits)
next
  case (FsIter t)
  with assms obtain t' where "fsNext fs t = Returns (NextFile rd s, t')" by (cases "fsNext fs t") auto
  with assms(2) show ?thesis
    by (auto simp: fsNext_def Let_def split: if_splits sum.splits stat_error.splits)
qed

lemma yields_kind: "(rd, s) \<in> set (yields fs it) \<Longrightarrow> sum_IsRegularFile s \<Longrightarrow> \<not> sum_IsDir s"
proof (induction "filesLeft it" arbitrary: it rule: less_induct)
  case less
  show ?case
  proof (cases "\<exists>rd s it'. Next fs it = Returns (NextFile rd s, it')")
    case True
    then obtain rd' s' it' where n: "Next fs it = Returns (NextFile rd' s', it')" by blast
    with less.prems have "(rd, s) = (rd', s') \<or> (rd, s) \<in> set (yields fs it')" by (simp add: yields_Next)
    with Next_kind [OF n] less.hyps [OF Next_progress [OF n]] less.prems(2) show ?thesis by blast
  next
    case False
    then have "yields fs it = []"
      by (auto simp: yields.simps [of fs it] split: outcome.splits prod.splits next_file.splits)
    with less.prems show ?thesis by simp
  qed
qed

text \<open>The tar iterator yields exactly the entries of the archive.\<close>

lemma yields_tar:
  "yields fs (TarIter i) = map (\<lambda>(header, rd). (rd, tarSummary header)) (ti_rest i)"
proof (induction "ti_rest i" arbitrary: i)
  case Nil
  then show ?case
    by (auto simp: yields.simps [of fs "TarIter i"] tarNext_def split: option.splits)
next
  case (Cons e rest)
  obtain header rd where e: "e = (header, rd)" by (cases e)
  define i' where "i' = setTopLevelDirName (th_Name header) (i\<lparr>ti_rest := rest\<rparr>)"
  have i': "ti_rest i' = rest" by (simp add: i'_def)
  have "Next fs (TarIter i) = Returns (NextFile rd (tarSummary header), TarIter i')"
    using Cons.hyps(2) [symmetric] by (simp add: tarNext_def e i'_def)
  with Cons.hyps(1) [of i'] i' Cons.hyps(2) [symmetric] show ?case by (simp add: yields_Next e)
qed

end
