(* ===== verification/WorkStates.thy ===== *)
theory WorkStates
  imports GlacierRestore FileUtil
begin

text \<open>
  The records that carry the state of a unit of work from one service to the next:
  \<^verbatim>\<open>src/models/ingest_manifest.go\<close>, \<^verbatim>\<open>ingest_state.go\<close>, \<^verbatim>\<open>work_item_state.go\<close>, \<^verbatim>\<open>restore_state.go\<close>,
  \<^verbatim>\<open>delete_state.go\<close>, \<^verbatim>\<open>file_restore_state.go\<close>, \<^verbatim>\<open>fixity_result.go\<close>, \<^verbatim>\<open>storage_summary.go\<close>, \<^verbatim>\<open>s3_file.go\<close>,
  \<^verbatim>\<open>cleanup_result.go\<close>, \<^verbatim>\<open>institution.go\<close> and \<^verbatim>\<open>stored_file.go\<close>. The JSON text in a \<open>WorkItemState\<close> is
  represented by the document it encodes: a document of the type that is asked for decodes to itself
  without the fields that are not serialised, a document of another type to a fresh value, since
  \<open>json.Unmarshal\<close> ignores unknown keys, and text that is no document gives an error. The commands
  sent to NSQ are recorded in the message handle.
\<close>

section \<open>IngestManifest\<close>

record IngestManifest =
  im_WorkItemId :: int
  im_S3Bucket :: string
  im_S3Key :: string
  im_ETag :: string
  im_BagPath :: string
  im_DBPath :: string
  im_FetchResult :: WorkSummary
  im_UntarResult :: WorkSummary
  im_ValidateResult :: WorkSummary
  im_StoreResult :: WorkSummary
  im_RecordResult :: WorkSummary
  im_CleanupResult :: WorkSummary
  im_Object :: IntellectualObject

definition NewIngestManifest :: IngestManifest where
  "NewIngestManifest = \<lparr>im_WorkItemId = 0, im_S3Bucket = [], im_S3Key = [], im_ETag = [], im_BagPath = [],
     im_DBPath = [], im_FetchResult = NewWorkSummary, im_UntarResult = NewWorkSummary,
     im_ValidateResult = NewWorkSummary, im_StoreResult = NewWorkSummary, im_RecordResult = NewWorkSummary,
     im_CleanupResult = NewWorkSummary, im_Object = NewIntellectualObject\<rparr>"

definition Manifest_HasErrors :: "IngestManifest \<Rightarrow> bool" where
  "Manifest_HasErrors manifest \<longleftrightarrow>
     HasErrors (im_FetchResult manifest) \<or> HasErrors (im_UntarResult manifest) \<or>
     HasErrors (im_ValidateResult manifest) \<or> HasErrors (im_StoreResult manifest) \<or>
     HasErrors (im_RecordResult manifest) \<or> HasErrors (im_CleanupResult manifest)"

definition Manifest_HasFatalErrors :: "IngestManifest \<Rightarrow> bool" where
  "Manifest_HasFatalErrors manifest \<longleftrightarrow>
     ws_ErrorIsFatal (im_FetchResult manifest) \<or> ws_ErrorIsFatal (im_UntarResult manifest) \<or>
     ws_ErrorIsFatal (im_ValidateResult manifest) \<or> ws_ErrorIsFatal (im_StoreResult manifest) \<or>
     ws_ErrorIsFatal (im_RecordResult manifest) \<or> ws_ErrorIsFatal (im_CleanupResult manifest)"

text \<open>The loop that joins the non-empty error texts, each followed by a newline.\<close>

fun joinErrors :: "string list \<Rightarrow> string" where
  "joinErrors [] = []"
| "joinErrors (err # errors) = (if err \<noteq> [] then err @ [newline] else []) @ joinErrors errors"

definition Manifest_AllErrorsAsString :: "IngestManifest \<Rightarrow> string" where
  "Manifest_AllErrorsAsString manifest =
     joinErrors [AllErrorsAsString (im_FetchResult manifest), AllErrorsAsString (im_UntarResult manifest),
       AllErrorsAsString (im_ValidateResult manifest), AllErrorsAsString (im_StoreResult manifest),
       AllErrorsAsString (im_RecordResult manifest), AllErrorsAsString (im_CleanupResult manifest)]"

definition ClearAllErrors :: "IngestManifest \<Rightarrow> IngestManifest" where
  "ClearAllErrors manifest =
     manifest\<lparr>im_FetchResult := ClearErrors (im_FetchResult manifest),
              im_UntarResult := ClearErrors (im_UntarResult manifest),
              im_ValidateResult := ClearErrors (im_ValidateResult manifest),
              im_StoreResult := ClearErrors (im_StoreResult manifest),
              im_RecordResult := ClearErrors (im_RecordResult manifest),
              im_CleanupResult := ClearErrors (im_CleanupResult manifest)\<rparr>"

definition BagIsOnDisk :: "disk \<Rightarrow> IngestManifest \<Rightarrow> bool" where
  "BagIsOnDisk fs manifest \<longleftrightarrow> im_BagPath manifest \<noteq> [] \<and> FileExists fs (im_BagPath manifest)"

definition DBExists :: "disk \<Rightarrow> IngestManifest \<Rightarrow> bool" where
  "DBExists fs manifest \<longleftrightarrow> im_DBPath manifest \<noteq> [] \<and> FileExists fs (im_DBPath manifest)"

definition SizeOfBagOnDisk :: "disk \<Rightarrow> IngestManifest \<Rightarrow> int64 \<times> go_error option" where
  "SizeOfBagOnDisk fs manifest =
     (case fs_stat fs (im_BagPath manifest) of
        Inl (NotExist err) \<Rightarrow> (- 1, Some err)
      | Inl (StatError err) \<Rightarrow> (- 1, Some err)
      | Inr st \<Rightarrow> (fi_Size st, None))"

definition BagHasBeenValidated :: "IngestManifest \<Rightarrow> bool" where
  "BagHasBeenValidated manifest \<longleftrightarrow>
     ws_Attempted (im_ValidateResult manifest) \<and> Finished (im_ValidateResult manifest) \<and>
     \<not> HasErrors (im_ValidateResult manifest)"

definition Manifest_ObjectIdentifier :: "bucketCache \<Rightarrow> IngestManifest \<Rightarrow> string \<times> go_error option" where
  "Manifest_ObjectIdentifier cache manifest =
     (let instIdentifier = OwnerOf cache (im_S3Bucket manifest)
      in if instIdentifier = [] \<or> instIdentifier = im_S3Bucket manifest
         then ([], Some (''Can'' @ [CHR 0x27] @ ''t determine insitution from invalid bucket '' @ quoted (im_S3Bucket manifest)))
         else let bagName = CleanBagName (im_S3Key manifest)
              in if bagName = [] \<or> bagName = im_S3Key manifest
                 then ([], Some (''Can'' @ [CHR 0x27] @ ''t determine bag name from S3 key '' @ quoted (im_S3Key manifest)))
                 else (instIdentifier @ ''/'' @ bagName, None))"

section \<open>WorkItemState\<close>

datatype state_doc = NoText | IngestDoc IngestManifest | GlacierDoc GlacierRestoreState | NotJson string

record WorkItemState =
  wis_Id :: int
  wis_WorkItemId :: int
  wis_Action :: string
  wis_State :: state_doc
  wis_CreatedAt :: time
  wis_UpdatedAt :: time

definition NewWorkItemState :: "int \<Rightarrow> string \<Rightarrow> state_doc \<Rightarrow> WorkItemState" where
  "NewWorkItemState workItemId action state =
     \<lparr>wis_Id = 0, wis_WorkItemId = workItemId, wis_Action = action, wis_State = state,
      wis_CreatedAt = zeroTime, wis_UpdatedAt = zeroTime\<rparr>"

definition HasData :: "WorkItemState \<Rightarrow> bool" where
  "HasData state \<longleftrightarrow> wis_State state \<noteq> NoText"

text \<open>The private caches of the object are not exported, the handles to NSQ and to the records that
  Pharos keeps are excluded by their tags.\<close>

definition serializedManifest :: "IngestManifest \<Rightarrow> IngestManifest" where
  "serializedManifest manifest =
     manifest\<lparr>im_Object := (im_Object manifest)\<lparr>obj_genericFileMap := None, obj_tagMap := None\<rparr>\<rparr>"

definition serializedGlacier :: "GlacierRestoreState \<Rightarrow> GlacierRestoreState" where
  "serializedGlacier state =
     state\<lparr>gs_NSQMessage := None, gs_WorkItem := None, gs_GenericFile := None, gs_IntellectualObject := None\<rparr>"

definition State_IngestManifest :: "WorkItemState \<Rightarrow> IngestManifest option \<times> go_error option" where
  "State_IngestManifest state =
     (if \<not> HasData state
      then (None, Some ''Cannot convert state to IngestManifest because state is empty.'')
      else if wis_Action state \<noteq> ActionIngest
      then (None, Some (''Cannot convert state to IngestManifest because action is '' @ quoted (wis_Action state) @
                        '' and must be '' @ quoted ActionIngest @ ''.''))
      else (case wis_State state of
              IngestDoc manifest \<Rightarrow> (Some manifest, None)
            | NotJson text \<Rightarrow> (Some NewIngestManifest, Some ''invalid character'')
            | _ \<Rightarrow> (Some NewIngestManifest, None)))"

definition SetStateFromIngestManifest :: "WorkItemState \<Rightarrow> IngestManifest \<Rightarrow> go_error option \<times> WorkItemState" where
  "SetStateFromIngestManifest state manifest =
     (if wis_Action state \<noteq> ActionIngest
      then (Some (''Cannot set state from IngestManifest because action is '' @ quoted (wis_Action state) @
                  '' and must be '' @ quoted ActionIngest @ ''.''), state)
      else (None, state\<lparr>wis_State := IngestDoc (serializedManifest manifest)\<rparr>))"

definition State_GlacierRestoreState :: "WorkItemState \<Rightarrow> GlacierRestoreState option \<times> go_error option" where
  "State_GlacierRestoreState state =
     (let fresh = (NewGlacierRestoreState None None)\<lparr>gs_WorkSummary := None\<rparr>
      in if \<not> HasData state
      then (None, Some ''Cannot convert state to WorkSummary because state is empty.'')
      else if wis_Action state \<noteq> ActionGlacierRestore
      then (None, Some (''Cannot convert state to WorkSummary because action is '' @ quoted (wis_Action state) @
                        '' and must be '' @ quoted ActionGlacierRestore @ ''.''))
      else (case wis_State state of
              GlacierDoc g \<Rightarrow> (Some g, None)
            | NotJson text \<Rightarrow> (Some fresh, Some ''invalid character'')
            | _ \<Rightarrow> (Some fresh, None)))"

lemma SetStateFromIngestManifest_read_back:
  "wis_Action state = ActionIngest \<Longrightarrow>
     State_IngestManifest (snd (SetStateFromIngestManifest state manifest)) = (Some (serializedManifest manifest), None)"
  by (simp add: SetStateFromIngestManifest_def State_IngestManifest_def HasData_def)

section \<open>IngestState, RestoreState and the other states\<close>

definition nsqSend :: "nsq_command \<Rightarrow> nsq_message \<Rightarrow> nsq_message" where
  "nsqSend c message = map_option (\<lambda>cs. cs @ [c]) message"

record IngestState =
  is_NSQMessage :: nsq_message
  is_WorkItem :: WorkItem
  is_WorkItemState :: "WorkItemState option"
  is_IngestManifest :: IngestManifest

definition TouchNSQ :: "IngestState \<Rightarrow> IngestState" where
  "TouchNSQ ingestState = ingestState\<lparr>is_NSQMessage := nsqSend NsqTouch (is_NSQMessage ingestState)\<rparr>"

definition FinishNSQ :: "IngestState \<Rightarrow> IngestState" where
  "FinishNSQ ingestState = ingestState\<lparr>is_NSQMessage := nsqSend NsqFinish (is_NSQMessage ingestState)\<rparr>"

definition RequeueNSQ :: "int \<Rightarrow> IngestState \<Rightarrow> IngestState" where
  "RequeueNSQ milliseconds ingestState =
     ingestState\<lparr>is_NSQMessage := nsqSend (NsqRequeue milliseconds) (is_NSQMessage ingestState)\<rparr>"

record RestoreState =
  rs_NSQMessage :: nsq_message
  rs_WorkItem :: "WorkItem option"
  rs_IntellectualObject :: "IntellectualObject option"
  rs_PackageSummary :: WorkSummary
  rs_ValidateSummary :: WorkSummary
  rs_CopySummary :: WorkSummary
  rs_RecordSummary :: WorkSummary
  rs_LocalBagDir :: string
  rs_LocalTarFile :: string
  rs_RestoredToUrl :: string
  rs_CopiedToRestorationAt :: time
  rs_BagDirDeletedAt :: time
  rs_TarFileDeletedAt :: time
  rs_CancelReason :: string

definition NewRestoreState :: "nsq_message \<Rightarrow> RestoreState" where
  "NewRestoreState message = \<lparr>rs_NSQMessage = message, rs_WorkItem = None, rs_IntellectualObject = None,
     rs_PackageSummary = NewWorkSummary, rs_ValidateSummary = NewWorkSummary, rs_CopySummary = NewWorkSummary,
     rs_RecordSummary = NewWorkSummary, rs_LocalBagDir = [], rs_LocalTarFile = [], rs_RestoredToUrl = [],
     rs_CopiedToRestorationAt = zeroTime, rs_BagDirDeletedAt = zeroTime, rs_TarFileDeletedAt = zeroTime,
     rs_CancelReason = []\<rparr>"

definition Restore_HasErrors :: "RestoreState \<Rightarrow> bool" where
  "Restore_HasErrors st \<longleftrightarrow> HasErrors (rs_PackageSummary st) \<or> HasErrors (rs_ValidateSummary st) \<or>
     HasErrors (rs_RecordSummary st) \<or> HasErrors (rs_CopySummary st)"

definition Restore_HasFatalErrors :: "RestoreState \<Rightarrow> bool" where
  "Restore_HasFatalErrors st \<longleftrightarrow> ws_ErrorIsFatal (rs_PackageSummary st) \<or> ws_ErrorIsFatal (rs_ValidateSummary st) \<or>
     ws_ErrorIsFatal (rs_RecordSummary st) \<or> ws_ErrorIsFatal (rs_CopySummary st)"

definition Restore_AllErrorsAsString :: "RestoreState \<Rightarrow> string" where
  "Restore_AllErrorsAsString st =
     joinErrors [AllErrorsAsString (rs_PackageSummary st), AllErrorsAsString (rs_ValidateSummary st),
       AllErrorsAsString (rs_RecordSummary st), AllErrorsAsString (rs_CopySummary st)]"

definition MostRecentSummary :: "RestoreState \<Rightarrow> WorkSummary" where
  "MostRecentSummary st =
     (if Started (rs_RecordSummary st) then rs_RecordSummary st
      else if Started (rs_CopySummary st) then rs_CopySummary st
      else if Started (rs_ValidateSummary st) then rs_ValidateSummary st
      else rs_PackageSummary st)"

definition Restore_TouchNSQ :: "RestoreState \<Rightarrow> RestoreState" where
  "Restore_TouchNSQ st = st\<lparr>rs_NSQMessage := nsqSend NsqTouch (rs_NSQMessage st)\<rparr>"

definition Restore_FinishNSQ :: "RestoreState \<Rightarrow> RestoreState" where
  "Restore_FinishNSQ st = st\<lparr>rs_NSQMessage := nsqSend NsqFinish (rs_NSQMessage st)\<rparr>"

definition Restore_RequeueNSQ :: "int \<Rightarrow> RestoreState \<Rightarrow> RestoreState" where
  "Restore_RequeueNSQ milliseconds st = st\<lparr>rs_NSQMessage := nsqSend (NsqRequeue milliseconds) (rs_NSQMessage st)\<rparr>"

record DeleteState =
  ds_NSQMessage :: nsq_message
  ds_WorkItem :: "WorkItem option"
  ds_GenericFile :: "GenericFile option"
  ds_DeleteSummary :: WorkSummary
  ds_DeletedFromPrimaryAt :: time
  ds_DeletedFromSecondaryAt :: time

definition NewDeleteState :: "nsq_message \<Rightarrow> DeleteState" where
  "NewDeleteState message = \<lparr>ds_NSQMessage = message, ds_WorkItem = None, ds_GenericFile = None,
     ds_DeleteSummary = NewWorkSummary, ds_DeletedFromPrimaryAt = zeroTime, ds_DeletedFromSecondaryAt = zeroTime\<rparr>"

record FileRestoreState =
  fr_NSQMessage :: nsq_message
  fr_WorkItem :: "WorkItem option"
  fr_GenericFile :: "GenericFile option"
  fr_IntellectualObject :: "IntellectualObject option"
  fr_RestoreSummary :: WorkSummary
  fr_RestoredToURL :: string
  fr_CopiedToRestorationAt :: time

definition NewFileRestoreState :: "nsq_message \<Rightarrow> FileRestoreState" where
  "NewFileRestoreState message = \<lparr>fr_NSQMessage = message, fr_WorkItem = None, fr_GenericFile = None,
     fr_IntellectualObject = None, fr_RestoreSummary = NewWorkSummary, fr_RestoredToURL = [],
     fr_CopiedToRestorationAt = zeroTime\<rparr>"

record FixityResult =
  fx_NSQMessage :: nsq_message
  fx_GenericFile :: "GenericFile option"
  fx_S3FileExists :: bool
  fx_Sha256 :: string
  fx_Error :: "go_error option"
  fx_ErrorIsFatal :: bool

definition NewFixityResult :: "nsq_message \<Rightarrow> FixityResult" where
  "NewFixityResult message = \<lparr>fx_NSQMessage = message, fx_GenericFile = None, fx_S3FileExists = False,
     fx_Sha256 = [], fx_Error = None, fx_ErrorIsFatal = False\<rparr>"

definition Fixity_BucketAndKey :: "FixityResult \<Rightarrow> string \<times> string \<times> go_error option" where
  "Fixity_BucketAndKey result =
     (case fx_GenericFile result of
        None \<Rightarrow> ([], [], Some ''FixityResult.GenericFile is nil'')
      | Some gf \<Rightarrow>
          (let parts = Split (CHR ''/'') (gf_URI gf); n = length parts
           in if n < 4 then ([], [], Some (''GenericFile URI '' @ quoted (gf_URI gf) @ '' is invalid''))
              else (parts ! (n - 2), parts ! (n - 1), None)))"

definition PharosSha256 :: "FixityResult \<Rightarrow> string" where
  "PharosSha256 result =
     (case fx_GenericFile result of
        None \<Rightarrow> []
      | Some gf \<Rightarrow> (case GetChecksumByAlgorithm gf ''sha256'' of None \<Rightarrow> [] | Some checksum \<Rightarrow> cs_Digest checksum))"

record StorageSummary =
  ss_StoreResult :: WorkSummary
  ss_TarFilePath :: string
  ss_UntarredPath :: string
  ss_GenericFile :: GenericFile

definition NewStorageSummary :: "GenericFile option \<Rightarrow> string \<Rightarrow> string \<Rightarrow> go_error + StorageSummary" where
  "NewStorageSummary gf tarPath untarredPath =
     (case gf of
        None \<Rightarrow> Inl ''Param gf cannot be nil''
      | Some gf \<Rightarrow>
          if tarPath = [] then Inl ''Param tarPath cannot be empty''
          else Inr \<lparr>ss_StoreResult = NewWorkSummary, ss_TarFilePath = tarPath, ss_UntarredPath = untarredPath,
                    ss_GenericFile = gf\<rparr>)"

record Institution =
  inst_Id :: int
  inst_Name :: string
  inst_BriefName :: string
  inst_Identifier :: string
  inst_DPNUUID :: string
  inst_ReceivingBucket :: string
  inst_RestoreBucket :: string

text \<open>Of the third-party \<open>s3.Key\<close> only the name is used here.\<close>

record S3File =
  s3_BucketName :: string
  s3_Key :: string
  s3_ErrorMessage :: string
  s3_DeletedAt :: time
  s3_DeleteSkippedPerConfig :: bool

definition NewS3FileWithName :: "string \<Rightarrow> string \<Rightarrow> S3File" where
  "NewS3FileWithName bucketName keyName = \<lparr>s3_BucketName = bucketName, s3_Key = keyName,
     s3_ErrorMessage = [], s3_DeletedAt = zeroTime, s3_DeleteSkippedPerConfig = False\<rparr>"

definition S3File_ObjectName :: "bucketCache \<Rightarrow> S3File \<Rightarrow> string \<times> go_error option" where
  "S3File_ObjectName cache f = (OwnerOf cache (s3_BucketName f) @ ''/'' @ CleanBagName (s3_Key f), None)"

definition S3File_BagName :: "bucketCache \<Rightarrow> S3File \<Rightarrow> string" where
  "S3File_BagName cache f = OwnerOf cache (s3_BucketName f) @ ''/'' @ s3_Key f"

definition DeleteAttempted :: "S3File \<Rightarrow> bool" where
  "DeleteAttempted f \<longleftrightarrow> s3_ErrorMessage f \<noteq> [] \<or> \<not> IsZero (s3_DeletedAt f)"

record CleanupResult =
  cr_BagName :: string
  cr_ETag :: string
  cr_BagDate :: time
  cr_ObjectIdentifier :: string
  cr_Files :: "S3File list"
  cr_WorkSummary :: WorkSummary

fun allDeleted :: "S3File list \<Rightarrow> bool" where
  "allDeleted [] = True"
| "allDeleted (file # files) =
     (if s3_DeleteSkippedPerConfig file then allDeleted files
      else if \<not> DeleteAttempted file \<or> IsZero (s3_DeletedAt file) then False
      else allDeleted files)"

definition Cleanup_Succeeded :: "CleanupResult \<Rightarrow> bool" where
  "Cleanup_Succeeded result = allDeleted (cr_Files result)"

record StoredFile =
  sf_Id :: int64
  sf_Key :: string
  sf_Bucket :: string
  sf_Size :: int64
  sf_ContentType :: string
  sf_Institution :: string
  sf_BagName :: string
  sf_PathInBag :: string
  sf_Md5 :: string
  sf_Sha256 :: string
  sf_ETag :: string
  sf_LastModified :: time
  sf_LastSeenAt :: time
  sf_CreatedAt :: time
  sf_UpdatedAt :: time
  sf_DeletedAt :: time

definition ToStringArray :: "StoredFile \<Rightarrow> string list" where
  "ToStringArray f = [show_int (sint (sf_Id f)), sf_Key f, sf_Bucket f, show_int (sint (sf_Size f)),
     sf_ContentType f, sf_Institution f, sf_BagName f, sf_PathInBag f, sf_Md5 f, sf_Sha256 f, sf_ETag f,
     FormatRFC3339 (sf_LastModified f), FormatRFC3339 (sf_LastSeenAt f), FormatRFC3339 (sf_CreatedAt f),
     FormatRFC3339 (sf_UpdatedAt f), FormatRFC3339 (sf_DeletedAt f)]"

section \<open>Facts the workers use\<close>

lemma ClearAllErrors_clean: "\<not> Manifest_HasErrors (ClearAllErrors manifest)"
  by (simp add: Manifest_HasErrors_def ClearAllErrors_def ws_defs)

lemma allDeleted_iff:
  "allDeleted files \<longleftrightarrow> (\<forall>f\<in>set files. s3_DeleteSkippedPerConfig f \<or> \<not> IsZero (s3_DeletedAt f))"
  by (induction files) (auto simp: DeleteAttempted_def)

end
