(* ===== verification/BagValidationConfig.thy ===== *)
theory BagValidationConfig
  imports Util
begin

text \<open>
  \<^verbatim>\<open>src/validation/bag_validation_config.go\<close>: what a valid bag has to contain. The two maps of the
  configuration are association lists; a \<open>range\<close> over a map visits the pairs in the order of the
  list, and since every list is allowed, what is proved holds for every order. A compiled pattern
  is the predicate \<open>MatchString\<close>; \<open>regexp.Compile\<close> of a pattern of the user is an argument, as is the
  JSON reader.
\<close>

definition REQUIRED :: string where
  "REQUIRED = ''required''"

definition OPTIONAL :: string where
  "OPTIONAL = ''optional''"

definition FORBIDDEN :: string where
  "FORBIDDEN = ''forbidden''"

definition presenceValues :: "string list" where
  "presenceValues = [REQUIRED, OPTIONAL, FORBIDDEN]"

definition ValidPresenceValue :: "string \<Rightarrow> bool" where
  "ValidPresenceValue value \<longleftrightarrow> StringListContains presenceValues value"

record FileSpec =
  fsp_Presence :: string
  fsp_ParseAsTagFile :: bool

definition FileSpec_Valid :: "FileSpec \<Rightarrow> bool" where
  "FileSpec_Valid filespec \<longleftrightarrow> ValidPresenceValue (fsp_Presence filespec)"

record TagSpec =
  tsp_FilePath :: string
  tsp_Presence :: string
  tsp_EmptyOK :: bool
  tsp_AllowedValues :: "string list"

definition TagSpec_Valid :: "TagSpec \<Rightarrow> bool" where
  "TagSpec_Valid tagspec \<longleftrightarrow> ValidPresenceValue (tsp_Presence tagspec) \<and> tsp_FilePath tagspec \<noteq> []"

record BagValidationConfig =
  bvc_FileSpecs :: "(string \<times> FileSpec) list"
  bvc_TagSpecs :: "(string \<times> TagSpec) list"
  bvc_AllowFetchTxt :: bool
  bvc_AllowMiscTopLevelFiles :: bool
  bvc_AllowMiscDirectories :: bool
  bvc_TopLevelDirMustMatchBagName :: bool
  bvc_FixityAlgorithms :: "string list"
  bvc_FileNamePattern :: string
  bvc_FileNameRegex :: "(string \<Rightarrow> bool) option"

definition NewBagValidationConfig :: BagValidationConfig where
  "NewBagValidationConfig =
     \<lparr>bvc_FileSpecs = [], bvc_TagSpecs = [], bvc_AllowFetchTxt = False, bvc_AllowMiscTopLevelFiles = False,
      bvc_AllowMiscDirectories = False, bvc_TopLevelDirMustMatchBagName = False, bvc_FixityAlgorithms = [],
      bvc_FileNamePattern = [], bvc_FileNameRegex = None\<rparr>"

fun validateTagSpecs :: "(string \<times> TagSpec) list \<Rightarrow> go_error list" where
  "validateTagSpecs [] = []"
| "validateTagSpecs ((name, tagSpec) # specs) =
     (if \<not> TagSpec_Valid tagSpec
      then (''TagSpec for file '' @ quoted (tsp_FilePath tagSpec) @
            '' requires non-empty FilePath and valid presence value.'') # validateTagSpecs specs
      else validateTagSpecs specs)"

definition ValidateConfig :: "BagValidationConfig \<Rightarrow> go_error list" where
  "ValidateConfig config = validateTagSpecs (bvc_TagSpecs config)"

type_synonym compiler = "string \<Rightarrow> go_error + (string \<Rightarrow> bool)"

definition CompileFileNameRegex :: "compiler \<Rightarrow> BagValidationConfig \<Rightarrow> go_error option \<times> BagValidationConfig" where
  "CompileFileNameRegex compile config =
     (let pat = bvc_FileNamePattern config
      in if ToUpper pat = ''APTRUST'' then (None, config\<lparr>bvc_FileNameRegex := Some APTrustFileNamePattern\<rparr>)
         else if ToUpper pat = ''POSIX'' then (None, config\<lparr>bvc_FileNameRegex := Some PosixFileNamePattern\<rparr>)
         else if ToUpper pat = ''PERMISSIVE'' then (None, config\<lparr>bvc_FileNameRegex := Some PermissivePattern\<rparr>)
         else if pat \<noteq> []
         then (case compile pat of
                 Inr r \<Rightarrow> (None, config\<lparr>bvc_FileNameRegex := Some r\<rparr>)
               | Inl err \<Rightarrow>
                   (Some (''Cannot compile regex for FileNamePattern '' @ quoted pat @ '': '' @ err),
                    config\<lparr>bvc_FileNameRegex := None\<rparr>))
         else (None, config))"

text \<open>\<open>contents\<close> is what reading the file gives, \<open>unmarshal\<close> decodes the JSON over a new configuration.\<close>

definition LoadBagValidationConfig ::
  "compiler \<Rightarrow> go_error + string \<Rightarrow> (string \<Rightarrow> BagValidationConfig \<Rightarrow> go_error + BagValidationConfig) \<Rightarrow> string \<Rightarrow>
     BagValidationConfig option \<times> go_error list" where
  "LoadBagValidationConfig compile contents unmarshal pathToConfigFile =
     (case contents of
        Inl err \<Rightarrow>
          (None, [''Error reading bag validation config file '' @ quoted pathToConfigFile @ '': '' @ err @ [newline]])
      | Inr file \<Rightarrow>
          (case unmarshal file NewBagValidationConfig of
             Inl err \<Rightarrow>
               (None, [''Error parsing JSON from bag validation config file '' @ quoted pathToConfigFile @ '': '' @ err])
           | Inr config \<Rightarrow>
               (let configErrors = ValidateConfig config;
                    (regexErr, config') = CompileFileNameRegex compile config
                in (Some config', configErrors @ (case regexErr of None \<Rightarrow> [] | Some e \<Rightarrow> [e])))))"

lemma validateTagSpecs_Nil_iff: "validateTagSpecs specs = [] \<longleftrightarrow> (\<forall>(n, t) \<in> set specs. TagSpec_Valid t)"
  by (induction specs rule: validateTagSpecs.induct) auto

end
