(* ===== verification/BoltDB.thy ===== *)
theory BoltDB
  imports IntellectualObject
begin

text \<open>
  \<^verbatim>\<open>src/util/storage/boltdb.go\<close>: the database in which the validator and the ingest workers keep one
  record per file of a bag. The package \<open>bolt\<close> is not part of the repository: a value of type
  \<open>'b bolt\<close> gives its operations on a database of type \<open>'b\<close>, and the locale \<open>bolt_laws\<close> states what the
  code relies on. \<open>encoding/gob\<close> writes the exported fields and refuses nil elements of slices; bytes
  that do not decode give an error and a partly filled value. The last part is the interface the
  workers see, \<open>file_store\<close>, which the methods of this file implement over any lawful bolt.
\<close>

section \<open>The key-value store\<close>

datatype 'a gob = Gob 'a | BadGob 'a go_error

record 'b bolt =
  bolt_open :: "string \<Rightarrow> go_error + 'b"
  bolt_create :: "'b \<Rightarrow> string \<Rightarrow> go_error option \<times> 'b"
  put_file :: "'b \<Rightarrow> string \<Rightarrow> GenericFile gob \<Rightarrow> go_error option \<times> 'b"
  get_file :: "'b \<Rightarrow> string \<Rightarrow> GenericFile gob option"
  file_keys :: "'b \<Rightarrow> string list"
  put_obj :: "'b \<Rightarrow> string \<Rightarrow> IntellectualObject gob \<Rightarrow> go_error option \<times> 'b"
  get_obj :: "'b \<Rightarrow> string \<Rightarrow> IntellectualObject gob option"
  obj_keys :: "'b \<Rightarrow> string list"

definition FILE_BUCKET :: string where
  "FILE_BUCKET = ''files''"

definition OBJ_BUCKET :: string where
  "OBJ_BUCKET = ''objects''"

definition initBuckets :: "'b bolt \<Rightarrow> 'b \<Rightarrow> go_error option \<times> 'b" where
  "initBuckets ops b =
     (case bolt_create ops b FILE_BUCKET of
        (Some err, b1) \<Rightarrow> (Some (''Error creating file bucket: '' @ err), b)
      | (None, b1) \<Rightarrow>
          (case bolt_create ops b1 OBJ_BUCKET of
             (Some err, b2) \<Rightarrow> (Some (''Error creating object bucket: '' @ err), b)
           | (None, b2) \<Rightarrow> (None, b2)))"

definition NewBoltDB :: "'b bolt \<Rightarrow> string \<Rightarrow> go_error + 'b" where
  "NewBoltDB ops filePath =
     (case bolt_open ops filePath of
        Inl err \<Rightarrow> Inl err
      | Inr b \<Rightarrow> (case initBuckets ops b of (Some err, _) \<Rightarrow> Inl err | (None, b') \<Rightarrow> Inr b'))"

text \<open>What \<open>encoder.Encode\<close> makes of a record.\<close>

definition nilElement :: go_error where
  "nilElement = ''gob: encodeReflectValue: nil element''"

definition gobFile :: "GenericFile \<Rightarrow> go_error + GenericFile gob" where
  "gobFile gf =
     (if None \<in> set (gf_PremisEvents gf) \<or> None \<in> set (gf_Checksums gf) then Inl nilElement else Inr (Gob gf))"

definition gobObject :: "IntellectualObject \<Rightarrow> go_error + IntellectualObject gob" where
  "gobObject obj =
     (if None \<in> set (obj_PremisEvents obj) \<or>
         list_ex (\<lambda>gf. None \<in> set (gf_PremisEvents gf) \<or> None \<in> set (gf_Checksums gf)) (obj_GenericFiles obj)
      then Inl nilElement
      else Inr (Gob (obj\<lparr>obj_genericFileMap := None, obj_tagMap := None\<rparr>)))"

text \<open>\<open>Save\<close> looks at the type of the value and picks the bucket.\<close>

definition SaveFile :: "'b bolt \<Rightarrow> 'b \<Rightarrow> string \<Rightarrow> GenericFile \<Rightarrow> go_error option \<times> 'b" where
  "SaveFile ops b key gf =
     (case gobFile gf of Inl err \<Rightarrow> (Some err, b) | Inr bytes \<Rightarrow> put_file ops b key bytes)"

definition SaveObject :: "'b bolt \<Rightarrow> 'b \<Rightarrow> string \<Rightarrow> IntellectualObject \<Rightarrow> go_error option \<times> 'b" where
  "SaveObject ops b key obj =
     (case gobObject obj of Inl err \<Rightarrow> (Some err, b) | Inr bytes \<Rightarrow> put_obj ops b key bytes)"

definition GetIntellectualObject :: "'b bolt \<Rightarrow> 'b \<Rightarrow> string \<Rightarrow> IntellectualObject option \<times> go_error option" where
  "GetIntellectualObject ops b key =
     (case get_obj ops b key of
        None \<Rightarrow> (None, None)
      | Some (Gob obj) \<Rightarrow> (Some obj, None)
      | Some (BadGob obj err) \<Rightarrow> (Some obj, Some err))"

definition GetGenericFile :: "'b bolt \<Rightarrow> 'b \<Rightarrow> string \<Rightarrow> GenericFile option \<times> go_error option" where
  "GetGenericFile ops b key =
     (case get_file ops b key of
        None \<Rightarrow> (None, None)
      | Some (Gob gf) \<Rightarrow> (Some gf, None)
      | Some (BadGob gf err) \<Rightarrow> (Some gf, Some err))"

definition ObjectIdentifier :: "'b bolt \<Rightarrow> 'b \<Rightarrow> string" where
  "ObjectIdentifier ops b = (case obj_keys ops b of [] \<Rightarrow> [] | k # _ \<Rightarrow> k)"

definition FileIdentifiers :: "'b bolt \<Rightarrow> 'b \<Rightarrow> string list" where
  "FileIdentifiers ops b = file_keys ops b"

definition FileCount :: "'b bolt \<Rightarrow> 'b \<Rightarrow> int" where
  "FileCount ops b = int (length (file_keys ops b))"

text \<open>The cursor loop of \<open>FileIdentifierBatch\<close>.\<close>

fun batchLoop :: "int \<Rightarrow> int \<Rightarrow> int \<Rightarrow> string list \<Rightarrow> string list" where
  "batchLoop index offset stop [] = []"
| "batchLoop index offset stop (k # ks) =
     (if offset \<le> index \<and> index < stop then k # batchLoop (index + 1) offset stop ks
      else batchLoop (index + 1) offset stop ks)"

definition FileIdentifierBatch :: "'b bolt \<Rightarrow> 'b \<Rightarrow> int \<Rightarrow> int \<Rightarrow> string list" where
  "FileIdentifierBatch ops b offset limit =
     (let offset = (if offset < 0 then 0 else offset);
          limit = (if limit < 0 then 0 else limit)
      in batchLoop 0 offset (offset + limit) (file_keys ops b))"

section \<open>What the code relies on\<close>

text \<open>An update that returns no error is visible at its key and nowhere else, one that returns an
  error is rolled back, and a cursor visits every key once, in an order that an update of a key already there
  does not change.\<close>

locale bolt_laws =
  fixes ops :: "'b bolt"
  assumes put_file_ok: "put_file ops b k g = (None, b') \<Longrightarrow>
      get_file ops b' = (get_file ops b)(k \<mapsto> g) \<and> get_obj ops b' = get_obj ops b"
    and put_file_failed: "put_file ops b k g = (Some e, b') \<Longrightarrow>
      get_file ops b' = get_file ops b \<and> get_obj ops b' = get_obj ops b"
    and put_obj_ok: "put_obj ops b k h = (None, b') \<Longrightarrow>
      get_obj ops b' = (get_obj ops b)(k \<mapsto> h) \<and> get_file ops b' = get_file ops b"
    and put_obj_failed: "put_obj ops b k h = (Some e, b') \<Longrightarrow>
      get_obj ops b' = get_obj ops b \<and> get_file ops b' = get_file ops b"
    and file_keys_set: "set (file_keys ops b) = dom (get_file ops b)"
    and file_keys_distinct: "distinct (file_keys ops b)"
    and file_keys_stable: "get_file ops b k \<noteq> None \<Longrightarrow> file_keys ops (snd (put_file ops b k g)) = file_keys ops b"
begin

lemma SaveFile_ok:
  "SaveFile ops b k gf = (None, b') \<Longrightarrow>
     get_file ops b' = (get_file ops b)(k \<mapsto> Gob gf) \<and> get_obj ops b' = get_obj ops b"
  by (auto simp: SaveFile_def gobFile_def split: if_splits dest: put_file_ok)

lemma SaveFile_failed:
  "SaveFile ops b k gf = (Some e, b') \<Longrightarrow>
     get_file ops b' = get_file ops b \<and> get_obj ops b' = get_obj ops b"
  by (auto simp: SaveFile_def gobFile_def split: if_splits dest: put_file_failed)

lemma SaveFile_keys: "get_file ops b k \<noteq> None \<Longrightarrow> file_keys ops (snd (SaveFile ops b k gf)) = file_keys ops b"
  by (simp add: SaveFile_def gobFile_def file_keys_stable)

lemma SaveObject_files:
  "SaveObject ops b k obj = (r, b') \<Longrightarrow> get_file ops b' = get_file ops b"
  by (cases r) (auto simp: SaveObject_def gobObject_def split: if_splits dest: put_obj_ok put_obj_failed)

end

text \<open>
  The interface of the workers: records are read back as they were saved, nothing else changes, and
  the list of identifiers names exactly the records.
\<close>

locale file_store =
  fixes save :: "'b \<Rightarrow> string \<Rightarrow> GenericFile \<Rightarrow> go_error option \<times> 'b"
    and lookup :: "'b \<Rightarrow> string \<Rightarrow> GenericFile option \<times> go_error option"
    and names :: "'b \<Rightarrow> string list"
  assumes save_ok: "save b k gf = (None, b') \<Longrightarrow> lookup b' = (lookup b)(k := (Some gf, None))"
    and save_failed: "save b k gf = (Some e, b') \<Longrightarrow> lookup b' = lookup b"
    and names_lookup: "k \<in> set (names b) \<longleftrightarrow> fst (lookup b k) \<noteq> None"
    and names_distinct: "distinct (names b)"
begin

lemma save_names:
  "save b k gf = (None, b') \<Longrightarrow> set (names b') = insert k (set (names b))"
  by (rule set_eqI) (simp add: names_lookup save_ok)

lemma save_frame: "save b k gf = (r, b') \<Longrightarrow> k' \<noteq> k \<Longrightarrow> lookup b' k' = lookup b k'"
  by (cases r) (auto dest: save_ok save_failed)

lemma save_count:
  "save b k gf = (None, b') \<Longrightarrow>
     length (names b') = (if k \<in> set (names b) then length (names b) else Suc (length (names b)))"
  using distinct_card [OF names_distinct, of b] distinct_card [OF names_distinct, of b'] save_names [of b k gf b']
  by (auto simp: insert_absorb)

end

sublocale bolt_laws \<subseteq> files: file_store "SaveFile ops" "GetGenericFile ops" "FileIdentifiers ops"
proof
  fix b b' :: 'b and k gf
  assume "SaveFile ops b k gf = (None, b')"
  from SaveFile_ok [OF this] show "GetGenericFile ops b' = (GetGenericFile ops b)(k := (Some gf, None))"
    by (auto simp: GetGenericFile_def)
next
  fix b b' :: 'b and k gf e
  assume "SaveFile ops b k gf = (Some e, b')"
  from SaveFile_failed [OF this] show "GetGenericFile ops b' = GetGenericFile ops b"
    by (auto simp: GetGenericFile_def)
next
  fix b :: 'b and k
  show "k \<in> set (FileIdentifiers ops b) \<longleftrightarrow> fst (GetGenericFile ops b k) \<noteq> None"
    by (auto simp: FileIdentifiers_def GetGenericFile_def file_keys_set split: option.splits gob.splits)
next
  fix b :: 'b
  show "distinct (FileIdentifiers ops b)" by (simp add: FileIdentifiers_def file_keys_distinct)
qed

section \<open>A lawful store\<close>

text \<open>The store as its documentation describes it, kept in memory: pairs in the order of the keys'
  insertion, an update replaces, an empty key is refused.\<close>

type_synonym memory = "(string \<times> GenericFile gob) list \<times> (string \<times> IntellectualObject gob) list"

definition memBolt :: "memory bolt" where
  "memBolt =
     \<lparr>bolt_open = (\<lambda>_. Inr ([], [])),
      bolt_create = (\<lambda>b _. (None, b)),
      put_file = (\<lambda>b k g. if k = [] then (Some ''key required'', b) else (None, (AList.update k g (fst b), snd b))),
      get_file = (\<lambda>b k. map_of (fst b) k),
      file_keys = (\<lambda>b. remdups (map fst (fst b))),
      put_obj = (\<lambda>b k h. if k = [] then (Some ''key required'', b) else (None, (fst b, AList.update k h (snd b)))),
      get_obj = (\<lambda>b k. map_of (snd b) k),
      obj_keys = (\<lambda>b. remdups (map fst (snd b)))\<rparr>"

interpretation mem: bolt_laws memBolt
  by unfold_locales
    (auto simp: memBolt_def fun_eq_iff AList.update_conv' dom_map_of_conv_image_fst AList.update_keys map_of_eq_None_iff
      simp del: not_None_eq split: if_splits)

section \<open>Paging\<close>

lemma batchLoop_take_drop:
  "batchLoop index offset stop ks = take (nat (stop - max index offset)) (drop (nat (offset - index)) ks)"
proof (induction ks arbitrary: index)
  case (Cons k ks)
  show ?case
  proof (cases "offset \<le> index")
    case True
    moreover have "index < stop \<Longrightarrow> nat (stop - index) = Suc (nat (stop - (index + 1)))" by simp
    ultimately show ?thesis by (cases "index < stop") (simp_all add: Cons.IH max_def)
  next
    case False
    then have "nat (offset - index) = Suc (nat (offset - (index + 1)))" by simp
    with False show ?thesis by (simp add: Cons.IH max_def)
  qed
qed simp

lemma FileIdentifierBatch_take_drop:
  "0 \<le> offset \<Longrightarrow> 0 \<le> limit \<Longrightarrow>
     FileIdentifierBatch ops b offset limit = take (nat limit) (drop (nat offset) (FileIdentifiers ops b))"
  by (simp add: FileIdentifierBatch_def FileIdentifiers_def batchLoop_take_drop)

text \<open>One step of a loop over the pages: what is behind the loop grows by the page, a full page brings the loop
  nearer to its end, and a page that is not full is the last.\<close>

lemma page_covers:
  assumes "0 \<le> start" "ids = take (nat limit) (drop (nat start) keys)"
  shows "set (take (nat (start + int (length ids))) keys) = set (take (nat start) keys) \<union> set ids"
proof -
  have "take (length ids) (drop (nat start) keys) = ids" using assms(2) by (simp add: min_def)
  then have "take (nat (start + int (length ids))) keys = take (nat start) keys @ ids"
    using assms(1) by (simp add: nat_add_distrib take_add)
  then show ?thesis by simp
qed

lemma page_progress:
  assumes "0 < limit" "0 \<le> start" "ids = take (nat limit) (drop (nat start) keys)"
  shows "if int (length ids) = limit then nat (int (length keys) - (start + int (length ids))) < nat (int (length keys) - start)
     else length keys \<le> nat (start + int (length ids)) \<and> int (length ids) < limit"
proof -
  have "length ids = min (length keys - nat start) (nat limit)" by (simp add: assms(3))
  then show ?thesis using assms(1,2) by auto
qed

end
