(* ===== verification/Validator.thy ===== *)
theory Validator
  imports BagValidationConfig BoltDB MimeTypes WorkSummary FileUtil
begin

text \<open>
  \<^verbatim>\<open>src/validation/validator.go\<close>: the bag validator. A validator reads a bag twice, once to record every
  file with its digests in the database, once to parse manifests and tag files, and then checks the
  records against the manifests and the configuration. The record \<open>running\<close> is the validator with its
  open database. Every step takes the validator to the next one; \<open>Panics\<close> is a nil dereference, and
  the second pass, which need not end, is a partial function whose value is then \<open>None\<close>.
\<close>

section \<open>The state\<close>

definition VALIDATION_DB_SUFFIX :: string where
  "VALIDATION_DB_SUFFIX = ''.valdb''"

record Validator =
  v_PathToBag :: string
  v_BagValidationConfig :: BagValidationConfig
  v_PreserveExtendedAttributes :: bool
  v_ObjIdentifier :: string
  v_summary :: WorkSummary
  v_intelObj :: "IntellectualObject option"
  v_tagFilesToParse :: "string list"
  v_manifests :: "string list"
  v_tagManifests :: "string list"
  v_requiredFiles :: "string list"
  v_forbiddenFiles :: "string list"
  v_calculateMd5 :: bool
  v_calculateSha256 :: bool
  v_world :: world

record 'b running = Validator +
  v_db :: 'b

text \<open>What the validator runs on: the disk, the digests, the database package, \<open>regexp.Compile\<close>.\<close>

record 'b host =
  h_disk :: disk
  h_digests :: digests
  h_bolt :: "'b bolt"
  h_compile :: compiler

definition addError :: "'b running \<Rightarrow> string \<Rightarrow> 'b running" where
  "addError v message = v\<lparr>v_summary := AddError (v_summary v) message\<rparr>"

definition addErrors :: "'b running \<Rightarrow> string list \<Rightarrow> 'b running" where
  "addErrors v messages = foldl addError v messages"

definition setFatal :: "'b running \<Rightarrow> 'b running" where
  "setFatal v = v\<lparr>v_summary := (v_summary v)\<lparr>ws_ErrorIsFatal := True\<rparr>\<rparr>"

definition now :: "'b running \<Rightarrow> time \<times> 'b running" where
  "now v = (let (t, w) = timeNow (v_world v) in (t, v\<lparr>v_world := w\<rparr>))"

definition saveFile :: "'b host \<Rightarrow> 'b running \<Rightarrow> string \<Rightarrow> GenericFile \<Rightarrow> go_error option \<times> 'b running" where
  "saveFile h v key gf = (let (err, b) = SaveFile (h_bolt h) (v_db v) key gf in (err, v\<lparr>v_db := b\<rparr>))"

definition saveObject :: "'b host \<Rightarrow> 'b running \<Rightarrow> string \<Rightarrow> IntellectualObject \<Rightarrow> go_error option \<times> 'b running" where
  "saveObject h v key obj = (let (err, b) = SaveObject (h_bolt h) (v_db v) key obj in (err, v\<lparr>v_db := b\<rparr>))"

text \<open>The object is shared through a pointer: writing to it writes to the validator's own.\<close>

definition writeObj :: "IntellectualObject \<Rightarrow> 'b running \<Rightarrow> 'b running" where
  "writeObj obj v = (case v_intelObj v of None \<Rightarrow> v | Some _ \<Rightarrow> v\<lparr>v_intelObj := Some obj\<rparr>)"

section \<open>Construction\<close>

definition validateParams :: "'b host \<Rightarrow> string \<Rightarrow> BagValidationConfig option \<Rightarrow> go_error + BagValidationConfig" where
  "validateParams h pathToBag bagValidationConfig =
     (if \<not> FileExists (h_disk h) pathToBag then Inl (''Bag does not exist at '' @ pathToBag)
      else case bagValidationConfig of
        None \<Rightarrow> Inl ''Param bagValidationConfig cannot be nil''
      | Some config \<Rightarrow>
          (let configErrors = ValidateConfig config
           in if 0 < length configErrors
              then Inl (''BagValidationConfig has the following errors:'' @ concat (map (\<lambda>e. newline # e) configErrors))
              else case CompileFileNameRegex (h_compile h) config of
                (Some err, _) \<Rightarrow> Inl (''Error in BagValidationConfig: '' @ err)
              | (None, config') \<Rightarrow> Inr config'))"

definition tagFiles :: "BagValidationConfig \<Rightarrow> string list" where
  "tagFiles config = map fst (filter (\<lambda>(pathToFile, filespec). fsp_ParseAsTagFile filespec) (bvc_FileSpecs config))"

definition NewValidator :: "'b host \<Rightarrow> world \<Rightarrow> string \<Rightarrow> BagValidationConfig option \<Rightarrow> bool \<Rightarrow> go_error + Validator" where
  "NewValidator h w pathToBag bagValidationConfig preserveExtendedAttributes =
     (case validateParams h pathToBag bagValidationConfig of
        Inl err \<Rightarrow> Inl err
      | Inr config \<Rightarrow>
          Inr \<lparr>v_PathToBag = pathToBag, v_BagValidationConfig = config,
               v_PreserveExtendedAttributes = preserveExtendedAttributes,
               v_ObjIdentifier = CleanBagName (Base pathToBag), v_summary = NewWorkSummary, v_intelObj = None,
               v_tagFilesToParse = tagFiles config, v_manifests = [], v_tagManifests = [],
               v_requiredFiles = [], v_forbiddenFiles = [],
               v_calculateMd5 = StringListContains (bvc_FixityAlgorithms config) AlgMd5,
               v_calculateSha256 = StringListContains (bvc_FixityAlgorithms config) AlgSha256,
               v_world = w\<rparr>)"

definition DBName :: "string \<Rightarrow> string" where
  "DBName bagPath =
     (let p1 = (if HasSuffix bagPath ''.tar'' then take (length bagPath - 4) bagPath else bagPath);
          p2 = (if HasSuffix p1 ''/'' then take (length p1 - 1) p1 else p1)
      in p2 @ VALIDATION_DB_SUFFIX)"

definition getIterator :: "disk \<Rightarrow> string \<Rightarrow> (go_error + ReadIterator) outcome" where
  "getIterator fs pathToBag =
     (if HasSuffix pathToBag ''.tar''
      then Returns (case NewTarFileIterator fs pathToBag of Inl err \<Rightarrow> Inl err | Inr i \<Rightarrow> Inr (TarIter i))
      else and_then (NewFileSystemIterator fs pathToBag)
             (\<lambda>r. Returns (case r of Inl err \<Rightarrow> Inl err | Inr i \<Rightarrow> Inr (FsIter i))))"

section \<open>The object record\<close>

definition initIntellectualObject :: "'b host \<Rightarrow> 'b running \<Rightarrow> (IntellectualObject \<times> go_error option) \<times> 'b running" where
  "initIntellectualObject h v =
     (let obj0 = NewIntellectualObject\<lparr>obj_Identifier := v_ObjIdentifier v\<rparr>;
          obj = (if HasSuffix (v_PathToBag v) ''.tar'' then obj0\<lparr>obj_IngestTarFilePath := v_PathToBag v\<rparr>
                 else obj0\<lparr>obj_IngestUntarredPath := v_PathToBag v\<rparr>);
          (err, v') = saveObject h v (obj_Identifier obj) obj
      in ((obj, err), v'))"

definition getIntellectualObject :: "'b host \<Rightarrow> 'b running \<Rightarrow> (go_error + IntellectualObject) \<times> 'b running" where
  "getIntellectualObject h v =
     (case v_intelObj v of
        Some obj \<Rightarrow> (Inr obj, v)
      | None \<Rightarrow>
          (case GetIntellectualObject (h_bolt h) (v_db v) (v_ObjIdentifier v) of
             (_, Some err) \<Rightarrow> (Inl err, v)
           | (Some obj, None) \<Rightarrow> (Inr obj, v)
           | (None, None) \<Rightarrow>
               (case initIntellectualObject h v of
                  ((obj, None), v') \<Rightarrow> (Inr obj, v')
                | ((obj, Some err), v') \<Rightarrow> (Inl err, v'))))"

section \<open>First pass: recording the files\<close>

definition calculateChecksums :: "'b host \<Rightarrow> reader \<Rightarrow> GenericFile \<Rightarrow> 'b running \<Rightarrow> GenericFile \<times> 'b running" where
  "calculateChecksums h rd gf v =
     (if \<not> v_calculateMd5 v \<and> \<not> v_calculateSha256 v then (gf, v)
      else let (utcNow, v') = now v;
               gf1 = (if v_calculateMd5 v
                      then gf\<lparr>gf_IngestMd5 := dg_md5 (h_digests h) (rd_data rd),
                              gf_IngestMd5GeneratedAt :=
                                (if v_PreserveExtendedAttributes v then utcNow else gf_IngestMd5GeneratedAt gf)\<rparr>
                      else gf);
               gf2 = (if v_calculateSha256 v
                      then gf1\<lparr>gf_IngestSha256 := dg_sha256 (h_digests h) (rd_data rd),
                               gf_IngestSha256GeneratedAt :=
                                 (if v_PreserveExtendedAttributes v then utcNow else gf_IngestSha256GeneratedAt gf1)\<rparr>
                      else gf1)
           in (gf2, v'))"

definition setFileType :: "GenericFile \<Rightarrow> string \<Rightarrow> 'b running \<Rightarrow> GenericFile \<times> 'b running" where
  "setFileType gf relPath v =
     (if HasPrefix relPath ''tagmanifest-''
      then (gf\<lparr>gf_IngestFileType := TAG_MANIFEST, gf_FileFormat := ''text/plain''\<rparr>,
            v\<lparr>v_tagManifests := v_tagManifests v @ [relPath]\<rparr>)
      else if HasPrefix relPath ''manifest-''
      then (gf\<lparr>gf_IngestFileType := PAYLOAD_MANIFEST, gf_FileFormat := ''text/plain''\<rparr>,
            v\<lparr>v_manifests := v_manifests v @ [relPath]\<rparr>)
      else if HasPrefix relPath ''data/'' then (gf\<lparr>gf_IngestFileType := PAYLOAD_FILE\<rparr>, v)
      else (gf\<lparr>gf_IngestFileType := TAG_FILE\<rparr>, v))"

definition setMimeType :: "GenericFile \<Rightarrow> GenericFile" where
  "setMimeType gf =
     (let ext = Ext (gf_Identifier gf)
      in gf\<lparr>gf_FileFormat :=
             (if 1 < length ext then (case MimeTypes (tl ext) of Some t \<Rightarrow> t | None \<Rightarrow> ''application/binary'')
              else ''application/binary'')\<rparr>)"

definition extendedAttributes :: "FileSummary \<Rightarrow> GenericFile \<Rightarrow> 'b running \<Rightarrow> GenericFile \<times> 'b running" where
  "extendedAttributes s gf v =
     (if v_PreserveExtendedAttributes v
      then let (u, w1) = uuidNew (v_world v);
               (t, w2) = timeNow w1
           in (setMimeType (gf\<lparr>gf_Size := sum_Size s, gf_FileModified := sum_ModTime s,
                 gf_IngestLocalPath := sum_AbsPath s, gf_IngestNeedsSave := True, gf_IngestUUID := u,
                 gf_IngestUUIDGeneratedAt := t, gf_IngestFileUid := sum_Uid s, gf_IngestFileGid := sum_Gid s\<rparr>),
               v\<lparr>v_world := w2\<rparr>)
      else (gf, v))"

definition trackSpec :: "string \<Rightarrow> 'b running \<Rightarrow> 'b running" where
  "trackSpec origPath v =
     (case map_of (bvc_FileSpecs (v_BagValidationConfig v)) origPath of
        None \<Rightarrow> v
      | Some fileSpec \<Rightarrow>
          if fsp_Presence fileSpec = REQUIRED then v\<lparr>v_requiredFiles := v_requiredFiles v @ [origPath]\<rparr>
          else if fsp_Presence fileSpec = FORBIDDEN then v\<lparr>v_forbiddenFiles := v_forbiddenFiles v @ [origPath]\<rparr>
          else v)"

text \<open>The body of \<open>addFile\<close> after \<open>readIterator.Next()\<close> has returned a file.\<close>

definition addFile :: "'b host \<Rightarrow> reader \<Rightarrow> FileSummary \<Rightarrow> 'b running \<Rightarrow> go_error option \<times> 'b running" where
  "addFile h rd s v =
     (if \<not> sum_IsRegularFile s then (None, v)
      else let gf0 = NewGenericFile\<lparr>gf_Identifier := v_ObjIdentifier v @ ''/'' @ sum_RelPath s,
                       gf_IntellectualObjectIdentifier := v_ObjIdentifier v\<rparr>;
               (gf1, v1) = setFileType gf0 (sum_RelPath s) v;
               (gf2, v2) = extendedAttributes s gf1 v1;
               v3 = trackSpec (OriginalPath gf2) v2;
               (gf4, v4) = calculateChecksums h rd gf2 v3
           in saveFile h v4 (gf_Identifier gf4) gf4)"

definition addFilesError :: "go_error \<Rightarrow> 'b running \<Rightarrow> 'b running" where
  "addFilesError err v = (if err = ''EOF'' then v else setFatal (addError v (''Error reading bag: '' @ err)))"

function addLoop :: "'b host \<Rightarrow> ReadIterator \<Rightarrow> 'b running \<Rightarrow> ('b running \<times> ReadIterator) outcome" where
  "addLoop h it v =
     (case Next (h_disk h) it of
        Panics \<Rightarrow> Panics
      | Returns (AtEOF, it') \<Rightarrow> Returns (v, it')
      | Returns (NextError err, it') \<Rightarrow> Returns (addFilesError err v, it')
      | Returns (NextFile rd s, it') \<Rightarrow>
          (case addFile h rd s v of
             (Some err, v') \<Rightarrow> Returns (addFilesError err v', it')
           | (None, v') \<Rightarrow> addLoop h it' v'))"
  by pat_completeness auto
termination
  by (relation "measure (\<lambda>(h, it, v). filesLeft it)") (auto dest: Next_progress)

declare addLoop.simps [simp del]

definition addFiles :: "'b host \<Rightarrow> 'b running \<Rightarrow> 'b running outcome" where
  "addFiles h v =
     and_then (getIterator (h_disk h) (v_PathToBag v)) (\<lambda>r.
       case r of
         Inl err \<Rightarrow> Returns (addError v (''Error getting file iterator: '' @ err))
       | Inr it \<Rightarrow>
           and_then (addLoop h it v) (\<lambda>(v1, it').
             Returns (v1\<lparr>v_intelObj := map_option (\<lambda>obj. obj\<lparr>obj_IngestTopLevelDirNames := GetTopLevelDirNames it',
                             obj_IngestManifests := v_manifests v1, obj_IngestTagManifests := v_tagManifests v1\<rparr>)
                           (v_intelObj v1)\<rparr>)))"

section \<open>Second pass: manifests and tag files\<close>

text \<open>
  White space in Go's regular expressions, and the groups of \<^verbatim>\<open>^(\S*)\s*(.*)\<close> and of
  \<^verbatim>\<open>^(\S*\:)?(\s*.*)?$\<close> in a line, which has no line feed: both match every line.
\<close>

definition isRegexSpace :: "char \<Rightarrow> bool" where
  "isRegexSpace c \<longleftrightarrow> (of_char c :: nat) \<in> {9, 10, 12, 13, 32}"

definition manifestLine :: "string \<Rightarrow> string \<times> string" where
  "manifestLine line =
     (takeWhile (\<lambda>c. \<not> isRegexSpace c) line, dropWhile isRegexSpace (dropWhile (\<lambda>c. \<not> isRegexSpace c) line))"

definition tagLine :: "string \<Rightarrow> string \<times> string" where
  "tagLine line =
     (let word = takeWhile (\<lambda>c. \<not> isRegexSpace c) line;
          label = rev (dropWhile (\<lambda>c. c \<noteq> CHR '':'') (rev word))
      in (label, drop (length label) line))"

definition SetIntelObjTagValue :: "IntellectualObject \<Rightarrow> Tag \<Rightarrow> IntellectualObject" where
  "SetIntelObjTagValue obj tag =
     (let label = ToLower (tag_Label tag); val = tag_Value tag
      in if tag_SourceFile tag = ''aptrust-info.txt''
         then if label = ''title'' then obj\<lparr>obj_Title := val\<rparr>
              else if label = ''access'' then obj\<lparr>obj_Access := val\<rparr>
              else if label = ''description'' then obj\<lparr>obj_Description := val\<rparr>
              else obj
         else if tag_SourceFile tag = ''bag-info.txt''
         then if label = ''internal-sender-description''
              then (if obj_Description obj = [] then obj\<lparr>obj_Description := val\<rparr> else obj)
              else if label = ''internal-sender-identifier'' then obj\<lparr>obj_AltIdentifier := val\<rparr>
              else if label = ''bag-group-identifier'' then obj\<lparr>obj_BagGroupIdentifier := val\<rparr>
              else if label = ''source-organization'' then obj\<lparr>obj_SourceOrganization := val\<rparr>
              else if label = ''bagit-profile-identifier'' then obj\<lparr>obj_BagItProfileIdentifier := val\<rparr>
              else obj
         else obj)"

definition appendTag :: "Tag option \<Rightarrow> IntellectualObject \<Rightarrow> IntellectualObject" where
  "appendTag tag obj =
     (case tag of
        Some t \<Rightarrow> if tag_Label t \<noteq> [] then obj\<lparr>obj_IngestTags := obj_IngestTags obj @ [t]\<rparr> else obj
      | None \<Rightarrow> obj)"

fun tagLoop :: "string \<Rightarrow> string list \<Rightarrow> Tag option \<Rightarrow> IntellectualObject \<Rightarrow> Tag option \<times> IntellectualObject" where
  "tagLoop relFilePath [] tag obj = (tag, obj)"
| "tagLoop relFilePath (line # lines) tag obj =
     (if TrimSpace line = [] then tagLoop relFilePath lines tag obj
      else let (d1, d2) = tagLine line;
               label = Replace1 (TrimSpace d1) '':'' []
           in if label \<noteq> []
              then let obj1 = appendTag tag obj;
                       tag1 = NewTag relFilePath label (TrimSpace d2)
                   in tagLoop relFilePath lines (Some tag1) (SetIntelObjTagValue obj1 tag1)
              else case tag of
                     Some t \<Rightarrow>
                       (let t1 = t\<lparr>tag_Value := Join [tag_Value t, TrimSpace d2] '' ''\<rparr>
                        in tagLoop relFilePath lines (Some t1) (SetIntelObjTagValue obj t1))
                   | None \<Rightarrow> tagLoop relFilePath lines None obj)"

definition parseTags :: "'b host \<Rightarrow> reader \<Rightarrow> string \<Rightarrow> 'b running \<Rightarrow> 'b running" where
  "parseTags h rd relFilePath v =
     (case getIntellectualObject h v of
        (Inl err, v1) \<Rightarrow> addError v1 (''Error getting IntelObj from validation db: '' @ err)
      | (Inr obj, v1) \<Rightarrow>
          (let (lines, scanErr) = ScanLines rd;
               (tag, obj1) = tagLoop relFilePath lines None obj;
               obj2 = appendTag tag obj1;
               v2 = writeObj obj2 v1;
               v3 = (case scanErr of
                       None \<Rightarrow> v2
                     | Some err \<Rightarrow> addError v2 (''Error reading tag file '' @ quoted relFilePath @ '': '' @ err));
               (err, v4) = saveObject h v3 (v_ObjIdentifier v3) obj2
           in case err of
                None \<Rightarrow> v4
              | Some e \<Rightarrow> addError v4 (''Could not save IntelObj after parsing tags: '' @ e)))"

definition setManifestDigest :: "string \<Rightarrow> string \<Rightarrow> GenericFile \<Rightarrow> GenericFile" where
  "setManifestDigest alg digest gf =
     (if alg = AlgMd5 then gf\<lparr>gf_IngestManifestMd5 := digest\<rparr> else gf\<lparr>gf_IngestManifestSha256 := digest\<rparr>)"

text \<open>One line of a manifest. The record is looked up, changed and saved.\<close>

definition manifestEntry :: "'b host \<Rightarrow> string \<Rightarrow> string \<Rightarrow> string \<Rightarrow> 'b running \<Rightarrow> 'b running" where
  "manifestEntry h alg relPath line v =
     (if TrimSpace line = [] then v
      else let (digest, filePath) = manifestLine line;
               gfIdentifier = v_ObjIdentifier v @ ''/'' @ filePath;
               (found, err) = GetGenericFile (h_bolt h) (v_db v) gfIdentifier;
               v1 = (case err of
                       None \<Rightarrow> v
                     | Some e \<Rightarrow> addError v (''Error finding generic file '' @ quoted gfIdentifier @ '' in db: '' @ e))
           in case found of
                None \<Rightarrow> addError v1 (''File '' @ quoted filePath @ '' in manifest '' @ quoted relPath @ '' is missing from bag'')
              | Some gf \<Rightarrow>
                  (case saveFile h v1 gfIdentifier (setManifestDigest alg digest gf) of
                     (None, v2) \<Rightarrow> v2
                   | (Some e, v2) \<Rightarrow> addError v2 (''Error saving generic file '' @ quoted gfIdentifier @ '' to db: '' @ e)))"

definition manifestAlg :: "string \<Rightarrow> string option" where
  "manifestAlg relPath =
     (if Contains relPath AlgSha256 then Some AlgSha256
      else if Contains relPath AlgMd5 then Some AlgMd5 else None)"

definition parseManifest :: "'b host \<Rightarrow> reader \<Rightarrow> string \<Rightarrow> 'b running \<Rightarrow> 'b running" where
  "parseManifest h rd relPath v =
     (case manifestAlg relPath of
        None \<Rightarrow> v
      | Some alg \<Rightarrow> fold (manifestEntry h alg relPath) (fst (ScanLines rd)) v)"

definition parseFile :: "'b host \<Rightarrow> reader \<Rightarrow> string \<Rightarrow> 'b running \<Rightarrow> 'b running" where
  "parseFile h rd relPath v =
     (let parseAsTagFile = StringListContains (v_tagFilesToParse v) relPath;
          parseAsManifest = StringListContains (v_manifests v) relPath \<or> StringListContains (v_tagManifests v) relPath
      in if parseAsTagFile then parseTags h rd relPath v
         else if parseAsManifest then parseManifest h rd relPath v
         else v)"

text \<open>The body of the loop of \<open>parseFiles\<close> once a file is open.\<close>

definition parseOne :: "'b host \<Rightarrow> reader \<Rightarrow> FileSummary \<Rightarrow> 'b running \<Rightarrow> 'b running" where
  "parseOne h rd s v =
     (if sum_IsDir s then v
      else let gfIdentifier = v_ObjIdentifier v @ ''/'' @ sum_RelPath s
           in case GetGenericFile (h_bolt h) (v_db v) gfIdentifier of
                (_, Some err) \<Rightarrow> addError v (''Error finding '' @ quoted gfIdentifier @ '' in validation db: '' @ err)
              | (None, None) \<Rightarrow> addError v (''Cannot find '' @ quoted gfIdentifier @ '' in validation db'')
              | (Some gf, None) \<Rightarrow> parseFile h rd (sum_RelPath s) v)"

partial_function (option) parseLoop ::
  "'b host \<Rightarrow> ReadIterator \<Rightarrow> 'b running \<Rightarrow> 'b running outcome option" where
  "parseLoop h it v =
     (case Next (h_disk h) it of
        Panics \<Rightarrow> Some Panics
      | Returns p \<Rightarrow>
          (case fst p of
             AtEOF \<Rightarrow> Some (Returns v)
           | NextError err \<Rightarrow>
               (let v1 = addError v (take 2000 err)
                in if 100 < length (ws_Errors (v_summary v1)) then Some (Returns v1)
                   else parseLoop h (snd p) v1)
           | NextFile rd s \<Rightarrow> parseLoop h (snd p) (parseOne h rd s v)))"

declare parseLoop.simps [code]

definition parseFiles :: "'b host \<Rightarrow> 'b running \<Rightarrow> 'b running outcome option" where
  "parseFiles h v =
     (case getIterator (h_disk h) (v_PathToBag v) of
        Panics \<Rightarrow> Some Panics
      | Returns (Inl err) \<Rightarrow> Some (Returns (addError v (''Error getting file iterator: '' @ err)))
      | Returns (Inr it) \<Rightarrow> parseLoop h it v)"

section \<open>The storage option\<close>

fun storageLoop :: "'b host \<Rightarrow> string \<Rightarrow> string list \<Rightarrow> 'b running \<Rightarrow> 'b running outcome" where
  "storageLoop h option [] v = Returns v"
| "storageLoop h option (gfIdentifier # rest) v =
     (case GetGenericFile (h_bolt h) (v_db v) gfIdentifier of
        (_, Some err) \<Rightarrow> Returns (addError v (''Error getting file '' @ gfIdentifier @ '' from validation db: '' @ err))
      | (None, None) \<Rightarrow> Panics
      | (Some gf, None) \<Rightarrow>
          (case saveFile h v gfIdentifier (gf\<lparr>gf_StorageOption := option\<rparr>) of
             (None, v1) \<Rightarrow> storageLoop h option rest v1
           | (Some err, v1) \<Rightarrow>
               storageLoop h option rest
                 (addError v1 (''Error saving generic file '' @ quoted gfIdentifier @ '' to db: '' @ err))))"

definition chooseStorage :: "IntellectualObject \<Rightarrow> IntellectualObject" where
  "chooseStorage obj =
     (let (tags, obj1) = FindTag (obj\<lparr>obj_StorageOption := StorageStandard\<rparr>) ''Storage-Option''
      in if tags \<noteq> [] \<and> tag_Value (hd tags) \<noteq> []
         then obj1\<lparr>obj_StorageOption := tag_Value (hd tags)\<rparr> else obj1)"

definition setStorageOption :: "'b host \<Rightarrow> 'b running \<Rightarrow> 'b running outcome" where
  "setStorageOption h v =
     (case getIntellectualObject h v of
        (Inl err, v1) \<Rightarrow> Returns (addError v1 (''Error getting IntelObj from validation db: '' @ err))
      | (Inr obj, v1) \<Rightarrow>
          (let obj2 = chooseStorage obj;
               (err, v2) = saveObject h (writeObj obj2 v1) (obj_Identifier obj2) obj2;
               v3 = (case err of
                       None \<Rightarrow> v2
                     | Some e \<Rightarrow> addError v2 (''Error saving IntelObj '' @ quoted (obj_Identifier obj2) @ '' to db: '' @ e))
           in storageLoop h (obj_StorageOption obj2) (FileIdentifiers (h_bolt h) (v_db v3)) v3))"

definition saveMetadata :: "'b host \<Rightarrow> 'b running \<Rightarrow> 'b running outcome" where
  "saveMetadata h v =
     (case v_intelObj v of
        None \<Rightarrow> Panics
      | Some obj \<Rightarrow>
          (case saveObject h v (obj_Identifier obj) obj of
             (None, v1) \<Rightarrow> Returns v1
           | (Some err, v1) \<Rightarrow> Returns (addError v1 (''Could not save intelObj metadata: '' @ err))))"

definition readBag :: "'b host \<Rightarrow> 'b running \<Rightarrow> 'b running outcome option" where
  "readBag h v =
     (case getIntellectualObject h v of
        (Inl err, v1) \<Rightarrow> Some (Returns (addError v1 (''Could not init object: '' @ err)))
      | (Inr obj, v1) \<Rightarrow>
          (case addFiles h (v1\<lparr>v_intelObj := Some obj\<rparr>) of
             Panics \<Rightarrow> Some Panics
           | Returns v2 \<Rightarrow>
               (case parseFiles h v2 of
                  None \<Rightarrow> None
                | Some r \<Rightarrow> Some (and_then r (\<lambda>v3. and_then (setStorageOption h v3) (saveMetadata h))))))"

section \<open>The checks\<close>

definition verifyManifestPresent :: "'b running \<Rightarrow> 'b running" where
  "verifyManifestPresent v =
     (if v_manifests v = [] then addError v ''Bag contains no payload manifest.'' else v)"

text \<open>The last four bytes go when they are \<open>.tar\<close>: \<open>TAR_SUFFIX.ReplaceAllString(baseName, "")\<close>.\<close>

definition stripTar :: "string \<Rightarrow> string" where
  "stripTar s = (if HasSuffix s ''.tar'' then take (length s - 4) s else s)"

definition verifyTopLevelFolder :: "'b host \<Rightarrow> 'b running \<Rightarrow> 'b running" where
  "verifyTopLevelFolder h v =
     (case getIntellectualObject h v of
        (Inl err, v1) \<Rightarrow> addError v1 (''Can'' @ [CHR 0x27] @ ''t get object: '' @ err)
      | (Inr obj, v1) \<Rightarrow>
          if obj_IngestTarFilePath obj = [] then v1
          else let expectedDirName = stripTar (Base (obj_IngestTarFilePath obj))
               in addErrors v1
                    (map (\<lambda>dirName. ''Tarred bag should untar to directory '' @ quoted expectedDirName @ '', not '' @ quoted dirName)
                      (filter (\<lambda>dirName. dirName \<noteq> expectedDirName) (obj_IngestTopLevelDirNames obj))))"

fun fileSpecErrors :: "(string \<times> FileSpec) list \<Rightarrow> string list \<Rightarrow> string list \<Rightarrow> string list" where
  "fileSpecErrors [] requiredFiles forbiddenFiles = []"
| "fileSpecErrors ((gfPath, fileSpec) # specs) requiredFiles forbiddenFiles =
     (if fsp_Presence fileSpec = REQUIRED \<and> \<not> StringListContains requiredFiles gfPath
      then [''Required file '' @ quoted gfPath @ '' is missing.'']
      else if fsp_Presence fileSpec = FORBIDDEN \<and> StringListContains forbiddenFiles gfPath
      then [''Bag contains forbidden file '' @ quoted gfPath @ ''.'']
      else []) @ fileSpecErrors specs requiredFiles forbiddenFiles"

definition verifyFileSpecs :: "'b running \<Rightarrow> 'b running" where
  "verifyFileSpecs v =
     addErrors v (fileSpecErrors (bvc_FileSpecs (v_BagValidationConfig v)) (v_requiredFiles v) (v_forbiddenFiles v))"

definition checkRequiredTag :: "string \<Rightarrow> Tag list \<Rightarrow> TagSpec \<Rightarrow> string list" where
  "checkRequiredTag tagName tags tagSpec =
     (if tags = [] then [''Required tag '' @ quoted tagName @ '' is missing.'']
      else if \<not> tsp_EmptyOK tagSpec \<and> \<not> list_ex (\<lambda>tag. tag_Value tag \<noteq> []) tags
      then [''Value for tag '' @ quoted tagName @ '' is missing.'']
      else [])"

definition foldValue :: "string \<Rightarrow> string" where
  "foldValue s = TrimSpace (ToLower s)"

definition checkAllowedTagValue :: "string \<Rightarrow> Tag list \<Rightarrow> TagSpec \<Rightarrow> string list" where
  "checkAllowedTagValue tagName tags tagSpec =
     (let valueOk = list_ex (\<lambda>val. list_ex (\<lambda>tag. foldValue val = foldValue (tag_Value tag)) tags) (tsp_AllowedValues tagSpec);
          lastValue = (if tags = [] \<or> tsp_AllowedValues tagSpec = [] then [] else foldValue (tag_Value (last tags)))
      in if valueOk then [] else [''Tag '' @ quoted tagName @ '' has illegal value '' @ quoted lastValue @ ''.''])"

fun tagSpecLoop :: "(string \<times> TagSpec) list \<Rightarrow> IntellectualObject \<Rightarrow> 'b running \<Rightarrow> (IntellectualObject \<times> 'b running) outcome" where
  "tagSpecLoop [] obj v = Returns (obj, v)"
| "tagSpecLoop ((tagName, tagSpec) # specs) obj v =
     (let (tags, obj1) = FindTag obj tagName
      in if tsp_Presence tagSpec = FORBIDDEN
         then (case tags of
                 [] \<Rightarrow> Panics
               | t # _ \<Rightarrow>
                   tagSpecLoop specs obj1
                     (addError v (''Forbidden tag '' @ quoted tagName @ '' found in file '' @ quoted (tag_SourceFile t) @ ''.'')))
         else tagSpecLoop specs obj1
                (addErrors v
                  ((if tsp_Presence tagSpec = REQUIRED then checkRequiredTag tagName tags tagSpec else []) @
                   (if tags \<noteq> [] \<and> tsp_AllowedValues tagSpec \<noteq> [] then checkAllowedTagValue tagName tags tagSpec else []))))"

definition verifyTagSpecs :: "'b host \<Rightarrow> 'b running \<Rightarrow> 'b running outcome" where
  "verifyTagSpecs h v =
     (case getIntellectualObject h v of
        (Inl err, v1) \<Rightarrow> Returns (addError v1 (''Cannot get object metadata from db: '' @ err))
      | (Inr obj, v1) \<Rightarrow>
          and_then (tagSpecLoop (bvc_TagSpecs (v_BagValidationConfig v1)) obj v1)
            (\<lambda>(obj', v2). Returns (writeObj obj' v2)))"

definition fileValidationDetail :: "BagValidationConfig \<Rightarrow> string" where
  "fileValidationDetail config =
     (if ToUpper (bvc_FileNamePattern config) = ''APTRUST'' then ''APTrust validation rules''
      else if ToUpper (bvc_FileNamePattern config) = ''POSIX'' then ''POSIX validation rules''
      else ''validation pattern '' @ bvc_FileNamePattern config)"

text \<open>The messages the checks on one file add, in their order.\<close>

definition md5Mismatch :: "GenericFile \<Rightarrow> bool" where
  "md5Mismatch gf \<longleftrightarrow> gf_IngestManifestMd5 gf \<noteq> [] \<and> gf_IngestManifestMd5 gf \<noteq> gf_IngestMd5 gf"

definition sha256Mismatch :: "GenericFile \<Rightarrow> bool" where
  "sha256Mismatch gf \<longleftrightarrow> gf_IngestManifestSha256 gf \<noteq> [] \<and> gf_IngestManifestSha256 gf \<noteq> gf_IngestSha256 gf"

definition nameErrors :: "BagValidationConfig \<Rightarrow> string \<Rightarrow> string list" where
  "nameErrors config origPath =
     (if ContainsControlCharacter origPath \<or> LooksLikeEscapedControl origPath
      then [''File name '' @ quoted origPath @ '' contains an illegal unicode control character'']
      else case bvc_FileNameRegex config of
        None \<Rightarrow> []
      | Some re \<Rightarrow>
          map (\<lambda>_. ''Filename '' @ quoted origPath @ '' is not valid according to '' @ fileValidationDetail config)
            (filter (\<lambda>pathComponent. \<not> re pathComponent) (Split (CHR ''/'') origPath)))"

definition fileErrors :: "BagValidationConfig \<Rightarrow> GenericFile \<Rightarrow> string list" where
  "fileErrors config gf =
     (if OriginalPath gf = ''fetch.txt'' \<and> \<not> bvc_AllowFetchTxt config
      then [''Bag contains a fetch.txt file, but the profile does not allow it.''] else []) @
     (if md5Mismatch gf
      then [''Bad md5 digest for '' @ quoted (OriginalPath gf) @ '': manifest says '' @ quoted (gf_IngestManifestMd5 gf) @
            '', file digest is '' @ quoted (gf_IngestMd5 gf)] else []) @
     (if sha256Mismatch gf
      then [''Bad sha256 digest for '' @ quoted (OriginalPath gf) @ '': manifest says '' @ quoted (gf_IngestManifestSha256 gf) @
            '', file digest is '' @ quoted (gf_IngestSha256 gf)] else []) @
     (if gf_IngestFileType gf = PAYLOAD_FILE \<and> gf_IngestManifestMd5 gf = [] \<and> gf_IngestManifestSha256 gf = []
      then [''File '' @ quoted (OriginalPath gf) @ '' does not appear in any payload manifest (md5 or sha256)''] else []) @
     nameErrors config (OriginalPath gf)"

definition stampMd5 :: "GenericFile \<Rightarrow> 'b running \<Rightarrow> GenericFile \<times> 'b running" where
  "stampMd5 gf v =
     (if md5Mismatch gf then (gf, v) else let (t, v') = now v in (gf\<lparr>gf_IngestMd5VerifiedAt := t\<rparr>, v'))"

definition stampSha256 :: "GenericFile \<Rightarrow> 'b running \<Rightarrow> GenericFile \<times> 'b running" where
  "stampSha256 gf v =
     (if sha256Mismatch gf then (gf, v) else let (t, v') = now v in (gf\<lparr>gf_IngestSha256VerifiedAt := t\<rparr>, v'))"

definition verifyGenericFile :: "'b host \<Rightarrow> GenericFile \<Rightarrow> 'b running \<Rightarrow> 'b running" where
  "verifyGenericFile h gf v =
     (let v1 = addErrors v (fileErrors (v_BagValidationConfig v) gf);
          (gf2, v2) = stampMd5 gf v1;
          (gf3, v3) = stampSha256 gf2 v2
      in case saveFile h v3 (gf_Identifier gf3) gf3 of
           (None, v4) \<Rightarrow> v4
         | (Some _, v4) \<Rightarrow>
             addError v4 (''Cannot save GenericFile '' @ gf_Identifier gf3 @ '' to db after comparing checksums''))"

fun verifyLoop :: "'b host \<Rightarrow> string list \<Rightarrow> 'b running \<Rightarrow> 'b running outcome" where
  "verifyLoop h [] v = Returns v"
| "verifyLoop h (gfIdentifier # rest) v =
     (case GetGenericFile (h_bolt h) (v_db v) gfIdentifier of
        (_, Some err) \<Rightarrow>
          Returns (setFatal (addError v (''Cannot get GenericFile '' @ gfIdentifier @ '' from BoltDB: '' @ err)))
      | (None, None) \<Rightarrow> Panics
      | (Some gf, None) \<Rightarrow> verifyLoop h rest (verifyGenericFile h gf v))"

definition verifyGenericFiles :: "'b host \<Rightarrow> 'b running \<Rightarrow> 'b running outcome" where
  "verifyGenericFiles h v = verifyLoop h (FileIdentifiers (h_bolt h) (v_db v)) v"

section \<open>Validate\<close>

definition startValidation :: "'b running \<Rightarrow> 'b running" where
  "startValidation v =
     (let (t, v1) = now v
      in v1\<lparr>v_summary := (Start t (v_summary v1))\<lparr>ws_Attempted := True,
              ws_AttemptNumber := ws_AttemptNumber (v_summary v1) + 1\<rparr>\<rparr>)"

definition finishValidation :: "'b running \<Rightarrow> 'b running" where
  "finishValidation v = (let (t, v1) = now v in v1\<lparr>v_summary := Finish t (v_summary v1)\<rparr>)"

definition verifyBag :: "'b host \<Rightarrow> 'b running \<Rightarrow> 'b running outcome" where
  "verifyBag h v =
     (let v1 = verifyManifestPresent v;
          v2 = verifyTopLevelFolder h v1;
          v3 = verifyFileSpecs v2
      in and_then (verifyTagSpecs h v3) (\<lambda>v4.
         and_then (verifyGenericFiles h v4) (\<lambda>v5. Returns (finishValidation v5))))"

definition Validate :: "'b host \<Rightarrow> Validator \<Rightarrow> (go_error + 'b running) outcome option" where
  "Validate h v0 =
     (case NewBoltDB (h_bolt h) (DBName (v_PathToBag v0)) of
        Inl err \<Rightarrow> Some (Returns (Inl err))
      | Inr db \<Rightarrow>
          (case readBag h (startValidation (Validator.Validator.extend v0 (running.fields db))) of
             None \<Rightarrow> None
           | Some r \<Rightarrow> Some (and_then r (\<lambda>v. and_then (verifyBag h v) (\<lambda>v'. Returns (Inr v'))))))"

end
