(* ===== verification/ValidatorRuns.thy ===== *)
theory ValidatorRuns
  imports Validator
begin

text \<open>
  How a run of the validator evolves: no step changes the settings the validator was made with, and
  every step only adds to its error log. From that, when a run ends: the second pass over a tarred
  bag returns exactly when the archive ends without an error.
\<close>

section \<open>Evolution of the state\<close>

definition errs :: "'b running \<Rightarrow> string list" where
  "errs v = ws_Errors (v_summary v)"

definition pushError :: "string list \<Rightarrow> string \<Rightarrow> string list" where
  "pushError es m =
     (if 29 < length es then es else if length es = 29 then es @ [''Too many errors''] else es @ [m])"

definition settings :: "'b running \<Rightarrow> string \<times> BagValidationConfig \<times> bool \<times> string \<times> string list \<times> bool \<times> bool" where
  "settings v = (v_PathToBag v, v_BagValidationConfig v, v_PreserveExtendedAttributes v, v_ObjIdentifier v,
     v_tagFilesToParse v, v_calculateMd5 v, v_calculateSha256 v)"

definition evolves :: "'b running \<Rightarrow> 'b running \<Rightarrow> bool" where
  "evolves v v' \<longleftrightarrow> settings v' = settings v \<and> (\<exists>ms. errs v' = foldl pushError (errs v) ms)"

lemma evolves_refl [simp]: "evolves v v"
  by (auto simp: evolves_def intro: exI [of _ "[]"])

lemma evolves_trans [trans]: "evolves v v1 \<Longrightarrow> evolves v1 v2 \<Longrightarrow> evolves v v2"
  unfolding evolves_def by (metis foldl_append)

lemma evolves_silent: "settings v' = settings v \<Longrightarrow> errs v' = errs v \<Longrightarrow> evolves v v'"
  by (auto simp: evolves_def intro: exI [of _ "[]"])

lemma errs_addError: "errs (addError v m) = pushError (errs v) m"
  by (simp add: errs_def addError_def AddError_def pushError_def)

lemma settings_addError [simp]: "settings (addError v m) = settings v"
  by (simp add: settings_def addError_def)

lemma evolves_addError [err_mono]: "evolves u v \<Longrightarrow> evolves u (addError v m)"
  by (auto simp: evolves_def errs_addError intro: exI [of _ "ms @ [m]" for ms])

lemma evolves_addErrors [err_mono]: "evolves u v \<Longrightarrow> evolves u (addErrors v ms)"
  by (induction ms arbitrary: v) (simp_all add: addErrors_def evolves_addError)

text \<open>A log that is clean at the end was clean all along, and the cap on its length is kept.\<close>

definition clean :: "'b running \<Rightarrow> bool" where
  "clean v \<longleftrightarrow> errs v = []"

lemma clean_HasErrors: "clean v \<longleftrightarrow> \<not> HasErrors (v_summary v)"
  by (simp add: clean_def errs_def HasErrors_def)

lemma pushError_not_Nil [simp]: "pushError es m \<noteq> []"
  by (auto simp: pushError_def)

lemma foldl_pushError_Nil: "foldl pushError es ms = [] \<Longrightarrow> es = [] \<and> ms = []"
  by (induction ms rule: rev_induct) auto

lemma evolves_clean: "evolves v v' \<Longrightarrow> clean v' \<Longrightarrow> clean v"
  unfolding evolves_def clean_def by (metis foldl_pushError_Nil)

lemma not_clean_addError [simp]: "\<not> clean (addError v m)"
  by (simp add: clean_def errs_addError)

lemma clean_addErrors: "clean (addErrors v ms) \<longleftrightarrow> clean v \<and> ms = []"
proof (cases ms)
  case (Cons m rest)
  have "addErrors v ms = addErrors (addError v m) rest" by (simp add: addErrors_def Cons)
  then have "evolves (addError v m) (addErrors v ms)" by (simp add: evolves_addErrors)
  then have "\<not> clean (addErrors v ms)" using evolves_clean not_clean_addError by blast
  with Cons show ?thesis by simp
qed (simp add: addErrors_def)

lemma pushError_bound: "length es \<le> 30 \<Longrightarrow> length (pushError es m) \<le> 30"
  by (auto simp: pushError_def)

lemma evolves_bound: "evolves v v' \<Longrightarrow> length (errs v) \<le> 30 \<Longrightarrow> length (errs v') \<le> 30"
proof -
  have "length es \<le> 30 \<Longrightarrow> length (foldl pushError es ms) \<le> 30" for es ms
    by (induction ms arbitrary: es) (simp_all add: pushError_bound)
  then show "evolves v v' \<Longrightarrow> length (errs v) \<le> 30 \<Longrightarrow> length (errs v') \<le> 30"
    by (auto simp: evolves_def)
qed

section \<open>Every step evolves\<close>

lemmas silent_defs = settings_def errs_def

lemma evolves_also: "(\<And>v. evolves v (f v)) \<Longrightarrow> evolves u v \<Longrightarrow> evolves u (f v)"
  by (blast intro: evolves_trans)

lemma evolves_saveFile [err_mono]: "evolves u v \<Longrightarrow> evolves u (snd (saveFile h v k gf))"
  by (erule evolves_trans) (auto intro: evolves_silent simp: saveFile_def silent_defs split: prod.splits)

lemma evolves_saveObject [err_mono]: "evolves u v \<Longrightarrow> evolves u (snd (saveObject h v k obj))"
  by (erule evolves_trans) (auto intro: evolves_silent simp: saveObject_def silent_defs split: prod.splits)

lemma evolves_now [err_mono]: "evolves u v \<Longrightarrow> evolves u (snd (now v))"
  by (erule evolves_trans) (auto intro: evolves_silent simp: now_def silent_defs split: prod.splits)

lemma evolves_writeObj [err_mono]: "evolves u v \<Longrightarrow> evolves u (writeObj obj v)"
  by (erule evolves_trans) (auto intro: evolves_silent simp: writeObj_def silent_defs split: option.splits)

lemma evolves_setFatal [err_mono]: "evolves u v \<Longrightarrow> evolves u (setFatal v)"
  by (erule evolves_trans) (auto intro: evolves_silent simp: setFatal_def silent_defs)

lemma evolves_trackSpec [err_mono]: "evolves u v \<Longrightarrow> evolves u (trackSpec p v)"
  by (erule evolves_trans) (auto intro!: evolves_silent simp: trackSpec_def silent_defs split: option.splits)

lemma evolves_setFileType [err_mono]: "evolves u v \<Longrightarrow> evolves u (snd (setFileType gf p v))"
  by (erule evolves_trans) (auto intro!: evolves_silent simp: setFileType_def silent_defs)

lemma evolves_extendedAttributes [err_mono]: "evolves u v \<Longrightarrow> evolves u (snd (extendedAttributes s gf v))"
  by (erule evolves_trans) (auto intro!: evolves_silent simp: extendedAttributes_def silent_defs split: prod.splits)

lemma evolves_calculateChecksums [err_mono]: "evolves u v \<Longrightarrow> evolves u (snd (calculateChecksums h rd gf v))"
  by (simp add: calculateChecksums_def split_beta Let_def err_mono)

lemma evolves_initIntellectualObject [err_mono]: "evolves u v \<Longrightarrow> evolves u (snd (initIntellectualObject h v))"
  by (simp add: initIntellectualObject_def split_beta Let_def err_mono)

lemma evolves_getIntellectualObject [err_mono]: "evolves u v \<Longrightarrow> evolves u (snd (getIntellectualObject h v))"
  by (simp add: getIntellectualObject_def split_beta err_mono split: option.splits)

lemma evolves_addFile [err_mono]: "evolves u v \<Longrightarrow> evolves u (snd (addFile h rd s v))"
  by (simp add: addFile_def split_beta Let_def err_mono)

lemma evolves_addFilesError [err_mono]: "evolves u v \<Longrightarrow> evolves u (addFilesError e v)"
  by (simp add: addFilesError_def err_mono)

lemma evolves_parseTags [err_mono]: "evolves u v \<Longrightarrow> evolves u (parseTags h rd p v)"
  by (simp add: parseTags_def split_beta Let_def err_mono split: option.splits sum.splits)

lemma evolves_manifestEntry [err_mono]: "evolves u v \<Longrightarrow> evolves u (manifestEntry h alg p line v)"
  by (simp add: manifestEntry_def split_beta Let_def err_mono split: option.splits)

lemma evolves_fold: "(\<And>x v. evolves u v \<Longrightarrow> evolves u (f x v)) \<Longrightarrow> evolves u v \<Longrightarrow> evolves u (fold f xs v)"
  by (induction xs arbitrary: v) auto

lemma evolves_parseManifest [err_mono]: "evolves u v \<Longrightarrow> evolves u (parseManifest h rd p v)"
  by (auto simp: parseManifest_def split: option.splits intro!: evolves_fold evolves_manifestEntry)

lemma evolves_parseOne [err_mono]: "evolves u v \<Longrightarrow> evolves u (parseOne h rd s v)"
  by (simp add: parseOne_def parseFile_def split_beta Let_def err_mono split: option.splits)

text \<open>One turn of the loop, by what \<open>Next\<close> reports.\<close>

lemma addLoop_turn:
  "Next (h_disk h) it = Panics \<Longrightarrow> addLoop h it v = Panics"
  "Next (h_disk h) it = Returns (AtEOF, i) \<Longrightarrow> addLoop h it v = Returns (v, i)"
  "Next (h_disk h) it = Returns (NextError e, i) \<Longrightarrow> addLoop h it v = Returns (addFilesError e v, i)"
  "Next (h_disk h) it = Returns (NextFile rd s, i) \<Longrightarrow> addFile h rd s v = (None, v1) \<Longrightarrow>
     addLoop h it v = addLoop h i v1"
  "Next (h_disk h) it = Returns (NextFile rd s, i) \<Longrightarrow> addFile h rd s v = (Some e, v1) \<Longrightarrow>
     addLoop h it v = Returns (addFilesError e v1, i)"
  by (simp_all add: addLoop.simps [of h it v])

lemma evolves_addLoop: "addLoop h it v = Returns (v', it') \<Longrightarrow> evolves u v \<Longrightarrow> evolves u v'"
proof (induction "filesLeft it" arbitrary: it v rule: less_induct)
  case less
  show ?case
  proof (cases "Next (h_disk h) it")
    case (Returns p)
    obtain n i where p: "p = (n, i)" by (cases p)
    show ?thesis
    proof (cases n)
      case (NextFile rd s)
      with Returns p have n: "Next (h_disk h) it = Returns (NextFile rd s, i)" by simp
      obtain e v1 where a: "addFile h rd s v = (e, v1)" by (cases "addFile h rd s v")
      have v1: "evolves u v1" using evolves_addFile [OF less.prems(2), of h rd s] a by simp
      show ?thesis
      proof (cases e)
        case None
        with less.prems(1) a n have "addLoop h i v1 = Returns (v', it')" by (simp add: addLoop_turn)
        then show ?thesis by (rule less.hyps [OF Next_progress [OF n]]) (rule v1)
      qed (use less.prems(1) a n v1 in \<open>auto simp: addLoop_turn err_mono\<close>)
    qed (use less.prems Returns p in \<open>auto simp: addLoop_turn err_mono\<close>)
  qed (use less.prems in \<open>simp add: addLoop_turn\<close>)
qed

lemma evolves_addFiles: "addFiles h v = Returns v' \<Longrightarrow> evolves u v \<Longrightarrow> evolves u v'"
proof -
  assume a: "addFiles h v = Returns v'" and u: "evolves u v"
  then obtain r where r: "getIterator (h_disk h) (v_PathToBag v) = Returns r"
    by (auto simp: addFiles_def and_then_Returns_iff)
  show "evolves u v'"
  proof (cases r)
    case (Inl err)
    with a r u show ?thesis by (auto simp: addFiles_def err_mono)
  next
    case (Inr it)
    with a r obtain v1 it' f where "addLoop h it v = Returns (v1, it')" "v' = v1\<lparr>v_intelObj := f\<rparr>"
      by (auto simp: addFiles_def and_then_Returns_iff)
    with evolves_addLoop [OF this(1) u] show ?thesis
      by (auto elim!: evolves_trans intro!: evolves_silent simp: silent_defs)
  qed
qed

lemma evolves_storageLoop: "storageLoop h opt ks v = Returns v' \<Longrightarrow> evolves u v \<Longrightarrow> evolves u v'"
proof (induction ks arbitrary: v)
  case (Cons k ks)
  obtain found e where g: "GetGenericFile (h_bolt h) (v_db v) k = (found, e)" by force
  show ?case
  proof (cases e)
    case (Some err)
    with Cons.prems g show ?thesis by (cases found) (auto simp: err_mono)
  next
    case None
    with Cons.prems g obtain gf where f: "found = Some gf" by (cases found) auto
    obtain e1 v1 where s: "saveFile h v k (gf\<lparr>gf_StorageOption := opt\<rparr>) = (e1, v1)" by force
    have "evolves u v1" using evolves_saveFile [OF Cons.prems(2), of h k "gf\<lparr>gf_StorageOption := opt\<rparr>"] s by simp
    note v1 = this
    show ?thesis
    proof (cases e1)
      case None
      with Cons.prems g \<open>e = None\<close> f s have "storageLoop h opt ks v1 = Returns v'" by simp
      then show ?thesis using v1 by (rule Cons.IH)
    next
      case (Some err)
      with Cons.prems g \<open>e = None\<close> f s
      have "storageLoop h opt ks (addError v1 (''Error saving generic file '' @ quoted k @ '' to db: '' @ err)) = Returns v'"
        by simp
      then show ?thesis using evolves_addError [OF v1] by (rule Cons.IH)
    qed
  qed
qed simp

lemma evolves_setStorageOption: "setStorageOption h v = Returns v' \<Longrightarrow> evolves u v \<Longrightarrow> evolves u v'"
proof -
  assume a: "setStorageOption h v = Returns v'" and u: "evolves u v"
  obtain r v1 where g: "getIntellectualObject h v = (r, v1)" by force
  have v1: "evolves u v1" using evolves_getIntellectualObject [OF u, of h] g by simp
  show "evolves u v'"
  proof (cases r)
    case (Inl err)
    with a g v1 show ?thesis by (auto simp: setStorageOption_def err_mono)
  next
    case (Inr obj)
    define obj2 where "obj2 = chooseStorage obj"
    obtain e v2 where s: "saveObject h (writeObj obj2 v1) (obj_Identifier obj2) obj2 = (e, v2)" by force
    have v2: "evolves u v2"
      using evolves_saveObject [OF evolves_writeObj [OF v1], of h obj2 "obj_Identifier obj2" obj2] s by simp
    define v3 where "v3 = (case e of None \<Rightarrow> v2
      | Some e \<Rightarrow> addError v2 (''Error saving IntelObj '' @ quoted (obj_Identifier obj2) @ '' to db: '' @ e))"
    have v3: "evolves u v3" using v2 by (simp add: v3_def err_mono split: option.split)
    have "setStorageOption h v = storageLoop h (obj_StorageOption obj2) (FileIdentifiers (h_bolt h) (v_db v3)) v3"
      by (simp add: setStorageOption_def g Inr Let_def s v3_def flip: obj2_def)
    with a have "storageLoop h (obj_StorageOption obj2) (FileIdentifiers (h_bolt h) (v_db v3)) v3 = Returns v'" by simp
    then show ?thesis using v3 by (rule evolves_storageLoop)
  qed
qed

lemma evolves_verifyManifestPresent [err_mono]: "evolves u v \<Longrightarrow> evolves u (verifyManifestPresent v)"
  by (simp add: verifyManifestPresent_def err_mono)

lemma evolves_verifyTopLevelFolder [err_mono]: "evolves u v \<Longrightarrow> evolves u (verifyTopLevelFolder h v)"
  by (simp add: verifyTopLevelFolder_def split_beta Let_def err_mono split: sum.splits)

lemma evolves_verifyFileSpecs [err_mono]: "evolves u v \<Longrightarrow> evolves u (verifyFileSpecs v)"
  by (simp add: verifyFileSpecs_def err_mono)

lemma evolves_tagSpecLoop: "tagSpecLoop specs obj v = Returns (obj', v') \<Longrightarrow> evolves u v \<Longrightarrow> evolves u v'"
proof (induction specs obj v rule: tagSpecLoop.induct)
  case (2 tagName tagSpec specs obj v)
  obtain tags obj1 where f: "FindTag obj tagName = (tags, obj1)" by force
  note IH = "2.IH" [OF f [symmetric] refl]
  show ?case
  proof (cases "tsp_Presence tagSpec = FORBIDDEN")
    case True
    with "2.prems" f obtain t ts where t: "tags = t # ts" by (cases tags) simp_all
    with True "2.prems" f show ?thesis by (simp add: IH(1) err_mono)
  next
    case False
    with "2.prems" f show ?thesis by (simp add: IH(2) err_mono)
  qed
qed simp

lemma evolves_verifyTagSpecs: "verifyTagSpecs h v = Returns v' \<Longrightarrow> evolves u v \<Longrightarrow> evolves u v'"
proof -
  assume a: "verifyTagSpecs h v = Returns v'" and u: "evolves u v"
  obtain r v1 where g: "getIntellectualObject h v = (r, v1)" by force
  have v1: "evolves u v1" using evolves_getIntellectualObject [OF u, of h] g by simp
  show "evolves u v'"
  proof (cases r)
    case (Inl err)
    with a g v1 show ?thesis by (auto simp: verifyTagSpecs_def err_mono)
  next
    case (Inr obj)
    with a g obtain obj' v2 where "tagSpecLoop (bvc_TagSpecs (v_BagValidationConfig v1)) obj v1 = Returns (obj', v2)"
      and v': "v' = writeObj obj' v2"
      by (auto simp: verifyTagSpecs_def and_then_Returns_iff)
    with evolves_tagSpecLoop [OF this(1) v1] show ?thesis by (simp add: err_mono)
  qed
qed

lemma evolves_stamps [err_mono]:
  "evolves u v \<Longrightarrow> evolves u (snd (stampMd5 gf v))" "evolves u v \<Longrightarrow> evolves u (snd (stampSha256 gf v))"
  by (simp_all add: stampMd5_def stampSha256_def split_beta err_mono)

lemma evolves_verifyGenericFile [err_mono]: "evolves u v \<Longrightarrow> evolves u (verifyGenericFile h gf v)"
  by (simp add: verifyGenericFile_def split_beta Let_def err_mono split: option.splits)

lemma verifyLoop_turn:
  "GetGenericFile (h_bolt h) (v_db v) k = (found, Some err) \<Longrightarrow>
     verifyLoop h (k # ks) v =
       Returns (setFatal (addError v (''Cannot get GenericFile '' @ k @ '' from BoltDB: '' @ err)))"
  "GetGenericFile (h_bolt h) (v_db v) k = (None, None) \<Longrightarrow> verifyLoop h (k # ks) v = Panics"
  "GetGenericFile (h_bolt h) (v_db v) k = (Some gf, None) \<Longrightarrow>
     verifyLoop h (k # ks) v = verifyLoop h ks (verifyGenericFile h gf v)"
  by (simp_all split: option.split)

lemma evolves_verifyLoop: "verifyLoop h ks v = Returns v' \<Longrightarrow> evolves u v \<Longrightarrow> evolves u v'"
proof (induction ks arbitrary: v)
  case (Cons k ks)
  obtain found e where g: "GetGenericFile (h_bolt h) (v_db v) k = (found, e)" by force
  show ?case
  proof (cases e)
    case (Some err)
    with Cons.prems g show ?thesis by (auto simp: verifyLoop_turn err_mono simp del: verifyLoop.simps)
  next
    case None
    show ?thesis
    proof (cases found)
      case (Some gf)
      with Cons.prems(1) g None have "verifyLoop h ks (verifyGenericFile h gf v) = Returns v'"
        by (simp add: verifyLoop_turn del: verifyLoop.simps)
      then show ?thesis by (rule Cons.IH) (simp add: Cons.prems err_mono)
    qed (use Cons.prems(1) g None in \<open>simp add: verifyLoop_turn del: verifyLoop.simps\<close>)
  qed
qed simp

lemma evolves_finishValidation [err_mono]: "evolves u v \<Longrightarrow> evolves u (finishValidation v)"
  by (erule evolves_trans) (auto intro!: evolves_silent simp: finishValidation_def now_def silent_defs Finish_def split: prod.splits)

lemma evolves_startValidation [err_mono]: "evolves u v \<Longrightarrow> evolves u (startValidation v)"
  by (erule evolves_trans) (auto intro!: evolves_silent simp: startValidation_def now_def silent_defs Start_def split: prod.splits)

section \<open>When a run ends\<close>

lemma parseLoop_turn:
  "Next (h_disk h) it = Panics \<Longrightarrow> parseLoop h it v = Some Panics"
  "Next (h_disk h) it = Returns (AtEOF, i) \<Longrightarrow> parseLoop h it v = Some (Returns v)"
  "Next (h_disk h) it = Returns (NextFile rd s, i) \<Longrightarrow> parseLoop h it v = parseLoop h i (parseOne h rd s v)"
  "Next (h_disk h) it = Returns (NextError e, i) \<Longrightarrow> length (errs v) \<le> 30 \<Longrightarrow>
     parseLoop h it v = parseLoop h i (addError v (take 2000 e))"
proof -
  assume n: "Next (h_disk h) it = Returns (NextError e, i)" and b: "length (errs v) \<le> 30"
  have "length (errs (addError v (take 2000 e))) \<le> 30" by (simp add: errs_addError pushError_bound [OF b])
  then have "\<not> 100 < length (ws_Errors (v_summary (addError v (take 2000 e))))" by (simp add: errs_def)
  with n show "parseLoop h it v = parseLoop h i (addError v (take 2000 e))"
    by (simp add: parseLoop.simps [of h it v])
qed (simp_all add: parseLoop.simps [of h it v])

text \<open>The cap of \<open>AddError\<close> keeps the log below the 101 messages that would stop the loop.\<close>

lemma few_errors: "length (errs v) \<le> 30 \<Longrightarrow> evolves v v' \<Longrightarrow> \<not> 100 < length (errs v')"
  using evolves_bound [of v v'] by simp

lemma tarNext_end: "tarNext i = (n, i') \<Longrightarrow> ti_end i' = ti_end i"
  by (auto simp: tarNext_def split: list.splits option.splits)

lemma tarNext_not_eof: "ti_end i = Some e \<Longrightarrow> fst (tarNext i) \<noteq> AtEOF"
  by (auto simp: tarNext_def split: list.splits)

definition stuck :: "ReadIterator \<Rightarrow> 'b running \<Rightarrow> bool" where
  "stuck it v \<longleftrightarrow> (\<exists>i e. it = TarIter i \<and> ti_end i = Some e) \<and> length (errs v) \<le> 30"

lemma parseLoop_stuck: "parseLoop h it v = Some r \<Longrightarrow> \<not> stuck it v"
proof (erule parseLoop.raw_induct [where P = "\<lambda>h it v r. \<not> stuck it v", rotated])
  fix f :: "'b host \<Rightarrow> ReadIterator \<Rightarrow> 'b running \<Rightarrow> 'b running outcome option" and h it v r
  assume IH: "\<And>h it v y. f h it v = Some y \<Longrightarrow> \<not> stuck it v"
    and body: "(case Next (h_disk h) it of
        Returns p \<Rightarrow>
          (case fst p of
             AtEOF \<Rightarrow> Some (Returns v)
           | NextError err \<Rightarrow>
               (let v1 = addError v (take 2000 err)
                in if 100 < length (ws_Errors (v_summary v1)) then Some (Returns v1) else f h (snd p) v1)
           | NextFile rd s \<Rightarrow> f h (snd p) (parseOne h rd s v))
      | Panics \<Rightarrow> Some Panics) = Some r"
  show "\<not> stuck it v"
  proof
    assume s: "stuck it v"
    then obtain i e where i: "it = TarIter i" "ti_end i = Some e" and b: "length (errs v) \<le> 30"
      by (auto simp: stuck_def)
    obtain n i' where n: "tarNext i = (n, i')" by force
    then have "n \<noteq> AtEOF" using tarNext_not_eof [OF i(2)] by auto
    moreover have "stuck (TarIter i') (parseOne h rd s v)" for rd s
      using evolves_bound [OF evolves_parseOne [OF evolves_refl] b] tarNext_end [OF n] i by (simp add: stuck_def)
    moreover have a: "stuck (TarIter i') (addError v m)" for m
      using evolves_bound [OF evolves_addError [OF evolves_refl] b] tarNext_end [OF n] i by (simp add: stuck_def)
    moreover have "\<not> 100 < length (ws_Errors (v_summary (addError v m)))" for m
      using few_errors [OF b evolves_addError [OF evolves_refl]] by (simp add: errs_def)
    ultimately show False using body i(1) n by (cases n) (auto simp: Let_def dest: IH)
  qed
qed

lemma parseLoop_returns_fs: "length (errs v) \<le> 30 \<Longrightarrow> \<exists>r. parseLoop h (FsIter i) v = Some r"
proof (induction "fsLeft i" arbitrary: i v rule: less_induct)
  case less
  show ?case
  proof (cases "fsNext (h_disk h) i")
    case (Returns p)
    obtain n i' where p: "p = (n, i')" by (cases p)
    show ?thesis
    proof (cases n)
      case AtEOF
      with Returns p show ?thesis by (simp add: parseLoop_turn)
    next
      case (NextError e)
      with Returns p have n: "fsNext (h_disk h) i = Returns (NextError e, i')" by simp
      have "length (errs (addError v (take 2000 e))) \<le> 30" by (simp add: errs_addError pushError_bound less.prems)
      from less.hyps [OF fsNext_error [OF n] this] n less.prems show ?thesis by (simp add: parseLoop_turn)
    next
      case (NextFile rd s)
      with Returns p have n: "fsNext (h_disk h) i = Returns (NextFile rd s, i')" by simp
      have "length (errs (parseOne h rd s v)) \<le> 30"
        by (rule evolves_bound [OF evolves_parseOne [OF evolves_refl] less.prems])
      from less.hyps [OF fsNext_file [OF n] this] n show ?thesis by (simp add: parseLoop_turn)
    qed
  qed (simp add: parseLoop_turn)
qed

lemma parseLoop_returns_tar: "ti_end i = None \<Longrightarrow> \<exists>r. parseLoop h (TarIter i) v = Some r"
proof (induction "tarLeft i" arbitrary: i v rule: less_induct)
  case less
  obtain n i' where n: "tarNext i = (n, i')" by force
  show ?case
  proof (cases n)
    case (NextFile rd s)
    with n have f: "tarNext i = (NextFile rd s, i')" by simp
    from less.hyps [OF tarNext_file [OF f]] tarNext_end [OF n] less.prems f show ?thesis
      by (simp add: parseLoop_turn)
  qed (use n less.prems in \<open>auto simp: tarNext_def parseLoop_turn split: list.splits option.splits\<close>)
qed

lemma parseLoop_tar_None_iff:
  "length (errs v) \<le> 30 \<Longrightarrow> parseLoop h (TarIter i) v = None \<longleftrightarrow> ti_end i \<noteq> None"
proof (cases "ti_end i")
  case (Some e)
  moreover assume "length (errs v) \<le> 30"
  ultimately have "stuck (TarIter i) v" by (simp add: stuck_def)
  with Some show ?thesis using parseLoop_stuck by fastforce
next
  case None
  with parseLoop_returns_tar [of i h v] show ?thesis by auto
qed

text \<open>The archive of a tarred bag is cut short or damaged: the tar reader opens it and ends in an error.\<close>

definition brokenArchive :: "disk \<Rightarrow> string \<Rightarrow> bool" where
  "brokenArchive fs path \<longleftrightarrow>
     HasSuffix path ''.tar'' \<and> (case fs_tar fs path of Inl _ \<Rightarrow> False | Inr tb \<Rightarrow> tb_end tb \<noteq> None)"

lemma parseFiles_None_iff:
  assumes "length (errs v) \<le> 30"
  shows "parseFiles h v = None \<longleftrightarrow> brokenArchive (h_disk h) (v_PathToBag v)"
proof (cases "HasSuffix (v_PathToBag v) ''.tar''")
  case True
  show ?thesis
  proof (cases "fs_tar (h_disk h) (v_PathToBag v)")
    case (Inr tb)
    define i where "i = \<lparr>ti_rest = tb_entries tb, ti_end = tb_end tb, ti_topLevelDirNames = []\<rparr>"
    have "parseFiles h v = parseLoop h (TarIter i) v"
      using True Inr by (simp add: parseFiles_def getIterator_def NewTarFileIterator_def i_def)
    with parseLoop_tar_None_iff [OF assms, of h i] True Inr show ?thesis by (simp add: brokenArchive_def i_def)
  qed (use True in \<open>simp add: parseFiles_def getIterator_def NewTarFileIterator_def brokenArchive_def\<close>)
next
  case False
  show ?thesis
  proof (cases "NewFileSystemIterator (h_disk h) (v_PathToBag v)")
    case (Returns r)
    show ?thesis
    proof (cases r)
      case (Inr i)
      with Returns False have "parseFiles h v = parseLoop h (FsIter i) v" by (simp add: parseFiles_def getIterator_def)
      with parseLoop_returns_fs [OF assms, of h i] False show ?thesis by (auto simp: brokenArchive_def)
    qed (use Returns False in \<open>simp add: parseFiles_def getIterator_def brokenArchive_def\<close>)
  qed (use False in \<open>simp add: parseFiles_def getIterator_def brokenArchive_def\<close>)
qed

lemma addLoop_tar_returns: "\<exists>p. addLoop h (TarIter i) v = Returns p"
proof (induction "tarLeft i" arbitrary: i v rule: less_induct)
  case less
  obtain n i' where n: "tarNext i = (n, i')" by force
  show ?case
  proof (cases n)
    case (NextFile rd s)
    with n have f: "tarNext i = (NextFile rd s, i')" by simp
    obtain e v1 where "addFile h rd s v = (e, v1)" by force
    with f less.hyps [OF tarNext_file [OF f], of v1] show ?thesis by (cases e) (simp_all add: addLoop_turn)
  qed (use n in \<open>simp_all add: addLoop_turn\<close>)
qed

lemma addFiles_broken_returns:
  assumes "brokenArchive (h_disk h) (v_PathToBag v)"
  shows "\<exists>v'. addFiles h v = Returns v'"
proof -
  from assms obtain tb where tb: "HasSuffix (v_PathToBag v) ''.tar''" "fs_tar (h_disk h) (v_PathToBag v) = Inr tb"
    by (auto simp: brokenArchive_def split: sum.splits)
  define i where "i = \<lparr>ti_rest = tb_entries tb, ti_end = tb_end tb, ti_topLevelDirNames = []\<rparr>"
  obtain v1 it' where "addLoop h (TarIter i) v = Returns (v1, it')"
    using addLoop_tar_returns [of h i v] by fastforce
  with tb show ?thesis by (simp add: addFiles_def getIterator_def NewTarFileIterator_def flip: i_def)
qed

lemma readBag_None_iff:
  assumes b: "length (errs v) \<le> 30"
  shows "readBag h v = None \<longleftrightarrow>
    (\<exists>obj. fst (getIntellectualObject h v) = Inr obj) \<and> brokenArchive (h_disk h) (v_PathToBag v)"
proof -
  obtain r v1 where g: "getIntellectualObject h v = (r, v1)" by force
  have e1: "evolves v v1" using evolves_getIntellectualObject [where h = h, OF evolves_refl] g by (metis snd_conv)
  show ?thesis
  proof (cases r)
    case (Inr obj)
    define u where "u = v1\<lparr>v_intelObj := Some obj\<rparr>"
    have "evolves v1 u" by (rule evolves_silent) (simp_all add: u_def silent_defs)
    with e1 have u: "evolves v u" by (rule evolves_trans)
    then have path: "v_PathToBag u = v_PathToBag v" by (simp add: evolves_def settings_def)
    show ?thesis
    proof (cases "addFiles h u")
      case (Returns v2)
      from evolves_addFiles [OF Returns u] have v2: "evolves v v2" .
      then have p2: "v_PathToBag v2 = v_PathToBag v" by (simp add: evolves_def settings_def)
      from evolves_bound [OF v2 b] have "parseFiles h v2 = None \<longleftrightarrow> brokenArchive (h_disk h) (v_PathToBag v)"
        by (simp add: parseFiles_None_iff p2)
      with Returns g Inr show ?thesis
        by (auto simp: readBag_def u_def split: option.splits outcome.splits)
    next
      case Panics
      with addFiles_broken_returns [of h u] path g Inr show ?thesis by (auto simp: readBag_def u_def)
    qed
  qed (use g in \<open>simp add: readBag_def\<close>)
qed

text \<open>The validator as \<open>Validate\<close> starts it on a database.\<close>

definition started :: "Validator \<Rightarrow> 'b \<Rightarrow> 'b running" where
  "started v0 db = startValidation (Validator.Validator.extend v0 (running.fields db))"

lemma started_simps:
  "v_PathToBag (started v0 db) = v_PathToBag v0" "errs (started v0 db) = ws_Errors (v_summary v0)"
  by (simp_all add: started_def startValidation_def now_def errs_def Start_def split_beta
      Validator.Validator.defs running.defs)

lemma Validate_None_iff:
  assumes "length (ws_Errors (v_summary v0)) \<le> 30"
  shows "Validate h v0 = None \<longleftrightarrow>
    (\<exists>db obj. NewBoltDB (h_bolt h) (DBName (v_PathToBag v0)) = Inr db \<and>
       fst (getIntellectualObject h (started v0 db)) = Inr obj) \<and> brokenArchive (h_disk h) (v_PathToBag v0)"
proof (cases "NewBoltDB (h_bolt h) (DBName (v_PathToBag v0))")
  case (Inr db)
  with readBag_None_iff [of "started v0 db" h] assms show ?thesis
    by (auto simp: Validate_def started_simps simp flip: started_def split: option.splits)
qed (simp add: Validate_def)

section \<open>The property\<close>

text \<open>C11: A validation run on a bag returns unless the bag is a tar file whose archive breaks off in an
  error: then, provided the database opens and the object record can be set up, \<open>Validate\<close> never returns.
  The second pass calls \<open>Next\<close> again and again, the tar reader repeats its error, and the limit of 100
  messages that should stop the loop is never reached, because \<open>AddError\<close> stops adding at 30.\<close>

theorem Validate_hangs_iff:
  assumes "NewValidator h w path cfg ext = Inr v0"
  shows "Validate h v0 = None \<longleftrightarrow>
    (\<exists>db obj. NewBoltDB (h_bolt h) (DBName path) = Inr db \<and>
       fst (getIntellectualObject h (started v0 db)) = Inr obj) \<and> brokenArchive (h_disk h) path"
proof -
  from assms have "v_PathToBag v0 = path" "ws_Errors (v_summary v0) = []"
    by (auto simp: NewValidator_def NewWorkSummary_def split: sum.splits)
  with Validate_None_iff [of v0 h] show ?thesis by simp
qed

text \<open>A host for the examples: one archive under every path, digests that show the bytes.\<close>

definition exampleDisk :: "tarball \<Rightarrow> disk" where
  "exampleDisk tb = \<lparr>fs_stat = (\<lambda>_. Inr \<lparr>fi_Mode = 0, fi_Size = 1, fi_ModTime = 1, fi_Kind = RegularFile,
     fi_Uid = 0, fi_Gid = 0\<rparr>), fs_open = (\<lambda>_. Inl ''no file''), fs_walk = (\<lambda>_. []),
     fs_tar = (\<lambda>_. Inr tb)\<rparr>"

definition exampleHost :: "tarball \<Rightarrow> memory host" where
  "exampleHost tb = \<lparr>h_disk = exampleDisk tb,
     h_digests = \<lparr>dg_md5 = (\<lambda>s. ''m'' @ s), dg_sha256 = (\<lambda>s. ''s'' @ s)\<rparr>, h_bolt = memBolt,
     h_compile = (\<lambda>_. Inl ''not supported'')\<rparr>"

definition cutArchive :: tarball where
  "cutArchive = \<lparr>tb_entries = [], tb_end = Some ''unexpected EOF''\<rparr>"

definition theValidator :: "go_error + Validator \<Rightarrow> Validator option" where
  "theValidator r = (case r of Inl _ \<Rightarrow> None | Inr v \<Rightarrow> Some v)"

lemma example_object:
  "case theValidator (NewValidator (exampleHost cutArchive) exampleWorld ''/b.tar'' (Some NewBagValidationConfig) False) of
     None \<Rightarrow> False | Some v0 \<Rightarrow> \<not> isl (fst (getIntellectualObject (exampleHost cutArchive) (started v0 ([], []))))"
  by code_simp

theorem Validate_hangs_iff_witness:
  "\<exists>v0. NewValidator (exampleHost cutArchive) exampleWorld ''/b.tar'' (Some NewBagValidationConfig) False = Inr v0 \<and>
     Validate (exampleHost cutArchive) v0 = None"
proof -
  from example_object obtain v0 where
    n: "NewValidator (exampleHost cutArchive) exampleWorld ''/b.tar'' (Some NewBagValidationConfig) False = Inr v0" and
    g: "\<not> isl (fst (getIntellectualObject (exampleHost cutArchive) (started v0 ([], []))))"
    by (auto simp: theValidator_def split: sum.splits option.splits)
  from g obtain obj where "fst (getIntellectualObject (exampleHost cutArchive) (started v0 ([], []))) = Inr obj"
    by (cases "fst (getIntellectualObject (exampleHost cutArchive) (started v0 ([], [])))") auto
  moreover have "NewBoltDB (h_bolt (exampleHost cutArchive)) p = Inr ([], [])" for p
    by (simp add: exampleHost_def memBolt_def NewBoltDB_def initBuckets_def)
  moreover have "brokenArchive (h_disk (exampleHost cutArchive)) ''/b.tar''"
    by (simp add: brokenArchive_def exampleHost_def exampleDisk_def cutArchive_def HasSuffix_def)
  ultimately show ?thesis using Validate_hangs_iff [OF n] n by blast
qed

end
