(* ===== verification/ValidatorSound.thy ===== *)
theory ValidatorSound
  imports ValidatorRuns
begin

text \<open>
  What a clean run of the validator says about the bag. The invariant \<open>tracks\<close> ties every record of the
  database to a file of the bag and every manifest digest in it to a line of a manifest of the bag; all
  steps keep it, over any store that obeys the laws of bolt. The rest of the argument is that a clean
  log means every check on the way was passed.
\<close>

section \<open>Where records come from\<close>

definition fileType :: "string \<Rightarrow> string" where
  "fileType p = (if HasPrefix p ''tagmanifest-'' then TAG_MANIFEST
     else if HasPrefix p ''manifest-'' then PAYLOAD_MANIFEST
     else if HasPrefix p ''data/'' then PAYLOAD_FILE else TAG_FILE)"

definition isManifest :: "string \<Rightarrow> bool" where
  "isManifest p \<longleftrightarrow> HasPrefix p ''tagmanifest-'' \<or> HasPrefix p ''manifest-''"

type_synonym bag = "(reader \<times> FileSummary) list"

text \<open>Some manifest of the bag has a line with this digest for this path.\<close>

definition listed :: "bag \<Rightarrow> string \<Rightarrow> string \<Rightarrow> string \<Rightarrow> bool" where
  "listed xs alg digest p \<longleftrightarrow>
     (\<exists>rd s line. (rd, s) \<in> set xs \<and> isManifest (sum_RelPath s) \<and> manifestAlg (sum_RelPath s) = Some alg \<and>
        line \<in> set (fst (ScanLines rd)) \<and> manifestLine line = (digest, p))"

definition specOf :: "'b running \<Rightarrow> string \<Rightarrow> string" where
  "specOf v p = (case map_of (bvc_FileSpecs (v_BagValidationConfig v)) p of None \<Rightarrow> [] | Some sp \<Rightarrow> fsp_Presence sp)"

definition noted :: "'b running \<Rightarrow> string \<Rightarrow> bool" where
  "noted v p \<longleftrightarrow>
     (isManifest p \<longrightarrow> p \<in> set (v_manifests v) \<union> set (v_tagManifests v)) \<and>
     (specOf v p = FORBIDDEN \<longrightarrow> p \<in> set (v_forbiddenFiles v))"

text \<open>The record at a key describes a file of the bag.\<close>

definition describes :: "'b host \<Rightarrow> bag \<Rightarrow> 'b running \<Rightarrow> string \<Rightarrow> GenericFile \<Rightarrow> (reader \<times> FileSummary) \<Rightarrow> bool" where
  "describes h xs v k gf e \<longleftrightarrow>
     (case e of (rd, s) \<Rightarrow>
        sum_IsRegularFile s \<and> k = v_ObjIdentifier v @ ''/'' @ sum_RelPath s \<and> gf_Identifier gf = k \<and>
        gf_IntellectualObjectIdentifier gf = v_ObjIdentifier v \<and> gf_IngestFileType gf = fileType (sum_RelPath s) \<and>
        gf_IngestMd5 gf = (if v_calculateMd5 v then dg_md5 (h_digests h) (rd_data rd) else []) \<and>
        gf_IngestSha256 gf = (if v_calculateSha256 v then dg_sha256 (h_digests h) (rd_data rd) else []) \<and>
        (gf_IngestManifestMd5 gf = [] \<or> listed xs AlgMd5 (gf_IngestManifestMd5 gf) (sum_RelPath s)) \<and>
        (gf_IngestManifestSha256 gf = [] \<or> listed xs AlgSha256 (gf_IngestManifestSha256 gf) (sum_RelPath s)) \<and>
        noted v (sum_RelPath s))"

definition backed :: "'b host \<Rightarrow> bag \<Rightarrow> 'b running \<Rightarrow> string \<Rightarrow> GenericFile gob \<Rightarrow> bool" where
  "backed h xs v k g \<longleftrightarrow> (\<exists>gf e. g = Gob gf \<and> e \<in> set xs \<and> describes h xs v k gf e)"

definition hasFile :: "bag \<Rightarrow> string \<Rightarrow> bool" where
  "hasFile xs p \<longleftrightarrow> (\<exists>rd s. (rd, s) \<in> set xs \<and> sum_IsRegularFile s \<and> sum_RelPath s = p)"

definition listsOk :: "bag \<Rightarrow> string list \<times> string list \<times> string list \<times> string list \<Rightarrow> bool" where
  "listsOk xs ls \<longleftrightarrow>
     (case ls of (manifests, tagManifests, required, forbidden) \<Rightarrow>
        (\<forall>p \<in> set manifests. HasPrefix p ''manifest-'' \<and> hasFile xs p) \<and>
        (\<forall>p \<in> set tagManifests. HasPrefix p ''tagmanifest-'') \<and>
        (\<forall>p \<in> set required. hasFile xs p))"

definition lists :: "'b running \<Rightarrow> string list \<times> string list \<times> string list \<times> string list" where
  "lists v = (v_manifests v, v_tagManifests v, v_requiredFiles v, v_forbiddenFiles v)"

definition files :: "'b host \<Rightarrow> 'b running \<Rightarrow> string \<Rightarrow> GenericFile gob option" where
  "files h v = get_file (h_bolt h) (v_db v)"

definition tracks :: "'b host \<Rightarrow> bag \<Rightarrow> 'b running \<Rightarrow> bool" where
  "tracks h xs v \<longleftrightarrow> (\<forall>k g. files h v k = Some g \<longrightarrow> backed h xs v k g) \<and> listsOk xs (lists v)"

section \<open>The steps keep the invariant\<close>

lemma describes_cong: "settings v' = settings v \<Longrightarrow> lists v' = lists v \<Longrightarrow> describes h xs v' = describes h xs v"
  by (simp add: describes_def fun_eq_iff settings_def lists_def noted_def specOf_def)

lemma backed_cong: "settings v' = settings v \<Longrightarrow> lists v' = lists v \<Longrightarrow> backed h xs v' = backed h xs v"
  unfolding backed_def by (subst describes_cong [of v' v]) simp_all

lemma tracks_cong:
  "tracks h xs v \<Longrightarrow> settings v' = settings v \<Longrightarrow> lists v' = lists v \<Longrightarrow> files h v' = files h v \<Longrightarrow> tracks h xs v'"
  unfolding tracks_def by (subst backed_cong [of v' v]) simp_all

lemma tracks_lookup:
  assumes "tracks h xs v" and "GetGenericFile (h_bolt h) (v_db v) k = (found, err)"
  shows "err = None \<and> (case found of None \<Rightarrow> files h v k = None
    | Some gf \<Rightarrow> files h v k = Some (Gob gf) \<and> (\<exists>e \<in> set xs. describes h xs v k gf e))"
proof (cases "files h v k")
  case None
  with assms(2) show ?thesis by (simp add: GetGenericFile_def files_def)
next
  case (Some g)
  with assms(1) obtain gf where "g = Gob gf" "\<exists>e \<in> set xs. describes h xs v k gf e"
    unfolding tracks_def backed_def by blast
  moreover from this Some assms(2) have "found = Some gf" "err = None" by (simp_all add: GetGenericFile_def files_def)
  ultimately show ?thesis using Some by simp
qed

text \<open>Steps that leave the settings, the lists and the log alone.\<close>

definition framed :: "'b running \<Rightarrow> 'b running \<Rightarrow> bool" where
  "framed v v' \<longleftrightarrow> settings v' = settings v \<and> lists v' = lists v \<and> errs v' = errs v \<and> v_intelObj v' = v_intelObj v"

lemma framed_saveFile: "saveFile h v k gf = (e, v') \<Longrightarrow> framed v v'"
  by (auto simp: framed_def saveFile_def settings_def lists_def errs_def split: prod.splits)

lemma framed_saveObject: "saveObject h v k obj = (e, v') \<Longrightarrow> framed v v'"
  by (auto simp: framed_def saveObject_def settings_def lists_def errs_def split: prod.splits)

lemma files_saveFile:
  assumes "bolt_laws (h_bolt h)" and "saveFile h v k gf = (e, v')"
  shows "files h v' = (if e = None then (files h v)(k \<mapsto> Gob gf) else files h v)"
proof -
  from assms(2) have "SaveFile (h_bolt h) (v_db v) k gf = (e, v_db v')" by (auto simp: saveFile_def split: prod.splits)
  then show ?thesis
    using bolt_laws.SaveFile_ok [OF assms(1)] bolt_laws.SaveFile_failed [OF assms(1)] by (cases e) (auto simp: files_def)
qed

lemma files_saveObject:
  assumes "bolt_laws (h_bolt h)" and "saveObject h v k obj = (e, v')"
  shows "files h v' = files h v"
proof -
  from assms(2) have "SaveObject (h_bolt h) (v_db v) k obj = (e, v_db v')" by (auto simp: saveObject_def split: prod.splits)
  from bolt_laws.SaveObject_files [OF assms(1) this] show ?thesis by (simp add: files_def)
qed

lemma tracks_saveFile:
  assumes laws: "bolt_laws (h_bolt h)" and t: "tracks h xs v" and s: "saveFile h v k gf = (r, v')"
    and d: "e \<in> set xs" "describes h xs v k gf e"
  shows "tracks h xs v'"
proof -
  have b: "backed h xs v k (Gob gf)" using d unfolding backed_def by blast
  from framed_saveFile [OF s] have f: "settings v' = settings v" "lists v' = lists v" by (simp_all add: framed_def)
  from t b show ?thesis unfolding tracks_def backed_cong [OF f] files_saveFile [OF laws s] f by auto
qed

lemma tracks_saveObject:
  assumes laws: "bolt_laws (h_bolt h)" and t: "tracks h xs v" and s: "saveObject h v k obj = (r, v')"
  shows "tracks h xs v'"
  using tracks_cong [OF t] framed_saveObject [OF s] files_saveObject [OF laws s] by (simp add: framed_def)

lemma frame_addError [simp]:
  "lists (addError v m) = lists v" "files h (addError v m) = files h v" "v_db (addError v m) = v_db v"
  "v_intelObj (addError v m) = v_intelObj v"
  by (simp_all add: addError_def lists_def files_def)

lemma tracks_addError [simp]: "tracks h xs (addError v m) \<longleftrightarrow> tracks h xs v"
  using tracks_cong [of h xs v "addError v m"] tracks_cong [of h xs "addError v m" v] by auto

subsection \<open>Recording a file\<close>

definition covers :: "'b running \<Rightarrow> 'b running \<Rightarrow> bool" where
  "covers v v' \<longleftrightarrow> settings v' = settings v \<and>
     set (v_manifests v) \<subseteq> set (v_manifests v') \<and> set (v_tagManifests v) \<subseteq> set (v_tagManifests v') \<and>
     set (v_forbiddenFiles v) \<subseteq> set (v_forbiddenFiles v')"

lemma describes_covers: "covers v v' \<Longrightarrow> describes h xs v k gf e \<Longrightarrow> describes h xs v' k gf e"
  by (auto simp: covers_def describes_def noted_def specOf_def settings_def)

lemma tracks_covers:
  "tracks h xs v \<Longrightarrow> covers v v' \<Longrightarrow> listsOk xs (lists v') \<Longrightarrow> files h v' = files h v \<Longrightarrow> tracks h xs v'"
  unfolding tracks_def backed_def by (metis describes_covers)

text \<open>The fields of a record that the invariant reads.\<close>

definition core :: "GenericFile \<Rightarrow> string \<times> string \<times> string \<times> string \<times> string \<times> string \<times> string" where
  "core gf = (gf_Identifier gf, gf_IntellectualObjectIdentifier gf, gf_IngestFileType gf,
     gf_IngestManifestMd5 gf, gf_IngestManifestSha256 gf, gf_IngestMd5 gf, gf_IngestSha256 gf)"

lemma setFileType_fields:
  assumes "setFileType gf p v = (gf', v')"
  shows "core gf' = core (gf\<lparr>gf_IngestFileType := fileType p\<rparr>)"
    and "v' = v\<lparr>v_tagManifests := v_tagManifests v @ (if HasPrefix p ''tagmanifest-'' then [p] else []),
      v_manifests := v_manifests v @ (if \<not> HasPrefix p ''tagmanifest-'' \<and> HasPrefix p ''manifest-'' then [p] else [])\<rparr>"
  using assms by (auto simp: setFileType_def fileType_def core_def split: if_splits)

lemma extendedAttributes_fields:
  assumes "extendedAttributes s gf v = (gf', v')"
  shows "core gf' = core gf" and "framed v v' \<and> v_db v' = v_db v"
  using assms by (auto simp: extendedAttributes_def setMimeType_def core_def Let_def framed_def settings_def lists_def errs_def
      split: if_splits prod.splits)

lemma calculateChecksums_fields:
  assumes "calculateChecksums h rd gf v = (gf', v')" and "gf_IngestMd5 gf = []" "gf_IngestSha256 gf = []"
  shows "core gf' = core (gf\<lparr>
      gf_IngestMd5 := (if v_calculateMd5 v then dg_md5 (h_digests h) (rd_data rd) else []),
      gf_IngestSha256 := (if v_calculateSha256 v then dg_sha256 (h_digests h) (rd_data rd) else [])\<rparr>)"
    and "framed v v' \<and> v_db v' = v_db v"
  using assms by (auto simp: calculateChecksums_def core_def Let_def now_def framed_def settings_def lists_def errs_def
      split: if_splits prod.splits)

lemma trackSpec_fields:
  "trackSpec p v = v\<lparr>v_requiredFiles := v_requiredFiles v @ (if specOf v p = REQUIRED then [p] else []),
     v_forbiddenFiles := v_forbiddenFiles v @ (if specOf v p = FORBIDDEN then [p] else [])\<rparr>"
  by (auto simp: trackSpec_def specOf_def REQUIRED_def FORBIDDEN_def split: option.split)

lemma OriginalPath_of:
  "gf_Identifier gf = obj @ ''/'' @ p \<Longrightarrow> gf_IntellectualObjectIdentifier gf = obj \<Longrightarrow> OriginalPath gf = p"
  using Replace1_prefix [of "obj @ ''/''" p "[]"] by (simp add: OriginalPath_def)

lemma listsOk_add:
  assumes "listsOk xs (ms, ts, rs, fs)" and "hasFile xs p"
  shows "listsOk xs (ms @ (if \<not> HasPrefix p ''tagmanifest-'' \<and> HasPrefix p ''manifest-'' then [p] else []),
    ts @ (if HasPrefix p ''tagmanifest-'' then [p] else []), rs @ (if c then [p] else []), fs')"
  using assms by (auto simp: listsOk_def)

lemma tracks_addFile:
  assumes laws: "bolt_laws (h_bolt h)" and t: "tracks h xs v" and e: "(rd, s) \<in> set xs"
    and a: "addFile h rd s v = (r, v')"
  shows "tracks h xs v'"
proof (cases "sum_IsRegularFile s")
  case True
  define p where "p = sum_RelPath s"
  define k where "k = v_ObjIdentifier v @ ''/'' @ p"
  define gf0 where "gf0 = NewGenericFile\<lparr>gf_Identifier := v_ObjIdentifier v @ ''/'' @ p,
    gf_IntellectualObjectIdentifier := v_ObjIdentifier v\<rparr>"
  obtain gf1 v1 where 1: "setFileType gf0 p v = (gf1, v1)" by force
  obtain gf2 v2 where 2: "extendedAttributes s gf1 v1 = (gf2, v2)" by force
  have c2: "core gf2 = (k, v_ObjIdentifier v, fileType p, [], [], [], [])"
    using setFileType_fields(1) [OF 1] extendedAttributes_fields(1) [OF 2] by (simp add: core_def gf0_def k_def NewGenericFile_def)
  then have o: "OriginalPath gf2 = p" by (simp add: OriginalPath_of core_def k_def)
  define v3 where "v3 = trackSpec p v2"
  obtain gf4 v4 where 4: "calculateChecksums h rd gf2 v3 = (gf4, v4)" by force
  from a True 1 2 4 o have s: "saveFile h v4 (gf_Identifier gf4) gf4 = (r, v')"
    by (simp add: addFile_def gf0_def p_def v3_def)
  have f: "framed v1 v2" "v_db v2 = v_db v1" "framed v3 v4" "v_db v4 = v_db v3"
    using extendedAttributes_fields(2) [OF 2] calculateChecksums_fields(2) [OF 4] c2 by (simp_all add: core_def)
  note v1 = setFileType_fields(2) [OF 1] and v3 = v3_def [unfolded trackSpec_fields]
  from e True have hf: "hasFile xs p" by (auto simp: hasFile_def p_def)
  have v2: "lists v2 = lists v1" "settings v2 = settings v" using f(1) v1 by (simp_all add: framed_def settings_def)
  have v4: "lists v4 = lists v3" "settings v4 = settings v" using f(3) v2(2) v3 by (simp_all add: framed_def settings_def)
  have cov: "covers v v4" using v1 v2 v3 v4 by (simp add: covers_def lists_def)
  have ok: "listsOk xs (lists v4)"
    using listsOk_add [OF _ hf, of "v_manifests v" "v_tagManifests v" "v_requiredFiles v" "v_forbiddenFiles v"] t v1 v2(1) v3 v4(1)
    by (simp add: tracks_def lists_def)
  have fl: "files h v4 = files h v" using f v1 v3 by (simp add: files_def)
  have no: "noted v4 p"
    using v1 v2 v3 v4 by (auto simp: noted_def isManifest_def lists_def settings_def specOf_def)
  have t4: "tracks h xs v4" by (rule tracks_covers [OF t cov ok fl])
  have "settings v4 = settings v" using cov by (simp add: covers_def)
  then have "describes h xs v4 k gf4 (rd, s)"
    using calculateChecksums_fields(1) [OF 4] c2 True no f by (simp add: describes_def core_def settings_def k_def framed_def flip: p_def)
  moreover have "gf_Identifier gf4 = k" using calculateChecksums_fields(1) [OF 4] c2 by (simp add: core_def)
  ultimately show ?thesis using tracks_saveFile [OF laws t4 s e] by simp
qed (use a t in \<open>simp add: addFile_def\<close>)

lemma tracks_setFatal [simp]: "tracks h xs (setFatal v) \<longleftrightarrow> tracks h xs v"
proof -
  have "settings (setFatal v) = settings v" "lists (setFatal v) = lists v" "files h (setFatal v) = files h v"
    by (simp_all add: setFatal_def settings_def lists_def files_def)
  then show ?thesis using tracks_cong [of h xs v "setFatal v"] tracks_cong [of h xs "setFatal v" v] by auto
qed

lemma tracks_addFilesError [simp]: "tracks h xs (addFilesError e v) \<longleftrightarrow> tracks h xs v"
  by (simp add: addFilesError_def)

lemma tracks_addLoop:
  assumes laws: "bolt_laws (h_bolt h)"
  shows "addLoop h it v = Returns (v', it') \<Longrightarrow> tracks h xs v \<Longrightarrow> set (yields (h_disk h) it) \<subseteq> set xs \<Longrightarrow> tracks h xs v'"
proof (induction "filesLeft it" arbitrary: it v rule: less_induct)
  case less
  show ?case
  proof (cases "Next (h_disk h) it")
    case (Returns q)
    obtain n i where q: "q = (n, i)" by (cases q)
    show ?thesis
    proof (cases n)
      case (NextFile rd s)
      with Returns q have n: "Next (h_disk h) it = Returns (NextFile rd s, i)" by simp
      note y = less.prems(3) [unfolded yields_Next(1) [OF n]]
      obtain e v1 where a: "addFile h rd s v = (e, v1)" by (cases "addFile h rd s v")
      have t: "tracks h xs v1" using tracks_addFile [OF laws less.prems(2) _ a] y by simp
      show ?thesis
      proof (cases e)
        case None
        with less.prems(1) a n have "addLoop h i v1 = Returns (v', it')" by (simp add: addLoop_turn)
        then show ?thesis by (rule less.hyps [OF Next_progress [OF n]]) (use t y in auto)
      qed (use less.prems(1) a n t in \<open>auto simp: addLoop_turn\<close>)
    qed (use less.prems Returns q in \<open>auto simp: addLoop_turn\<close>)
  qed (use less.prems in \<open>simp add: addLoop_turn\<close>)
qed

lemma tracks_intelObj [simp]: "tracks h xs (v\<lparr>v_intelObj := obj\<rparr>) \<longleftrightarrow> tracks h xs v"
proof -
  have "settings (v\<lparr>v_intelObj := obj\<rparr>) = settings v" "lists (v\<lparr>v_intelObj := obj\<rparr>) = lists v"
    "files h (v\<lparr>v_intelObj := obj\<rparr>) = files h v"
    by (simp_all add: settings_def lists_def files_def)
  then show ?thesis using tracks_cong [of h xs v "v\<lparr>v_intelObj := obj\<rparr>"] tracks_cong [of h xs "v\<lparr>v_intelObj := obj\<rparr>" v] by auto
qed

lemma tracks_addFiles:
  assumes laws: "bolt_laws (h_bolt h)" and a: "addFiles h v = Returns v'" and t: "tracks h xs v"
    and it: "getIterator (h_disk h) (v_PathToBag v) = Returns (Inr it)" "set (yields (h_disk h) it) \<subseteq> set xs"
  shows "tracks h xs v'"
proof -
  from a it(1) obtain v1 it' f where "addLoop h it v = Returns (v1, it')" "v' = v1\<lparr>v_intelObj := f\<rparr>"
    by (auto simp: addFiles_def and_then_Returns_iff)
  with tracks_addLoop [OF laws this(1) t it(2)] show ?thesis by simp
qed

subsection \<open>Parsing\<close>

text \<open>Later steps keep the lists and the set of keys as well.\<close>

definition keeps :: "'b host \<Rightarrow> bag \<Rightarrow> 'b running \<Rightarrow> 'b running \<Rightarrow> bool" where
  "keeps h xs v v' \<longleftrightarrow> settings v' = settings v \<and> lists v' = lists v \<and> dom (files h v') = dom (files h v) \<and>
     (tracks h xs v \<longrightarrow> tracks h xs v')"

lemma keeps_refl [simp]: "keeps h xs v v"
  by (simp add: keeps_def)

lemma keeps_trans: "keeps h xs u v \<Longrightarrow> keeps h xs v w \<Longrightarrow> keeps h xs u w"
  by (simp add: keeps_def)

lemma keeps_addError: "keeps h xs u v \<Longrightarrow> keeps h xs u (addError v m)"
  by (simp add: keeps_def)

lemma keeps_same: "settings v' = settings v \<Longrightarrow> lists v' = lists v \<Longrightarrow> files h v' = files h v \<Longrightarrow> keeps h xs v v'"
  unfolding keeps_def by (metis tracks_cong)

lemma keeps_writeObj: "keeps h xs u v \<Longrightarrow> keeps h xs u (writeObj obj v)"
  by (erule keeps_trans, rule keeps_same) (auto simp: writeObj_def settings_def lists_def files_def split: option.splits)

lemma keeps_saveObject:
  assumes "bolt_laws (h_bolt h)" and "keeps h xs u v"
  shows "keeps h xs u (snd (saveObject h v k obj))"
proof -
  obtain e v' where s: "saveObject h v k obj = (e, v')" by force
  have "keeps h xs v v'"
    by (rule keeps_same) (use framed_saveObject [OF s] files_saveObject [OF assms(1) s] in \<open>simp_all add: framed_def\<close>)
  with keeps_trans [OF assms(2)] s show ?thesis by simp
qed

lemma keeps_getIntellectualObject:
  "bolt_laws (h_bolt h) \<Longrightarrow> keeps h xs u v \<Longrightarrow> keeps h xs u (snd (getIntellectualObject h v))"
  by (simp add: getIntellectualObject_def initIntellectualObject_def split_beta Let_def keeps_saveObject split: option.splits)

lemma keeps_parseTags:
  "bolt_laws (h_bolt h) \<Longrightarrow> keeps h xs u v \<Longrightarrow> keeps h xs u (parseTags h rd p v)"
  by (simp add: parseTags_def split_beta Let_def keeps_saveObject keeps_getIntellectualObject keeps_addError keeps_writeObj
      split: option.splits sum.splits)

text \<open>A save of a record under its own key.\<close>

lemma keeps_saveFile:
  assumes laws: "bolt_laws (h_bolt h)" and s: "saveFile h v k gf = (r, v')" and k: "k \<in> dom (files h v)"
    and d: "tracks h xs v \<Longrightarrow> \<exists>e \<in> set xs. describes h xs v k gf e"
  shows "keeps h xs v v'"
proof -
  have "tracks h xs v \<Longrightarrow> tracks h xs v'" using d tracks_saveFile [OF laws _ s] by blast
  with k framed_saveFile [OF s] files_saveFile [OF laws s] show ?thesis by (auto simp: keeps_def framed_def)
qed

lemma append_key: "a @ CHR ''/'' # p = a @ CHR ''/'' # q \<longleftrightarrow> p = q"
  by simp

lemma describes_setManifestDigest:
  assumes d: "describes h xs v k gf (rd, s)" and k: "k = v_ObjIdentifier v @ ''/'' @ p"
    and l: "listed xs alg digest p" and alg: "alg = AlgMd5 \<or> alg = AlgSha256"
  shows "describes h xs v k (setManifestDigest alg digest gf) (rd, s)"
proof -
  from d k have "sum_RelPath s = p" by (simp add: describes_def)
  with d l alg show ?thesis by (auto simp: describes_def setManifestDigest_def)
qed

lemma manifestAlg_range: "manifestAlg p = Some alg \<Longrightarrow> alg = AlgMd5 \<or> alg = AlgSha256"
  by (auto simp: manifestAlg_def split: if_splits)

text \<open>What a clean parse of a file of the bag shows: it is on record, and so is every file it lists.\<close>

definition onRecord :: "'b host \<Rightarrow> 'b running \<Rightarrow> string \<Rightarrow> bool" where
  "onRecord h v p \<longleftrightarrow> v_ObjIdentifier v @ ''/'' @ p \<in> dom (files h v)"

definition linesOnRecord :: "'b host \<Rightarrow> 'b running \<Rightarrow> reader \<Rightarrow> bool" where
  "linesOnRecord h v rd \<longleftrightarrow>
     (\<forall>line \<in> set (fst (ScanLines rd)). TrimSpace line \<noteq> [] \<longrightarrow> onRecord h v (snd (manifestLine line)))"

definition checked :: "'b host \<Rightarrow> 'b running \<Rightarrow> reader \<times> FileSummary \<Rightarrow> bool" where
  "checked h v e \<longleftrightarrow>
     (case e of (rd, s) \<Rightarrow> \<not> sum_IsDir s \<longrightarrow>
        onRecord h v (sum_RelPath s) \<and>
        (isManifest (sum_RelPath s) \<and> sum_RelPath s \<notin> set (v_tagFilesToParse v) \<and> manifestAlg (sum_RelPath s) \<noteq> None \<longrightarrow>
           linesOnRecord h v rd))"

lemma keeps_onRecord: "keeps h xs v v' \<Longrightarrow> onRecord h v' p = onRecord h v p"
  by (simp add: keeps_def onRecord_def settings_def)

lemma keeps_checked: "keeps h xs v v' \<Longrightarrow> checked h v' e = checked h v e"
  by (simp add: checked_def linesOnRecord_def keeps_onRecord split: prod.split) (simp add: keeps_def settings_def)

lemma manifestEntry_step:
  assumes laws: "bolt_laws (h_bolt h)" and t: "tracks h xs v"
    and m: "(rd, s) \<in> set xs" "isManifest (sum_RelPath s)" "manifestAlg (sum_RelPath s) = Some alg"
    and l: "line \<in> set (fst (ScanLines rd))"
  shows "keeps h xs v (manifestEntry h alg (sum_RelPath s) line v) \<and>
    (clean (manifestEntry h alg (sum_RelPath s) line v) \<longrightarrow> TrimSpace line \<noteq> [] \<longrightarrow> onRecord h v (snd (manifestLine line)))"
proof (cases "TrimSpace line = []")
  case False
  obtain d p where dp: "manifestLine line = (d, p)" by force
  define k where "k = v_ObjIdentifier v @ ''/'' @ p"
  obtain found err where g: "GetGenericFile (h_bolt h) (v_db v) k = (found, err)" by force
  note look = tracks_lookup [OF t g]
  show ?thesis
  proof (cases found)
    case None
    with look False dp g show ?thesis by (simp add: manifestEntry_def k_def keeps_addError)
  next
    case (Some gf)
    obtain r v' where sv: "saveFile h v k (setManifestDigest alg d gf) = (r, v')" by force
    have ls: "listed xs alg d p" using m l dp unfolding listed_def by blast
    have kp: "keeps h xs v v'"
    proof (rule keeps_saveFile [OF laws sv])
      show "k \<in> dom (files h v)" using look Some by auto
      from look Some obtain e where e: "e \<in> set xs" "describes h xs v k gf e" by auto
      obtain rd' s' where "e = (rd', s')" by force
      with describes_setManifestDigest [of h xs v k gf rd' s' p alg d] e ls manifestAlg_range [OF m(3)]
      show "\<exists>e\<in>set xs. describes h xs v k (setManifestDigest alg d gf) e" by (auto simp: k_def)
    qed
    have "onRecord h v p" using look Some by (auto simp: onRecord_def k_def)
    with kp sv look Some False dp g show ?thesis
      by (cases r) (simp_all add: manifestEntry_def k_def keeps_addError)
  qed
qed (simp add: manifestEntry_def)

lemma parseManifest_lines:
  assumes laws: "bolt_laws (h_bolt h)"
    and m: "(rd, s) \<in> set xs" "isManifest (sum_RelPath s)" "manifestAlg (sum_RelPath s) = Some alg"
  shows "tracks h xs v \<Longrightarrow> set ls \<subseteq> set (fst (ScanLines rd)) \<Longrightarrow>
    keeps h xs v (fold (manifestEntry h alg (sum_RelPath s)) ls v) \<and>
    (clean (fold (manifestEntry h alg (sum_RelPath s)) ls v) \<longrightarrow>
      (\<forall>line \<in> set ls. TrimSpace line \<noteq> [] \<longrightarrow> onRecord h v (snd (manifestLine line))))"
proof (induction ls arbitrary: v)
  case (Cons line ls)
  define v1 where "v1 = manifestEntry h alg (sum_RelPath s) line v"
  have 1: "keeps h xs v v1 \<and> (clean v1 \<longrightarrow> TrimSpace line \<noteq> [] \<longrightarrow> onRecord h v (snd (manifestLine line)))"
    unfolding v1_def by (rule manifestEntry_step [OF laws Cons.prems(1) m]) (use Cons.prems(2) in simp)
  then have on: "onRecord h v1 p = onRecord h v p" for p using keeps_onRecord by blast
  from 1 have "tracks h xs v1" using Cons.prems(1) by (simp add: keeps_def)
  note IH = Cons.IH [OF this]
  have "evolves v1 (fold (manifestEntry h alg (sum_RelPath s)) ls v1)"
    by (intro evolves_fold evolves_manifestEntry evolves_refl)
  with 1 IH Cons.prems(2) show ?case
    using evolves_clean [of v1 "fold (manifestEntry h alg (sum_RelPath s)) ls v1"] keeps_trans [of h xs v v1]
    by (auto simp: on simp flip: v1_def)
qed simp

lemma describes_path: "describes h xs v (v_ObjIdentifier v @ ''/'' @ p) gf (rd, s) \<Longrightarrow> sum_RelPath s = p"
  by (simp add: describes_def)

lemma parseOne_step:
  assumes laws: "bolt_laws (h_bolt h)" and t: "tracks h xs v" and e: "(rd, s) \<in> set xs"
  shows "keeps h xs v (parseOne h rd s v) \<and> (clean (parseOne h rd s v) \<longrightarrow> checked h v (rd, s))"
proof (cases "sum_IsDir s")
  case False
  define p where "p = sum_RelPath s"
  obtain found err where g: "GetGenericFile (h_bolt h) (v_db v) (v_ObjIdentifier v @ ''/'' @ p) = (found, err)" by force
  note look = tracks_lookup [OF t g]
  show ?thesis
  proof (cases found)
    case None
    with False look g show ?thesis by (simp add: parseOne_def p_def keeps_addError)
  next
    case (Some gf)
    with False look g have v': "parseOne h rd s v = parseFile h rd p v" by (simp add: parseOne_def p_def)
    have r: "onRecord h v p" using look Some by (auto simp: onRecord_def)
    from look Some obtain rd' s' where "(rd', s') \<in> set xs" "describes h xs v (v_ObjIdentifier v @ ''/'' @ p) gf (rd', s')"
      by auto
    then have no: "noted v p" using describes_path by (fastforce simp: describes_def)
    show ?thesis
    proof (cases "p \<in> set (v_tagFilesToParse v)")
      case True
      with v' False r show ?thesis by (simp add: parseFile_def keeps_parseTags [OF laws keeps_refl] checked_def p_def)
    next
      case nt: False
      show ?thesis
      proof (cases "isManifest p \<and> manifestAlg p \<noteq> None")
        case True
        then obtain alg where alg: "isManifest p" "manifestAlg p = Some alg" by blast
        with no have "parseFile h rd p v = fold (manifestEntry h alg p) (fst (ScanLines rd)) v"
          using nt by (auto simp: parseFile_def parseManifest_def noted_def)
        with v' r alg nt parseManifest_lines [OF laws e alg [unfolded p_def] t order_refl] show ?thesis
          by (simp add: checked_def linesOnRecord_def flip: p_def)
      next
        case False
        have "p \<in> set (v_manifests v) \<union> set (v_tagManifests v) \<Longrightarrow> isManifest p"
          using t by (auto simp: tracks_def lists_def listsOk_def isManifest_def)
        with False nt have "parseFile h rd p v = v"
          by (auto simp: parseFile_def parseManifest_def Let_def split: option.split)
        with v' r False show ?thesis by (auto simp: checked_def simp flip: p_def)
      qed
    qed
  qed
qed (simp add: parseOne_def checked_def)

lemma evolves_parseLoop: "parseLoop h it v = Some r \<Longrightarrow> r = Returns v' \<Longrightarrow> evolves v v'"
proof -
  have "parseLoop h it v = Some r \<Longrightarrow> \<forall>v'. r = Returns v' \<longrightarrow> evolves v v'"
  proof (erule parseLoop.raw_induct [where P = "\<lambda>h it v r. \<forall>v'. r = Returns v' \<longrightarrow> evolves v v'", rotated])
    fix f :: "'b host \<Rightarrow> ReadIterator \<Rightarrow> 'b running \<Rightarrow> 'b running outcome option" and h it v r
    assume IH: "\<And>h it v y. f h it v = Some y \<Longrightarrow> \<forall>v'. y = Returns v' \<longrightarrow> evolves v v'"
      and body: "(case Next (h_disk h) it of
          Returns p \<Rightarrow>
            (case fst p of
               AtEOF \<Rightarrow> Some (Returns v)
             | NextError err \<Rightarrow>
                 (let v1 = addError v (take 2000 err)
                  in if 100 < length (ws_Errors (v_summary v1)) then Some (Returns v1) else f h (snd p) v1)
             | NextFile rd s \<Rightarrow> f h (snd p) (parseOne h rd s v))
        | Panics \<Rightarrow> Some Panics) = Some r"
    have 1: "f h i (addError v m) = Some (Returns v') \<Longrightarrow> evolves v v'" for i m v'
      using IH evolves_trans [OF evolves_addError [OF evolves_refl]] by blast
    have 2: "f h i (parseOne h rd s v) = Some (Returns v') \<Longrightarrow> evolves v v'" for i rd s v'
      using IH evolves_trans [OF evolves_parseOne [OF evolves_refl]] by blast
    show "\<forall>v'. r = Returns v' \<longrightarrow> evolves v v'"
    proof (cases "Next (h_disk h) it")
      case (Returns q)
      with body show ?thesis
        by (cases "fst q") (auto simp: Let_def evolves_addError dest: 1 2 split: if_splits)
    qed (use body in auto)
  qed
  then show "parseLoop h it v = Some r \<Longrightarrow> r = Returns v' \<Longrightarrow> evolves v v'" by blast
qed

lemma parseLoop_clean:
  assumes laws: "bolt_laws (h_bolt h)"
  shows "parseLoop h it v = Some (Returns v') \<Longrightarrow> clean v' \<Longrightarrow> length (errs v) \<le> 30 \<Longrightarrow> tracks h xs v \<Longrightarrow>
    set (yields (h_disk h) it) \<subseteq> set xs \<Longrightarrow>
    keeps h xs v v' \<and> (\<forall>e \<in> set (yields (h_disk h) it). checked h v e) \<and>
    (\<exists>j j'. any_files.reads (h_disk h) it (yields (h_disk h) it) j \<and> Next (h_disk h) j = Returns (AtEOF, j'))"
proof (induction "filesLeft it" arbitrary: it v rule: less_induct)
  case less
  from less.prems(1) obtain q where q: "Next (h_disk h) it = Returns q"
    by (cases "Next (h_disk h) it") (auto simp: parseLoop_turn)
  obtain n i where n: "q = (n, i)" by (cases q)
  show ?case
  proof (cases n)
    case AtEOF
    with q n less.prems(1) show ?thesis
      by (auto simp: parseLoop_turn yields_Next intro: any_files.reads_none)
  next
    case (NextError err)
    with q n less.prems(1,3) have "parseLoop h i (addError v (take 2000 err)) = Some (Returns v')"
      by (simp add: parseLoop_turn)
    from evolves_clean [OF evolves_parseLoop [OF this refl] less.prems(2)] show ?thesis by simp
  next
    case (NextFile rd s)
    with q n have f: "Next (h_disk h) it = Returns (NextFile rd s, i)" by simp
    define v1 where "v1 = parseOne h rd s v"
    from f less.prems(1) have p: "parseLoop h i v1 = Some (Returns v')" by (simp add: parseLoop_turn v1_def)
    note y = less.prems(5) [unfolded yields_Next(1) [OF f]]
    have c: "clean v1" by (rule evolves_clean [OF evolves_parseLoop [OF p refl] less.prems(2)])
    have one: "keeps h xs v v1" "checked h v (rd, s)"
      using parseOne_step [OF laws less.prems(4), of rd s] y c by (simp_all add: v1_def)
    then have t1: "tracks h xs v1" using less.prems(4) by (simp add: keeps_def)
    have "length (errs v1) \<le> 30" using c by (simp add: clean_def)
    from less.hyps [OF Next_progress [OF f] p less.prems(2) this t1] y
    have IH: "keeps h xs v1 v'" "\<forall>e \<in> set (yields (h_disk h) i). checked h v1 e"
      "\<exists>j j'. any_files.reads (h_disk h) i (yields (h_disk h) i) j \<and> Next (h_disk h) j = Returns (AtEOF, j')"
      by auto
    from IH(3) any_files.reads_file [OF f]
    have "\<exists>j j'. any_files.reads (h_disk h) it ((rd, s) # yields (h_disk h) i) j \<and> Next (h_disk h) j = Returns (AtEOF, j')"
      by blast
    with one IH(1,2) keeps_trans [OF one(1) IH(1)] keeps_checked [OF one(1)] show ?thesis
      by (simp add: yields_Next(1) [OF f])
  qed
qed

subsection \<open>Storage option and checks\<close>

lemma describes_core: "core gf' = core gf \<Longrightarrow> describes h xs v k gf' e = describes h xs v k gf e"
  by (cases e) (simp add: describes_def core_def)

lemma keeps_storageLoop:
  assumes laws: "bolt_laws (h_bolt h)"
  shows "storageLoop h opt ks v = Returns v' \<Longrightarrow> tracks h xs v \<Longrightarrow> keeps h xs v v'"
proof (induction ks arbitrary: v)
  case (Cons k ks)
  obtain found err where g: "GetGenericFile (h_bolt h) (v_db v) k = (found, err)" by force
  note look = tracks_lookup [OF Cons.prems(2) g]
  from look g Cons.prems(1) obtain gf where gf: "found = Some gf" by (cases found) simp_all
  obtain r v1 where sv: "saveFile h v k (gf\<lparr>gf_StorageOption := opt\<rparr>) = (r, v1)" by force
  have c: "core (gf\<lparr>gf_StorageOption := opt\<rparr>) = core gf" by (simp add: core_def)
  have k1: "keeps h xs v v1"
    by (rule keeps_saveFile [OF laws sv]) (use look gf in \<open>auto simp: describes_core [OF c]\<close>)
  define v2 where "v2 = (case r of None \<Rightarrow> v1
    | Some err \<Rightarrow> addError v1 (''Error saving generic file '' @ quoted k @ '' to db: '' @ err))"
  have k2: "keeps h xs v v2" using k1 by (simp add: v2_def keeps_addError split: option.split)
  from Cons.prems(1) g gf look sv have "storageLoop h opt ks v2 = Returns v'" by (cases r) (simp_all add: v2_def)
  from Cons.IH [OF this] k2 Cons.prems(2) show ?case by (metis keeps_def keeps_trans)
qed simp

lemma keeps_setStorageOption:
  assumes laws: "bolt_laws (h_bolt h)" and a: "setStorageOption h v = Returns v'" and t: "tracks h xs v"
  shows "keeps h xs v v'"
proof -
  obtain r v1 where g: "getIntellectualObject h v = (r, v1)" by force
  have k1: "keeps h xs v v1" using keeps_getIntellectualObject [OF laws, of xs v v] g by simp
  show ?thesis
  proof (cases r)
    case (Inl err)
    with a g k1 show ?thesis by (auto simp: setStorageOption_def keeps_addError)
  next
    case (Inr obj)
    define obj2 where "obj2 = chooseStorage obj"
    obtain e v2 where s: "saveObject h (writeObj obj2 v1) (obj_Identifier obj2) obj2 = (e, v2)" by force
    have k2: "keeps h xs v v2"
      using keeps_saveObject [OF laws keeps_writeObj [OF k1, of obj2], of "obj_Identifier obj2" obj2] s by simp
    define v3 where "v3 = (case e of None \<Rightarrow> v2
      | Some e \<Rightarrow> addError v2 (''Error saving IntelObj '' @ quoted (obj_Identifier obj2) @ '' to db: '' @ e))"
    have k3: "keeps h xs v v3" using k2 by (simp add: v3_def keeps_addError split: option.split)
    have "setStorageOption h v = storageLoop h (obj_StorageOption obj2) (FileIdentifiers (h_bolt h) (v_db v3)) v3"
      by (simp add: setStorageOption_def g Inr Let_def s v3_def flip: obj2_def)
    with a have "storageLoop h (obj_StorageOption obj2) (FileIdentifiers (h_bolt h) (v_db v3)) v3 = Returns v'" by simp
    from keeps_storageLoop [OF laws this] k3 t show ?thesis by (metis keeps_def keeps_trans)
  qed
qed

lemma keeps_addErrors: "keeps h xs u v \<Longrightarrow> keeps h xs u (addErrors v ms)"
  by (induction ms arbitrary: v) (simp_all add: addErrors_def keeps_addError)

lemma files_addErrors [simp]: "files h (addErrors v ms) = files h v" "v_db (addErrors v ms) = v_db v"
  by (induction ms arbitrary: v) (simp_all add: addErrors_def)

lemma stamp_fields:
  "stampMd5 gf v = (gf', v') \<Longrightarrow> core gf' = core gf \<and> framed v v' \<and> v_db v' = v_db v"
  "stampSha256 gf v = (gf', v') \<Longrightarrow> core gf' = core gf \<and> framed v v' \<and> v_db v' = v_db v"
  by (auto simp: stampMd5_def stampSha256_def now_def core_def framed_def settings_def lists_def errs_def
      split: if_splits prod.splits)

lemma verifyGenericFile_step:
  assumes laws: "bolt_laws (h_bolt h)" and t: "tracks h xs v" and f: "files h v k = Some (Gob gf)"
  shows "keeps h xs v (verifyGenericFile h gf v) \<and>
    (\<forall>k'. k' \<noteq> k \<longrightarrow> files h (verifyGenericFile h gf v) k' = files h v k') \<and>
    (clean (verifyGenericFile h gf v) \<longrightarrow> fileErrors (v_BagValidationConfig v) gf = [])"
proof -
  from t f obtain e where e: "e \<in> set xs" "describes h xs v k gf e" unfolding tracks_def backed_def by blast
  from e(2) have id: "gf_Identifier gf = k" by (simp add: describes_def split: prod.splits)
  define v1 where "v1 = addErrors v (fileErrors (v_BagValidationConfig v) gf)"
  obtain gf2 v2 where 2: "stampMd5 gf v1 = (gf2, v2)" by force
  obtain gf3 v3 where 3: "stampSha256 gf2 v2 = (gf3, v3)" by force
  obtain r v4 where 4: "saveFile h v3 k gf3 = (r, v4)" by force
  note st = stamp_fields(1) [OF 2] stamp_fields(2) [OF 3]
  then have c: "core gf3 = core gf" and db: "files h v3 = files h v" by (simp_all add: files_def v1_def)
  from c id have "gf_Identifier gf3 = k" by (simp add: core_def)
  then have V: "verifyGenericFile h gf v = (case r of None \<Rightarrow> v4
      | Some _ \<Rightarrow> addError v4 (''Cannot save GenericFile '' @ k @ '' to db after comparing checksums''))"
    using 2 3 4 by (simp add: verifyGenericFile_def v1_def split: option.split)
  have "keeps h xs v v1" by (simp add: v1_def keeps_addErrors)
  moreover have k13: "keeps h xs v1 v3" by (rule keeps_same) (use st db in \<open>simp_all add: framed_def v1_def\<close>)
  ultimately have k3: "keeps h xs v v3" by (rule keeps_trans)
  have d3: "describes h xs v3 = describes h xs v" by (rule describes_cong) (use k3 in \<open>simp_all add: keeps_def\<close>)
  have k4: "keeps h xs v v4"
    by (rule keeps_trans [OF k3], rule keeps_saveFile [OF laws 4]) (use f db d3 e in \<open>auto simp: describes_core [OF c]\<close>)
  have "\<forall>k'. k' \<noteq> k \<longrightarrow> files h v4 k' = files h v k'" by (simp add: files_saveFile [OF laws 4] db)
  moreover have "errs v4 = errs v1" using st framed_saveFile [OF 4] by (simp add: framed_def)
  then have "clean v4 \<longrightarrow> fileErrors (v_BagValidationConfig v) gf = []"
    using clean_addErrors [of v "fileErrors (v_BagValidationConfig v) gf"] by (simp add: clean_def v1_def)
  ultimately show ?thesis using k4 by (simp add: V keeps_addError split: option.split)
qed

lemma verifyLoop_clean:
  assumes laws: "bolt_laws (h_bolt h)"
  shows "verifyLoop h ks v = Returns v' \<Longrightarrow> clean v' \<Longrightarrow> distinct ks \<Longrightarrow> tracks h xs v \<Longrightarrow> k \<in> set ks \<Longrightarrow>
    \<exists>gf. files h v k = Some (Gob gf) \<and> fileErrors (v_BagValidationConfig v) gf = []"
proof (induction ks arbitrary: v)
  case (Cons k1 ks)
  obtain found err where g: "GetGenericFile (h_bolt h) (v_db v) k1 = (found, err)" by force
  note look = tracks_lookup [OF Cons.prems(4) g]
  from look g Cons.prems(1) obtain gf where gf: "found = Some gf" by (cases found) simp_all
  define v1 where "v1 = verifyGenericFile h gf v"
  from Cons.prems(1) g gf look have l: "verifyLoop h ks v1 = Returns v'" by (simp add: v1_def)
  have "files h v k1 = Some (Gob gf)" using look gf by simp
  note step = verifyGenericFile_step [OF laws Cons.prems(4) this, folded v1_def] and f1 = this
  have c: "clean v1" by (rule evolves_clean [OF evolves_verifyLoop [OF l evolves_refl] Cons.prems(2)])
  have s: "v_BagValidationConfig v1 = v_BagValidationConfig v" using step by (simp add: keeps_def settings_def)
  show ?case
  proof (cases "k = k1")
    case True
    with f1 step c show ?thesis by simp
  next
    case False
    with Cons.prems(5) have "k \<in> set ks" by simp
    from Cons.IH [OF l Cons.prems(2) _ _ this] Cons.prems(3,4) step False s show ?thesis by (simp add: keeps_def)
  qed
qed simp

section \<open>A clean run\<close>

lemma keeps_verifyTopLevelFolder:
  "bolt_laws (h_bolt h) \<Longrightarrow> keeps h xs u v \<Longrightarrow> keeps h xs u (verifyTopLevelFolder h v)"
  by (simp add: verifyTopLevelFolder_def split_beta Let_def keeps_getIntellectualObject keeps_addError keeps_addErrors
      split: sum.splits)

lemma keeps_tagSpecLoop: "tagSpecLoop specs obj v = Returns (obj', v') \<Longrightarrow> keeps h xs u v \<Longrightarrow> keeps h xs u v'"
proof (induction specs obj v rule: tagSpecLoop.induct)
  case (2 tagName tagSpec specs obj v)
  obtain tags obj1 where f: "FindTag obj tagName = (tags, obj1)" by force
  note IH = "2.IH" [OF f [symmetric] refl]
  show ?case
  proof (cases "tsp_Presence tagSpec = FORBIDDEN")
    case True
    with "2.prems" f obtain t ts where t: "tags = t # ts" by (cases tags) simp_all
    with True "2.prems" f show ?thesis by (simp add: IH(1) keeps_addError)
  next
    case False
    with "2.prems" f show ?thesis by (simp add: IH(2) keeps_addErrors)
  qed
qed simp

lemma keeps_verifyTagSpecs:
  assumes laws: "bolt_laws (h_bolt h)" and a: "verifyTagSpecs h v = Returns v'" and u: "keeps h xs u v"
  shows "keeps h xs u v'"
proof -
  obtain r v1 where g: "getIntellectualObject h v = (r, v1)" by force
  have k1: "keeps h xs u v1" using keeps_getIntellectualObject [OF laws u] g by simp
  show ?thesis
  proof (cases r)
    case (Inl err)
    with a g k1 show ?thesis by (auto simp: verifyTagSpecs_def keeps_addError)
  next
    case (Inr obj)
    with a g obtain obj' v2 where "tagSpecLoop (bvc_TagSpecs (v_BagValidationConfig v1)) obj v1 = Returns (obj', v2)"
      and v': "v' = writeObj obj' v2"
      by (auto simp: verifyTagSpecs_def and_then_Returns_iff)
    with keeps_tagSpecLoop [OF this(1) k1] show ?thesis by (simp add: keeps_writeObj)
  qed
qed

lemma verifyBag_clean:
  assumes laws: "bolt_laws (h_bolt h)" and a: "verifyBag h v = Returns v'" and c: "clean v'" and t: "tracks h xs v"
  shows "v_manifests v \<noteq> []"
    and "fileSpecErrors (bvc_FileSpecs (v_BagValidationConfig v)) (v_requiredFiles v) (v_forbiddenFiles v) = []"
    and "k \<in> dom (files h v) \<Longrightarrow>
      \<exists>gf. \<exists>e \<in> set xs. describes h xs v k gf e \<and> fileErrors (v_BagValidationConfig v) gf = []"
proof -
  define v1 where "v1 = verifyManifestPresent v"
  define v2 where "v2 = verifyTopLevelFolder h v1"
  define v3 where "v3 = verifyFileSpecs v2"
  from a obtain v4 v5 where 4: "verifyTagSpecs h v3 = Returns v4" and 5: "verifyGenericFiles h v4 = Returns v5"
    and v': "v' = finishValidation v5"
    by (auto simp: verifyBag_def and_then_Returns_iff simp flip: v1_def v2_def v3_def)
  have c5: "clean v5" by (rule evolves_clean [OF _ c]) (simp add: v' err_mono)
  have c4: "clean v4" by (rule evolves_clean [OF evolves_verifyLoop [OF 5 [unfolded verifyGenericFiles_def] evolves_refl] c5])
  have c3: "clean v3" by (rule evolves_clean [OF evolves_verifyTagSpecs [OF 4 evolves_refl] c4])
  have c1: "clean v1" by (rule evolves_clean [OF _ c3]) (simp add: v3_def v2_def err_mono)
  have "keeps h xs v v1" by (simp add: v1_def verifyManifestPresent_def keeps_addError)
  then have k2: "keeps h xs v v2" by (simp add: v2_def keeps_verifyTopLevelFolder [OF laws])
  then have k3: "keeps h xs v v3" by (simp add: v3_def verifyFileSpecs_def keeps_addErrors)
  then have k4: "keeps h xs v v4" by (rule keeps_verifyTagSpecs [OF laws 4])
  from c1 show "v_manifests v \<noteq> []" by (auto simp: v1_def verifyManifestPresent_def split: if_splits)
  from c3 show "fileSpecErrors (bvc_FileSpecs (v_BagValidationConfig v)) (v_requiredFiles v) (v_forbiddenFiles v) = []"
    using k2 by (simp add: v3_def verifyFileSpecs_def clean_addErrors keeps_def lists_def settings_def)
  assume "k \<in> dom (files h v)"
  then have "k \<in> set (FileIdentifiers (h_bolt h) (v_db v4))"
    using k4 bolt_laws.file_keys_set [OF laws] by (simp add: FileIdentifiers_def keeps_def files_def)
  note key = this
  have t4: "tracks h xs v4" using k4 t by (simp add: keeps_def)
  have "distinct (FileIdentifiers (h_bolt h) (v_db v4))"
    by (simp add: FileIdentifiers_def bolt_laws.file_keys_distinct [OF laws])
  from verifyLoop_clean [OF laws 5 [unfolded verifyGenericFiles_def] c5 this t4 key]
  obtain gf where gf: "files h v4 k = Some (Gob gf)" "fileErrors (v_BagValidationConfig v4) gf = []" by blast
  with t4 obtain e where "e \<in> set xs" "describes h xs v4 k gf e" unfolding tracks_def backed_def by blast
  moreover have "describes h xs v4 = describes h xs v" by (rule describes_cong) (use k4 in \<open>simp_all add: keeps_def\<close>)
  moreover have "v_BagValidationConfig v4 = v_BagValidationConfig v" using k4 by (simp add: keeps_def settings_def)
  ultimately show "\<exists>gf. \<exists>e \<in> set xs. describes h xs v k gf e \<and> fileErrors (v_BagValidationConfig v) gf = []"
    using gf(2) by auto
qed

lemma evolves_verifyBag:
  assumes "verifyBag h v = Returns v'"
  shows "evolves v v'"
proof -
  define v3 where "v3 = verifyFileSpecs (verifyTopLevelFolder h (verifyManifestPresent v))"
  from assms obtain v4 v5 where 4: "verifyTagSpecs h v3 = Returns v4" and 5: "verifyGenericFiles h v4 = Returns v5"
    and v': "v' = finishValidation v5"
    by (auto simp: verifyBag_def and_then_Returns_iff simp flip: v3_def)
  have "evolves v v3" by (simp add: v3_def err_mono)
  from evolves_verifyLoop [OF 5 [unfolded verifyGenericFiles_def] evolves_verifyTagSpecs [OF 4 this]]
  show ?thesis by (simp add: v' err_mono)
qed

lemma saveMetadata_cases:
  assumes "saveMetadata h v = Returns v'"
  shows "\<exists>obj e v1. saveObject h v (obj_Identifier obj) obj = (e, v1) \<and> (v' = v1 \<or> (\<exists>m. v' = addError v1 m))"
proof -
  from assms obtain obj where o: "v_intelObj v = Some obj" by (cases "v_intelObj v") (simp_all add: saveMetadata_def)
  obtain e v1 where s: "saveObject h v (obj_Identifier obj) obj = (e, v1)" by force
  with assms o have "v' = v1 \<or> (\<exists>m. v' = addError v1 m)" by (cases e) (auto simp: saveMetadata_def)
  with s show ?thesis by blast
qed

lemma readBag_clean:
  assumes laws: "bolt_laws (h_bolt h)" and a: "readBag h v = Some (Returns v')" and c: "clean v'"
    and new: "files h v = Map.empty" "lists v = ([], [], [], [])"
  shows "\<exists>it j j'. getIterator (h_disk h) (v_PathToBag v) = Returns (Inr it) \<and>
    any_files.reads (h_disk h) it (yields (h_disk h) it) j \<and> Next (h_disk h) j = Returns (AtEOF, j') \<and>
    settings v' = settings v \<and> tracks h (yields (h_disk h) it) v' \<and>
    (\<forall>e \<in> set (yields (h_disk h) it). checked h v' e)"
proof -
  obtain r v1 where g: "getIntellectualObject h v = (r, v1)" by force
  with a c obtain obj where r: "r = Inr obj" by (cases r) (auto simp: readBag_def)
  define u where "u = v1\<lparr>v_intelObj := Some obj\<rparr>"
  from a g r obtain v2 where 2: "addFiles h u = Returns v2"
    by (cases "addFiles h u") (auto simp: readBag_def u_def)
  with a g r obtain v3 v4 where 3: "parseFiles h v2 = Some (Returns v3)"
    and 4: "setStorageOption h v3 = Returns v4" and "saveMetadata h v4 = Returns v'"
    by (auto simp: readBag_def u_def and_then_Returns_iff split: option.splits)
  from saveMetadata_cases [OF this(3)] obtain obj4 e v5
    where 5: "saveObject h v4 (obj_Identifier obj4) obj4 = (e, v5)" and v': "v' = v5 \<or> (\<exists>m. v' = addError v5 m)" by blast
  from v' c have v5: "v' = v5" by auto
  have c4: "clean v4" using framed_saveObject [OF 5] c v5 by (simp add: clean_def framed_def)
  have c3: "clean v3" by (rule evolves_clean [OF evolves_setStorageOption [OF 4 evolves_refl] c4])
  have ku: "keeps h xs v u" for xs
  proof -
    have "keeps h xs v v1" using keeps_getIntellectualObject [OF laws keeps_refl, of xs v] g by simp
    moreover have "keeps h xs v1 u" by (rule keeps_same) (simp_all add: u_def settings_def lists_def files_def)
    ultimately show ?thesis by (rule keeps_trans)
  qed
  have tu: "tracks h xs u" for xs
    using ku [of xs] new by (simp add: keeps_def tracks_def listsOk_def)
  have path: "v_PathToBag u = v_PathToBag v" using ku by (simp add: keeps_def settings_def)
  have e2: "evolves u v2" by (rule evolves_addFiles [OF 2 evolves_refl])
  then have s2: "settings v2 = settings u" by (simp add: evolves_def)
  then have p2: "v_PathToBag v2 = v_PathToBag v" using path by (simp add: settings_def)
  have "\<exists>it. getIterator (h_disk h) (v_PathToBag v) = Returns (Inr it)"
    using 3 c3 p2 by (auto simp: parseFiles_def split: outcome.splits sum.splits)
  then obtain it where it: "getIterator (h_disk h) (v_PathToBag v) = Returns (Inr it)" by blast
  define xs where "xs = yields (h_disk h) it"
  have t2: "tracks h xs v2" by (rule tracks_addFiles [where it = it, OF laws 2 tu]) (simp_all add: path it xs_def)
  from 3 it p2 have p: "parseLoop h it v2 = Some (Returns v3)" by (simp add: parseFiles_def)
  have "clean v2" by (rule evolves_clean [OF evolves_parseLoop [OF p refl] c3])
  then have b: "length (errs v2) \<le> 30" by (simp add: clean_def)
  note pc = parseLoop_clean [OF laws p c3 b t2, folded xs_def, OF order_refl]
  have "tracks h xs v3" using pc t2 by (simp add: keeps_def)
  then have k4: "keeps h xs v3 v4" by (rule keeps_setStorageOption [OF laws 4])
  have "keeps h xs v3 v5" using keeps_saveObject [OF laws k4] 5 by (metis snd_conv)
  with pc v5 have k: "keeps h xs v2 v'" using keeps_trans by blast
  have "settings v' = settings v" using k s2 ku by (simp add: keeps_def)
  moreover have "tracks h xs v'" using k t2 by (simp add: keeps_def)
  moreover have "\<forall>e \<in> set xs. checked h v' e" using pc keeps_checked [OF k] by simp
  ultimately show ?thesis using it pc unfolding xs_def by blast
qed

lemma fileSpecErrors_Nil_iff:
  "fileSpecErrors specs required forbidden = [] \<longleftrightarrow>
     (\<forall>(p, sp) \<in> set specs. (fsp_Presence sp = REQUIRED \<longrightarrow> p \<in> set required) \<and>
        (fsp_Presence sp = FORBIDDEN \<longrightarrow> p \<notin> set forbidden))"
  by (induction specs required forbidden rule: fileSpecErrors.induct) (auto simp: REQUIRED_def FORBIDDEN_def)

definition digestOf :: "'b host \<Rightarrow> string \<Rightarrow> string \<Rightarrow> string" where
  "digestOf h alg bytes = (if alg = AlgMd5 then dg_md5 (h_digests h) bytes else dg_sha256 (h_digests h) bytes)"

text \<open>What the checks of one file say about the file that its record describes.\<close>

lemma fileErrors_Nil:
  assumes d: "describes h xs v k gf (rd, s)" and f: "fileErrors cfg gf = []"
  shows "nameErrors cfg (sum_RelPath s) = []"
    and "HasPrefix (sum_RelPath s) ''data/'' \<Longrightarrow>
      \<exists>alg digest. digest \<noteq> [] \<and> digest = digestOf h alg (rd_data rd) \<and> listed xs alg digest (sum_RelPath s)"
proof -
  have o: "OriginalPath gf = sum_RelPath s" by (rule OriginalPath_of [of _ "v_ObjIdentifier v"]) (use d in \<open>simp_all add: describes_def\<close>)
  from f o show "nameErrors cfg (sum_RelPath s) = []" by (simp add: fileErrors_def)
  assume "HasPrefix (sum_RelPath s) ''data/''"
  then have "fileType (sum_RelPath s) = PAYLOAD_FILE"
    by (elim HasPrefixE) (simp add: fileType_def HasPrefix_def)
  with d have "gf_IngestFileType gf = PAYLOAD_FILE" by (simp add: describes_def)
  with f have "gf_IngestManifestMd5 gf \<noteq> [] \<or> gf_IngestManifestSha256 gf \<noteq> []" "\<not> md5Mismatch gf" "\<not> sha256Mismatch gf"
    by (auto simp: fileErrors_def split: if_splits)
  then have "gf_IngestManifestMd5 gf \<noteq> [] \<and> gf_IngestManifestMd5 gf = gf_IngestMd5 gf \<or>
      gf_IngestManifestSha256 gf \<noteq> [] \<and> gf_IngestManifestSha256 gf = gf_IngestSha256 gf"
    by (auto simp: md5Mismatch_def sha256Mismatch_def)
  then show "\<exists>alg digest. digest \<noteq> [] \<and> digest = digestOf h alg (rd_data rd) \<and> listed xs alg digest (sum_RelPath s)"
  proof
    assume m: "gf_IngestManifestMd5 gf \<noteq> [] \<and> gf_IngestManifestMd5 gf = gf_IngestMd5 gf"
    with d have "gf_IngestManifestMd5 gf = digestOf h AlgMd5 (rd_data rd)" "listed xs AlgMd5 (gf_IngestManifestMd5 gf) (sum_RelPath s)"
      by (auto simp: describes_def digestOf_def split: if_splits)
    with m show ?thesis by blast
  next
    assume m: "gf_IngestManifestSha256 gf \<noteq> [] \<and> gf_IngestManifestSha256 gf = gf_IngestSha256 gf"
    with d have "gf_IngestManifestSha256 gf = digestOf h AlgSha256 (rd_data rd)" "listed xs AlgSha256 (gf_IngestManifestSha256 gf) (sum_RelPath s)"
      by (auto simp: describes_def digestOf_def AlgMd5_def AlgSha256_def split: if_splits)
    with m show ?thesis by blast
  qed
qed

text \<open>Regular files of the bag have distinct paths.\<close>

definition distinctPaths :: "bag \<Rightarrow> bool" where
  "distinctPaths xs \<longleftrightarrow> distinct (map (\<lambda>(rd, s). sum_RelPath s) (filter (\<lambda>(rd, s). sum_IsRegularFile s) xs))"

lemma distinctPaths_unique:
  assumes "distinctPaths xs" and "(rd, s) \<in> set xs" "(rd', s') \<in> set xs"
    and "sum_IsRegularFile s" "sum_IsRegularFile s'" "sum_RelPath s = sum_RelPath s'"
  shows "(rd, s) = (rd', s')"
proof -
  have "inj_on (\<lambda>(rd, s). sum_RelPath s) (set (filter (\<lambda>(rd, s). sum_IsRegularFile s) xs))"
    using assms(1) by (simp add: distinctPaths_def distinct_map)
  then show ?thesis by (rule inj_onD) (use assms in auto)
qed

section \<open>Soundness\<close>

text \<open>
  What the validator promises about the files of a bag that passes: there is a payload manifest; every
  path named in an md5 or sha256 manifest that is read as a manifest is a file of the bag; every payload
  file is listed in a manifest with the digest of its bytes; names obey the rules of the configuration;
  required files are there and forbidden ones are not.
\<close>

definition validBag :: "'b host \<Rightarrow> Validator \<Rightarrow> bag \<Rightarrow> bool" where
  "validBag h v0 xs \<longleftrightarrow>
     (\<exists>p. HasPrefix p ''manifest-'' \<and> hasFile xs p) \<and>
     (\<forall>rd s. (rd, s) \<in> set xs \<and> sum_IsRegularFile s \<longrightarrow>
        nameErrors (v_BagValidationConfig v0) (sum_RelPath s) = [] \<and>
        (HasPrefix (sum_RelPath s) ''data/'' \<longrightarrow>
           (\<exists>alg digest. digest \<noteq> [] \<and> digest = digestOf h alg (rd_data rd) \<and> listed xs alg digest (sum_RelPath s))) \<and>
        (isManifest (sum_RelPath s) \<and> manifestAlg (sum_RelPath s) \<noteq> None \<and> sum_RelPath s \<notin> set (v_tagFilesToParse v0) \<longrightarrow>
           (\<forall>line \<in> set (fst (ScanLines rd)). TrimSpace line \<noteq> [] \<longrightarrow> hasFile xs (snd (manifestLine line))))) \<and>
     (\<forall>p sp. map_of (bvc_FileSpecs (v_BagValidationConfig v0)) p = Some sp \<longrightarrow>
        (fsp_Presence sp = REQUIRED \<longrightarrow> hasFile xs p) \<and> (fsp_Presence sp = FORBIDDEN \<longrightarrow> \<not> hasFile xs p))"

lemma onRecord_hasFile:
  assumes t: "tracks h xs v" and r: "onRecord h v p"
  shows "hasFile xs p \<and> noted v p"
proof -
  from r obtain g where "files h v (v_ObjIdentifier v @ ''/'' @ p) = Some g" by (auto simp: onRecord_def)
  with t obtain gf rd s where "(rd, s) \<in> set xs" "describes h xs v (v_ObjIdentifier v @ ''/'' @ p) gf (rd, s)"
    unfolding tracks_def backed_def by fastforce
  with describes_path [OF this(2)] show ?thesis by (auto simp: hasFile_def describes_def)
qed

definition unused :: "Validator \<Rightarrow> bool" where
  "unused v0 \<longleftrightarrow> v_manifests v0 = [] \<and> v_tagManifests v0 = [] \<and> v_requiredFiles v0 = [] \<and> v_forbiddenFiles v0 = []"

lemma NewValidator_unused:
  "NewValidator h w path cfg ext = Inr v0 \<Longrightarrow> unused v0 \<and> v_PathToBag v0 = path"
  by (auto simp: NewValidator_def unused_def split: sum.splits)

lemma started_unused:
  assumes "unused v0" and "get_file (h_bolt h) db = Map.empty"
  shows "files h (started v0 db) = Map.empty" "lists (started v0 db) = ([], [], [], [])"
    "v_PathToBag (started v0 db) = v_PathToBag v0" "v_BagValidationConfig (started v0 db) = v_BagValidationConfig v0"
    "v_tagFilesToParse (started v0 db) = v_tagFilesToParse v0"
  using assms by (auto simp: started_def startValidation_def now_def files_def lists_def unused_def split_beta
      Validator.Validator.defs running.defs)

lemma clean_bag_valid:
  assumes laws: "bolt_laws (h_bolt h)" and b: "verifyBag h v = Returns v'" "clean v'" and t: "tracks h xs v"
    and ck: "\<forall>e \<in> set xs. checked h v e" and u: "distinctPaths xs" and kinds: "\<And>rd s. (rd, s) \<in> set xs \<Longrightarrow> sum_IsRegularFile s \<Longrightarrow> \<not> sum_IsDir s"
    and v0: "v_BagValidationConfig v = v_BagValidationConfig v0" "v_tagFilesToParse v = v_tagFilesToParse v0"
  shows "validBag h v0 xs"
proof -
  note vb = verifyBag_clean [OF laws b t]
  have lo: "listsOk xs (lists v)" using t by (simp add: tracks_def)
  have m: "\<exists>p. HasPrefix p ''manifest-'' \<and> hasFile xs p"
    using lo vb(1) by (cases "v_manifests v") (auto simp: listsOk_def lists_def)
  have f: "nameErrors (v_BagValidationConfig v0) (sum_RelPath s) = [] \<and>
      (HasPrefix (sum_RelPath s) ''data/'' \<longrightarrow>
         (\<exists>alg digest. digest \<noteq> [] \<and> digest = digestOf h alg (rd_data rd) \<and> listed xs alg digest (sum_RelPath s))) \<and>
      (isManifest (sum_RelPath s) \<and> manifestAlg (sum_RelPath s) \<noteq> None \<and> sum_RelPath s \<notin> set (v_tagFilesToParse v0) \<longrightarrow>
         (\<forall>line \<in> set (fst (ScanLines rd)). TrimSpace line \<noteq> [] \<longrightarrow> hasFile xs (snd (manifestLine line))))"
    if e: "(rd, s) \<in> set xs" "sum_IsRegularFile s" for rd s
  proof -
    from ck e kinds [OF e] have r: "onRecord h v (sum_RelPath s)"
      and l: "isManifest (sum_RelPath s) \<and> sum_RelPath s \<notin> set (v_tagFilesToParse v) \<and> manifestAlg (sum_RelPath s) \<noteq> None \<longrightarrow>
        linesOnRecord h v rd" by (auto simp: checked_def)
    from r vb(3) [of "v_ObjIdentifier v @ ''/'' @ sum_RelPath s"] obtain gf rd' s'
      where e': "(rd', s') \<in> set xs" "describes h xs v (v_ObjIdentifier v @ ''/'' @ sum_RelPath s) gf (rd', s')"
        and fe: "fileErrors (v_BagValidationConfig v) gf = []" by (fastforce simp: onRecord_def)
    have "(rd, s) = (rd', s')"
      by (rule distinctPaths_unique [OF u e(1) e'(1) e(2)]) (use e'(2) in \<open>simp_all add: describes_def\<close>)
    with e' fe have d: "describes h xs v (v_ObjIdentifier v @ ''/'' @ sum_RelPath s) gf (rd, s)" by simp
    from fileErrors_Nil [OF d fe] l onRecord_hasFile [OF t] v0 show ?thesis by (auto simp: linesOnRecord_def)
  qed
  have sp: "(fsp_Presence sp = REQUIRED \<longrightarrow> hasFile xs p) \<and> (fsp_Presence sp = FORBIDDEN \<longrightarrow> \<not> hasFile xs p)"
    if s: "map_of (bvc_FileSpecs (v_BagValidationConfig v0)) p = Some sp" for p sp
  proof -
    have q: "(fsp_Presence sp = REQUIRED \<longrightarrow> p \<in> set (v_requiredFiles v)) \<and>
        (fsp_Presence sp = FORBIDDEN \<longrightarrow> p \<notin> set (v_forbiddenFiles v))"
      using vb(2) v0(1) map_of_SomeD [OF s] unfolding fileSpecErrors_Nil_iff by auto
    have "\<not> hasFile xs p" if fb: "fsp_Presence sp = FORBIDDEN"
    proof
      assume "hasFile xs p"
      with ck kinds have "onRecord h v p" by (fastforce simp: hasFile_def checked_def)
      with onRecord_hasFile [OF t] have "noted v p" by blast
      with fb s v0(1) q show False by (simp add: noted_def specOf_def)
    qed
    moreover have "hasFile xs p" if "fsp_Presence sp = REQUIRED"
      using q lo that by (simp add: listsOk_def lists_def)
    ultimately show ?thesis by blast
  qed
  from m f sp show ?thesis unfolding validBag_def by blast
qed

lemma clean_run_valid:
  assumes laws: "bolt_laws (h_bolt h)"
    and new: "unused v0"
    and db: "NewBoltDB (h_bolt h) (DBName (v_PathToBag v0)) = Inr db" "get_file (h_bolt h) db = Map.empty"
    and it: "getIterator (h_disk h) (v_PathToBag v0) = Returns (Inr it)" and u: "distinctPaths (yields (h_disk h) it)"
    and run: "Validate h v0 = Some (Returns (Inr v))" and ok: "\<not> HasErrors (v_summary v)"
  shows "validBag h v0 (yields (h_disk h) it)"
    and "\<exists>j j'. any_files.reads (h_disk h) it (yields (h_disk h) it) j \<and> Next (h_disk h) j = Returns (AtEOF, j')"
proof -
  note st = started_unused [OF new db(2)]
  from run db(1) obtain v1 where r: "readBag h (started v0 db) = Some (Returns v1)" and b: "verifyBag h v1 = Returns v"
    by (auto simp: Validate_def and_then_Returns_iff simp flip: started_def split: option.splits)
  have c: "clean v" using ok by (simp add: clean_HasErrors)
  have c1: "clean v1" by (rule evolves_clean [OF evolves_verifyBag [OF b] c])
  from readBag_clean [OF laws r c1 st(1,2)] it st(3)
  have rb: "settings v1 = settings (started v0 db)" "tracks h (yields (h_disk h) it) v1"
    "\<forall>e \<in> set (yields (h_disk h) it). checked h v1 e"
    "\<exists>j j'. any_files.reads (h_disk h) it (yields (h_disk h) it) j \<and> Next (h_disk h) j = Returns (AtEOF, j')"
    by auto
  show "validBag h v0 (yields (h_disk h) it)"
    by (rule clean_bag_valid [OF laws b c rb(2,3) u yields_kind])
      (use rb(1) st(4,5) in \<open>simp_all add: settings_def\<close>)
  show "\<exists>j j'. any_files.reads (h_disk h) it (yields (h_disk h) it) j \<and> Next (h_disk h) j = Returns (AtEOF, j')"
    by (rule rb(4))
qed

text \<open>C1: A validator that was made for a bag, runs on an empty database and returns without an error in
  its summary has read the bag to the end and the bag is valid: it has a payload manifest, every payload
  file is listed in a manifest with the digest of its very bytes, every path listed in a manifest is a
  file of the bag, names are allowed, required files are present and forbidden ones absent. Nothing is
  assumed of the database but the laws of bolt, and nothing of the bag but that its files have distinct
  paths.\<close>

theorem Validate_sound:
  assumes laws: "bolt_laws (h_bolt h)"
    and new: "NewValidator h w path cfg ext = Inr v0"
    and db: "NewBoltDB (h_bolt h) (DBName path) = Inr db" "get_file (h_bolt h) db = Map.empty"
    and it: "getIterator (h_disk h) path = Returns (Inr it)" and u: "distinctPaths (yields (h_disk h) it)"
    and run: "Validate h v0 = Some (Returns (Inr v))" and ok: "\<not> HasErrors (v_summary v)"
  shows "validBag h v0 (yields (h_disk h) it) \<and>
    (\<exists>j j'. any_files.reads (h_disk h) it (yields (h_disk h) it) j \<and> Next (h_disk h) j = Returns (AtEOF, j'))"
  using clean_run_valid [OF laws _ _ db(2) _ u run ok] NewValidator_unused [OF new] db(1) it by blast

definition regularEntry :: "string \<Rightarrow> string \<Rightarrow> tar_header \<times> reader" where
  "regularEntry name bytes = (\<lparr>th_Name = name, th_Mode = 0, th_Size = of_nat (length bytes), th_ModTime = 1,
     th_Typeflag = CHR ''0'', th_Uid = 0, th_Gid = 0\<rparr>, \<lparr>rd_data = bytes, rd_err = None\<rparr>)"

definition smallBag :: tarball where
  "smallBag = \<lparr>tb_entries = [regularEntry ''b/data/f'' ''X'', regularEntry ''b/manifest-md5.txt'' ''mX data/f''], tb_end = None\<rparr>"

definition smallConfig :: BagValidationConfig where
  "smallConfig = NewBagValidationConfig\<lparr>bvc_FixityAlgorithms := [AlgMd5]\<rparr>"

definition smallRun :: "(Validator \<times> memory running) option" where
  "smallRun = (case NewValidator (exampleHost smallBag) exampleWorld ''/b.tar'' (Some smallConfig) False of
     Inl _ \<Rightarrow> None
   | Inr v0 \<Rightarrow> (case Validate (exampleHost smallBag) v0 of Some (Returns (Inr v)) \<Rightarrow> Some (v0, v) | _ \<Rightarrow> None))"

lemma smallRun_clean: "case smallRun of None \<Rightarrow> False | Some (v0, v) \<Rightarrow> \<not> HasErrors (v_summary v)"
  by code_simp

theorem Validate_sound_witness:
  "\<exists>v0 v it. NewValidator (exampleHost smallBag) exampleWorld ''/b.tar'' (Some smallConfig) False = Inr v0 \<and>
     Validate (exampleHost smallBag) v0 = Some (Returns (Inr v)) \<and> \<not> HasErrors (v_summary v) \<and>
     getIterator (h_disk (exampleHost smallBag)) ''/b.tar'' = Returns (Inr it) \<and>
     validBag (exampleHost smallBag) v0 (yields (h_disk (exampleHost smallBag)) it)"
proof -
  from smallRun_clean obtain v0 v where
    n: "NewValidator (exampleHost smallBag) exampleWorld ''/b.tar'' (Some smallConfig) False = Inr v0" and
    r: "Validate (exampleHost smallBag) v0 = Some (Returns (Inr v))" and c: "\<not> HasErrors (v_summary v)"
    by (auto simp: smallRun_def split: sum.splits option.splits outcome.splits)
  define i where "i = \<lparr>ti_rest = tb_entries smallBag, ti_end = None, ti_topLevelDirNames = []\<rparr>"
  have it: "getIterator (h_disk (exampleHost smallBag)) ''/b.tar'' = Returns (Inr (TarIter i))"
    by (simp add: getIterator_def HasSuffix_def exampleHost_def exampleDisk_def NewTarFileIterator_def i_def smallBag_def)
  have u: "distinctPaths (yields (h_disk (exampleHost smallBag)) (TarIter i))"
    by (simp add: yields_tar i_def smallBag_def regularEntry_def distinctPaths_def tarSummary_def)
  have laws: "bolt_laws (h_bolt (exampleHost smallBag))" by (simp add: exampleHost_def mem.bolt_laws_axioms)
  have "NewBoltDB (h_bolt (exampleHost smallBag)) p = Inr ([], [])" for p
    by (simp add: exampleHost_def memBolt_def NewBoltDB_def initBuckets_def)
  moreover have "get_file (h_bolt (exampleHost smallBag)) ([], []) = Map.empty"
    by (simp add: exampleHost_def memBolt_def)
  ultimately have "validBag (exampleHost smallBag) v0 (yields (h_disk (exampleHost smallBag)) (TarIter i))"
    using Validate_sound [OF laws n _ _ it u r c] by blast
  with n r c it show ?thesis by blast
qed

section \<open>Forbidden tags\<close>

lemma FindTag_again: "fst (FindTag (snd (FindTag obj n)) m) = fst (FindTag obj m)"
  by (simp add: FindTag_def Let_def split: option.split)

lemma tagSpecLoop_forbidden:
  "(tagName, tagSpec) \<in> set specs \<Longrightarrow> tsp_Presence tagSpec = FORBIDDEN \<Longrightarrow>
     (fst (FindTag obj tagName) = [] \<longrightarrow> tagSpecLoop specs obj v = Panics) \<and>
     (\<forall>obj' v'. tagSpecLoop specs obj v = Returns (obj', v') \<longrightarrow> \<not> clean v')"
proof (induction specs obj v rule: tagSpecLoop.induct)
  case (2 n sp specs obj v)
  obtain tags obj1 where f: "FindTag obj n = (tags, obj1)" by force
  note IH = "2.IH" [OF f [symmetric] refl]
  have again: "fst (FindTag obj1 tagName) = fst (FindTag obj tagName)" using FindTag_again [of obj n tagName] f by simp
  show ?case
  proof (cases "tsp_Presence sp = FORBIDDEN")
    case True
    show ?thesis
    proof (cases tags)
      case (Cons t ts)
      define v1 where "v1 = addError v (''Forbidden tag '' @ quoted n @ '' found in file '' @ quoted (tag_SourceFile t) @ ''.'')"
      have l: "tagSpecLoop ((n, sp) # specs) obj v = tagSpecLoop specs obj1 v1" using True Cons f by (simp add: v1_def)
      have "\<not> clean v'" if "tagSpecLoop specs obj1 v1 = Returns (obj', v')" for obj' v'
        using evolves_clean [OF evolves_tagSpecLoop [OF that evolves_refl]] by (auto simp: v1_def)
      moreover have "fst (FindTag obj tagName) = [] \<longrightarrow> tagSpecLoop specs obj1 v1 = Panics"
        using "2.prems" IH(1) [OF True Cons] again f Cons by (auto simp: v1_def)
      ultimately show ?thesis unfolding l by blast
    qed (use True f in simp)
  next
    case False
    with "2.prems" have "(tagName, tagSpec) \<in> set specs" by auto
    from IH(2) [OF False this "2.prems"(2)] False f again show ?thesis by simp
  qed
qed simp

text \<open>C12: No bag ever passes a configuration that marks a tag as forbidden. If the tag is absent, as it
  should be, the check dereferences the first of no tags and panics; in every other case that returns,
  an error was added.\<close>

theorem verifyTagSpecs_forbidden:
  assumes "v_intelObj v = Some obj" and "(tagName, tagSpec) \<in> set (bvc_TagSpecs (v_BagValidationConfig v))"
    and "tsp_Presence tagSpec = FORBIDDEN"
  shows "(fst (FindTag obj tagName) = [] \<longrightarrow> verifyTagSpecs h v = Panics) \<and>
    (\<forall>v'. verifyTagSpecs h v = Returns v' \<longrightarrow> HasErrors (v_summary v'))"
proof -
  have g: "getIntellectualObject h v = (Inr obj, v)" using assms(1) by (simp add: getIntellectualObject_def)
  note loop = tagSpecLoop_forbidden [OF assms(2,3), of obj v]
  have "HasErrors (v_summary (writeObj obj' v1)) \<longleftrightarrow> \<not> clean v1" for obj' and v1 :: "'a running"
    by (simp add: clean_HasErrors writeObj_def split: option.split)
  with loop show ?thesis by (auto simp: verifyTagSpecs_def g and_then_Returns_iff)
qed

definition forbidding :: "memory running" where
  "forbidding = Validator.Validator.extend \<lparr>v_PathToBag = ''/b.tar'',
     v_BagValidationConfig = smallConfig\<lparr>bvc_TagSpecs := [(''Secret'', \<lparr>tsp_FilePath = ''bag-info.txt'', tsp_Presence = FORBIDDEN,
       tsp_EmptyOK = True, tsp_AllowedValues = []\<rparr>)]\<rparr>,
     v_PreserveExtendedAttributes = False, v_ObjIdentifier = ''b'', v_summary = NewWorkSummary,
     v_intelObj = Some NewIntellectualObject, v_tagFilesToParse = [], v_manifests = [], v_tagManifests = [],
     v_requiredFiles = [], v_forbiddenFiles = [], v_calculateMd5 = True, v_calculateSha256 = False,
     v_world = exampleWorld\<rparr> (running.fields ([], []))"

theorem verifyTagSpecs_forbidden_witness:
  "obj_IngestTags NewIntellectualObject = [] \<and> verifyTagSpecs (exampleHost smallBag) forbidding = Panics"
proof -
  have "v_intelObj forbidding = Some NewIntellectualObject"
    "(''Secret'', \<lparr>tsp_FilePath = ''bag-info.txt'', tsp_Presence = FORBIDDEN, tsp_EmptyOK = True, tsp_AllowedValues = []\<rparr>)
       \<in> set (bvc_TagSpecs (v_BagValidationConfig forbidding))"
    by (simp_all add: forbidding_def Validator.Validator.defs running.defs)
  from verifyTagSpecs_forbidden [OF this, of "exampleHost smallBag"] show ?thesis
    by (simp add: FindTag_def NewIntellectualObject_def)
qed

end
