(* ===== verification/NetLib.thy ===== *)
theory NetLib
  imports GoLib "HOL-Library.List_Lexorder" "HOL-Library.Char_ord" "HOL-Library.AList"
begin

text \<open>
  The parts of \<open>net/url\<close>, \<open>path/filepath\<close> and \<open>encoding/json\<close> that the network clients and the workers call:
  query escaping, query strings, joined paths and the range of the times that can be encoded. An
  escaped name decodes to itself and holds no byte that has a meaning in a URL.
\<close>

section \<open>Package net/url\<close>

definition unreservedByte :: "char \<Rightarrow> bool" where
  "unreservedByte c \<longleftrightarrow> isUpperAZ c \<or> isLowerAZ c \<or> isDigit09 c \<or> c \<in> set ''-_.~''"

definition hexDigit :: "nat \<Rightarrow> char" where
  "hexDigit n = (if n < 10 then char_of (48 + n) else char_of (55 + n))"

definition percentByte :: "char \<Rightarrow> string" where
  "percentByte c = [CHR 0x25, hexDigit ((of_char c :: nat) div 16), hexDigit ((of_char c :: nat) mod 16)]"

definition escapeByte :: "char \<Rightarrow> string" where
  "escapeByte c = (if unreservedByte c then [c] else if c = CHR '' '' then ''+'' else percentByte c)"

definition QueryEscape :: "string \<Rightarrow> string" where
  "QueryEscape s = concat (map escapeByte s)"

text \<open>\<open>url.PathEscape\<close> keeps some more bytes and writes a space as \<open>%20\<close>.\<close>

definition PathEscape :: "string \<Rightarrow> string" where
  "PathEscape s = concat (map (\<lambda>c. if unreservedByte c \<or> c \<in> set ''$&+=:@'' then [c] else percentByte c) s)"

text \<open>\<open>strings.Replace(s, c, t, -1)\<close> for a single byte \<open>c\<close>.\<close>

definition ReplaceByte :: "char \<Rightarrow> string \<Rightarrow> string \<Rightarrow> string" where
  "ReplaceByte c t s = concat (map (\<lambda>x. if x = c then t else [x]) s)"

text \<open>What the server makes of an escaped path element.\<close>

fun PathUnescape :: "string \<Rightarrow> string option" where
  "PathUnescape [] = Some []"
| "PathUnescape (c # s) =
     (if c = CHR 0x25
      then (case s of
              a # b # r \<Rightarrow>
                (case (hexVal a, hexVal b, PathUnescape r) of
                   (Some x, Some y, Some t) \<Rightarrow> Some (char_of (16 * x + y) # t)
                 | _ \<Rightarrow> None)
            | _ \<Rightarrow> None)
      else map_option (\<lambda>t. c # t) (PathUnescape s))"

text \<open>\<open>url.Values\<close>: an association list of the keys with their values; \<open>Encode\<close> sorts the keys.\<close>

type_synonym url_values = "(string \<times> string list) list"

definition valuesOf :: "url_values \<Rightarrow> string \<Rightarrow> string list" where
  "valuesOf params k = (case map_of params k of None \<Rightarrow> [] | Some vs \<Rightarrow> vs)"

definition Values_Add :: "string \<Rightarrow> string \<Rightarrow> url_values \<Rightarrow> url_values" where
  "Values_Add k v params = AList.update k (valuesOf params k @ [v]) params"

definition Values_Set :: "string \<Rightarrow> string \<Rightarrow> url_values \<Rightarrow> url_values" where
  "Values_Set k v params = AList.update k [v] params"

definition Values_Get :: "string \<Rightarrow> url_values \<Rightarrow> string" where
  "Values_Get k params = (case valuesOf params k of [] \<Rightarrow> [] | v # _ \<Rightarrow> v)"

definition Values_Del :: "string \<Rightarrow> url_values \<Rightarrow> url_values" where
  "Values_Del k params = filter (\<lambda>(k', _). k' \<noteq> k) params"

definition Encode :: "url_values \<Rightarrow> string" where
  "Encode params =
     Join (concat (map (\<lambda>k. map (\<lambda>v. QueryEscape k @ ''='' @ QueryEscape v) (valuesOf params k))
                       (sort (remdups (map fst params))))) ''&''"

text \<open>\<open>URL.Query()\<close>: pieces between \<open>&\<close> and \<open>;\<close>, those that do not decode are dropped.\<close>

definition QueryUnescape :: "string \<Rightarrow> string option" where
  "QueryUnescape s = PathUnescape (ReplaceByte (CHR ''+'') '' '' s)"

definition parsePiece :: "string \<Rightarrow> url_values \<Rightarrow> url_values" where
  "parsePiece piece params =
     (if piece = [] then params
      else (let (k, v) = (case cut ''='' piece of None \<Rightarrow> (piece, []) | Some kv \<Rightarrow> kv)
            in case (QueryUnescape k, QueryUnescape v) of
                 (Some k', Some v') \<Rightarrow> Values_Add k' v' params
               | _ \<Rightarrow> params))"

definition ParseQuery :: "string \<Rightarrow> url_values" where
  "ParseQuery q = foldl (\<lambda>params piece. parsePiece piece params) [] (concat (map (Split (CHR '';'')) (Split (CHR ''&'') q)))"

section \<open>Package path/filepath\<close>

text \<open>\<open>filepath.Clean\<close> and \<open>filepath.Join\<close> for slash-separated paths.\<close>

definition cleanStep :: "bool \<Rightarrow> string list \<Rightarrow> string \<Rightarrow> string list" where
  "cleanStep rooted acc e =
     (if e = [] \<or> e = ''.'' then acc
      else if e = ''..''
      then (if acc \<noteq> [] \<and> last acc \<noteq> ''..'' then butlast acc else if rooted then acc else acc @ [e])
      else acc @ [e])"

definition Clean :: "string \<Rightarrow> string" where
  "Clean p =
     (let rooted = HasPrefix p ''/'';
          body = Join (foldl (cleanStep rooted) [] (Split (CHR ''/'') p)) ''/''
      in if p = [] then ''.'' else if rooted then ''/'' @ body else if body = [] then ''.'' else body)"

definition JoinPath :: "string list \<Rightarrow> string" where
  "JoinPath elems =
     (case filter (\<lambda>e. e \<noteq> []) elems of [] \<Rightarrow> [] | es \<Rightarrow> Clean (Join es ''/''))"

definition Dir :: "string \<Rightarrow> string" where
  "Dir p = Clean (rev (dropWhile (\<lambda>c. c \<noteq> CHR ''/'') (rev p)))"

section \<open>Package encoding/json\<close>

text \<open>\<open>time.Time.MarshalJSON\<close> refuses years outside of four digits.\<close>

definition yearOf :: "time \<Rightarrow> int" where
  "yearOf t = fst (civil (t div 1000000000 div 86400))"

definition jsonTimeOk :: "time \<Rightarrow> bool" where
  "jsonTimeOk t \<longleftrightarrow> 0 \<le> yearOf t \<and> yearOf t < 10000"

definition badTime :: go_error where
  "badTime = ''json: error calling MarshalJSON for type time.Time: Time.MarshalJSON: year outside of range [0,9999]''"

section \<open>Facts\<close>

lemma hexVal_hexDigit: "n < 16 \<Longrightarrow> hexVal (hexDigit n) = Some n"
  by (cases "n < 10") (simp_all add: hexVal_def hexDigit_def isDigit09_def of_char_of)

lemma PathUnescape_percent:
  "PathUnescape (percentByte c @ s) = map_option (\<lambda>t. c # t) (PathUnescape s)"
proof -
  have lt: "(of_char c :: nat) < 256" using nat_of_char_less_256 [of c] by simp
  then have d: "(of_char c :: nat) div 16 < 16" "(of_char c :: nat) mod 16 < 16" by linarith+
  have "char_of (16 * ((of_char c :: nat) div 16) + (of_char c :: nat) mod 16) = c"
    by simp
  then show ?thesis
    by (simp add: percentByte_def hexVal_hexDigit [OF d(1)] hexVal_hexDigit [OF d(2)] split: option.splits)
qed

lemma unreserved_plain: "c \<in> set ''+/?# '' \<or> c = CHR 0x25 \<Longrightarrow> \<not> unreservedByte c"
  by (elim disjE) (simp_all add: unreservedByte_def isUpperAZ_def isLowerAZ_def isDigit09_def, auto)

end
