(* ===== verification/PharosModels.thy ===== *)
theory PharosModels
  imports WorkStates NetLib
begin

text \<open>
  \<^verbatim>\<open>src/models/pharos_special_models.go\<close> and the \<open>SerializeForPharos\<close> methods of the models: what is sent
  to Pharos. A request body is represented by the value it encodes. \<open>json.Marshal\<close> fails for these
  values only on a time whose year has not four digits.
\<close>

record IntellectualObjectForPharos =
  ofp_Identifier :: string
  ofp_BagName :: string
  ofp_BagGroupIdentifier :: string
  ofp_InstitutionId :: int
  ofp_Title :: string
  ofp_Description :: string
  ofp_AltIdentifier :: string
  ofp_Access :: string
  ofp_DPNUUID :: string
  ofp_ETag :: string
  ofp_State :: string
  ofp_StorageOption :: string
  ofp_SourceOrganization :: string
  ofp_BagItProfileIdentifier :: string

definition NewIntellectualObjectForPharos :: "IntellectualObject \<Rightarrow> IntellectualObjectForPharos" where
  "NewIntellectualObjectForPharos obj =
     \<lparr>ofp_Identifier = obj_Identifier obj, ofp_BagName = obj_BagName obj,
      ofp_BagGroupIdentifier = obj_BagGroupIdentifier obj, ofp_InstitutionId = obj_InstitutionId obj,
      ofp_Title = obj_Title obj, ofp_Description = obj_Description obj, ofp_AltIdentifier = obj_AltIdentifier obj,
      ofp_Access = ToLower (obj_Access obj), ofp_DPNUUID = obj_DPNUUID obj, ofp_ETag = obj_ETag obj,
      ofp_State = obj_State obj, ofp_StorageOption = obj_StorageOption obj,
      ofp_SourceOrganization = obj_SourceOrganization obj,
      ofp_BagItProfileIdentifier = obj_BagItProfileIdentifier obj\<rparr>"

text \<open>An id of zero is left out of the text (\<open>omitempty\<close>).\<close>

record ChecksumForPharos =
  cfp_Id :: int
  cfp_GenericFileId :: int
  cfp_Algorithm :: string
  cfp_DateTime :: time
  cfp_Digest :: string

definition NewChecksumForPharos :: "Checksum \<Rightarrow> ChecksumForPharos" where
  "NewChecksumForPharos cs =
     \<lparr>cfp_Id = cs_Id cs, cfp_GenericFileId = cs_GenericFileId cs, cfp_Algorithm = cs_Algorithm cs,
      cfp_DateTime = cs_DateTime cs, cfp_Digest = cs_Digest cs\<rparr>"

record PremisEventForPharos =
  efp_Id :: int
  efp_Identifier :: string
  efp_EventType :: string
  efp_DateTime :: time
  efp_Detail :: string
  efp_Outcome :: string
  efp_OutcomeDetail :: string
  efp_Object :: string
  efp_Agent :: string
  efp_OutcomeInformation :: string
  efp_IntellectualObjectId :: int
  efp_IntellectualObjectIdentifier :: string
  efp_GenericFileId :: int
  efp_GenericFileIdentifier :: string

definition NewPremisEventForPharos :: "PremisEvent \<Rightarrow> PremisEventForPharos" where
  "NewPremisEventForPharos event =
     \<lparr>efp_Id = ev_Id event, efp_Identifier = ev_Identifier event, efp_EventType = ev_EventType event,
      efp_DateTime = ev_DateTime event, efp_Detail = ev_Detail event, efp_Outcome = ev_Outcome event,
      efp_OutcomeDetail = ev_OutcomeDetail event, efp_Object = ev_Object event, efp_Agent = ev_Agent event,
      efp_OutcomeInformation = ev_OutcomeInformation event,
      efp_IntellectualObjectId = ev_IntellectualObjectId event,
      efp_IntellectualObjectIdentifier = ev_IntellectualObjectIdentifier event,
      efp_GenericFileId = ev_GenericFileId event, efp_GenericFileIdentifier = ev_GenericFileIdentifier event\<rparr>"

record GenericFileForPharos =
  ffp_Identifier :: string
  ffp_IntellectualObjectId :: int
  ffp_FileFormat :: string
  ffp_URI :: string
  ffp_Size :: int64
  ffp_StorageOption :: string
  ffp_Checksums :: "ChecksumForPharos list"
  ffp_PremisEvents :: "PremisEventForPharos list"

text \<open>The constructors of the children dereference their arguments.\<close>

definition NewGenericFileForPharos :: "GenericFile \<Rightarrow> GenericFileForPharos outcome" where
  "NewGenericFileForPharos gf =
     and_then (map_outcome (\<lambda>cs. and_then (deref cs) (\<lambda>c. Returns (NewChecksumForPharos c))) (gf_Checksums gf))
       (\<lambda>checksums.
     and_then (map_outcome (\<lambda>ev. and_then (deref ev) (\<lambda>e. Returns (NewPremisEventForPharos e))) (gf_PremisEvents gf))
       (\<lambda>events.
     Returns \<lparr>ffp_Identifier = gf_Identifier gf, ffp_IntellectualObjectId = gf_IntellectualObjectId gf,
       ffp_FileFormat = gf_FileFormat gf, ffp_URI = gf_URI gf, ffp_Size = gf_Size gf,
       ffp_StorageOption = gf_StorageOption gf, ffp_Checksums = checksums, ffp_PremisEvents = events\<rparr>))"

record WorkItemStateForPharos =
  sfp_Id :: int
  sfp_WorkItemId :: int
  sfp_Action :: string
  sfp_State :: state_doc

definition NewWorkItemStateForPharos :: "WorkItemState \<Rightarrow> WorkItemStateForPharos" where
  "NewWorkItemStateForPharos workItemState =
     \<lparr>sfp_Id = wis_Id workItemState, sfp_WorkItemId = wis_WorkItemId workItemState,
      sfp_Action = wis_Action workItemState, sfp_State = wis_State workItemState\<rparr>"

section \<open>Request bodies\<close>

datatype post_data =
    NoData
  | ObjectData IntellectualObjectForPharos
  | FileData GenericFileForPharos
  | FileBatch "GenericFileForPharos list"
  | ChecksumData ChecksumForPharos
  | EventData PremisEventForPharos
  | ItemData WorkItem
  | StateData WorkItemStateForPharos

definition marshal :: "bool \<Rightarrow> post_data \<Rightarrow> post_data \<times> go_error option" where
  "marshal timesOk doc = (if timesOk then (doc, None) else (NoData, Some badTime))"

definition fileTimesOk :: "GenericFileForPharos \<Rightarrow> bool" where
  "fileTimesOk f \<longleftrightarrow> list_all (\<lambda>c. jsonTimeOk (cfp_DateTime c)) (ffp_Checksums f) \<and>
                     list_all (\<lambda>e. jsonTimeOk (efp_DateTime e)) (ffp_PremisEvents f)"

definition Object_SerializeForPharos :: "IntellectualObject \<Rightarrow> post_data \<times> go_error option" where
  "Object_SerializeForPharos obj = marshal True (ObjectData (NewIntellectualObjectForPharos obj))"

definition File_SerializeForPharos :: "GenericFile \<Rightarrow> (post_data \<times> go_error option) outcome" where
  "File_SerializeForPharos gf =
     and_then (NewGenericFileForPharos gf) (\<lambda>f. Returns (marshal (fileTimesOk f) (FileData f)))"

definition Checksum_SerializeForPharos :: "Checksum \<Rightarrow> post_data \<times> go_error option" where
  "Checksum_SerializeForPharos checksum =
     marshal (jsonTimeOk (cs_DateTime checksum)) (ChecksumData (NewChecksumForPharos checksum))"

text \<open>The map of a work item has no keys for its id, the id of its state and its timestamps.\<close>

definition Item_SerializeForPharos :: "WorkItem \<Rightarrow> post_data \<times> go_error option" where
  "Item_SerializeForPharos item =
     marshal (jsonTimeOk (wi_BagDate item) \<and> jsonTimeOk (wi_Date item) \<and>
              list_all jsonTimeOk (case wi_StageStartedAt item of None \<Rightarrow> [] | Some t \<Rightarrow> [t]) \<and>
              list_all jsonTimeOk (case wi_QueuedAt item of None \<Rightarrow> [] | Some t \<Rightarrow> [t]))
       (ItemData (item\<lparr>wi_Id := 0, wi_WorkItemStateId := None, wi_CreatedAt := zeroTime, wi_UpdatedAt := zeroTime\<rparr>))"

section \<open>Facts\<close>

lemma NewGenericFileForPharos_Returns:
  assumes "None \<notin> set (gf_Checksums gf)" "None \<notin> set (gf_PremisEvents gf)"
  shows "NewGenericFileForPharos gf =
     Returns \<lparr>ffp_Identifier = gf_Identifier gf, ffp_IntellectualObjectId = gf_IntellectualObjectId gf,
       ffp_FileFormat = gf_FileFormat gf, ffp_URI = gf_URI gf, ffp_Size = gf_Size gf,
       ffp_StorageOption = gf_StorageOption gf,
       ffp_Checksums = map (\<lambda>c. NewChecksumForPharos (the c)) (gf_Checksums gf),
       ffp_PremisEvents = map (\<lambda>e. NewPremisEventForPharos (the e)) (gf_PremisEvents gf)\<rparr>"
proof -
  have c: "map_outcome (\<lambda>cs. and_then (deref cs) (\<lambda>c. Returns (NewChecksumForPharos c))) (gf_Checksums gf) =
      Returns (map (\<lambda>c. NewChecksumForPharos (the c)) (gf_Checksums gf))"
  proof (rule map_outcome_all)
    fix x assume "x \<in> set (gf_Checksums gf)"
    with assms(1) show "and_then (deref x) (\<lambda>c. Returns (NewChecksumForPharos c)) = Returns (NewChecksumForPharos (the x))"
      by (cases x) auto
  qed
  have e: "map_outcome (\<lambda>cs. and_then (deref cs) (\<lambda>c. Returns (NewPremisEventForPharos c))) (gf_PremisEvents gf) =
      Returns (map (\<lambda>c. NewPremisEventForPharos (the c)) (gf_PremisEvents gf))"
  proof (rule map_outcome_all)
    fix x assume "x \<in> set (gf_PremisEvents gf)"
    with assms(2) show "and_then (deref x) (\<lambda>c. Returns (NewPremisEventForPharos c)) = Returns (NewPremisEventForPharos (the x))"
      by (cases x) auto
  qed
  show ?thesis by (simp add: NewGenericFileForPharos_def c e)
qed

end
