(* ===== verification/Pharos.thy ===== *)
theory Pharos
  imports PharosModels
begin

text \<open>
  The client of the Pharos registry: \<^verbatim>\<open>src/network/pharos_response.go\<close> and \<^verbatim>\<open>src/network/pharos_client.go\<close>.
  The registry and the connection to it are the argument \<open>http\<close>, which exchanges a request for a
  response and changes a state of type \<open>'e\<close>. The body of a response stands for its text together with what
  \<open>json.Unmarshal\<close> makes of the text at each of the types the client asks for, so that nothing is assumed
  about what the server sends.
\<close>

section \<open>Messages\<close>

text \<open>One page of a list: a nil slice is \<open>None\<close>, a JSON null in it is a nil pointer.\<close>

record 'a page =
  pg_Count :: int
  pg_Next :: "string option"
  pg_Previous :: "string option"
  pg_Results :: "'a option list option"

type_synonym 'a list_decoding = "go_error option \<times> 'a page"

record reply =
  rb_text :: string
  rb_institution :: "go_error + Institution"
  rb_object :: "go_error + IntellectualObject"
  rb_file :: "go_error + GenericFile"
  rb_checksum :: "go_error + Checksum"
  rb_event :: "go_error + PremisEvent"
  rb_item :: "go_error + WorkItem"
  rb_state :: "go_error + WorkItemState"
  rb_institutions :: "Institution list_decoding"
  rb_objects :: "IntellectualObject list_decoding"
  rb_files :: "GenericFile list_decoding"
  rb_checksums :: "Checksum list_decoding"
  rb_events :: "PremisEvent list_decoding"
  rb_items :: "WorkItem list_decoding"
  rb_states :: "WorkItemState list_decoding"

definition emptyPage :: "'a page" where
  "emptyPage = \<lparr>pg_Count = 0, pg_Next = None, pg_Previous = None, pg_Results = None\<rparr>"

text \<open>Text that is not JSON decodes to an error at every type.\<close>

definition plainText :: "string \<Rightarrow> go_error \<Rightarrow> reply" where
  "plainText text err =
     \<lparr>rb_text = text, rb_institution = Inl err, rb_object = Inl err, rb_file = Inl err, rb_checksum = Inl err,
      rb_event = Inl err, rb_item = Inl err, rb_state = Inl err, rb_institutions = (Some err, emptyPage),
      rb_objects = (Some err, emptyPage), rb_files = (Some err, emptyPage), rb_checksums = (Some err, emptyPage),
      rb_events = (Some err, emptyPage), rb_items = (Some err, emptyPage), rb_states = (Some err, emptyPage)\<rparr>"

record http_request =
  rq_Method :: string
  rq_Scheme :: string
  rq_Host :: string
  rq_Opaque :: string
  rq_Headers :: "(string \<times> string) list"
  rq_Body :: "post_data option"

text \<open>The body of a response that a client receives is never nil; reading it may fail.\<close>

record http_response =
  hr_StatusCode :: int
  hr_Body :: reply
  hr_ReadError :: "go_error option"

record parsed_url =
  pu_Scheme :: string
  pu_Host :: string
  pu_RawQuery :: string

text \<open>A failed exchange has no response, except that a refused redirect gives both.\<close>

record 'e http =
  http_parse :: "string \<Rightarrow> go_error + parsed_url"
  http_do :: "http_request \<Rightarrow> 'e \<Rightarrow> ((go_error \<times> http_response option) + http_response) \<times> 'e"

section \<open>PharosResponse\<close>

definition PharosIntellectualObject :: string where "PharosIntellectualObject = ''IntellectualObject''"
definition PharosInstitution :: string where "PharosInstitution = ''Institution''"
definition PharosGenericFile :: string where "PharosGenericFile = ''GenericFile''"
definition PharosChecksum :: string where "PharosChecksum = ''Checksum''"
definition PharosPremisEvent :: string where "PharosPremisEvent = ''PremisEvent''"
definition PharosWorkItem :: string where "PharosWorkItem = ''WorkItem''"
definition PharosWorkItemState :: string where "PharosWorkItemState = ''WorkItemState''"

lemmas pharos_types = PharosIntellectualObject_def PharosInstitution_def PharosGenericFile_def PharosChecksum_def
  PharosPremisEvent_def PharosWorkItem_def PharosWorkItemState_def

record PharosResponse =
  pr_Count :: int
  pr_Next :: "string option"
  pr_Previous :: "string option"
  pr_Request :: "http_request option"
  pr_Response :: "http_response option"
  pr_Error :: "go_error option"
  pr_objectType :: string
  pr_objects :: "IntellectualObject option list option"
  pr_files :: "GenericFile option list option"
  pr_checksums :: "Checksum option list option"
  pr_events :: "PremisEvent option list option"
  pr_institutions :: "Institution option list option"
  pr_workItems :: "WorkItem option list option"
  pr_workItemStates :: "WorkItemState option list option"
  pr_hasBeenRead :: bool
  pr_listHasBeenParsed :: bool
  pr_data :: "reply option"

definition NewPharosResponse :: "string \<Rightarrow> PharosResponse" where
  "NewPharosResponse objType =
     \<lparr>pr_Count = 0, pr_Next = None, pr_Previous = None, pr_Request = None, pr_Response = None, pr_Error = None,
      pr_objectType = objType, pr_objects = None, pr_files = None, pr_checksums = None, pr_events = None,
      pr_institutions = None, pr_workItems = None, pr_workItemStates = None, pr_hasBeenRead = False,
      pr_listHasBeenParsed = False, pr_data = None\<rparr>"

definition readResponse :: "PharosResponse \<Rightarrow> PharosResponse" where
  "readResponse resp =
     (case pr_Response resp of
        None \<Rightarrow> resp
      | Some r \<Rightarrow>
          if pr_hasBeenRead resp then resp
          else resp\<lparr>pr_data := Some (hr_Body r), pr_Error := hr_ReadError r, pr_hasBeenRead := True\<rparr>)"

text \<open>Both results can be read off the response that is returned.\<close>

definition RawResponseData :: "PharosResponse \<Rightarrow> PharosResponse" where
  "RawResponseData resp = (if \<not> pr_hasBeenRead resp then readResponse resp else resp)"

definition bodyOf :: "PharosResponse \<Rightarrow> reply" where
  "bodyOf resp = (case pr_data resp of None \<Rightarrow> plainText [] ''unexpected end of JSON input'' | Some r \<Rightarrow> r)"

definition ObjectType :: "PharosResponse \<Rightarrow> string" where
  "ObjectType resp = pr_objectType resp"

definition HasNextPage :: "PharosResponse \<Rightarrow> bool" where
  "HasNextPage resp \<longleftrightarrow> pr_Next resp \<noteq> None \<and> pr_Next resp \<noteq> Some []"

definition HasPreviousPage :: "PharosResponse \<Rightarrow> bool" where
  "HasPreviousPage resp \<longleftrightarrow> pr_Previous resp \<noteq> None \<and> pr_Previous resp \<noteq> Some []"

definition queryOf :: "'e http \<Rightarrow> string option \<Rightarrow> url_values option" where
  "queryOf http link =
     (case link of
        None \<Rightarrow> None
      | Some u \<Rightarrow> (case http_parse http u of Inl _ \<Rightarrow> None | Inr p \<Rightarrow> Some (ParseQuery (pu_RawQuery p))))"

definition ParamsForNextPage :: "'e http \<Rightarrow> PharosResponse \<Rightarrow> url_values option" where
  "ParamsForNextPage http resp = (if HasNextPage resp then queryOf http (pr_Next resp) else None)"

definition ParamsForPreviousPage :: "'e http \<Rightarrow> PharosResponse \<Rightarrow> url_values option" where
  "ParamsForPreviousPage http resp = (if HasPreviousPage resp then queryOf http (pr_Previous resp) else None)"

text \<open>The first element of a slice, or nil; a slice that is never nil.\<close>

definition firstOf :: "'a option list option \<Rightarrow> 'a option" where
  "firstOf xs = (case xs of Some (x # _) \<Rightarrow> x | _ \<Rightarrow> None)"

definition allOf :: "'a option list option \<Rightarrow> 'a option list" where
  "allOf xs = (case xs of None \<Rightarrow> [] | Some l \<Rightarrow> l)"

definition Resp_Institution :: "PharosResponse \<Rightarrow> Institution option" where
  "Resp_Institution resp = firstOf (pr_institutions resp)"

definition Resp_Institutions :: "PharosResponse \<Rightarrow> Institution option list" where
  "Resp_Institutions resp = allOf (pr_institutions resp)"

definition Resp_IntellectualObject :: "PharosResponse \<Rightarrow> IntellectualObject option" where
  "Resp_IntellectualObject resp = firstOf (pr_objects resp)"

definition Resp_IntellectualObjects :: "PharosResponse \<Rightarrow> IntellectualObject option list" where
  "Resp_IntellectualObjects resp = allOf (pr_objects resp)"

definition Resp_GenericFile :: "PharosResponse \<Rightarrow> GenericFile option" where
  "Resp_GenericFile resp = firstOf (pr_files resp)"

definition Resp_GenericFiles :: "PharosResponse \<Rightarrow> GenericFile option list" where
  "Resp_GenericFiles resp = allOf (pr_files resp)"

definition Resp_Checksum :: "PharosResponse \<Rightarrow> Checksum option" where
  "Resp_Checksum resp = firstOf (pr_checksums resp)"

definition Resp_Checksums :: "PharosResponse \<Rightarrow> Checksum option list" where
  "Resp_Checksums resp = allOf (pr_checksums resp)"

definition Resp_PremisEvent :: "PharosResponse \<Rightarrow> PremisEvent option" where
  "Resp_PremisEvent resp = firstOf (pr_events resp)"

definition Resp_PremisEvents :: "PharosResponse \<Rightarrow> PremisEvent option list" where
  "Resp_PremisEvents resp = allOf (pr_events resp)"

definition Resp_WorkItem :: "PharosResponse \<Rightarrow> WorkItem option" where
  "Resp_WorkItem resp = firstOf (pr_workItems resp)"

definition Resp_WorkItems :: "PharosResponse \<Rightarrow> WorkItem option list" where
  "Resp_WorkItems resp = allOf (pr_workItems resp)"

definition Resp_WorkItemState :: "PharosResponse \<Rightarrow> WorkItemState option" where
  "Resp_WorkItemState resp = firstOf (pr_workItemStates resp)"

definition Resp_WorkItemStates :: "PharosResponse \<Rightarrow> WorkItemState option list" where
  "Resp_WorkItemStates resp = allOf (pr_workItemStates resp)"

lemmas resp_accessors = Resp_Institution_def Resp_Institutions_def Resp_IntellectualObject_def
  Resp_IntellectualObjects_def Resp_GenericFile_def Resp_GenericFiles_def Resp_Checksum_def Resp_Checksums_def
  Resp_PremisEvent_def Resp_PremisEvents_def Resp_WorkItem_def Resp_WorkItems_def Resp_WorkItemState_def
  Resp_WorkItemStates_def firstOf_def allOf_def

subsection \<open>Lists\<close>

text \<open>What the decoders share: the counts and links of the page and the error of the decoding.\<close>

definition turnPage :: "go_error option \<Rightarrow> 'a page \<Rightarrow> PharosResponse \<Rightarrow> PharosResponse" where
  "turnPage err temp resp =
     resp\<lparr>pr_Error := err, pr_Count := pg_Count temp, pr_Next := pg_Next temp, pr_Previous := pg_Previous temp,
          pr_listHasBeenParsed := True\<rparr>"

definition decodeAsObjectList :: "PharosResponse \<Rightarrow> PharosResponse" where
  "decodeAsObjectList resp0 =
     (if pr_listHasBeenParsed resp0 then resp0
      else let resp = RawResponseData resp0
           in if pr_Error resp \<noteq> None then resp
              else (case rb_objects (bodyOf resp) of (err, temp) \<Rightarrow>
                      (turnPage err temp resp)\<lparr>pr_objects := pg_Results temp\<rparr>))"

definition decodeAsInstitutionList :: "PharosResponse \<Rightarrow> PharosResponse" where
  "decodeAsInstitutionList resp0 =
     (if pr_listHasBeenParsed resp0 then resp0
      else let resp = RawResponseData resp0
           in if pr_Error resp \<noteq> None then resp
              else (case rb_institutions (bodyOf resp) of (err, temp) \<Rightarrow>
                      (turnPage err temp resp)\<lparr>pr_institutions := pg_Results temp\<rparr>))"

definition decodeAsGenericFileList :: "PharosResponse \<Rightarrow> PharosResponse" where
  "decodeAsGenericFileList resp0 =
     (if pr_listHasBeenParsed resp0 then resp0
      else let resp = RawResponseData resp0
           in if pr_Error resp \<noteq> None then resp
              else (case rb_files (bodyOf resp) of (err, temp) \<Rightarrow>
                      (turnPage err temp resp)\<lparr>pr_files := pg_Results temp\<rparr>))"

definition decodeAsChecksumList :: "PharosResponse \<Rightarrow> PharosResponse" where
  "decodeAsChecksumList resp0 =
     (if pr_listHasBeenParsed resp0 then resp0
      else let resp = RawResponseData resp0
           in if pr_Error resp \<noteq> None then resp
              else (case rb_checksums (bodyOf resp) of (err, temp) \<Rightarrow>
                      (turnPage err temp resp)\<lparr>pr_checksums := pg_Results temp\<rparr>))"

definition decodeAsPremisEventList :: "PharosResponse \<Rightarrow> PharosResponse" where
  "decodeAsPremisEventList resp0 =
     (if pr_listHasBeenParsed resp0 then resp0
      else let resp = RawResponseData resp0
           in if pr_Error resp \<noteq> None then resp
              else (case rb_events (bodyOf resp) of (err, temp) \<Rightarrow>
                      (turnPage err temp resp)\<lparr>pr_events := pg_Results temp\<rparr>))"

definition decodeAsWorkItemList :: "PharosResponse \<Rightarrow> PharosResponse" where
  "decodeAsWorkItemList resp0 =
     (if pr_listHasBeenParsed resp0 then resp0
      else let resp = RawResponseData resp0
           in if pr_Error resp \<noteq> None then resp
              else (case rb_items (bodyOf resp) of (err, temp) \<Rightarrow>
                      (turnPage err temp resp)\<lparr>pr_workItems := pg_Results temp\<rparr>))"

definition decodeAsWorkItemStateList :: "PharosResponse \<Rightarrow> PharosResponse" where
  "decodeAsWorkItemStateList resp0 =
     (if pr_listHasBeenParsed resp0 then resp0
      else let resp = RawResponseData resp0
           in if pr_Error resp \<noteq> None then resp
              else (case rb_states (bodyOf resp) of (err, temp) \<Rightarrow>
                      (turnPage err temp resp)\<lparr>pr_workItemStates := pg_Results temp\<rparr>))"

text \<open>The callers ignore the error that is returned for an unknown type; the response is then unchanged.\<close>

definition UnmarshalJsonList :: "PharosResponse \<Rightarrow> PharosResponse" where
  "UnmarshalJsonList resp =
     (let t = pr_objectType resp
      in if t = PharosIntellectualObject then decodeAsObjectList resp
         else if t = PharosInstitution then decodeAsInstitutionList resp
         else if t = PharosGenericFile then decodeAsGenericFileList resp
         else if t = PharosChecksum then decodeAsChecksumList resp
         else if t = PharosPremisEvent then decodeAsPremisEventList resp
         else if t = PharosWorkItem then decodeAsWorkItemList resp
         else if t = PharosWorkItemState then decodeAsWorkItemStateList resp
         else resp)"

end
