(* ===== verification/PharosClient.thy ===== *)
theory PharosClient
  imports Pharos
begin

text \<open>
  \<^verbatim>\<open>src/network/pharos_client.go\<close>: one method per call of the registry's interface. Every call builds the
  URL, exchanges one request and decodes the answer; the error of each step ends up in the response.
  Note that \<open>DoRequest\<close> overwrites the error that serialising the record may have left there.
\<close>

section \<open>Requests\<close>

record PharosClient =
  pc_hostUrl :: string
  pc_apiVersion :: string
  pc_apiUser :: string
  pc_apiKey :: string

text \<open>\<open>cookiejar.New(nil)\<close> never fails. \<open>testsAreRunning\<close> says whether the flag \<open>test.v\<close> is defined.\<close>

definition NewPharosClient :: "bool \<Rightarrow> string \<Rightarrow> string \<Rightarrow> string \<Rightarrow> string \<Rightarrow> PharosClient outcome" where
  "NewPharosClient testsAreRunning hostUrl apiVersion apiUser apiKey =
     (if \<not> testsAreRunning \<and> (apiUser = [] \<or> apiKey = []) then Panics
      else Returns \<lparr>pc_hostUrl = hostUrl, pc_apiVersion = apiVersion, pc_apiUser = apiUser, pc_apiKey = apiKey\<rparr>)"

definition BuildUrl :: "PharosClient \<Rightarrow> string \<Rightarrow> string" where
  "BuildUrl client relativeUrl = pc_hostUrl client @ relativeUrl"

definition escapeFileIdentifier :: "string \<Rightarrow> string" where
  "escapeFileIdentifier identifier = ReplaceByte (CHR ''+'') ''%20'' (QueryEscape identifier)"

definition encodeParams :: "url_values option \<Rightarrow> string" where
  "encodeParams params = (case params of None \<Rightarrow> [] | Some ps \<Rightarrow> Encode ps)"

definition NewJsonRequest :: "'e http \<Rightarrow> PharosClient \<Rightarrow> string \<Rightarrow> string \<Rightarrow> post_data option \<Rightarrow> go_error + http_request" where
  "NewJsonRequest http client method absoluteUrl requestData =
     (case http_parse http absoluteUrl of
        Inl err \<Rightarrow> Inl err
      | Inr incorrectUrl \<Rightarrow>
          (let opaqueUrl = Replace1 absoluteUrl (pc_hostUrl client) [];
               opaqueUrl = ReplaceByte (CHR '' '') ''%20'' opaqueUrl
           in Inr \<lparr>rq_Method = method, rq_Scheme = pu_Scheme incorrectUrl, rq_Host = pu_Host incorrectUrl,
                   rq_Opaque = opaqueUrl,
                   rq_Headers = [(''Content-Type'', ''application/json''), (''Accept'', ''application/json''),
                                 (''X-Pharos-API-User'', pc_apiUser client), (''X-Pharos-API-Key'', pc_apiKey client),
                                 (''Connection'', ''Keep-Alive'')],
                   rq_Body = requestData\<rparr>))"

definition DoRequest ::
  "'e http \<Rightarrow> PharosClient \<Rightarrow> PharosResponse \<Rightarrow> string \<Rightarrow> string \<Rightarrow> post_data option \<Rightarrow> 'e \<Rightarrow> PharosResponse \<times> 'e" where
  "DoRequest http client resp method absoluteUrl requestData e =
     (case NewJsonRequest http client method absoluteUrl requestData of
        Inl err \<Rightarrow> (resp\<lparr>pr_Request := None, pr_Error := Some err\<rparr>, e)
      | Inr request \<Rightarrow>
          (case http_do http request e of
             (Inl (err, r), e') \<Rightarrow> (resp\<lparr>pr_Request := Some request, pr_Response := r, pr_Error := Some err\<rparr>, e')
           | (Inr response, e') \<Rightarrow>
               (let resp1 = readResponse (resp\<lparr>pr_Request := Some request, pr_Response := Some response, pr_Error := None\<rparr>)
                in (if pr_Error resp1 = None \<and> 400 \<le> hr_StatusCode response
                    then resp1\<lparr>pr_Error := Some (''Server returned status code '' @ show_int (hr_StatusCode response) @
                                                 ''. Body: '' @ rb_text (bodyOf (RawResponseData resp1)))\<rparr>
                    else resp1, e'))))"

text \<open>The last step of the calls: decode the body into the first place of the slice.\<close>

definition keepInstitution :: "PharosResponse \<Rightarrow> PharosResponse" where
  "keepInstitution resp =
     (if pr_Error resp \<noteq> None then resp
      else case rb_institution (bodyOf resp) of
        Inl err \<Rightarrow> resp\<lparr>pr_Error := Some err\<rparr>
      | Inr institution \<Rightarrow> resp\<lparr>pr_institutions := Some [Some institution]\<rparr>)"

definition keepObject :: "PharosResponse \<Rightarrow> PharosResponse" where
  "keepObject resp =
     (if pr_Error resp \<noteq> None then resp
      else case rb_object (bodyOf resp) of
        Inl err \<Rightarrow> resp\<lparr>pr_Error := Some err\<rparr>
      | Inr intelObj \<Rightarrow> resp\<lparr>pr_objects := Some [Some intelObj]\<rparr>)"

definition keepFile :: "PharosResponse \<Rightarrow> PharosResponse" where
  "keepFile resp =
     (if pr_Error resp \<noteq> None then resp
      else case rb_file (bodyOf resp) of
        Inl err \<Rightarrow> resp\<lparr>pr_Error := Some err\<rparr>
      | Inr gf \<Rightarrow> resp\<lparr>pr_files := Some [Some gf]\<rparr>)"

definition keepChecksum :: "PharosResponse \<Rightarrow> PharosResponse" where
  "keepChecksum resp =
     (if pr_Error resp \<noteq> None then resp
      else case rb_checksum (bodyOf resp) of
        Inl err \<Rightarrow> resp\<lparr>pr_Error := Some err\<rparr>
      | Inr cs \<Rightarrow> resp\<lparr>pr_checksums := Some [Some cs]\<rparr>)"

definition keepEvent :: "PharosResponse \<Rightarrow> PharosResponse" where
  "keepEvent resp =
     (if pr_Error resp \<noteq> None then resp
      else case rb_event (bodyOf resp) of
        Inl err \<Rightarrow> resp\<lparr>pr_Error := Some err\<rparr>
      | Inr event \<Rightarrow> resp\<lparr>pr_events := Some [Some event]\<rparr>)"

definition keepItem :: "PharosResponse \<Rightarrow> PharosResponse" where
  "keepItem resp =
     (if pr_Error resp \<noteq> None then resp
      else case rb_item (bodyOf resp) of
        Inl err \<Rightarrow> resp\<lparr>pr_Error := Some err\<rparr>
      | Inr workItem \<Rightarrow> resp\<lparr>pr_workItems := Some [Some workItem]\<rparr>)"

definition keepState :: "PharosResponse \<Rightarrow> PharosResponse" where
  "keepState resp =
     (if pr_Error resp \<noteq> None then resp
      else case rb_state (bodyOf resp) of
        Inl err \<Rightarrow> resp\<lparr>pr_Error := Some err\<rparr>
      | Inr workItemState \<Rightarrow> resp\<lparr>pr_workItemStates := Some [Some workItemState]\<rparr>)"

definition keepList :: "PharosResponse \<Rightarrow> PharosResponse" where
  "keepList resp = (if pr_Error resp \<noteq> None then resp else UnmarshalJsonList resp)"

definition api :: "PharosClient \<Rightarrow> string \<Rightarrow> string" where
  "api client path = BuildUrl client (''/api/'' @ pc_apiVersion client @ path)"

section \<open>Institutions\<close>

definition InstitutionGet :: "'e http \<Rightarrow> PharosClient \<Rightarrow> string \<Rightarrow> 'e \<Rightarrow> PharosResponse \<times> 'e" where
  "InstitutionGet http client identifier e =
     (let resp = (NewPharosResponse PharosInstitution)\<lparr>pr_institutions := Some [None]\<rparr>;
          absoluteUrl = api client (''/institutions/'' @ QueryEscape identifier @ ''/'')
      in apfst keepInstitution (DoRequest http client resp ''GET'' absoluteUrl None e))"

definition InstitutionList :: "'e http \<Rightarrow> PharosClient \<Rightarrow> url_values option \<Rightarrow> 'e \<Rightarrow> PharosResponse \<times> 'e" where
  "InstitutionList http client params e =
     (let resp = (NewPharosResponse PharosInstitution)\<lparr>pr_institutions := Some []\<rparr>;
          absoluteUrl = api client (''/institutions/?'' @ encodeParams params)
      in apfst keepList (DoRequest http client resp ''GET'' absoluteUrl None e))"

section \<open>Intellectual objects\<close>

definition IntellectualObjectGet :: "'e http \<Rightarrow> PharosClient \<Rightarrow> string \<Rightarrow> bool \<Rightarrow> bool \<Rightarrow> 'e \<Rightarrow> PharosResponse \<times> 'e" where
  "IntellectualObjectGet http client identifier includeFiles includeEvents e =
     (let resp = (NewPharosResponse PharosIntellectualObject)\<lparr>pr_objects := Some [None]\<rparr>;
          absoluteUrl = api client (''/objects/'' @ escapeFileIdentifier identifier @
            (if includeFiles \<and> includeEvents then ''?include_all_relations=true''
             else if includeFiles then ''?include_files=true''
             else if includeEvents then ''?include_events=true'' else []))
      in apfst keepObject (DoRequest http client resp ''GET'' absoluteUrl None e))"

text \<open>The institution is taken out of the caller's parameters, which are a reference: the second
  component of the result is what the caller is left with.\<close>

definition IntellectualObjectList ::
  "'e http \<Rightarrow> PharosClient \<Rightarrow> url_values \<Rightarrow> 'e \<Rightarrow> PharosResponse \<times> url_values \<times> 'e" where
  "IntellectualObjectList http client params e =
     (let resp = (NewPharosResponse PharosIntellectualObject)\<lparr>pr_objects := Some []\<rparr>;
          institution = Values_Get ''institution'' params;
          params' = Values_Del ''institution'' params;
          absoluteUrl = api client (''/objects/'' @ institution @ ''?'' @ encodeParams (Some params'));
          (resp', e') = DoRequest http client resp ''GET'' absoluteUrl None e
      in (keepList resp', params', e'))"

definition IntellectualObjectSave :: "'e http \<Rightarrow> PharosClient \<Rightarrow> IntellectualObject \<Rightarrow> 'e \<Rightarrow> PharosResponse \<times> 'e" where
  "IntellectualObjectSave http client obj e =
     (let resp = (NewPharosResponse PharosIntellectualObject)\<lparr>pr_objects := Some [None]\<rparr>;
          (relativeUrl, httpMethod) =
            (if 0 < obj_Id obj then (''/objects/'' @ escapeFileIdentifier (obj_Identifier obj), ''PUT'')
             else (''/objects/'' @ obj_Institution obj, ''POST''));
          (postData, err) = Object_SerializeForPharos obj;
          resp = (if err \<noteq> None then resp\<lparr>pr_Error := err\<rparr> else resp)
      in apfst keepObject (DoRequest http client resp httpMethod (api client relativeUrl) (Some postData) e))"

definition IntellectualObjectRequestRestore :: "'e http \<Rightarrow> PharosClient \<Rightarrow> string \<Rightarrow> 'e \<Rightarrow> PharosResponse \<times> 'e" where
  "IntellectualObjectRequestRestore http client identifier e =
     (let resp = (NewPharosResponse PharosWorkItem)\<lparr>pr_workItems := Some [None]\<rparr>;
          absoluteUrl = api client (''/objects/'' @ escapeFileIdentifier identifier @ ''/restore'')
      in apfst keepItem (DoRequest http client resp ''PUT'' absoluteUrl None e))"

text \<open>The calls that return no data look at the status. The response is not nil when there is no error.\<close>

definition statusOf :: "PharosResponse \<Rightarrow> int outcome" where
  "statusOf resp = and_then (deref (pr_Response resp)) (\<lambda>r. Returns (hr_StatusCode r))"

definition expectDone :: "string \<Rightarrow> PharosResponse \<Rightarrow> PharosResponse outcome" where
  "expectDone message resp =
     (if pr_Error resp \<noteq> None then Returns resp
      else and_then (statusOf resp) (\<lambda>code.
        Returns (if code \<noteq> 200 \<and> code \<noteq> 204
                 then resp\<lparr>pr_Error := Some (message @ rb_text (bodyOf resp))\<rparr> else resp)))"

definition IntellectualObjectRequestDelete ::
  "'e http \<Rightarrow> PharosClient \<Rightarrow> string \<Rightarrow> 'e \<Rightarrow> (PharosResponse \<times> 'e) outcome" where
  "IntellectualObjectRequestDelete http client identifier e =
     (let resp = (NewPharosResponse PharosIntellectualObject)\<lparr>pr_objects := Some []\<rparr>;
          absoluteUrl = api client (''/objects/'' @ escapeFileIdentifier identifier @ ''/delete'');
          (resp', e') = DoRequest http client resp ''DELETE'' absoluteUrl None e
      in if pr_Error resp' \<noteq> None then Returns (resp', e')
         else and_then (statusOf resp') (\<lambda>code.
           Returns (if code \<noteq> 200 \<and> code \<noteq> 204
                    then resp'\<lparr>pr_Error := Some (''Pharos returned response code '' @ show_int code @
                                                 ''. Response: '' @ rb_text (bodyOf resp'))\<rparr>
                    else resp', e')))"

definition IntellectualObjectFinishDelete ::
  "'e http \<Rightarrow> PharosClient \<Rightarrow> string \<Rightarrow> 'e \<Rightarrow> (PharosResponse \<times> 'e) outcome" where
  "IntellectualObjectFinishDelete http client identifier e =
     (let resp = (NewPharosResponse PharosIntellectualObject)\<lparr>pr_objects := Some []\<rparr>;
          absoluteUrl = api client (''/objects/'' @ escapeFileIdentifier identifier @ ''/finish_delete'');
          (resp', e') = DoRequest http client resp ''GET'' absoluteUrl None e
      in and_then (expectDone ''IntellectualObject finish_delete failed with message: '' resp')
           (\<lambda>r. Returns (r, e')))"

section \<open>Generic files\<close>

definition GenericFileGet :: "'e http \<Rightarrow> PharosClient \<Rightarrow> string \<Rightarrow> bool \<Rightarrow> 'e \<Rightarrow> PharosResponse \<times> 'e" where
  "GenericFileGet http client identifier includeRelations e =
     (let resp = (NewPharosResponse PharosGenericFile)\<lparr>pr_files := Some [None]\<rparr>;
          absoluteUrl = api client (''/files/'' @ escapeFileIdentifier identifier @
                                    (if includeRelations then ''?include_relations=true'' else []))
      in apfst keepFile (DoRequest http client resp ''GET'' absoluteUrl None e))"

definition GenericFileList :: "'e http \<Rightarrow> PharosClient \<Rightarrow> url_values option \<Rightarrow> 'e \<Rightarrow> PharosResponse \<times> 'e" where
  "GenericFileList http client params e =
     (let resp = (NewPharosResponse PharosGenericFile)\<lparr>pr_files := Some []\<rparr>;
          absoluteUrl = api client (''/files/?'' @ encodeParams params)
      in apfst keepList (DoRequest http client resp ''GET'' absoluteUrl None e))"

definition GenericFileSave :: "'e http \<Rightarrow> PharosClient \<Rightarrow> GenericFile \<Rightarrow> 'e \<Rightarrow> (PharosResponse \<times> 'e) outcome" where
  "GenericFileSave http client obj e =
     (let resp = (NewPharosResponse PharosGenericFile)\<lparr>pr_files := Some [None]\<rparr>;
          (relativeUrl, httpMethod) =
            (if 0 < gf_Id obj then (''/files/'' @ escapeFileIdentifier (gf_Identifier obj), ''PUT'')
             else (''/files/'', ''POST''))
      in and_then (File_SerializeForPharos obj) (\<lambda>(postData, err).
           (let resp' = (if err \<noteq> None then resp\<lparr>pr_Error := err\<rparr> else resp)
            in Returns (apfst keepFile (DoRequest http client resp' httpMethod (api client relativeUrl) (Some postData) e)))))"

definition GenericFileSaveBatch ::
  "'e http \<Rightarrow> PharosClient \<Rightarrow> GenericFile list \<Rightarrow> 'e \<Rightarrow> (PharosResponse \<times> 'e) outcome" where
  "GenericFileSaveBatch http client objList e =
     (let resp = (NewPharosResponse PharosGenericFile)\<lparr>pr_files := Some (replicate (length objList) None)\<rparr>
      in case objList of
           [] \<Rightarrow> Returns (resp\<lparr>pr_Error := Some ''GenericFileSaveBatch was asked to save an empty list.''\<rparr>, e)
         | first # _ \<Rightarrow>
             if list_ex (\<lambda>gf. gf_Id gf \<noteq> 0) objList
             then Returns (resp\<lparr>pr_Error := Some (''One or more GenericFiles in the list '' @
                    ''passed to GenericFileSaveBatch has a non-zero id. This call '' @
                    ''is for creating new GenericFiles only.'')\<rparr>, e)
             else and_then (map_outcome NewGenericFileForPharos objList) (\<lambda>batch.
               if \<not> list_all fileTimesOk batch
               then Returns (resp\<lparr>pr_Error := Some (''Error marshalling GenericFile batch to JSON: '' @ badTime)\<rparr>, e)
               else (let absoluteUrl = api client (''/files/'' @ show_int (gf_IntellectualObjectId first) @ ''/create_batch'')
                     in Returns (apfst keepList
                          (DoRequest http client resp ''POST'' absoluteUrl (Some (FileBatch batch)) e)))))"

definition GenericFileRequestRestore :: "'e http \<Rightarrow> PharosClient \<Rightarrow> string \<Rightarrow> 'e \<Rightarrow> PharosResponse \<times> 'e" where
  "GenericFileRequestRestore http client identifier e =
     (let resp = (NewPharosResponse PharosWorkItem)\<lparr>pr_workItems := Some [None]\<rparr>;
          absoluteUrl = api client (''/files/restore/'' @ QueryEscape identifier)
      in apfst keepItem (DoRequest http client resp ''PUT'' absoluteUrl None e))"

definition GenericFileFinishDelete ::
  "'e http \<Rightarrow> PharosClient \<Rightarrow> string \<Rightarrow> 'e \<Rightarrow> (PharosResponse \<times> 'e) outcome" where
  "GenericFileFinishDelete http client identifier e =
     (let resp = (NewPharosResponse PharosGenericFile)\<lparr>pr_files := Some [None]\<rparr>;
          absoluteUrl = api client (''/files/finish_delete/'' @ escapeFileIdentifier identifier);
          (resp', e') = DoRequest http client resp ''GET'' absoluteUrl None e
      in and_then (expectDone ''GenericFile finish_delete failed with message: '' resp') (\<lambda>r. Returns (r, e')))"

section \<open>Checksums and events\<close>

definition ChecksumGet :: "'e http \<Rightarrow> PharosClient \<Rightarrow> int \<Rightarrow> 'e \<Rightarrow> PharosResponse \<times> 'e" where
  "ChecksumGet http client csId e =
     (let resp = (NewPharosResponse PharosChecksum)\<lparr>pr_checksums := Some [None]\<rparr>;
          absoluteUrl = api client (''/checksums/'' @ show_int csId @ ''/'')
      in apfst keepChecksum (DoRequest http client resp ''GET'' absoluteUrl None e))"

definition ChecksumList :: "'e http \<Rightarrow> PharosClient \<Rightarrow> url_values option \<Rightarrow> 'e \<Rightarrow> PharosResponse \<times> 'e" where
  "ChecksumList http client params e =
     (let resp = (NewPharosResponse PharosChecksum)\<lparr>pr_checksums := Some []\<rparr>;
          absoluteUrl = api client (''/checksums/?'' @ encodeParams params)
      in apfst keepList (DoRequest http client resp ''GET'' absoluteUrl None e))"

definition ChecksumSave :: "'e http \<Rightarrow> PharosClient \<Rightarrow> Checksum \<Rightarrow> string \<Rightarrow> 'e \<Rightarrow> PharosResponse \<times> 'e" where
  "ChecksumSave http client obj gfIdentifier e =
     (let resp = (NewPharosResponse PharosChecksum)\<lparr>pr_checksums := Some [None]\<rparr>;
          absoluteUrl = api client (''/checksums/'' @ QueryEscape gfIdentifier);
          (postData, err) = Checksum_SerializeForPharos obj;
          resp = (if err \<noteq> None then resp\<lparr>pr_Error := err\<rparr> else resp)
      in apfst keepChecksum (DoRequest http client resp ''POST'' absoluteUrl (Some postData) e))"

definition PremisEventGet :: "'e http \<Rightarrow> PharosClient \<Rightarrow> string \<Rightarrow> 'e \<Rightarrow> PharosResponse \<times> 'e" where
  "PremisEventGet http client identifier e =
     (let resp = (NewPharosResponse PharosPremisEvent)\<lparr>pr_events := Some [None]\<rparr>;
          absoluteUrl = api client (''/events/'' @ QueryEscape identifier @ ''/'')
      in apfst keepEvent (DoRequest http client resp ''GET'' absoluteUrl None e))"

definition PremisEventList :: "'e http \<Rightarrow> PharosClient \<Rightarrow> url_values option \<Rightarrow> 'e \<Rightarrow> PharosResponse \<times> 'e" where
  "PremisEventList http client params e =
     (let resp = (NewPharosResponse PharosPremisEvent)\<lparr>pr_events := Some []\<rparr>;
          absoluteUrl = api client (''/events/?'' @ encodeParams params)
      in apfst keepList (DoRequest http client resp ''GET'' absoluteUrl None e))"

text \<open>The URL of an update has two slashes before the identifier.\<close>

definition PremisEventSave :: "'e http \<Rightarrow> PharosClient \<Rightarrow> PremisEvent \<Rightarrow> 'e \<Rightarrow> PharosResponse \<times> 'e" where
  "PremisEventSave http client obj e =
     (let resp = (NewPharosResponse PharosPremisEvent)\<lparr>pr_events := Some [None]\<rparr>;
          (relativeUrl, httpMethod) =
            (if 0 < ev_Id obj then (''/events//'' @ QueryEscape (ev_Identifier obj), ''PUT'') else (''/events/'', ''POST''));
          (postData, err) = marshal (jsonTimeOk (ev_DateTime obj)) (EventData (NewPremisEventForPharos obj));
          resp = (if err \<noteq> None then resp\<lparr>pr_Error := err\<rparr> else resp)
      in apfst keepEvent (DoRequest http client resp httpMethod (api client relativeUrl) (Some postData) e))"

section \<open>Work items and their states\<close>

definition WorkItemList :: "'e http \<Rightarrow> PharosClient \<Rightarrow> url_values option \<Rightarrow> 'e \<Rightarrow> PharosResponse \<times> 'e" where
  "WorkItemList http client params e =
     (let resp = (NewPharosResponse PharosWorkItem)\<lparr>pr_workItems := Some []\<rparr>;
          absoluteUrl = api client (''/items/?'' @ encodeParams params)
      in apfst keepList (DoRequest http client resp ''GET'' absoluteUrl None e))"

definition WorkItemSave :: "'e http \<Rightarrow> PharosClient \<Rightarrow> WorkItem \<Rightarrow> 'e \<Rightarrow> PharosResponse \<times> 'e" where
  "WorkItemSave http client obj e =
     (let resp = (NewPharosResponse PharosWorkItem)\<lparr>pr_workItems := Some [None]\<rparr>;
          (relativeUrl, httpMethod) =
            (if 0 < wi_Id obj then (''/items/'' @ show_int (wi_Id obj) @ ''/'', ''PUT'') else (''/items/'', ''POST''));
          (postData, err) = Item_SerializeForPharos obj;
          resp = (if err \<noteq> None then resp\<lparr>pr_Error := err\<rparr> else resp)
      in apfst keepItem (DoRequest http client resp httpMethod (api client relativeUrl) (Some postData) e))"

definition WorkItemGet :: "'e http \<Rightarrow> PharosClient \<Rightarrow> int \<Rightarrow> 'e \<Rightarrow> PharosResponse \<times> 'e" where
  "WorkItemGet http client itemId e =
     (let resp = (NewPharosResponse PharosWorkItem)\<lparr>pr_workItems := Some [None]\<rparr>;
          absoluteUrl = api client (''/items/'' @ show_int itemId @ ''/'')
      in apfst keepItem (DoRequest http client resp ''GET'' absoluteUrl None e))"

definition WorkItemStateSave :: "'e http \<Rightarrow> PharosClient \<Rightarrow> WorkItemState \<Rightarrow> 'e \<Rightarrow> PharosResponse \<times> 'e" where
  "WorkItemStateSave http client obj e =
     (let resp = (NewPharosResponse PharosWorkItemState)\<lparr>pr_workItemStates := Some [None]\<rparr>;
          (relativeUrl, httpMethod) =
            (if 0 < wis_Id obj then (''/item_state/'' @ show_int (wis_Id obj) @ ''/'', ''PUT'')
             else (''/item_state/'', ''POST''));
          (postData, err) = marshal True (StateData (NewWorkItemStateForPharos obj));
          resp = (if err \<noteq> None then resp\<lparr>pr_Error := err\<rparr> else resp)
      in apfst keepState (DoRequest http client resp httpMethod (api client relativeUrl) (Some postData) e))"

definition WorkItemStateGet :: "'e http \<Rightarrow> PharosClient \<Rightarrow> int \<Rightarrow> 'e \<Rightarrow> PharosResponse \<times> 'e" where
  "WorkItemStateGet http client workItemStateId e =
     (let resp = (NewPharosResponse PharosWorkItemState)\<lparr>pr_workItemStates := Some [None]\<rparr>;
          absoluteUrl = api client (''/item_state/'' @ show_int workItemStateId @ ''/'')
      in apfst keepState (DoRequest http client resp ''GET'' absoluteUrl None e))"

definition FinishRestorationSpotTest :: "'e http \<Rightarrow> PharosClient \<Rightarrow> int \<Rightarrow> 'e \<Rightarrow> PharosResponse \<times> 'e" where
  "FinishRestorationSpotTest http client workItemId e =
     (let resp = (NewPharosResponse PharosWorkItem)\<lparr>pr_workItems := Some [None]\<rparr>;
          absoluteUrl = api client (''/notifications/spot_test_restoration/'' @ show_int workItemId @ ''/'')
      in apfst keepItem (DoRequest http client resp ''GET'' absoluteUrl None e))"

section \<open>What a call gives\<close>

lemma ReplaceByte_concat: "ReplaceByte c t (concat xs) = concat (map (ReplaceByte c t) xs)"
  by (induction xs) (simp_all add: ReplaceByte_def)

lemma ReplaceByte_absent: "c \<notin> set s \<Longrightarrow> ReplaceByte c t s = s"
  unfolding ReplaceByte_def by (induction s) auto

definition urlByte :: "char \<Rightarrow> bool" where
  "urlByte c \<longleftrightarrow> unreservedByte c \<or> c = CHR 0x25"

lemma hexDigit_unreserved: "n < 16 \<Longrightarrow> unreservedByte (hexDigit n)"
  by (cases "n < 10") (simp_all add: hexDigit_def unreservedByte_def isDigit09_def isUpperAZ_def of_char_of)

lemma percentByte_urlByte: "list_all urlByte (percentByte c)"
proof -
  have "(of_char c :: nat) < 256" using nat_of_char_less_256 [of c] by simp
  then have "(of_char c :: nat) div 16 < 16" "(of_char c :: nat) mod 16 < 16" by linarith+
  then show ?thesis using hexDigit_unreserved by (simp add: percentByte_def urlByte_def)
qed

lemma urlByte_plain: "urlByte c \<Longrightarrow> c \<notin> set ''+/?# ''"
  using unreserved_plain [of c] unfolding urlByte_def by auto

lemma escapeFileIdentifier_bytes:
  "escapeFileIdentifier s = concat (map (\<lambda>c. if unreservedByte c then [c] else percentByte c) s)"
proof -
  have "ReplaceByte (CHR ''+'') ''%20'' (escapeByte c) = (if unreservedByte c then [c] else percentByte c)" for c
  proof (cases "unreservedByte c")
    case True
    then have "c \<noteq> CHR ''+''" using unreserved_plain [of c] by auto
    with True show ?thesis by (simp add: escapeByte_def ReplaceByte_def)
  next
    case False
    show ?thesis
    proof (cases "c = CHR '' ''")
      case True
      have "percentByte CHR '' '' = ''%20''" by code_simp
      with True False show ?thesis by (simp add: escapeByte_def ReplaceByte_def)
    next
      case space: False
      have "CHR ''+'' \<notin> set (percentByte c)"
        using percentByte_urlByte [of c] urlByte_plain [of "CHR ''+''"] by (auto simp: list_all_iff)
      with False space show ?thesis by (simp add: escapeByte_def ReplaceByte_absent)
    qed
  qed
  then show ?thesis by (simp add: escapeFileIdentifier_def QueryEscape_def ReplaceByte_concat comp_def)
qed

lemma PathUnescape_escape: "PathUnescape (escapeFileIdentifier s) = Some s"
proof (induction s)
  case (Cons c s)
  then show ?case
    using unreserved_plain [of c] by (auto simp: escapeFileIdentifier_bytes PathUnescape_percent)
qed (simp add: escapeFileIdentifier_bytes)

lemma escape_urlByte: "list_all urlByte (escapeFileIdentifier s)"
proof (induction s)
  case (Cons c s)
  moreover have "unreservedByte c \<Longrightarrow> urlByte c" by (simp add: urlByte_def)
  ultimately show ?case using percentByte_urlByte [of c] by (simp add: escapeFileIdentifier_bytes)
qed (simp add: escapeFileIdentifier_bytes)

lemma escape_plain: "c \<in> set ''+/?# '' \<Longrightarrow> c \<notin> set (escapeFileIdentifier s)"
  using escape_urlByte [of s] urlByte_plain [of c] by (auto simp: list_all_iff)

lemma keep_present:
  "pr_Error (keepItem r) = None \<Longrightarrow> Resp_WorkItem (keepItem r) \<noteq> None"
  "pr_Error (keepState r) = None \<Longrightarrow> Resp_WorkItemState (keepState r) \<noteq> None"
  "pr_Error (keepObject r) = None \<Longrightarrow> Resp_IntellectualObject (keepObject r) \<noteq> None"
  "pr_Error (keepFile r) = None \<Longrightarrow> Resp_GenericFile (keepFile r) \<noteq> None"
  "pr_Error (keepEvent r) = None \<Longrightarrow> Resp_PremisEvent (keepEvent r) \<noteq> None"
  by (auto simp: keepItem_def keepState_def keepObject_def keepFile_def keepEvent_def resp_accessors
      split: sum.splits if_splits)

text \<open>A call that saves or fetches a single record returns it unless it returns an error.\<close>

lemma call_present:
  "pr_Error (fst (WorkItemSave http client item e)) = None \<Longrightarrow> Resp_WorkItem (fst (WorkItemSave http client item e)) \<noteq> None"
  "pr_Error (fst (WorkItemGet http client i e)) = None \<Longrightarrow> Resp_WorkItem (fst (WorkItemGet http client i e)) \<noteq> None"
  "pr_Error (fst (WorkItemStateSave http client st e)) = None \<Longrightarrow>
     Resp_WorkItemState (fst (WorkItemStateSave http client st e)) \<noteq> None"
  "pr_Error (fst (IntellectualObjectSave http client obj e)) = None \<Longrightarrow>
     Resp_IntellectualObject (fst (IntellectualObjectSave http client obj e)) \<noteq> None"
  "pr_Error (fst (PremisEventSave http client ev e)) = None \<Longrightarrow>
     Resp_PremisEvent (fst (PremisEventSave http client ev e)) \<noteq> None"
  by (simp_all add: WorkItemSave_def WorkItemGet_def WorkItemStateSave_def IntellectualObjectSave_def
      PremisEventSave_def Let_def split_beta keep_present)

text \<open>The URL of a call: the host is cut off again, and an API version without spaces stays as it is.\<close>

lemma NewJsonRequest_opaque:
  assumes "http_parse http (api client path) = Inr p" "CHR '' '' \<notin> set (pc_apiVersion client)" "CHR '' '' \<notin> set path"
  shows "\<exists>rq. NewJsonRequest http client method (api client path) body = Inr rq \<and> rq_Method rq = method \<and>
           rq_Opaque rq = ''/api/'' @ pc_apiVersion client @ path \<and> rq_Body rq = body"
proof -
  have "Replace1 (api client path) (pc_hostUrl client) [] = ''/api/'' @ pc_apiVersion client @ path"
    unfolding api_def BuildUrl_def by (simp only: Replace1_prefix append_Nil)
  moreover have "CHR '' '' \<notin> set (''/api/'' @ pc_apiVersion client @ path)" using assms(2,3) by simp
  ultimately show ?thesis using assms(1) by (simp add: NewJsonRequest_def ReplaceByte_absent)
qed

lemma DoRequest_ok:
  assumes "NewJsonRequest http client method url body = Inr rq" "http_do http rq e = (Inr r, e')"
    and "hr_ReadError r = None" "hr_StatusCode r < 400" "\<not> pr_hasBeenRead resp"
  shows "DoRequest http client resp method url body e =
     (resp\<lparr>pr_Request := Some rq, pr_Response := Some r, pr_Error := None, pr_data := Some (hr_Body r), pr_hasBeenRead := True\<rparr>, e')"
  using assms by (simp add: DoRequest_def readResponse_def)

lemma DoRequest_request:
  "NewJsonRequest http client method url body = Inr rq \<Longrightarrow>
     pr_Request (fst (DoRequest http client resp method url body e)) = Some rq \<and>
     snd (DoRequest http client resp method url body e) = snd (http_do http rq e)"
  by (auto simp: DoRequest_def readResponse_def Let_def split: prod.splits sum.splits option.splits)

text \<open>C39: A file is asked for under its own name, whatever bytes the name has: the one request that
  \<open>GenericFileGet\<close> sends ends in a path element that the server decodes to exactly the identifier and that
  holds no byte with a meaning in a URL, and a file in the answer is what the call returns.\<close>

theorem GenericFileGet_addresses:
  assumes "http_parse http (api client (''/files/'' @ escapeFileIdentifier identifier)) = Inr p"
    and "CHR '' '' \<notin> set (pc_apiVersion client)"
  shows "\<exists>rq element.
     PathUnescape element = Some identifier \<and> set element \<inter> set ''/?# +'' = {} \<and>
     rq_Method rq = ''GET'' \<and> rq_Opaque rq = ''/api/'' @ pc_apiVersion client @ ''/files/'' @ element \<and>
     pr_Request (fst (GenericFileGet http client identifier False e)) = Some rq \<and>
     snd (GenericFileGet http client identifier False e) = snd (http_do http rq e) \<and>
     (\<forall>r gf. fst (http_do http rq e) = Inr r \<and> hr_StatusCode r < 400 \<and> hr_ReadError r = None \<and> rb_file (hr_Body r) = Inr gf \<longrightarrow>
        pr_Error (fst (GenericFileGet http client identifier False e)) = None \<and>
        Resp_GenericFile (fst (GenericFileGet http client identifier False e)) = Some gf)"
proof -
  let ?url = "api client (''/files/'' @ escapeFileIdentifier identifier)"
  let ?resp = "(NewPharosResponse PharosGenericFile)\<lparr>pr_files := Some [None]\<rparr>"
  have "CHR '' '' \<notin> set (''/files/'' @ escapeFileIdentifier identifier)" using escape_plain [of "CHR '' ''"] by auto
  from NewJsonRequest_opaque [OF assms this, of "''GET''" None] obtain rq where
    rq: "NewJsonRequest http client ''GET'' ?url None = Inr rq" "rq_Method rq = ''GET''"
      "rq_Opaque rq = ''/api/'' @ pc_apiVersion client @ ''/files/'' @ escapeFileIdentifier identifier" by blast
  have get: "GenericFileGet http client identifier False e = apfst keepFile (DoRequest http client ?resp ''GET'' ?url None e)"
    by (simp add: GenericFileGet_def)
  have keep: "pr_Request (keepFile r) = pr_Request r" for r
    by (simp add: keepFile_def split: sum.split)
  have answer: "pr_Error (fst (GenericFileGet http client identifier False e)) = None \<and>
        Resp_GenericFile (fst (GenericFileGet http client identifier False e)) = Some gf"
    if "fst (http_do http rq e) = Inr r" "hr_StatusCode r < 400" "hr_ReadError r = None" "rb_file (hr_Body r) = Inr gf" for r gf
  proof -
    from that(1) have "http_do http rq e = (Inr r, snd (http_do http rq e))" by (metis prod.collapse)
    from DoRequest_ok [OF rq(1) this that(3,2)] show ?thesis
      using that(4) by (simp add: get keepFile_def bodyOf_def resp_accessors NewPharosResponse_def)
  qed
  have "set (escapeFileIdentifier identifier) \<inter> set ''/?# +'' = {}" using escape_plain by auto
  with rq DoRequest_request [OF rq(1)] PathUnescape_escape answer show ?thesis
    by (intro exI [of _ rq] exI [of _ "escapeFileIdentifier identifier"] conjI) (auto simp: get keep)
qed

text \<open>A registry that answers every request in the same way and remembers the requests.\<close>

definition exampleClient :: PharosClient where
  "exampleClient = \<lparr>pc_hostUrl = ''http://pharos'', pc_apiVersion = ''v2'', pc_apiUser = ''user'', pc_apiKey = ''key''\<rparr>"

definition sameAnswer :: "int \<Rightarrow> reply \<Rightarrow> http_request list http" where
  "sameAnswer code body =
     \<lparr>http_parse = (\<lambda>u. Inr \<lparr>pu_Scheme = ''http'', pu_Host = ''pharos'', pu_RawQuery = []\<rparr>),
      http_do = (\<lambda>rq log. (Inr \<lparr>hr_StatusCode = code, hr_Body = body, hr_ReadError = None\<rparr>, log @ [rq]))\<rparr>"

definition oneFile :: reply where
  "oneFile = (plainText [] ''invalid character'')\<lparr>rb_file := Inr NewGenericFile\<rparr>"

theorem GenericFileGet_addresses_witness:
  "\<exists>rq element.
     PathUnescape element = Some ''test.edu/bag/data/a b+c?.txt'' \<and> rq_Opaque rq = ''/api/v2/files/'' @ element \<and>
     snd (GenericFileGet (sameAnswer 200 oneFile) exampleClient ''test.edu/bag/data/a b+c?.txt'' False []) = [rq] \<and>
     Resp_GenericFile (fst (GenericFileGet (sameAnswer 200 oneFile) exampleClient ''test.edu/bag/data/a b+c?.txt'' False [])) =
       Some NewGenericFile"
proof -
  have "http_parse (sameAnswer 200 oneFile) (api exampleClient (''/files/'' @ escapeFileIdentifier ''test.edu/bag/data/a b+c?.txt'')) =
      Inr \<lparr>pu_Scheme = ''http'', pu_Host = ''pharos'', pu_RawQuery = []\<rparr>"
    by (simp add: sameAnswer_def)
  from GenericFileGet_addresses [OF this, of "[]"] show ?thesis
    by (auto simp: exampleClient_def sameAnswer_def oneFile_def)
qed

end
