(* ===== verification/System.thy ===== *)
theory System
  imports BoltDB FileUtil NetLib
begin

text \<open>
  The machine the services run on. The operating system is a record of functions on a state of type
  \<open>'e\<close>, which also holds whatever the remote services know; the clock and the source of UUIDs stay
  apart, in the record \<open>world\<close>, and so do the bucket names that a process keeps in package-level variables.
  The theory also has the helpers of \<^verbatim>\<open>src/util/fileutil/fileutil.go\<close> that look at the environment.
\<close>

section \<open>Operating system\<close>

text \<open>\<open>os_write\<close> is \<open>io.Copy\<close> from a reader into a file that is open for writing: the number of bytes and
  the error.\<close>

record 'e os =
  os_disk :: "'e \<Rightarrow> disk"
  os_getenv :: "string \<Rightarrow> string"
  os_cwd :: "go_error + string"
  os_home :: "go_error + string"
  os_host :: "go_error + string"
  os_pid :: int
  os_mkdirAll :: "string \<Rightarrow> 'e \<Rightarrow> go_error option \<times> 'e"
  os_create :: "string \<Rightarrow> 'e \<Rightarrow> go_error option \<times> 'e"
  os_write :: "string \<Rightarrow> reader \<Rightarrow> 'e \<Rightarrow> (int64 \<times> go_error option) \<times> 'e"
  os_remove :: "string \<Rightarrow> 'e \<Rightarrow> go_error option \<times> 'e"
  os_removeAll :: "string \<Rightarrow> 'e \<Rightarrow> go_error option \<times> 'e"

record 'e machine =
  mc_world :: world
  mc_cache :: bucketCache
  mc_env :: 'e

definition onEnv :: "('e \<Rightarrow> 'r \<times> 'e) \<Rightarrow> 'e machine \<Rightarrow> 'r \<times> 'e machine" where
  "onEnv f m = (case f (mc_env m) of (r, e) \<Rightarrow> (r, m\<lparr>mc_env := e\<rparr>))"

definition onEnvOutcome :: "('e \<Rightarrow> ('r \<times> 'e) outcome) \<Rightarrow> 'e machine \<Rightarrow> ('r \<times> 'e machine) outcome" where
  "onEnvOutcome f m = and_then (f (mc_env m)) (\<lambda>(r, e). Returns (r, m\<lparr>mc_env := e\<rparr>))"

text \<open>\<open>time.Now().UTC()\<close>.\<close>

definition nowUTC :: "'e machine \<Rightarrow> time \<times> 'e machine" where
  "nowUTC m = (case timeNow (mc_world m) of (t, w) \<Rightarrow> (t, m\<lparr>mc_world := w\<rparr>))"

lemma nowUTC_env [simp]: "mc_env (snd (nowUTC m)) = mc_env m" "mc_cache (snd (nowUTC m)) = mc_cache m"
  by (simp_all add: nowUTC_def timeNow_def)

text \<open>The clock of a machine never shows Go's zero time.\<close>

definition clockRuns :: "'e machine \<Rightarrow> bool" where
  "clockRuns m \<longleftrightarrow> (\<forall>n. clock (mc_world m) n \<noteq> zeroTime)"

lemma nowUTC_runs: "clockRuns m \<Longrightarrow> \<not> IsZero (fst (nowUTC m)) \<and> clockRuns (snd (nowUTC m))"
  by (simp add: clockRuns_def nowUTC_def timeNow_def IsZero_def)

lemma clockRuns_env [simp]: "clockRuns (m\<lparr>mc_env := e\<rparr>) = clockRuns m" "clockRuns (m\<lparr>mc_cache := c\<rparr>) = clockRuns m"
  by (simp_all add: clockRuns_def)

lemma onEnv_simps [simp]:
  "mc_world (snd (onEnv f m)) = mc_world m" "mc_cache (snd (onEnv f m)) = mc_cache m"
  "clockRuns (snd (onEnv f m)) = clockRuns m"
  by (simp_all add: onEnv_def clockRuns_def split_beta)

section \<open>Opening a database\<close>

text \<open>\<open>NewBoltDB\<close> with both of its results: when the buckets cannot be made, the database is returned
  along with the error.\<close>

definition openBoltDB :: "'b bolt \<Rightarrow> string \<Rightarrow> 'b option \<times> go_error option" where
  "openBoltDB ops filePath =
     (case bolt_open ops filePath of
        Inl err \<Rightarrow> (None, Some err)
      | Inr b \<Rightarrow> (case initBuckets ops b of (err, b') \<Rightarrow> (Some b', err)))"

lemma openBoltDB_NewBoltDB:
  "NewBoltDB ops p = (case openBoltDB ops p of (_, Some err) \<Rightarrow> Inl err | (db, None) \<Rightarrow> Inr (the db))"
  by (auto simp: NewBoltDB_def openBoltDB_def split: sum.split prod.split option.split)

text \<open>The databases live in files, and an open database is locked. \<open>bs_ops\<close> is the package bolt on an open
  database, \<open>bs_open\<close> opens a file as it is, \<open>bs_close\<close> gives the files after an open database was closed
  with some contents, and \<open>bs_leave\<close> the files when it has these contents and stays open.\<close>

record ('e, 'b) bolt_files =
  bs_ops :: "'b bolt"
  bs_open :: "string \<Rightarrow> 'e \<Rightarrow> go_error + 'b"
  bs_close :: "string \<Rightarrow> 'b \<Rightarrow> 'e \<Rightarrow> 'e"
  bs_leave :: "string \<Rightarrow> 'b \<Rightarrow> 'e \<Rightarrow> 'e"

definition boltAt :: "('e, 'b) bolt_files \<Rightarrow> 'e \<Rightarrow> 'b bolt" where
  "boltAt files e = (bs_ops files)\<lparr>bolt_open := (\<lambda>path. bs_open files path e)\<rparr>"

lemma boltAt_simps [simp]:
  "put_file (boltAt files e) = put_file (bs_ops files)" "get_file (boltAt files e) = get_file (bs_ops files)"
  "file_keys (boltAt files e) = file_keys (bs_ops files)" "put_obj (boltAt files e) = put_obj (bs_ops files)"
  "get_obj (boltAt files e) = get_obj (bs_ops files)" "obj_keys (boltAt files e) = obj_keys (bs_ops files)"
  "bolt_create (boltAt files e) = bolt_create (bs_ops files)" "bolt_open (boltAt files e) p = bs_open files p e"
  by (simp_all add: boltAt_def)

lemma boltAt_laws: "bolt_laws (boltAt files e) = bolt_laws (bs_ops files)"
  by (simp add: bolt_laws_def)

section \<open>Paths in the environment\<close>

definition Abs :: "'e os \<Rightarrow> string \<Rightarrow> string \<times> go_error option" where
  "Abs sys path =
     (if IsAbs path then (Clean path, None)
      else (case os_cwd sys of Inl err \<Rightarrow> ([], Some err) | Inr wd \<Rightarrow> (JoinPath [wd, path], None)))"

definition ExchangeHome :: "'e os \<Rightarrow> string \<times> go_error option" where
  "ExchangeHome sys =
     (let exchangeHome = os_getenv sys ''EXCHANGE_HOME''; goHome = os_getenv sys ''GOPATH''
      in if exchangeHome \<noteq> [] then Abs sys exchangeHome
         else if goHome \<noteq> [] then Abs sys (JoinPath [goHome, ''src'', ''github.com'', ''APTrust'', ''exchange''])
         else ([], Some (''Cannot determine exchange home because neither '' @
                         ''EXCHANGE_HOME nor GOPATH is set in environment.'')))"

definition RelativeToAbsPath :: "'e os \<Rightarrow> string \<Rightarrow> string \<times> go_error option" where
  "RelativeToAbsPath sys relativePath =
     (let (absPath, _) = Abs sys relativePath
      in if absPath = relativePath then (absPath, None)
         else (case ExchangeHome sys of
                 (_, Some err) \<Rightarrow> ([], Some err)
               | (exchangeHome, None) \<Rightarrow> (JoinPath [exchangeHome, relativePath], None)))"

definition ReadFile :: "'e os \<Rightarrow> string \<Rightarrow> 'e \<Rightarrow> go_error + string" where
  "ReadFile sys path e =
     (case fs_open (os_disk sys e) path of
        Inl err \<Rightarrow> Inl err
      | Inr rd \<Rightarrow> (case rd_err rd of None \<Rightarrow> Inr (rd_data rd) | Some err \<Rightarrow> Inl err))"

definition LoadRelativeFile :: "'e os \<Rightarrow> string \<Rightarrow> 'e \<Rightarrow> go_error + string" where
  "LoadRelativeFile sys relativePath e =
     (case RelativeToAbsPath sys relativePath of
        (_, Some err) \<Rightarrow> Inl err
      | (absPath, None) \<Rightarrow> ReadFile sys absPath e)"

text \<open>\<open>unmarshal\<close> decodes over the value the caller passes.\<close>

definition JsonFileToObject :: "'e os \<Rightarrow> (string \<Rightarrow> 'a \<Rightarrow> go_error option \<times> 'a) \<Rightarrow> string \<Rightarrow> 'a \<Rightarrow> 'e \<Rightarrow> go_error option \<times> 'a" where
  "JsonFileToObject sys unmarshal absPath obj e =
     (case ReadFile sys absPath e of Inl err \<Rightarrow> (Some err, obj) | Inr data \<Rightarrow> unmarshal data obj)"

end
