(* ===== verification/Config.thy ===== *)
theory Config
  imports System Constants
begin

text \<open>
  \<^verbatim>\<open>src/models/config.go\<close>: the settings of the services. The JSON decoder is an argument, as are the
  environment and the file system. \<open>flag.Lookup("test.v") != nil\<close> is the argument \<open>tests\<close>.
\<close>

record WorkerConfig =
  wc_HeartbeatInterval :: string
  wc_MaxAttempts :: uint16
  wc_MaxInFlight :: int
  wc_MessageTimeout :: string
  wc_NetworkConnections :: int
  wc_NsqChannel :: string
  wc_NsqTopic :: string
  wc_ReadTimeout :: string
  wc_Workers :: int
  wc_WriteTimeout :: string

record Config =
  cf_ActiveConfig :: string
  cf_APTrustGlacierRegion :: string
  cf_APTrustS3Region :: string
  cf_BagDeleteWorker :: WorkerConfig
  cf_BagItVersion :: string
  cf_BagItEncoding :: string
  cf_BagValidationConfigFile :: string
  cf_BucketReaderCacheHours :: int
  cf_DeleteOnSuccess :: bool
  cf_FetchWorker :: WorkerConfig
  cf_FileDeleteWorker :: WorkerConfig
  cf_FileRestoreWorker :: WorkerConfig
  cf_FixityWorker :: WorkerConfig
  cf_GlacierBucketVA :: string
  cf_GlacierBucketOH :: string
  cf_GlacierBucketOR :: string
  cf_GlacierDeepBucketVA :: string
  cf_GlacierDeepBucketOH :: string
  cf_GlacierDeepBucketOR :: string
  cf_GlacierRegionVA :: string
  cf_GlacierRegionOH :: string
  cf_GlacierRegionOR :: string
  cf_GlacierRestoreWorker :: WorkerConfig
  cf_LogDirectory :: string
  cf_LogLevel :: int
  cf_LogToStderr :: bool
  cf_MaxDaysSinceFixityCheck :: int
  cf_MaxFileSize :: int64
  cf_NsqdHttpAddress :: string
  cf_NsqLookupd :: string
  cf_PharosAPIVersion :: string
  cf_PharosURL :: string
  cf_PreservationBucket :: string
  cf_ReceivingBuckets :: "string list"
  cf_RecordWorker :: WorkerConfig
  cf_ReplicationBucket :: string
  cf_ReplicationDirectory :: string
  cf_RestoreDirectory :: string
  cf_RestoreToTestBuckets :: bool
  cf_RestoreWorker :: WorkerConfig
  cf_SkipAlreadyProcessed :: bool
  cf_StoreWorker :: WorkerConfig
  cf_TarDirectory :: string
  cf_UseVolumeService :: bool
  cf_VolumeServicePort :: int

definition zeroWorkerConfig :: WorkerConfig where
  "zeroWorkerConfig =
     \<lparr>wc_HeartbeatInterval = [], wc_MaxAttempts = 0, wc_MaxInFlight = 0, wc_MessageTimeout = [],
      wc_NetworkConnections = 0, wc_NsqChannel = [], wc_NsqTopic = [], wc_ReadTimeout = [], wc_Workers = 0,
      wc_WriteTimeout = []\<rparr>"

definition zeroConfig :: Config where
  "zeroConfig =
     \<lparr>cf_ActiveConfig = [], cf_APTrustGlacierRegion = [], cf_APTrustS3Region = [], cf_BagDeleteWorker = zeroWorkerConfig,
      cf_BagItVersion = [], cf_BagItEncoding = [], cf_BagValidationConfigFile = [], cf_BucketReaderCacheHours = 0,
      cf_DeleteOnSuccess = False, cf_FetchWorker = zeroWorkerConfig, cf_FileDeleteWorker = zeroWorkerConfig,
      cf_FileRestoreWorker = zeroWorkerConfig, cf_FixityWorker = zeroWorkerConfig, cf_GlacierBucketVA = [],
      cf_GlacierBucketOH = [], cf_GlacierBucketOR = [], cf_GlacierDeepBucketVA = [], cf_GlacierDeepBucketOH = [],
      cf_GlacierDeepBucketOR = [], cf_GlacierRegionVA = [], cf_GlacierRegionOH = [], cf_GlacierRegionOR = [],
      cf_GlacierRestoreWorker = zeroWorkerConfig, cf_LogDirectory = [], cf_LogLevel = 0, cf_LogToStderr = False,
      cf_MaxDaysSinceFixityCheck = 0, cf_MaxFileSize = 0, cf_NsqdHttpAddress = [], cf_NsqLookupd = [],
      cf_PharosAPIVersion = [], cf_PharosURL = [], cf_PreservationBucket = [], cf_ReceivingBuckets = [],
      cf_RecordWorker = zeroWorkerConfig, cf_ReplicationBucket = [], cf_ReplicationDirectory = [],
      cf_RestoreDirectory = [], cf_RestoreToTestBuckets = False, cf_RestoreWorker = zeroWorkerConfig,
      cf_SkipAlreadyProcessed = False, cf_StoreWorker = zeroWorkerConfig, cf_TarDirectory = [],
      cf_UseVolumeService = False, cf_VolumeServicePort = 0\<rparr>"

section \<open>Loading\<close>

definition LoadConfigFile ::
  "'e os \<Rightarrow> (string \<Rightarrow> Config \<Rightarrow> go_error + Config) \<Rightarrow> string \<Rightarrow> 'e \<Rightarrow> go_error + Config" where
  "LoadConfigFile sys unmarshal pathToConfigFile e =
     (case LoadRelativeFile sys pathToConfigFile e of
        Inl err \<Rightarrow> Inl (''Error reading config file '' @ quoted pathToConfigFile @ '': '' @ err @ [newline])
      | Inr file \<Rightarrow>
          (case unmarshal file zeroConfig of
             Inl err \<Rightarrow> Inl (''Error parsing JSON from config file '' @ quoted pathToConfigFile @ '': '' @ err)
           | Inr config \<Rightarrow> Inr (config\<lparr>cf_ActiveConfig := pathToConfigFile\<rparr>)))"

definition AbsLogDirectory :: "'e os \<Rightarrow> Config \<Rightarrow> string outcome" where
  "AbsLogDirectory sys config =
     (case Abs sys (cf_LogDirectory config) of (_, Some err) \<Rightarrow> Panics | (absLogDir, None) \<Rightarrow> Returns absLogDir)"

definition EnsurePharosConfig :: "'e os \<Rightarrow> Config \<Rightarrow> go_error option" where
  "EnsurePharosConfig sys config =
     (if cf_PharosURL config = [] then Some ''PharosUrl is missing from config file''
      else if os_getenv sys ''PHAROS_API_USER'' = [] then Some ''Environment variable PHAROS_API_USER is not set''
      else if os_getenv sys ''PHAROS_API_KEY'' = [] then Some ''Environment variable PHAROS_API_KEY is not set''
      else None)"

text \<open>A path whose tilde cannot be expanded is left as it is.\<close>

definition expanded :: "'e os \<Rightarrow> string \<Rightarrow> string" where
  "expanded sys path = (case ExpandTilde (os_home sys) path of (p, None) \<Rightarrow> p | (_, Some err) \<Rightarrow> path)"

definition ExpandFilePaths :: "'e os \<Rightarrow> Config \<Rightarrow> Config" where
  "ExpandFilePaths sys config0 =
     (let config = config0\<lparr>cf_TarDirectory := expanded sys (cf_TarDirectory config0),
            cf_LogDirectory := expanded sys (cf_LogDirectory config0),
            cf_RestoreDirectory := expanded sys (cf_RestoreDirectory config0),
            cf_ReplicationDirectory := expanded sys (cf_ReplicationDirectory config0)\<rparr>;
          (absPath, _) = Abs sys (cf_BagValidationConfigFile config)
      in if absPath \<noteq> cf_BagValidationConfigFile config
         then (case RelativeToAbsPath sys (cf_BagValidationConfigFile config) of
                 (p, None) \<Rightarrow> config\<lparr>cf_BagValidationConfigFile := p\<rparr>
               | (_, Some err) \<Rightarrow> config)
         else config)"

fun makeMissing :: "'e os \<Rightarrow> string list \<Rightarrow> 'e \<Rightarrow> go_error option \<times> 'e" where
  "makeMissing sys [] e = (None, e)"
| "makeMissing sys (dir # dirs) e =
     (if FileExists (os_disk sys e) dir then makeMissing sys dirs e
      else (case os_mkdirAll sys dir e of
              (Some err, e') \<Rightarrow> (Some err, e')
            | (None, e') \<Rightarrow> makeMissing sys dirs e'))"

definition createDirectories :: "'e os \<Rightarrow> Config \<Rightarrow> 'e \<Rightarrow> go_error option \<times> 'e" where
  "createDirectories sys config e =
     (if cf_TarDirectory config = [] then (Some ''You must define config.TarDirectory'', e)
      else if cf_LogDirectory config = [] then (Some ''You must define config.LogDirectory'', e)
      else if cf_RestoreDirectory config = [] then (Some ''You must define config.RestoreDirectory'', e)
      else if cf_ReplicationDirectory config = [] then (Some ''You must define config.ReplicationDirectory'', e)
      else makeMissing sys [cf_TarDirectory config, cf_LogDirectory config, cf_RestoreDirectory config,
                            cf_ReplicationDirectory config] e)"

definition EnsureLogDirectory :: "'e os \<Rightarrow> Config \<Rightarrow> 'e \<Rightarrow> ((string \<times> go_error option) \<times> Config \<times> 'e) outcome" where
  "EnsureLogDirectory sys config0 e0 =
     (let config = ExpandFilePaths sys config0
      in case createDirectories sys config e0 of
           (Some err, e) \<Rightarrow> Returns (([], Some err), config, e)
         | (None, e) \<Rightarrow> and_then (AbsLogDirectory sys config) (\<lambda>dir. Returns ((dir, None), config, e)))"

section \<open>Storage\<close>

definition StorageRegionAndBucketFor :: "Config \<Rightarrow> string \<Rightarrow> string \<times> string \<times> go_error option" where
  "StorageRegionAndBucketFor config storageOption =
     (if storageOption = StorageStandard then (cf_APTrustS3Region config, cf_PreservationBucket config, None)
      else if storageOption = StorageGlacierVA then (cf_GlacierRegionVA config, cf_GlacierBucketVA config, None)
      else if storageOption = StorageGlacierOH then (cf_GlacierRegionOH config, cf_GlacierBucketOH config, None)
      else if storageOption = StorageGlacierOR then (cf_GlacierRegionOR config, cf_GlacierBucketOR config, None)
      else if storageOption = StorageGlacierDeepVA then (cf_GlacierRegionVA config, cf_GlacierDeepBucketVA config, None)
      else if storageOption = StorageGlacierDeepOH then (cf_GlacierRegionOH config, cf_GlacierDeepBucketOH config, None)
      else if storageOption = StorageGlacierDeepOR then (cf_GlacierRegionOR config, cf_GlacierDeepBucketOR config, None)
      else ([], [], Some (''Unknown Storage Option: '' @ storageOption)))"

definition ActiveAWSStorageRegions :: "Config \<Rightarrow> string \<rightharpoonup> string" where
  "ActiveAWSStorageRegions config =
     [StorageStandard \<mapsto> cf_APTrustS3Region config, StorageGlacierVA \<mapsto> cf_GlacierRegionVA config,
      StorageGlacierOH \<mapsto> cf_GlacierRegionOH config, StorageGlacierOR \<mapsto> cf_GlacierRegionOR config,
      StorageGlacierDeepVA \<mapsto> cf_GlacierRegionVA config, StorageGlacierDeepOH \<mapsto> cf_GlacierRegionOH config,
      StorageGlacierDeepOR \<mapsto> cf_GlacierRegionOR config]"

definition AWSS3Buckets :: "Config \<Rightarrow> string \<rightharpoonup> string" where
  "AWSS3Buckets config = [StorageStandard \<mapsto> cf_PreservationBucket config]"

definition AWSGlacierBuckets :: "Config \<Rightarrow> string \<rightharpoonup> string" where
  "AWSGlacierBuckets config =
     [StorageStandard \<mapsto> cf_ReplicationBucket config, StorageGlacierVA \<mapsto> cf_GlacierBucketVA config,
      StorageGlacierOH \<mapsto> cf_GlacierBucketOH config, StorageGlacierOR \<mapsto> cf_GlacierBucketOR config,
      StorageGlacierDeepVA \<mapsto> cf_GlacierDeepBucketVA config, StorageGlacierDeepOH \<mapsto> cf_GlacierDeepBucketOH config,
      StorageGlacierDeepOR \<mapsto> cf_GlacierDeepBucketOR config]"

definition TestsAreRunning :: "bool \<Rightarrow> bool" where
  "TestsAreRunning tests = tests"

definition GetAWSAccessKeyId :: "'e os \<Rightarrow> bool \<Rightarrow> string" where
  "GetAWSAccessKeyId sys tests =
     (let keyId = os_getenv sys ''AWS_ACCESS_KEY_ID''
      in if keyId = [] \<and> TestsAreRunning tests then ''TestKeyId'' else keyId)"

definition GetAWSSecretAccessKey :: "'e os \<Rightarrow> bool \<Rightarrow> string" where
  "GetAWSSecretAccessKey sys tests =
     (let secretKey = os_getenv sys ''AWS_SECRET_ACCESS_KEY''
      in if secretKey = [] \<and> TestsAreRunning tests then ''TestSecretKey'' else secretKey)"

section \<open>Facts\<close>

text \<open>The function and the maps agree: the region of every option, and its bucket in the maps.\<close>

lemma StorageRegionAndBucketFor_maps:
  "StorageRegionAndBucketFor config option =
     (case ActiveAWSStorageRegions config option of
        None \<Rightarrow> ([], [], Some (''Unknown Storage Option: '' @ option))
      | Some region \<Rightarrow>
          (region, the ((AWSGlacierBuckets config ++ AWSS3Buckets config) option), None))"
  by (simp add: StorageRegionAndBucketFor_def ActiveAWSStorageRegions_def AWSGlacierBuckets_def AWSS3Buckets_def
      const_defs)

lemma StorageRegionAndBucketFor_ok:
  "snd (snd (StorageRegionAndBucketFor config option)) = None \<longleftrightarrow> option \<in> set StorageOptions"
  by (simp add: StorageRegionAndBucketFor_def StorageOptions_def)

end
