(* ===== verification/Network.thy ===== *)
theory Network
  imports System WorkStates
begin

text \<open>
  The wrappers around the AWS SDK and the NSQ client: \<^verbatim>\<open>s3_session.go\<close>, \<^verbatim>\<open>s3_head.go\<close>, \<^verbatim>\<open>s3_download.go\<close>,
  \<^verbatim>\<open>s3_upload.go\<close>, \<^verbatim>\<open>s3_object_list.go\<close>, \<^verbatim>\<open>s3_object_delete.go\<close>, \<^verbatim>\<open>s3_copy.go\<close>, \<^verbatim>\<open>s3_restore.go\<close> and \<^verbatim>\<open>nsq_client.go\<close> in
  \<^verbatim>\<open>src/network\<close>. The SDK is an argument: one function per call, on the state of the outside world. Every
  call returns its output and its error as the SDK does; an output may be nil.
\<close>

section \<open>The SDK\<close>

datatype credentials = EnvCredentials | StaticCredentials string string

record aws_session =
  as_Region :: string
  as_Credentials :: credentials
  as_Endpoint :: "string option"

record HeadObjectOutput =
  ho_ETag :: "string option"
  ho_LastModified :: "time option"
  ho_ContentLength :: "int64 option"
  ho_ContentType :: "string option"
  ho_Restore :: "string option"
  ho_Metadata :: "string \<rightharpoonup> string option"

text \<open>The body of a download is a stream that a copy reads until it ends or fails; the next copy goes on
  from there. Each element is what one copy gets.\<close>

record GetObjectOutput =
  go_ETag :: "string option"
  go_Body :: "reader list"

record s3_object =
  so_Key :: "string option"
  so_ETag :: "string option"
  so_Size :: "int64 option"
  so_LastModified :: "time option"

record ListObjectsInput =
  li_Bucket :: string
  li_MaxKeys :: int64
  li_Prefix :: "string option"
  li_Marker :: "string option"

record ListObjectsOutput =
  lo_Contents :: "s3_object list"
  lo_IsTruncated :: "bool option"
  lo_NextMarker :: "string option"

record UploadInput =
  ui_Bucket :: string
  ui_Key :: string
  ui_ContentType :: "string option"
  ui_Metadata :: "string \<rightharpoonup> string"

record delete_error =
  de_Key :: "string option"
  de_Message :: "string option"

text \<open>An error of the SDK has a text and, if it implements \<open>awserr.Error\<close>, a code.\<close>

record aws_error =
  ae_text :: string
  ae_code :: "string option"

record 'e aws =
  aws_new :: "aws_session \<Rightarrow> bool"
  aws_head :: "aws_session \<Rightarrow> string \<Rightarrow> string \<Rightarrow> 'e \<Rightarrow> (go_error + HeadObjectOutput) \<times> 'e"
  aws_get :: "aws_session \<Rightarrow> string \<Rightarrow> string \<Rightarrow> 'e \<Rightarrow> (go_error + GetObjectOutput) \<times> 'e"
  aws_upload :: "aws_session \<Rightarrow> UploadInput \<Rightarrow> reader \<Rightarrow> (int64 \<times> int) option \<Rightarrow> 'e \<Rightarrow> (string option \<times> go_error option) \<times> 'e"
  aws_list :: "aws_session \<Rightarrow> ListObjectsInput \<Rightarrow> 'e \<Rightarrow> (ListObjectsOutput option \<times> go_error option) \<times> 'e"
  aws_delete :: "aws_session \<Rightarrow> string \<Rightarrow> string list \<Rightarrow> 'e \<Rightarrow> (delete_error option list option \<times> go_error option) \<times> 'e"
  aws_copy :: "aws_session \<Rightarrow> string \<Rightarrow> string \<Rightarrow> string \<Rightarrow> 'e \<Rightarrow> (bool \<times> go_error option) \<times> 'e"
  aws_wait :: "aws_session \<Rightarrow> string \<Rightarrow> string \<Rightarrow> 'e \<Rightarrow> go_error option \<times> 'e"
  aws_restore :: "aws_session \<Rightarrow> string \<Rightarrow> string \<Rightarrow> int64 \<Rightarrow> string \<Rightarrow> 'e \<Rightarrow> (bool \<times> aws_error option) \<times> 'e"

section \<open>Sessions\<close>

record access =
  ac_Region :: string
  ac_KeyId :: string
  ac_Secret :: string

definition GetS3Session :: "'e aws \<Rightarrow> access \<Rightarrow> go_error + aws_session" where
  "GetS3Session aws ac =
     (let creds = (if ac_KeyId ac \<noteq> [] \<and> ac_Secret ac \<noteq> [] then StaticCredentials (ac_KeyId ac) (ac_Secret ac) else EnvCredentials);
          session = \<lparr>as_Region = ac_Region ac, as_Credentials = creds, as_Endpoint = None\<rparr>
      in if aws_new aws session then Inr session else Inl ''AWS Session returned nil'')"

text \<open>The \<open>GetSession\<close> methods of the wrappers: the session is made at the first call and kept. The error
  message is set when it cannot be made.\<close>

definition GetSession :: "'e aws \<Rightarrow> access \<Rightarrow> aws_session option \<Rightarrow> string \<Rightarrow> aws_session option \<times> string" where
  "GetSession aws ac session errorMessage =
     (case session of
        Some s \<Rightarrow> (Some s, errorMessage)
      | None \<Rightarrow> (case GetS3Session aws ac of Inl err \<Rightarrow> (None, err) | Inr s \<Rightarrow> (Some s, errorMessage)))"

section \<open>S3Head\<close>

record S3Head =
  sh_access :: access
  sh_BucketName :: string
  sh_ErrorMessage :: string
  sh_Response :: "HeadObjectOutput option"
  sh_inputKey :: "string option"
  sh_session :: "aws_session option"

definition NewS3Head :: "access \<Rightarrow> string \<Rightarrow> S3Head" where
  "NewS3Head ac bucket = \<lparr>sh_access = ac, sh_BucketName = bucket, sh_ErrorMessage = [], sh_Response = None,
     sh_inputKey = None, sh_session = None\<rparr>"

definition Head :: "'e aws \<Rightarrow> S3Head \<Rightarrow> string \<Rightarrow> 'e \<Rightarrow> S3Head \<times> 'e" where
  "Head aws client0 key e =
     (let (session, msg) = GetSession aws (sh_access client0) (sh_session client0) [];
          client = client0\<lparr>sh_Response := None, sh_ErrorMessage := msg, sh_session := session\<rparr>
      in case session of
           None \<Rightarrow> (client, e)
         | Some s \<Rightarrow>
             (case aws_head aws s (sh_BucketName client) key e of
                (Inl err, e') \<Rightarrow> (client\<lparr>sh_inputKey := Some key, sh_ErrorMessage := err\<rparr>, e')
              | (Inr response, e') \<Rightarrow> (client\<lparr>sh_inputKey := Some key, sh_Response := Some response\<rparr>, e')))"

definition GetHeaderMetadata :: "S3Head \<Rightarrow> string \<Rightarrow> string" where
  "GetHeaderMetadata client key =
     (case sh_Response client of
        None \<Rightarrow> []
      | Some resp \<Rightarrow> (case ho_Metadata resp key of Some (Some v) \<Rightarrow> v | _ \<Rightarrow> []))"

record RestoreRequestInfo =
  ri_RequestInProgress :: bool
  ri_RequestIsComplete :: bool
  ri_S3ExpiryDate :: time

text \<open>\<open>parse\<close> is \<open>time.Parse(time.RFC1123, _)\<close>.\<close>

definition GetRestoreRequestInfo :: "(string \<Rightarrow> go_error + time) \<Rightarrow> S3Head \<Rightarrow> go_error + RestoreRequestInfo" where
  "GetRestoreRequestInfo parse client =
     (let info = \<lparr>ri_RequestInProgress = False, ri_RequestIsComplete = False, ri_S3ExpiryDate = zeroTime\<rparr>;
          header = (case sh_Response client of None \<Rightarrow> [] | Some resp \<Rightarrow> PointerToString (ho_Restore resp))
      in if header = [] then Inr info
         else (let restoreInfoParts = SplitN2 (CHR '','') header;
                   ongoing = SplitN2 (CHR ''='') (restoreInfoParts ! 0);
                   inProgress = (1 < length ongoing \<and> RemoveAll (CHR 0x22) (ongoing ! 1) = ''true'');
                   expiry = (if 1 < length restoreInfoParts then SplitN2 (CHR ''='') (restoreInfoParts ! 1) else [])
               in if 1 < length expiry
                  then (case parse (RemoveAll (CHR 0x22) (expiry ! 1)) of
                          Inl err \<Rightarrow> Inl err
                        | Inr fileExpires \<Rightarrow>
                            Inr (info\<lparr>ri_RequestIsComplete := True, ri_S3ExpiryDate := fileExpires,
                                      ri_RequestInProgress := inProgress\<rparr>))
                  else Inr (info\<lparr>ri_RequestInProgress := inProgress\<rparr>)))"

text \<open>The ETag, the date and the length are dereferenced without a test.\<close>

definition Head_StoredFile :: "S3Head \<Rightarrow> world \<Rightarrow> (StoredFile option \<times> world) outcome" where
  "Head_StoredFile client w =
     (case (sh_Response client, sh_inputKey client) of
        (Some resp, Some key) \<Rightarrow>
          (case timeNow w of (now, w') \<Rightarrow>
             and_then (deref (ho_ETag resp)) (\<lambda>etag.
             and_then (deref (ho_LastModified resp)) (\<lambda>lastModified.
             and_then (deref (ho_ContentLength resp)) (\<lambda>len.
               Returns (Some \<lparr>sf_Id = 0, sf_Key = key, sf_Bucket = sh_BucketName client, sf_Size = len,
                 sf_ContentType = PointerToString (ho_ContentType resp),
                 sf_Institution = GetHeaderMetadata client ''Institution'', sf_BagName = GetHeaderMetadata client ''Bag'',
                 sf_PathInBag = GetHeaderMetadata client ''Bagpath'', sf_Md5 = GetHeaderMetadata client ''Md5'',
                 sf_Sha256 = GetHeaderMetadata client ''Sha256'', sf_ETag = RemoveAll (CHR 0x22) etag,
                 sf_LastModified = lastModified, sf_LastSeenAt = now, sf_CreatedAt = now, sf_UpdatedAt = now,
                 sf_DeletedAt = zeroTime\<rparr>, w')))))
      | _ \<Rightarrow> Returns (None, w))"

section \<open>S3Download\<close>

record S3Download =
  sd_access :: access
  sd_BucketName :: string
  sd_KeyName :: string
  sd_LocalPath :: string
  sd_CalculateMd5 :: bool
  sd_CalculateSha256 :: bool
  sd_Md5Digest :: string
  sd_Sha256Digest :: string
  sd_BytesCopied :: int64
  sd_ErrorMessage :: string
  sd_Response :: "GetObjectOutput option"
  sd_session :: "aws_session option"

definition NewS3Download :: "access \<Rightarrow> string \<Rightarrow> string \<Rightarrow> string \<Rightarrow> bool \<Rightarrow> bool \<Rightarrow> S3Download" where
  "NewS3Download ac bucket key localPath calculateMd5 calculateSha256 =
     \<lparr>sd_access = ac, sd_BucketName = bucket, sd_KeyName = key, sd_LocalPath = localPath,
      sd_CalculateMd5 = calculateMd5, sd_CalculateSha256 = calculateSha256, sd_Md5Digest = [], sd_Sha256Digest = [],
      sd_BytesCopied = 0, sd_ErrorMessage = [], sd_Response = None, sd_session = None\<rparr>"

text \<open>Up to five copies from the same body into the same writers: the bytes that went through, the count
  of the last copy, and its error. An exhausted body is at its end.\<close>

fun copyLoop :: "'e os \<Rightarrow> string option \<Rightarrow> nat \<Rightarrow> reader list \<Rightarrow> string \<Rightarrow> 'e \<Rightarrow> (string \<times> int64 \<times> go_error option) \<times> 'e" where
  "copyLoop sys path 0 body seen e = ((seen, 0, None), e)"
| "copyLoop sys path (Suc n) body seen e =
     (let (chunk, rest) = (case body of [] \<Rightarrow> (\<lparr>rd_data = [], rd_err = None\<rparr>, []) | c # cs \<Rightarrow> (c, cs));
          ((count, err), e') = (case path of
             None \<Rightarrow> ((of_nat (length (rd_data chunk)), rd_err chunk), e)
           | Some p \<Rightarrow> os_write sys p chunk e);
          seen' = seen @ take (unat count) (rd_data chunk)
      in if err = None \<or> n = 0 then ((seen', count, err), e') else copyLoop sys path n rest seen' e')"

definition tryGet :: "'e aws \<Rightarrow> 'e os \<Rightarrow> digests \<Rightarrow> aws_session \<Rightarrow> S3Download \<Rightarrow> 'e \<Rightarrow> (go_error option \<times> S3Download) \<times> 'e" where
  "tryGet aws sys dg session client e =
     (case aws_get aws session (sd_BucketName client) (sd_KeyName client) e of
        (Inl err, e1) \<Rightarrow> ((Some err, client), e1)
      | (Inr resp, e1) \<Rightarrow>
          (let client1 = client\<lparr>sd_Response := Some resp\<rparr>;
               path = (if sd_LocalPath client = ''/dev/null'' then None else Some (sd_LocalPath client));
               (opened, e2) = (case path of
                  None \<Rightarrow> (None, e1)
                | Some p \<Rightarrow>
                    (case os_mkdirAll sys (Dir p) e1 of
                       (Some err, e') \<Rightarrow> (Some err, e')
                     | (None, e') \<Rightarrow> os_create sys p e'))
           in case opened of
                Some err \<Rightarrow> ((Some err, client1), e2)
              | None \<Rightarrow>
                  (case copyLoop sys path 5 (go_Body resp) [] e2 of
                     ((seen, count, Some err), e3) \<Rightarrow> ((Some err, client1\<lparr>sd_BytesCopied := count\<rparr>), e3)
                   | ((seen, count, None), e3) \<Rightarrow>
                       ((None, client1\<lparr>sd_BytesCopied := count,
                          sd_Md5Digest := (if sd_CalculateMd5 client then dg_md5 dg seen else sd_Md5Digest client),
                          sd_Sha256Digest := (if sd_CalculateSha256 client then dg_sha256 dg seen else sd_Sha256Digest client)\<rparr>), e3))))"

fun getLoop :: "'e aws \<Rightarrow> 'e os \<Rightarrow> digests \<Rightarrow> aws_session \<Rightarrow> nat \<Rightarrow> go_error option \<Rightarrow> S3Download \<Rightarrow> 'e \<Rightarrow> (go_error option \<times> S3Download) \<times> 'e" where
  "getLoop aws sys dg session 0 err client e = ((err, client), e)"
| "getLoop aws sys dg session (Suc n) err client e =
     (case tryGet aws sys dg session client e of
        ((None, client'), e') \<Rightarrow> ((None, client'), e')
      | ((Some err', client'), e') \<Rightarrow> getLoop aws sys dg session n (Some err') client' e')"

definition Fetch :: "'e aws \<Rightarrow> 'e os \<Rightarrow> digests \<Rightarrow> S3Download \<Rightarrow> 'e \<Rightarrow> S3Download \<times> 'e" where
  "Fetch aws sys dg client0 e =
     (let (session, msg) = GetSession aws (sd_access client0) (sd_session client0) (sd_ErrorMessage client0);
          client = client0\<lparr>sd_session := session, sd_ErrorMessage := msg\<rparr>
      in case session of
           None \<Rightarrow> (client, e)
         | Some s \<Rightarrow>
             (case getLoop aws sys dg s 5 None client e of
                ((None, client'), e') \<Rightarrow> (client', e')
              | ((Some err, client'), e') \<Rightarrow> (client'\<lparr>sd_ErrorMessage := err\<rparr>, e')))"

section \<open>S3Upload\<close>

record S3Upload =
  su_access :: access
  su_ErrorMessage :: string
  su_UploadInput :: UploadInput
  su_Response :: "string option"
  su_session :: "aws_session option"

definition S3_MIN_CHUNK_SIZE :: int64 where "S3_MIN_CHUNK_SIZE = 5 * 1024 * 1024"
definition BIG_CHUNK_SIZE :: int64 where "BIG_CHUNK_SIZE = 50 * 1024 * 1024"

definition NewS3Upload :: "access \<Rightarrow> string \<Rightarrow> string \<Rightarrow> string \<Rightarrow> S3Upload" where
  "NewS3Upload ac bucket key contentType =
     \<lparr>su_access = ac, su_ErrorMessage = [],
      su_UploadInput = \<lparr>ui_Bucket = bucket, ui_Key = key,
        ui_ContentType = (if contentType \<noteq> [] then Some contentType else None), ui_Metadata = Map.empty\<rparr>,
      su_Response = None, su_session = None\<rparr>"

definition AddMetadata :: "string \<Rightarrow> string \<Rightarrow> S3Upload \<Rightarrow> S3Upload" where
  "AddMetadata key value client =
     client\<lparr>su_UploadInput := (su_UploadInput client)\<lparr>ui_Metadata := (ui_Metadata (su_UploadInput client))(key \<mapsto> value)\<rparr>\<rparr>"

definition sendTo :: "'e aws \<Rightarrow> (int64 \<times> int) option \<Rightarrow> reader \<Rightarrow> S3Upload \<Rightarrow> 'e \<Rightarrow> S3Upload \<times> 'e" where
  "sendTo aws parts rd client0 e =
     (let (session, msg) = GetSession aws (su_access client0) (su_session client0) (su_ErrorMessage client0);
          client = client0\<lparr>su_session := session, su_ErrorMessage := msg\<rparr>
      in case session of
           None \<Rightarrow> (client, e)
         | Some s \<Rightarrow>
             (case aws_upload aws s (su_UploadInput client) rd parts e of
                ((location, err), e') \<Rightarrow>
                  (client\<lparr>su_Response := location, su_ErrorMessage := (case err of None \<Rightarrow> msg | Some m \<Rightarrow> m)\<rparr>, e')))"

definition Send :: "'e aws \<Rightarrow> reader \<Rightarrow> S3Upload \<Rightarrow> 'e \<Rightarrow> S3Upload \<times> 'e" where
  "Send aws rd client e = sendTo aws None rd client e"

text \<open>The division is Go's signed division, which truncates towards zero.\<close>

definition chunkSizeFor :: "int64 \<Rightarrow> int64" where
  "chunkSizeFor fileSize =
     (let n = sint (fileSize + 1000000);
          chunkSize = (if n < 0 then - ((- n) div 10000) else n div 10000)
      in if chunkSize < sint BIG_CHUNK_SIZE then BIG_CHUNK_SIZE else word_of_int chunkSize)"

definition SendWithSize :: "'e aws \<Rightarrow> reader \<Rightarrow> int64 \<Rightarrow> S3Upload \<Rightarrow> 'e \<Rightarrow> S3Upload \<times> 'e" where
  "SendWithSize aws rd fileSize client e = sendTo aws (Some (chunkSizeFor fileSize, 2)) rd client e"

section \<open>S3ObjectList, S3ObjectDelete, S3Copy\<close>

record S3ObjectList =
  sl_access :: access
  sl_ErrorMessage :: string
  sl_Input :: ListObjectsInput
  sl_Response :: "ListObjectsOutput option"
  sl_session :: "aws_session option"

definition NewS3ObjectList :: "access \<Rightarrow> string \<Rightarrow> int64 \<Rightarrow> S3ObjectList" where
  "NewS3ObjectList ac bucket maxKeys =
     \<lparr>sl_access = ac, sl_ErrorMessage = [],
      sl_Input = \<lparr>li_Bucket = bucket, li_MaxKeys = maxKeys, li_Prefix = None, li_Marker = None\<rparr>,
      sl_Response = None, sl_session = None\<rparr>"

text \<open>A truncated page without contents makes the index of the last key run out of range.\<close>

definition nextMarker :: "string \<Rightarrow> S3ObjectList \<Rightarrow> ListObjectsInput outcome" where
  "nextMarker pre client =
     (case sl_Response client of
        None \<Rightarrow> Returns (sl_Input client)
      | Some r \<Rightarrow>
          if lo_IsTruncated r = Some True
          then (if pre = []
                then (if lo_Contents r = [] then Panics
                      else Returns ((sl_Input client)\<lparr>li_Marker := so_Key (last (lo_Contents r))\<rparr>))
                else Returns ((sl_Input client)\<lparr>li_Marker := lo_NextMarker r\<rparr>))
          else Returns (sl_Input client))"

definition GetList :: "'e aws \<Rightarrow> string \<Rightarrow> S3ObjectList \<Rightarrow> 'e \<Rightarrow> (S3ObjectList \<times> 'e) outcome" where
  "GetList aws pre client0 e =
     (let (session, msg) = GetSession aws (sl_access client0) (sl_session client0) (sl_ErrorMessage client0);
          client = client0\<lparr>sl_session := session, sl_ErrorMessage := msg\<rparr>
      in case session of
           None \<Rightarrow> Returns (client, e)
         | Some s \<Rightarrow>
             and_then (nextMarker pre client) (\<lambda>inp.
               (let inp' = (if pre \<noteq> [] then inp\<lparr>li_Prefix := Some pre\<rparr> else inp)
                in case aws_list aws s inp' e of
                     ((response, err), e') \<Rightarrow>
                       Returns (client\<lparr>sl_Input := inp', sl_Response := response,
                                       sl_ErrorMessage := (case err of None \<Rightarrow> msg | Some m \<Rightarrow> m)\<rparr>, e'))))"

record S3ObjectDelete =
  dl_access :: access
  dl_ErrorMessage :: string
  dl_Bucket :: string
  dl_Keys :: "string list"

definition NewS3ObjectDelete :: "access \<Rightarrow> string \<Rightarrow> string list \<Rightarrow> S3ObjectDelete" where
  "NewS3ObjectDelete ac bucket keys = \<lparr>dl_access = ac, dl_ErrorMessage = [], dl_Bucket = bucket, dl_Keys = keys\<rparr>"

definition deleteMessage :: "delete_error option \<Rightarrow> string" where
  "deleteMessage err =
     (let (key, msg) = (case err of
            None \<Rightarrow> (''<nil>'', ''<nil>'')
          | Some d \<Rightarrow> (case de_Key d of None \<Rightarrow> ''<nil>'' | Some k \<Rightarrow> k, case de_Message d of None \<Rightarrow> ''<nil>'' | Some m \<Rightarrow> m))
      in ''Error deleting key '' @ quoted key @ '': '' @ msg @ '' | '')"

text \<open>Each error replaces the message of the one before. The output is read without a nil test.\<close>

definition DeleteList :: "'e aws \<Rightarrow> S3ObjectDelete \<Rightarrow> 'e \<Rightarrow> (S3ObjectDelete \<times> 'e) outcome" where
  "DeleteList aws client e =
     (case GetS3Session aws (dl_access client) of
        Inl err \<Rightarrow> Returns (client\<lparr>dl_ErrorMessage := err\<rparr>, e)
      | Inr s \<Rightarrow>
          (case aws_delete aws s (dl_Bucket client) (dl_Keys client) e of
             ((output, err), e') \<Rightarrow>
               and_then (deref output) (\<lambda>errors.
                 Returns (client\<lparr>dl_ErrorMessage :=
                   foldl (\<lambda>_ d. deleteMessage d) (case err of None \<Rightarrow> dl_ErrorMessage client | Some m \<Rightarrow> m) errors\<rparr>, e'))))"

record S3Copy =
  sc_access :: access
  sc_SourceBucket :: string
  sc_SourceKey :: string
  sc_DestinationBucket :: string
  sc_DestinationKey :: string
  sc_ErrorMessage :: string
  sc_Response :: bool

definition NewS3Copy :: "access \<Rightarrow> string \<Rightarrow> string \<Rightarrow> string \<Rightarrow> string \<Rightarrow> S3Copy" where
  "NewS3Copy ac sourceBucket sourceKey destinationBucket destinationKey =
     \<lparr>sc_access = ac, sc_SourceBucket = sourceBucket, sc_SourceKey = sourceKey,
      sc_DestinationBucket = destinationBucket, sc_DestinationKey = destinationKey, sc_ErrorMessage = [],
      sc_Response = False\<rparr>"

definition CopySource :: "S3Copy \<Rightarrow> string" where
  "CopySource client = PathEscape (sc_SourceBucket client) @ ''/'' @ PathEscape (sc_SourceKey client)"

text \<open>\<open>sc_Response\<close> says whether there is a response.\<close>

definition Copy :: "'e aws \<Rightarrow> S3Copy \<Rightarrow> 'e \<Rightarrow> S3Copy \<times> 'e" where
  "Copy aws client0 e =
     (let client = client0\<lparr>sc_Response := False\<rparr>
      in case GetS3Session aws (sc_access client) of
           Inl err \<Rightarrow> (client\<lparr>sc_ErrorMessage := err\<rparr>, e)
         | Inr s \<Rightarrow>
             (case aws_copy aws s (CopySource client) (sc_DestinationBucket client) (sc_DestinationKey client) e of
                ((r, Some err), e') \<Rightarrow> (client\<lparr>sc_Response := r, sc_ErrorMessage := err\<rparr>, e')
              | ((r, None), e') \<Rightarrow>
                  (case aws_wait aws s (sc_DestinationBucket client) (sc_DestinationKey client) e' of
                     (None, e'') \<Rightarrow> (client\<lparr>sc_Response := r\<rparr>, e'')
                   | (Some err, e'') \<Rightarrow> (client\<lparr>sc_Response := r, sc_ErrorMessage := err\<rparr>, e''))))"

section \<open>S3Restore\<close>

record S3Restore =
  sr_access :: access
  sr_BucketName :: string
  sr_KeyName :: string
  sr_Tier :: string
  sr_Days :: int64
  sr_ErrorMessage :: string
  sr_Response :: bool
  sr_RestoreAlreadyInProgress :: bool
  sr_AlreadyInActiveTier :: bool
  sr_RequestRejectedServiceUnavailable :: bool
  sr_session :: "aws_session option"
  sr_TestURL :: string

definition NewS3Restore :: "access \<Rightarrow> string \<Rightarrow> string \<Rightarrow> string \<Rightarrow> int64 \<Rightarrow> S3Restore" where
  "NewS3Restore ac bucket key tier days =
     \<lparr>sr_access = ac, sr_BucketName = bucket, sr_KeyName = key, sr_Tier = tier, sr_Days = days, sr_ErrorMessage = [],
      sr_Response = False, sr_RestoreAlreadyInProgress = False, sr_AlreadyInActiveTier = False,
      sr_RequestRejectedServiceUnavailable = False, sr_session = None, sr_TestURL = []\<rparr>"

definition getTestSession :: "'e aws \<Rightarrow> S3Restore \<Rightarrow> S3Restore" where
  "getTestSession aws client =
     (let session = \<lparr>as_Region = ac_Region (sr_access client),
                     as_Credentials = StaticCredentials (ac_KeyId (sr_access client)) (ac_Secret (sr_access client)),
                     as_Endpoint = Some (sr_TestURL client)\<rparr>
      in if aws_new aws session then client\<lparr>sr_session := Some session\<rparr>
         else client\<lparr>sr_session := None, sr_ErrorMessage := ''AWS Session (with TestURL) returned nil''\<rparr>)"

definition Restore_GetSession :: "'e aws \<Rightarrow> S3Restore \<Rightarrow> S3Restore" where
  "Restore_GetSession aws client =
     (case sr_session client of
        Some s \<Rightarrow> client
      | None \<Rightarrow>
          if sr_TestURL client = []
          then (case GetSession aws (sr_access client) None (sr_ErrorMessage client) of
                  (s, msg) \<Rightarrow> client\<lparr>sr_session := s, sr_ErrorMessage := msg\<rparr>)
          else getTestSession aws client)"

definition isActiveTierError :: "aws_error \<Rightarrow> bool" where
  "isActiveTierError err \<longleftrightarrow> ae_code err = Some ''ObjectAlreadyInActiveTierError''"

definition isRestoreInProgressError :: "aws_error \<Rightarrow> bool" where
  "isRestoreInProgressError err \<longleftrightarrow>
     (let lcErrorMessage = ToLower (ae_text err)
      in Contains lcErrorMessage ''restorealreadyinprogress'' \<or> Contains lcErrorMessage ''conflict'' \<or>
         Contains lcErrorMessage ''status code: 409'')"

definition isServiceUnavailableError :: "aws_error \<Rightarrow> bool" where
  "isServiceUnavailableError err \<longleftrightarrow>
     (let lcErrorMessage = ToLower (ae_text err)
      in Contains lcErrorMessage ''serviceunavailable'' \<or> Contains lcErrorMessage ''status code: 503'')"

definition checkError :: "aws_error option \<Rightarrow> S3Restore \<Rightarrow> S3Restore" where
  "checkError err client =
     (case err of
        None \<Rightarrow> client
      | Some err \<Rightarrow>
          if isActiveTierError err then client\<lparr>sr_AlreadyInActiveTier := True\<rparr>
          else if isRestoreInProgressError err then client\<lparr>sr_RestoreAlreadyInProgress := True\<rparr>
          else if isServiceUnavailableError err then client\<lparr>sr_RequestRejectedServiceUnavailable := True\<rparr>
          else client\<lparr>sr_ErrorMessage := ae_text err\<rparr>)"

definition Restore :: "'e aws \<Rightarrow> S3Restore \<Rightarrow> 'e \<Rightarrow> S3Restore \<times> 'e" where
  "Restore aws client0 e =
     (let client = Restore_GetSession aws
            (client0\<lparr>sr_Response := False, sr_ErrorMessage := [], sr_RestoreAlreadyInProgress := False\<rparr>)
      in case sr_session client of
           None \<Rightarrow> (client, e)
         | Some s \<Rightarrow>
             (case aws_restore aws s (sr_BucketName client) (sr_KeyName client) (sr_Days client) (sr_Tier client) e of
                ((resp, err), e') \<Rightarrow> (checkError err (client\<lparr>sr_Response := resp\<rparr>), e')))"

definition RequestAccepted :: "S3Restore \<Rightarrow> bool" where
  "RequestAccepted client \<longleftrightarrow>
     sr_Response client \<and> sr_ErrorMessage client = [] \<and> sr_RequestRejectedServiceUnavailable client = False"

section \<open>NSQClient\<close>

record NSQClient =
  nc_URL :: string

definition NewNSQClient :: "string \<Rightarrow> NSQClient" where
  "NewNSQClient url = \<lparr>nc_URL = url\<rparr>"

text \<open>\<open>http.Post\<close> with the URL and the text: the status and the body, or an error. A response that comes
  without an error is not nil; the error of reading the body is ignored.\<close>

type_synonym 'e poster = "string \<Rightarrow> string \<Rightarrow> 'e \<Rightarrow> (go_error + (int \<times> string)) \<times> 'e"

definition EnqueueString :: "'e poster \<Rightarrow> NSQClient \<Rightarrow> string \<Rightarrow> string \<Rightarrow> 'e \<Rightarrow> go_error option \<times> 'e" where
  "EnqueueString post client topic data e =
     (let url = nc_URL client @ ''/pub?topic='' @ topic
      in case post url data e of
           (Inl err, e') \<Rightarrow> (Some (''Nsqd returned an error when queuing data: '' @ err), e')
         | (Inr (statusCode, body), e') \<Rightarrow>
             if statusCode \<noteq> 200
             then (Some (''nsqd returned status code '' @ show_int statusCode @ '' when attempting to queue data. '' @
                         ''Response body: '' @ (if body \<noteq> [] then body else ''[no response body]'')), e')
             else (None, e'))"

definition Enqueue :: "'e poster \<Rightarrow> NSQClient \<Rightarrow> string \<Rightarrow> int \<Rightarrow> 'e \<Rightarrow> go_error option \<times> 'e" where
  "Enqueue post client topic workItemId e = EnqueueString post client topic (show_int workItemId) e"

section \<open>Parts of an upload\<close>

lemma sint_small: "0 \<le> n \<Longrightarrow> n < 2 ^ 63 \<Longrightarrow> sint (word_of_int n :: int64) = n"
  by (simp add: sint_sbintrunc' signed_take_bit_int_eq_self)

lemma chunkSizeFor_sint:
  assumes "0 \<le> sint fileSize" "sint fileSize < 2 ^ 63 - 1000000"
  shows "sint (chunkSizeFor fileSize) = max (50 * 1024 * 1024) ((sint fileSize + 1000000) div 10000)"
proof -
  have n: "sint (fileSize + 1000000) = sint fileSize + 1000000"
    using assms by (simp add: sint_word_ariths signed_take_bit_int_eq_self)
  have big: "sint BIG_CHUNK_SIZE = 50 * 1024 * 1024" by (simp add: BIG_CHUNK_SIZE_def)
  have "(sint fileSize + 1000000) div 10000 < 2 ^ 63" using assms by auto
  then show ?thesis using assms by (simp add: chunkSizeFor_def n big Let_def sint_small)
qed

text \<open>C40: An upload never has more than the 10,000 parts that S3 accepts: for every size below
  \<open>2 ^ 63 - 1000000\<close> the chosen part size is at least 50 MB and 10,000 parts of it hold the file.\<close>

theorem SendWithSize_parts:
  assumes "0 \<le> sint fileSize" "sint fileSize < 2 ^ 63 - 1000000"
  shows "50 * 1024 * 1024 \<le> sint (chunkSizeFor fileSize) \<and> sint fileSize \<le> 10000 * sint (chunkSizeFor fileSize) \<and>
         SendWithSize aws rd fileSize client e = sendTo aws (Some (chunkSizeFor fileSize, 2)) rd client e"
proof -
  have "sint fileSize \<le> 10000 * ((sint fileSize + 1000000) div 10000)" by linarith
  then show ?thesis using chunkSizeFor_sint [OF assms] by (simp add: SendWithSize_def)
qed

theorem SendWithSize_parts_witness:
  "sint (5000000000000 :: int64) \<le> 10000 * sint (chunkSizeFor 5000000000000) \<and> sint (chunkSizeFor 5000000000000) = 500000100"
  using SendWithSize_parts [of 5000000000000] chunkSizeFor_sint [of 5000000000000] by simp

end
