(* ===== verification/Workers.thy ===== *)
theory Workers
  imports PharosClient Config Network VolumeService BagValidationConfig
begin

text \<open>
  \<^verbatim>\<open>src/workers/common.go\<close> and the part of \<^verbatim>\<open>src/context/context.go\<close> that the workers use. A worker is a chain
  of steps on a state; the clients it calls and the machine it runs on are the record \<open>Context\<close>, and the
  state of everything outside the worker is a \<open>machine\<close>. Log lines are left out; \<open>AddError\<close> and \<open>Errorf\<close> take
  a message as it is, which is what happens for text without a percent sign. The last section is the contract
  that the workers share: what the final step of a chain tells NSQ.
\<close>

section \<open>Context\<close>

text \<open>\<open>cx_address\<close> is how \<open>fmt\<close> prints the address of a pointer to an integer with the verb \<open>%d\<close>.\<close>

record ('e, 'b) Context =
  cx_Config :: Config
  cx_Pharos :: PharosClient
  cx_NSQ :: NSQClient
  cx_Volume :: VolumeClient
  cx_http :: "'e http"
  cx_post :: "'e poster"
  cx_volumePost :: "'e post"
  cx_volumeGet :: "'e \<Rightarrow> string \<Rightarrow> int \<Rightarrow> go_error option \<times> 'e"
  cx_os :: "'e os"
  cx_aws :: "'e aws"
  cx_bolt :: "('e, 'b) bolt_files"
  cx_digests :: digests
  cx_compile :: compiler
  cx_parseTime :: "string \<Rightarrow> go_error + time"
  cx_address :: "int option \<Rightarrow> string"

definition getenv :: "('e, 'b) Context \<Rightarrow> string \<Rightarrow> string" where
  "getenv cx name = os_getenv (cx_os cx) name"

definition diskOf :: "('e, 'b) Context \<Rightarrow> 'e machine \<Rightarrow> disk" where
  "diskOf cx m = os_disk (cx_os cx) (mc_env m)"

text \<open>\<open>storage.NewBoltDB\<close>: both results.\<close>

definition openDB :: "('e, 'b) Context \<Rightarrow> string \<Rightarrow> 'e machine \<Rightarrow> 'b option \<times> go_error option" where
  "openDB cx path m = openBoltDB (boltAt (cx_bolt cx) (mc_env m)) path"

definition dbOps :: "('e, 'b) Context \<Rightarrow> 'b bolt" where
  "dbOps cx = bs_ops (cx_bolt cx)"

definition closeDB :: "('e, 'b) Context \<Rightarrow> string \<Rightarrow> 'b \<Rightarrow> 'e machine \<Rightarrow> 'e machine" where
  "closeDB cx path db m = m\<lparr>mc_env := bs_close (cx_bolt cx) path db (mc_env m)\<rparr>"

text \<open>What is left when a function returns without closing the database.\<close>

definition leaveDB :: "('e, 'b) Context \<Rightarrow> string \<Rightarrow> 'b \<Rightarrow> 'e machine \<Rightarrow> 'e machine" where
  "leaveDB cx path db m = m\<lparr>mc_env := bs_leave (cx_bolt cx) path db (mc_env m)\<rparr>"

text \<open>The counts of items in the context. Reading the other count back is what the source does.\<close>

record counts =
  ct_succeeded :: int64
  ct_failed :: int64

definition IncrementSucceeded :: "counts \<Rightarrow> int64 \<times> counts" where
  "IncrementSucceeded c = (let c' = c\<lparr>ct_succeeded := ct_succeeded c + 1\<rparr> in (ct_succeeded c', c'))"

definition IncrementFailed :: "counts \<Rightarrow> int64 \<times> counts" where
  "IncrementFailed c = (let c' = c\<lparr>ct_failed := ct_failed c + 1\<rparr> in (ct_succeeded c', c'))"

text \<open>The keys the workers pass to the AWS clients come from the environment.\<close>

definition awsAccess :: "('e, 'b) Context \<Rightarrow> string \<Rightarrow> access" where
  "awsAccess cx region =
     \<lparr>ac_Region = region, ac_KeyId = getenv cx ''AWS_ACCESS_KEY_ID'', ac_Secret = getenv cx ''AWS_SECRET_ACCESS_KEY''\<rparr>"

section \<open>Bucket names\<close>

definition cacheInstitution :: "bucketCache \<Rightarrow> Institution \<Rightarrow> bucketCache" where
  "cacheInstitution cache inst =
     cache\<lparr>OwnerOfReceivingBucket := (OwnerOfReceivingBucket cache)(inst_ReceivingBucket inst \<mapsto> inst_Identifier inst),
           OwnerOfRestoreBucket := (OwnerOfRestoreBucket cache)(inst_RestoreBucket inst \<mapsto> inst_Identifier inst),
           RestoreBucketFor := (RestoreBucketFor cache)(inst_Identifier inst \<mapsto> inst_RestoreBucket inst)\<rparr>"

definition CacheBucketNames :: "('e, 'b) Context \<Rightarrow> 'e machine \<Rightarrow> (go_error option \<times> 'e machine) outcome" where
  "CacheBucketNames cx m =
     (let params = Values_Add ''per_page'' ''100'' (Values_Add ''page'' ''1'' [])
      in case onEnv (InstitutionList (cx_http cx) (cx_Pharos cx) (Some params)) m of (resp, m1) \<Rightarrow>
           if pr_Error resp \<noteq> None then Returns (pr_Error resp, m1)
           else and_then (map_outcome deref (Resp_Institutions resp)) (\<lambda>insts.
             Returns (None, m1\<lparr>mc_cache := foldl cacheInstitution (mc_cache m1) insts\<rparr>)))"

text \<open>The process exits when the file cannot be loaded or has errors.\<close>

definition LoadAPTrustBagValidationConfig ::
  "compiler \<Rightarrow> go_error + string \<Rightarrow> (string \<Rightarrow> BagValidationConfig \<Rightarrow> go_error + BagValidationConfig) \<Rightarrow>
     ('e, 'b) Context \<Rightarrow> BagValidationConfig option outcome" where
  "LoadAPTrustBagValidationConfig compile contents unmarshal cx =
     (case LoadBagValidationConfig compile contents unmarshal (cf_BagValidationConfigFile (cx_Config cx)) of
        (config, []) \<Rightarrow> Returns config
      | (config, _ # _) \<Rightarrow> Panics)"

section \<open>Loading the item\<close>

text \<open>The error of \<open>strconv.Atoi\<close>, for text without characters that \<open>%q\<close> escapes.\<close>

definition atoiError :: "string \<Rightarrow> string" where
  "atoiError s =
     ''strconv.Atoi: parsing '' @ [CHR 0x22] @ s @ [CHR 0x22] @
     (let body = (if s \<noteq> [] \<and> (hd s = CHR ''-'' \<or> hd s = CHR ''+'') then tl s else s)
      in if body \<noteq> [] \<and> digits_value 0 body \<noteq> None then '': value out of range'' else '': invalid syntax'')"

definition GetWorkItem :: "('e, 'b) Context \<Rightarrow> string \<Rightarrow> 'e machine \<Rightarrow> (go_error + WorkItem) \<times> 'e machine" where
  "GetWorkItem cx body m =
     (let msgBody = TrimSpace body
      in case Atoi msgBody of
           None \<Rightarrow> (Inl (''Could not get WorkItemId from NSQ message body: '' @ atoiError msgBody), m)
         | Some workItemId \<Rightarrow>
             if workItemId = 0 then (Inl (''Could not get WorkItemId from NSQ message body: <nil>''), m)
             else (case onEnv (WorkItemGet (cx_http cx) (cx_Pharos cx) workItemId) m of (resp, m1) \<Rightarrow>
               (case pr_Error resp of
                  Some err \<Rightarrow> (Inl (''Error getting WorkItem '' @ show_int workItemId @ '' from Pharos: '' @ err), m1)
                | None \<Rightarrow>
                    (case Resp_WorkItem resp of
                       None \<Rightarrow> (Inl (''Pharos returned nil for WorkItem '' @ show_int workItemId), m1)
                     | Some item \<Rightarrow> (Inr item, m1)))))"

definition InitWorkItemState :: "WorkItem \<Rightarrow> go_error + WorkItemState" where
  "InitWorkItemState workItem =
     (let ingestManifest = NewIngestManifest\<lparr>im_WorkItemId := wi_Id workItem, im_S3Bucket := wi_Bucket workItem,
            im_S3Key := wi_Name workItem, im_ETag := wi_ETag workItem\<rparr>
      in case SetStateFromIngestManifest (NewWorkItemState (wi_Id workItem) ActionIngest NoText) ingestManifest of
           (Some err, _) \<Rightarrow> Inl err
         | (None, workItemState) \<Rightarrow> Inr workItemState)"

text \<open>The status is read before the error is looked at: without an HTTP response the call panics.\<close>

definition GetWorkItemState ::
  "('e, 'b) Context \<Rightarrow> WorkItem \<Rightarrow> bool \<Rightarrow> 'e machine \<Rightarrow> ((go_error + WorkItemState) \<times> 'e machine) outcome" where
  "GetWorkItemState cx workItem initIfEmpty m =
     (let workItemStateId = (case wi_WorkItemStateId workItem of None \<Rightarrow> 0 | Some i \<Rightarrow> i)
      in case onEnv (WorkItemStateGet (cx_http cx) (cx_Pharos cx) workItemStateId) m of (resp, m1) \<Rightarrow>
           and_then (statusOf resp) (\<lambda>code.
             if code = 404
             then Returns (if initIfEmpty then InitWorkItemState workItem
                           else Inl (''HTTP 404. Pharos has no WorkItemState with WorkItemState id '' @
                                     cx_address cx (wi_WorkItemStateId workItem)), m1)
             else (case pr_Error resp of
                     Some err \<Rightarrow> Returns (Inl (''Error getting WorkItemState for WorkItem '' @ show_int (wi_Id workItem) @
                                               '' from Pharos: '' @ err), m1)
                   | None \<Rightarrow>
                       (case Resp_WorkItemState resp of
                          None \<Rightarrow> Returns (Inl (''Pharos returned nil for WorkItemState with WorkItemState id '' @
                                                cx_address cx (wi_WorkItemStateId workItem)), m1)
                        | Some state \<Rightarrow> Returns (Inr state, m1)))))"

text \<open>A manifest decoded from another document has nil results and is replaced by a new one, which is what
  \<open>State_IngestManifest\<close> gives for it.\<close>

definition GetIngestState ::
  "('e, 'b) Context \<Rightarrow> string \<Rightarrow> nsq_message \<Rightarrow> bool \<Rightarrow> 'e machine \<Rightarrow> ((go_error + IngestState) \<times> 'e machine) outcome" where
  "GetIngestState cx body message initIfEmpty m =
     (case GetWorkItem cx body m of
        (Inl err, m1) \<Rightarrow> Returns (Inl err, m1)
      | (Inr workItem, m1) \<Rightarrow>
          and_then (GetWorkItemState cx workItem initIfEmpty m1) (\<lambda>(found, m2).
            case found of
              Inl err \<Rightarrow> Returns (Inl err, m2)
            | Inr workItemState \<Rightarrow>
                (let expectingEmptyManifest = (wis_Id workItemState = 0 \<and> \<not> initIfEmpty)
                 in case State_IngestManifest workItemState of (ingestManifest, err) \<Rightarrow>
                   if err \<noteq> None \<and> \<not> expectingEmptyManifest then Returns (Inl (the err), m2)
                   else if wis_Id workItemState = 0 \<and> \<not> initIfEmpty
                   then Returns (Inl ''IngestState is missing IntellectualObject.'', m2)
                   else and_then (deref ingestManifest) (\<lambda>manifest.
                     Returns (Inr \<lparr>is_NSQMessage = message, is_WorkItem = workItem,
                                   is_WorkItemState = Some (workItemState\<lparr>wis_State := NoText\<rparr>),
                                   is_IngestManifest = manifest\<rparr>, m2)))))"

definition valdbPath :: "string \<Rightarrow> string" where
  "valdbPath path = (if HasSuffix path ''.tar'' then take (length path - 4) path @ ''.valdb'' else path)"

definition SetupIngestState ::
  "('e, 'b) Context \<Rightarrow> string \<Rightarrow> nsq_message \<Rightarrow> 'e machine \<Rightarrow> (go_error + IngestState) \<times> 'e machine" where
  "SetupIngestState cx body message m =
     (case GetWorkItem cx body m of
        (Inl err, m1) \<Rightarrow> (Inl err, m1)
      | (Inr workItem, m1) \<Rightarrow>
          (let instIdentifier = OwnerOf (mc_cache m1) (wi_Bucket workItem);
               bagPath = JoinPath [cf_TarDirectory (cx_Config cx), instIdentifier, wi_Name workItem];
               manifest = NewIngestManifest\<lparr>im_WorkItemId := wi_Id workItem, im_S3Bucket := wi_Bucket workItem,
                 im_S3Key := wi_Name workItem, im_ETag := wi_ETag workItem, im_BagPath := bagPath,
                 im_DBPath := valdbPath bagPath\<rparr>
           in (Inr \<lparr>is_NSQMessage = message, is_WorkItem = workItem,
                    is_WorkItemState = Some (NewWorkItemState (wi_Id workItem) (wi_Action workItem) NoText),
                    is_IngestManifest = manifest\<rparr>, m1)))"

section \<open>Recording\<close>

text \<open>The summary of a manifest that the caller passes on: a pointer to one of its fields.\<close>

datatype active_result = FetchResult | StoreResult | RecordResult

fun addResultError :: "active_result \<Rightarrow> string \<Rightarrow> IngestManifest \<Rightarrow> IngestManifest" where
  "addResultError FetchResult msg manifest = manifest\<lparr>im_FetchResult := AddError (im_FetchResult manifest) msg\<rparr>"
| "addResultError StoreResult msg manifest = manifest\<lparr>im_StoreResult := AddError (im_StoreResult manifest) msg\<rparr>"
| "addResultError RecordResult msg manifest = manifest\<lparr>im_RecordResult := AddError (im_RecordResult manifest) msg\<rparr>"

definition onManifest :: "(IngestManifest \<Rightarrow> IngestManifest) \<Rightarrow> IngestState \<Rightarrow> IngestState" where
  "onManifest f ingestState = ingestState\<lparr>is_IngestManifest := f (is_IngestManifest ingestState)\<rparr>"

definition notSerialized :: "go_error \<Rightarrow> string" where
  "notSerialized err =
     ''Could not convert Ingest Manifest to JSON. This item will have to be re-processed. Error was: '' @ err"

definition notSaved :: "go_error \<Rightarrow> string" where
  "notSaved err = ''Could not save WorkItemState to Pharos. This item will have to be re-processed. Error was: '' @ err"

definition RecordWorkItemState ::
  "('e, 'b) Context \<Rightarrow> active_result \<Rightarrow> IngestState \<Rightarrow> 'e machine \<Rightarrow> (IngestState \<times> 'e machine) outcome" where
  "RecordWorkItemState cx activeResult ingestState m =
     and_then (deref (is_WorkItemState ingestState)) (\<lambda>workItemState0.
       case SetStateFromIngestManifest workItemState0 (is_IngestManifest ingestState) of
         (Some err, workItemState) \<Rightarrow>
           Returns (onManifest (addResultError activeResult (notSerialized err))
                      (ingestState\<lparr>is_WorkItemState := Some (workItemState\<lparr>wis_State := NoText\<rparr>)\<rparr>), m)
       | (None, workItemState) \<Rightarrow>
           (case onEnv (WorkItemStateSave (cx_http cx) (cx_Pharos cx) workItemState) m of (resp, m1) \<Rightarrow>
              (case pr_Error resp of
                 Some err \<Rightarrow>
                   Returns (onManifest (addResultError activeResult (notSaved err))
                      (ingestState\<lparr>is_WorkItemState := Some (workItemState\<lparr>wis_State := NoText\<rparr>)\<rparr>), m1)
               | None \<Rightarrow>
                   and_then (deref (Resp_WorkItemState resp)) (\<lambda>saved.
                     Returns (ingestState\<lparr>is_WorkItemState := Some (saved\<lparr>wis_State := NoText\<rparr>)\<rparr>, m1)))))"

text \<open>The end of the \<open>MarkWorkItem\<close> functions: save the item and keep what Pharos returns, which is an
  item when there is no error (\<open>call_present\<close>).\<close>

definition saveWorkItem ::
  "('e, 'b) Context \<Rightarrow> IngestState \<Rightarrow> 'e machine \<Rightarrow> go_error option \<times> IngestState \<times> 'e machine" where
  "saveWorkItem cx ingestState m =
     (case onEnv (WorkItemSave (cx_http cx) (cx_Pharos cx) (is_WorkItem ingestState)) m of (resp, m1) \<Rightarrow>
        if pr_Error resp \<noteq> None then (pr_Error resp, ingestState, m1)
        else (None, ingestState\<lparr>is_WorkItem := the (Resp_WorkItem resp)\<rparr>, m1))"

definition onItem :: "(WorkItem \<Rightarrow> WorkItem) \<Rightarrow> IngestState \<Rightarrow> IngestState" where
  "onItem f ingestState = ingestState\<lparr>is_WorkItem := f (is_WorkItem ingestState)\<rparr>"

definition failedItem :: "time \<Rightarrow> string \<Rightarrow> WorkItem \<Rightarrow> WorkItem" where
  "failedItem now errors item =
     item\<lparr>wi_Date := now, wi_Node := [], wi_Pid := 0, wi_StageStartedAt := None, wi_Retry := False,
          wi_NeedsAdminReview := True, wi_Status := StatusFailed, wi_Note := ''Processing failed. '' @ errors\<rparr>"

definition MarkWorkItemFailed ::
  "('e, 'b) Context \<Rightarrow> IngestState \<Rightarrow> 'e machine \<Rightarrow> go_error option \<times> IngestState \<times> 'e machine" where
  "MarkWorkItemFailed cx ingestState m =
     (case nowUTC m of (now, m1) \<Rightarrow>
        saveWorkItem cx (onItem (failedItem now (Manifest_AllErrorsAsString (is_IngestManifest ingestState))) ingestState) m1)"

definition cancelledItem :: "time \<Rightarrow> string \<Rightarrow> WorkItem \<Rightarrow> WorkItem" where
  "cancelledItem now errors item =
     item\<lparr>wi_Date := now, wi_Node := [], wi_Pid := 0, wi_StageStartedAt := None, wi_Retry := False,
          wi_NeedsAdminReview := False, wi_Status := StatusCancelled, wi_Note := errors\<rparr>"

definition MarkWorkItemCancelled ::
  "('e, 'b) Context \<Rightarrow> IngestState \<Rightarrow> 'e machine \<Rightarrow> go_error option \<times> IngestState \<times> 'e machine" where
  "MarkWorkItemCancelled cx ingestState m =
     (case nowUTC m of (now, m1) \<Rightarrow>
        saveWorkItem cx (onItem (cancelledItem now (Manifest_AllErrorsAsString (is_IngestManifest ingestState))) ingestState) m1)"

definition requeuedItem :: "time \<Rightarrow> string \<Rightarrow> WorkItem \<Rightarrow> WorkItem" where
  "requeuedItem now errors item =
     item\<lparr>wi_Date := now, wi_Node := [], wi_Pid := 0, wi_StageStartedAt := None, wi_Retry := True,
          wi_NeedsAdminReview := False, wi_Status := StatusStarted,
          wi_Note := ''Item has been requeued due to transient errors. '' @ errors\<rparr>"

definition MarkWorkItemRequeued ::
  "('e, 'b) Context \<Rightarrow> IngestState \<Rightarrow> 'e machine \<Rightarrow> go_error option \<times> IngestState \<times> 'e machine" where
  "MarkWorkItemRequeued cx ingestState m =
     (case nowUTC m of (now, m1) \<Rightarrow>
        saveWorkItem cx (onItem (requeuedItem now (Manifest_AllErrorsAsString (is_IngestManifest ingestState))) ingestState) m1)"

definition startedItem :: "('e, 'b) Context \<Rightarrow> time \<Rightarrow> string \<Rightarrow> string \<Rightarrow> WorkItem \<Rightarrow> WorkItem" where
  "startedItem cx now stage message item =
     (SetNodeAndPid (os_host (cx_os cx)) (os_pid (cx_os cx)) item)
       \<lparr>wi_Date := now, wi_Stage := stage, wi_StageStartedAt := Some now, wi_Status := StatusStarted, wi_Note := message\<rparr>"

definition MarkWorkItemStarted ::
  "('e, 'b) Context \<Rightarrow> string \<Rightarrow> string \<Rightarrow> IngestState \<Rightarrow> 'e machine \<Rightarrow> (go_error option \<times> IngestState \<times> 'e machine) outcome" where
  "MarkWorkItemStarted cx stage message ingestState m =
     (case nowUTC m of (now, m1) \<Rightarrow>
        (case saveWorkItem cx (onItem (startedItem cx now stage message) ingestState) m1 of
           (Some err, st, m2) \<Rightarrow> Returns (Some err, st, m2)
         | (None, st, m2) \<Rightarrow>
             and_then (RecordWorkItemState cx FetchResult st m2) (\<lambda>(st', m3). Returns (None, st', m3))))"

definition succeededItem :: "time \<Rightarrow> string \<Rightarrow> WorkItem \<Rightarrow> WorkItem" where
  "succeededItem now nextStage item =
     item\<lparr>wi_Note := (if nextStage = StageCleanup then ''Item was successfully ingested'' else ''Item is ready for '' @ nextStage),
          wi_Date := now, wi_Node := [], wi_Pid := 0, wi_Retry := True, wi_StageStartedAt := None,
          wi_NeedsAdminReview := False, wi_Stage := nextStage,
          wi_Status := (if nextStage = StageCleanup then StatusSuccess else StatusPending)\<rparr>"

definition MarkWorkItemSucceeded ::
  "('e, 'b) Context \<Rightarrow> string \<Rightarrow> IngestState \<Rightarrow> 'e machine \<Rightarrow> go_error option \<times> IngestState \<times> 'e machine" where
  "MarkWorkItemSucceeded cx nextStage ingestState m =
     (case nowUTC m of (now, m1) \<Rightarrow> saveWorkItem cx (onItem (succeededItem now nextStage) ingestState) m1)"

definition PushToQueue ::
  "('e, 'b) Context \<Rightarrow> string \<Rightarrow> IngestState \<Rightarrow> 'e machine \<Rightarrow> (IngestState \<times> 'e machine) outcome" where
  "PushToQueue cx queueTopic ingestState m =
     (case onEnv (Enqueue (cx_post cx) (cx_NSQ cx) queueTopic (wi_Id (is_WorkItem ingestState))) m of
        (None, m1) \<Rightarrow> Returns (ingestState, m1)
      | (Some err, m1) \<Rightarrow>
          (let item = is_WorkItem ingestState;
               msg = ''Error adding WorkItem '' @ show_int (wi_Id item) @ '' ('' @ wi_Bucket item @ ''/'' @ wi_Name item @
                     '') to NSQ record topic: '' @ err
           in RecordWorkItemState cx FetchResult (onManifest (addResultError FetchResult msg) ingestState) m1))"

text \<open>How the steps open a result: \<open>Start\<close>, \<open>Attempted = true\<close>, \<open>AttemptNumber += 1\<close>.\<close>

definition startAttempt :: "time \<Rightarrow> WorkSummary \<Rightarrow> WorkSummary" where
  "startAttempt t summary =
     (Start t summary)\<lparr>ws_Attempted := True, ws_AttemptNumber := ws_AttemptNumber summary + 1\<rparr>"

text \<open>The last step of a worker sorts an item by its errors.\<close>

datatype disposition = ItemCancelled | ItemFailed | ItemRequeued | ItemSucceeded

text \<open>The branches the workers have in common; \<open>succeed\<close> is the branch for an item without errors.\<close>

definition settle ::
  "('e, 'b) Context \<Rightarrow> disposition \<Rightarrow> int \<Rightarrow> (IngestState \<Rightarrow> 'e machine \<Rightarrow> (IngestState \<times> 'e machine) outcome) \<Rightarrow>
     IngestState \<Rightarrow> 'e machine \<Rightarrow> (IngestState \<times> 'e machine) outcome" where
  "settle cx d timeout succeed st m =
     (case d of
        ItemCancelled \<Rightarrow> Returns (snd (MarkWorkItemCancelled cx (FinishNSQ st) m))
      | ItemFailed \<Rightarrow> Returns (snd (MarkWorkItemFailed cx (FinishNSQ st) m))
      | ItemRequeued \<Rightarrow> Returns (snd (MarkWorkItemRequeued cx (RequeueNSQ timeout st) m))
      | ItemSucceeded \<Rightarrow> succeed st m)"

definition answerFor :: "disposition \<Rightarrow> int \<Rightarrow> nsq_command" where
  "answerFor d timeout = (case d of ItemRequeued \<Rightarrow> NsqRequeue timeout | _ \<Rightarrow> NsqFinish)"

definition timeToGiveUp :: "uint16 \<Rightarrow> uint16 \<Rightarrow> IngestManifest \<Rightarrow> bool" where
  "timeToGiveUp attemptNumber maxAttempts manifest \<longleftrightarrow>
     Manifest_HasFatalErrors manifest \<or> (Manifest_HasErrors manifest \<and> maxAttempts \<le> attemptNumber)"

definition DisableAutoResponse :: "IngestState \<Rightarrow> IngestState" where
  "DisableAutoResponse st = st\<lparr>is_NSQMessage := nsqSend NsqDisableAutoResponse (is_NSQMessage st)\<rparr>"

section \<open>Cleaning up\<close>

definition releaseSpace :: "('e, 'b) Context \<Rightarrow> string \<Rightarrow> 'e machine \<Rightarrow> go_error option \<times> 'e machine" where
  "releaseSpace cx path m = onEnv (\<lambda>e. Client_Release (cx_volumePost cx) (cx_Volume cx) e path) m"

definition DeleteFileFromStaging :: "('e, 'b) Context \<Rightarrow> string \<Rightarrow> 'e machine \<Rightarrow> 'e machine" where
  "DeleteFileFromStaging cx pathToFile m =
     (if pathToFile = [] then m
      else if \<not> FileExists (diskOf cx m) pathToFile then m
      else if LooksSafeToDelete pathToFile 12 3
      then (let m1 = snd (onEnv (os_remove (cx_os cx) pathToFile) m)
            in if cf_UseVolumeService (cx_Config cx) \<and> HasSuffix pathToFile ''.tar''
               then snd (releaseSpace cx pathToFile m1) else m1)
      else m)"

section \<open>What the steps keep\<close>

lemma saveWorkItem_frame [simp]:
  "is_NSQMessage (fst (snd (saveWorkItem cx st m))) = is_NSQMessage st"
  "is_IngestManifest (fst (snd (saveWorkItem cx st m))) = is_IngestManifest st"
  "is_WorkItemState (fst (snd (saveWorkItem cx st m))) = is_WorkItemState st"
  by (simp_all add: saveWorkItem_def split_beta)

lemma onItem_frame [simp]:
  "is_NSQMessage (onItem f st) = is_NSQMessage st" "is_IngestManifest (onItem f st) = is_IngestManifest st"
  "is_WorkItemState (onItem f st) = is_WorkItemState st" "is_WorkItem (onItem f st) = f (is_WorkItem st)"
  by (simp_all add: onItem_def)

lemma onManifest_frame [simp]:
  "is_NSQMessage (onManifest f st) = is_NSQMessage st" "is_WorkItem (onManifest f st) = is_WorkItem st"
  "is_WorkItemState (onManifest f st) = is_WorkItemState st"
  "is_IngestManifest (onManifest f st) = f (is_IngestManifest st)"
  by (simp_all add: onManifest_def)

lemma MarkWorkItem_frame [simp]:
  "is_NSQMessage (fst (snd (MarkWorkItemFailed cx st m))) = is_NSQMessage st"
  "is_NSQMessage (fst (snd (MarkWorkItemCancelled cx st m))) = is_NSQMessage st"
  "is_NSQMessage (fst (snd (MarkWorkItemRequeued cx st m))) = is_NSQMessage st"
  "is_NSQMessage (fst (snd (MarkWorkItemSucceeded cx stage st m))) = is_NSQMessage st"
  "is_IngestManifest (fst (snd (MarkWorkItemFailed cx st m))) = is_IngestManifest st"
  "is_IngestManifest (fst (snd (MarkWorkItemCancelled cx st m))) = is_IngestManifest st"
  "is_IngestManifest (fst (snd (MarkWorkItemRequeued cx st m))) = is_IngestManifest st"
  "is_IngestManifest (fst (snd (MarkWorkItemSucceeded cx stage st m))) = is_IngestManifest st"
  "is_WorkItemState (fst (snd (MarkWorkItemFailed cx st m))) = is_WorkItemState st"
  "is_WorkItemState (fst (snd (MarkWorkItemCancelled cx st m))) = is_WorkItemState st"
  "is_WorkItemState (fst (snd (MarkWorkItemRequeued cx st m))) = is_WorkItemState st"
  "is_WorkItemState (fst (snd (MarkWorkItemSucceeded cx stage st m))) = is_WorkItemState st"
  by (simp_all add: MarkWorkItemFailed_def MarkWorkItemCancelled_def MarkWorkItemRequeued_def
      MarkWorkItemSucceeded_def split_beta)

text \<open>With a state to record, recording returns, whatever the registry answers; the only trace is an error
  in the active result.\<close>

lemma RecordWorkItemState_returns:
  assumes "is_WorkItemState st = Some s"
  obtains f s' m' where "RecordWorkItemState cx r st m = Returns (onManifest f (st\<lparr>is_WorkItemState := Some s'\<rparr>), m')"
    and "wis_State s' = NoText" "f = id \<or> (\<exists>msg. f = addResultError r msg)"
    and "mc_world m' = mc_world m" "mc_cache m' = mc_cache m"
proof (cases "SetStateFromIngestManifest s (is_IngestManifest st)")
  case (Pair err s1)
  show ?thesis
  proof (cases err)
    case (Some msg)
    with Pair assms show ?thesis by (intro that) (auto simp: RecordWorkItemState_def)
  next
    case None
    define r1 where "r1 = fst (onEnv (WorkItemStateSave (cx_http cx) (cx_Pharos cx) s1) m)"
    define m1 where "m1 = snd (onEnv (WorkItemStateSave (cx_http cx) (cx_Pharos cx) s1) m)"
    have w: "mc_world m1 = mc_world m" "mc_cache m1 = mc_cache m" by (simp_all add: m1_def)
    have call: "onEnv (WorkItemStateSave (cx_http cx) (cx_Pharos cx) s1) m = (r1, m1)" by (simp add: r1_def m1_def)
    show ?thesis
    proof (cases "pr_Error r1")
      case (Some msg)
      with Pair None call w assms show ?thesis
        by (intro that [of "addResultError r (notSaved msg)" "s1\<lparr>wis_State := NoText\<rparr>" m1])
          (auto simp: RecordWorkItemState_def)
    next
      case ok: None
      have "r1 = fst (WorkItemStateSave (cx_http cx) (cx_Pharos cx) s1 (mc_env m))"
        by (simp add: r1_def onEnv_def split_beta)
      with ok have "Resp_WorkItemState r1 \<noteq> None" using call_present(3) by metis
      then obtain s2 where "Resp_WorkItemState r1 = Some s2" by blast
      with ok Pair None call w assms show ?thesis
        by (intro that [of id "s2\<lparr>wis_State := NoText\<rparr>" m1]) (auto simp: RecordWorkItemState_def onManifest_def)
    qed
  qed
qed

lemma RecordWorkItemState_Panics: "is_WorkItemState st = None \<Longrightarrow> RecordWorkItemState cx r st m = Panics"
  by (simp add: RecordWorkItemState_def)

lemma RecordWorkItemState_frame:
  assumes "RecordWorkItemState cx r st m = Returns (st', m')"
  shows "is_NSQMessage st' = is_NSQMessage st" "is_WorkItem st' = is_WorkItem st" "is_WorkItemState st' \<noteq> None"
proof -
  from assms obtain s where "is_WorkItemState st = Some s"
    using RecordWorkItemState_Panics [of st cx r m] by (cases "is_WorkItemState st") auto
  from RecordWorkItemState_returns [OF this, of cx r m] obtain f s' where
    "RecordWorkItemState cx r st m = Returns (onManifest f (st\<lparr>is_WorkItemState := Some s'\<rparr>), m')"
    using assms by (metis outcome.inject prod.inject)
  with assms have "st' = onManifest f (st\<lparr>is_WorkItemState := Some s'\<rparr>)" by simp
  then show "is_NSQMessage st' = is_NSQMessage st" "is_WorkItem st' = is_WorkItem st" "is_WorkItemState st' \<noteq> None"
    by simp_all
qed

lemma PushToQueue_frame:
  assumes "PushToQueue cx topic st m = Returns (st', m')"
  shows "is_NSQMessage st' = is_NSQMessage st" "is_WorkItem st' = is_WorkItem st"
proof -
  obtain r m1 where call: "onEnv (Enqueue (cx_post cx) (cx_NSQ cx) topic (wi_Id (is_WorkItem st))) m = (r, m1)"
    by (metis prod.collapse)
  then show "is_NSQMessage st' = is_NSQMessage st" "is_WorkItem st' = is_WorkItem st"
    using assms by (cases r; auto simp: PushToQueue_def Let_def dest: RecordWorkItemState_frame)+
qed

lemma PushToQueue_returns:
  assumes "is_WorkItemState st = Some s"
  obtains st' m' where "PushToQueue cx topic st m = Returns (st', m')" "is_WorkItemState st' \<noteq> None"
proof -
  obtain r m1 where call: "onEnv (Enqueue (cx_post cx) (cx_NSQ cx) topic (wi_Id (is_WorkItem st))) m = (r, m1)"
    by (metis prod.collapse)
  show ?thesis
  proof (cases r)
    case None
    with call assms show ?thesis by (intro that [of st m1]) (simp_all add: PushToQueue_def)
  next
    case (Some err)
    then obtain msg where "PushToQueue cx topic st m =
        RecordWorkItemState cx FetchResult (onManifest (addResultError FetchResult msg) st) m1"
      using call by (simp add: PushToQueue_def Let_def)
    moreover have "is_WorkItemState (onManifest (addResultError FetchResult msg) st) = Some s" using assms by simp
    from RecordWorkItemState_returns [OF this, of cx FetchResult m1]
    obtain f s' m' where "RecordWorkItemState cx FetchResult (onManifest (addResultError FetchResult msg) st) m1 =
        Returns (onManifest f ((onManifest (addResultError FetchResult msg) st)\<lparr>is_WorkItemState := Some s'\<rparr>), m')"
      by blast
    ultimately show ?thesis by (intro that) auto
  qed
qed

section \<open>Answering NSQ\<close>

lemma nsq_sends [simp]:
  "is_NSQMessage (FinishNSQ st) = nsqSend NsqFinish (is_NSQMessage st)"
  "is_NSQMessage (RequeueNSQ n st) = nsqSend (NsqRequeue n) (is_NSQMessage st)"
  "is_IngestManifest (FinishNSQ st) = is_IngestManifest st" "is_IngestManifest (RequeueNSQ n st) = is_IngestManifest st"
  "is_WorkItemState (FinishNSQ st) = is_WorkItemState st" "is_WorkItemState (RequeueNSQ n st) = is_WorkItemState st"
  "is_IngestManifest (TouchNSQ st) = is_IngestManifest st" "is_WorkItem (TouchNSQ st) = is_WorkItem st"
  "is_WorkItemState (TouchNSQ st) = is_WorkItemState st"
  "is_WorkItem (FinishNSQ st) = is_WorkItem st" "is_WorkItem (RequeueNSQ n st) = is_WorkItem st"
  by (simp_all add: FinishNSQ_def RequeueNSQ_def TouchNSQ_def)

lemma settle_sends:
  assumes "settle cx d timeout succeed st m = Returns (st', m')"
    and "\<And>st' m'. succeed st m = Returns (st', m') \<Longrightarrow> is_NSQMessage st' = nsqSend NsqFinish (is_NSQMessage st)"
  shows "is_NSQMessage st' = nsqSend (answerFor d timeout) (is_NSQMessage st)"
proof (cases d)
  case ItemCancelled
  with assms(1) have "(st', m') = snd (MarkWorkItemCancelled cx (FinishNSQ st) m)" by (simp add: settle_def)
  then have "st' = fst (snd (MarkWorkItemCancelled cx (FinishNSQ st) m))" by (metis fst_conv)
  with ItemCancelled show ?thesis by (simp add: answerFor_def)
next
  case ItemFailed
  with assms(1) have "(st', m') = snd (MarkWorkItemFailed cx (FinishNSQ st) m)" by (simp add: settle_def)
  then have "st' = fst (snd (MarkWorkItemFailed cx (FinishNSQ st) m))" by (metis fst_conv)
  with ItemFailed show ?thesis by (simp add: answerFor_def)
next
  case ItemRequeued
  with assms(1) have "(st', m') = snd (MarkWorkItemRequeued cx (RequeueNSQ timeout st) m)" by (simp add: settle_def)
  then have "st' = fst (snd (MarkWorkItemRequeued cx (RequeueNSQ timeout st) m))" by (metis fst_conv)
  with ItemRequeued show ?thesis by (simp add: answerFor_def)
next
  case ItemSucceeded
  with assms show ?thesis by (simp add: settle_def answerFor_def)
qed

fun isAnswer :: "nsq_command \<Rightarrow> bool" where
  "isAnswer NsqFinish = True"
| "isAnswer (NsqRequeue n) = True"
| "isAnswer NsqTouch = False"
| "isAnswer NsqDisableAutoResponse = False"

lemma answerFor_answers [simp]: "isAnswer (answerFor d timeout)"
  by (cases d) (simp_all add: answerFor_def)

text \<open>The contract of the last step of a worker: it sends the verdict, and nothing else.\<close>

locale last_step =
  fixes step :: "'s \<Rightarrow> 'm \<Rightarrow> ('s \<times> 'm) outcome"
    and handle :: "'s \<Rightarrow> nsq_message"
    and verdict :: "'s \<Rightarrow> nsq_command"
  assumes verdict_answers: "isAnswer (verdict s)"
    and step_sends: "step s m = Returns (s', m') \<Longrightarrow> handle s' = nsqSend (verdict s) (handle s)"
begin

lemma one_answer:
  assumes "step s m = Returns (s', m')" "handle s = Some cs" "\<not> list_ex isAnswer cs"
  shows "\<exists>cs'. handle s' = Some cs' \<and> filter isAnswer cs' = [verdict s] \<and> last cs' = verdict s"
proof -
  have "filter isAnswer cs = []" using assms(3) by (simp add: filter_empty_conv list_ex_iff)
  then show ?thesis using step_sends [OF assms(1)] assms(2) verdict_answers [of s] by (simp add: nsqSend_def)
qed

end

section \<open>A registry that cannot be reached\<close>

lemma statusOf_Panics_iff: "statusOf resp = Panics \<longleftrightarrow> pr_Response resp = None"
  by (cases "pr_Response resp") (simp_all add: statusOf_def)

lemma keepState_response [simp]: "pr_Response (keepState r) = pr_Response r"
  by (simp add: keepState_def split: sum.split)

lemma DoRequest_response:
  "NewJsonRequest http client method url body = Inr rq \<Longrightarrow> \<not> pr_hasBeenRead resp \<Longrightarrow>
     pr_Response (fst (DoRequest http client resp method url body e)) =
       (case fst (http_do http rq e) of Inl (err, r) \<Rightarrow> r | Inr r \<Rightarrow> Some r)"
  by (auto simp: DoRequest_def readResponse_def RawResponseData_def Let_def split: prod.split sum.split)

text \<open>C10: A worker that loads the state of an item while the registry cannot be reached crashes: \<open>GetWorkItemState\<close>
  panics exactly when the exchange gave no HTTP response, although the client reports the error, because it
  reads the status of the response first.\<close>

theorem GetWorkItemState_panics_iff:
  assumes "NewJsonRequest (cx_http cx) (cx_Pharos cx) ''GET''
     (api (cx_Pharos cx) (''/item_state/'' @ show_int (case wi_WorkItemStateId item of None \<Rightarrow> 0 | Some i \<Rightarrow> i) @ ''/'')) None = Inr rq"
  shows "GetWorkItemState cx item initIfEmpty m = Panics \<longleftrightarrow>
     (\<exists>err. fst (http_do (cx_http cx) rq (mc_env m)) = Inl (err, None))"
proof -
  define i where "i = (case wi_WorkItemStateId item of None \<Rightarrow> 0 | Some i \<Rightarrow> i)"
  define r where "r = fst (WorkItemStateGet (cx_http cx) (cx_Pharos cx) i (mc_env m))"
  define m1 where "m1 = m\<lparr>mc_env := snd (WorkItemStateGet (cx_http cx) (cx_Pharos cx) i (mc_env m))\<rparr>"
  have call: "onEnv (WorkItemStateGet (cx_http cx) (cx_Pharos cx) i) m = (r, m1)"
    by (simp add: onEnv_def r_def m1_def split_beta)
  have "pr_Response r = (case fst (http_do (cx_http cx) rq (mc_env m)) of Inl (err, r) \<Rightarrow> r | Inr r \<Rightarrow> Some r)"
    using DoRequest_response [OF assms, of "(NewPharosResponse PharosWorkItemState)\<lparr>pr_workItemStates := Some [None]\<rparr>"]
    by (simp add: r_def i_def WorkItemStateGet_def NewPharosResponse_def)
  then have none: "pr_Response r = None \<longleftrightarrow> (\<exists>err. fst (http_do (cx_http cx) rq (mc_env m)) = Inl (err, None))"
    by (simp split: sum.split prod.split)
  have "GetWorkItemState cx item initIfEmpty m = Panics \<longleftrightarrow> pr_Response r = None"
  proof (cases "statusOf r")
    case Panics
    then have "pr_Response r = None" using statusOf_Panics_iff [of r] by simp
    with Panics show ?thesis by (simp add: GetWorkItemState_def Let_def call flip: i_def)
  next
    case (Returns code)
    then have "pr_Response r \<noteq> None" using statusOf_Panics_iff [of r] by auto
    with Returns show ?thesis
      by (cases "pr_Error r"; cases "Resp_WorkItemState r") (simp_all add: GetWorkItemState_def Let_def call flip: i_def)
  qed
  then show ?thesis using none by (rule trans)
qed

section \<open>Examples\<close>

text \<open>A machine with no files on which every call succeeds, an S3 that is down, a store in memory.\<close>

definition exampleOS :: "disk \<Rightarrow> 'e os" where
  "exampleOS disk =
     \<lparr>os_disk = (\<lambda>_. disk), os_getenv = (\<lambda>_. []), os_cwd = Inr ''/'', os_home = Inr ''/home'', os_host = Inr ''node'',
      os_pid = 7, os_mkdirAll = (\<lambda>_ e. (None, e)), os_create = (\<lambda>_ e. (None, e)),
      os_write = (\<lambda>_ rd e. ((of_nat (length (rd_data rd)), rd_err rd), e)), os_remove = (\<lambda>_ e. (None, e)),
      os_removeAll = (\<lambda>_ e. (None, e))\<rparr>"

definition noFiles :: disk where
  "noFiles = \<lparr>fs_stat = (\<lambda>_. Inl (NotExist ''no such file'')), fs_open = (\<lambda>_. Inl ''no such file''), fs_walk = (\<lambda>_. []),
     fs_tar = (\<lambda>_. Inl ''no such file'')\<rparr>"

definition downAWS :: "'e aws" where
  "downAWS =
     \<lparr>aws_new = (\<lambda>_. True), aws_head = (\<lambda>_ _ _ e. (Inl ''down'', e)), aws_get = (\<lambda>_ _ _ e. (Inl ''down'', e)),
      aws_upload = (\<lambda>_ _ _ _ e. ((None, Some ''down''), e)),
      aws_list = (\<lambda>_ _ e. ((Some \<lparr>lo_Contents = [], lo_IsTruncated = None, lo_NextMarker = None\<rparr>, None), e)),
      aws_delete = (\<lambda>_ _ _ e. ((Some [], None), e)), aws_copy = (\<lambda>_ _ _ _ e. ((False, Some ''down''), e)),
      aws_wait = (\<lambda>_ _ _ e. (None, e)), aws_restore = (\<lambda>_ _ _ _ _ e. ((False, None), e))\<rparr>"

definition exampleContext :: "'e http \<Rightarrow> disk \<Rightarrow> memory \<Rightarrow> ('e, memory) Context" where
  "exampleContext http disk db =
     \<lparr>cx_Config = zeroConfig, cx_Pharos = exampleClient, cx_NSQ = NewNSQClient ''http://nsqd'',
      cx_Volume = NewVolumeClient 8188, cx_http = http, cx_post = (\<lambda>_ _ e. (Inr (200, ''OK''), e)),
      cx_volumePost = (\<lambda>e _ _. (Inr (emptyResponse\<lparr>vr_Succeeded := True\<rparr>), e)), cx_volumeGet = (\<lambda>e _ _. (None, e)),
      cx_os = exampleOS disk, cx_aws = downAWS,
      cx_bolt = \<lparr>bs_ops = memBolt, bs_open = (\<lambda>_ _. Inr db), bs_close = (\<lambda>_ _ e. e), bs_leave = (\<lambda>_ _ e. e)\<rparr>,
      cx_digests = \<lparr>dg_md5 = (\<lambda>s. ''m'' @ s), dg_sha256 = (\<lambda>s. ''s'' @ s)\<rparr>,
      cx_compile = (\<lambda>_. Inl ''not supported''), cx_parseTime = (\<lambda>_. Inl ''not a date''), cx_address = (\<lambda>_. ''0'')\<rparr>"

definition exampleMachine :: "'e \<Rightarrow> 'e machine" where
  "exampleMachine e = \<lparr>mc_world = \<lparr>uuids = show_nat, clock = (\<lambda>n. int n + 1), tick = 0\<rparr>, mc_cache = emptyCache, mc_env = e\<rparr>"

lemma exampleMachine_runs [simp]: "clockRuns (exampleMachine e)"
  by (simp add: exampleMachine_def clockRuns_def zeroTime_def)

definition refused :: "unit http" where
  "refused =
     \<lparr>http_parse = (\<lambda>u. Inr \<lparr>pu_Scheme = ''http'', pu_Host = ''pharos'', pu_RawQuery = []\<rparr>),
      http_do = (\<lambda>rq e. (Inl (''connection refused'', None), e))\<rparr>"

theorem GetWorkItemState_panics_iff_witness:
  "GetWorkItemState (exampleContext refused noFiles ([], [])) zeroWorkItem False (exampleMachine ()) = Panics"
proof -
  have "\<exists>rq. NewJsonRequest refused exampleClient ''GET'' u None = Inr rq" for u
    by (simp add: NewJsonRequest_def refused_def Let_def)
  then obtain rq where rq: "NewJsonRequest refused exampleClient ''GET'' (api exampleClient (''/item_state/'' @
      show_int (case wi_WorkItemStateId zeroWorkItem of None \<Rightarrow> 0 | Some i \<Rightarrow> i) @ ''/'')) None = Inr rq" by blast
  show ?thesis
    using GetWorkItemState_panics_iff [of "exampleContext refused noFiles ([], [])" zeroWorkItem rq False "exampleMachine ()"] rq
    by (simp add: exampleContext_def refused_def)
qed

end
