(* ===== verification/Fetcher.thy ===== *)
theory Fetcher
  imports Workers ValidatorSound
begin

text \<open>
  \<^verbatim>\<open>src/workers/apt_fetcher.go\<close>: the worker that downloads a bag from the receiving bucket and validates it.
  \<open>HandleMessage\<close> decides which channel an item goes to; the functions \<open>fetcher_fetch\<close>, \<open>fetcher_validate\<close>,
  \<open>fetcher_cleanup\<close> and \<open>fetcher_record\<close> are one round of the loops that read the channels. The validation may
  fail to end, so its value is an option. The channels and the goroutines that read them are left out.
\<close>

section \<open>The worker\<close>

record ('e, 'b) APTFetcher =
  af_Context :: "('e, 'b) Context"
  af_BagValidationConfig :: "BagValidationConfig option"

definition NewAPTFetcher ::
  "go_error + string \<Rightarrow> (string \<Rightarrow> BagValidationConfig \<Rightarrow> go_error + BagValidationConfig) \<Rightarrow>
     ('e, 'b) Context \<Rightarrow> 'e machine \<Rightarrow> (('e, 'b) APTFetcher \<times> 'e machine) outcome" where
  "NewAPTFetcher contents unmarshal cx m =
     and_then (CacheBucketNames cx m) (\<lambda>(err, m1).
       if err \<noteq> None then Panics
       else and_then (LoadAPTrustBagValidationConfig (cx_compile cx) contents unmarshal cx) (\<lambda>config.
         Returns (\<lparr>af_Context = cx, af_BagValidationConfig = config\<rparr>, m1)))"

definition onFetchResult :: "(WorkSummary \<Rightarrow> WorkSummary) \<Rightarrow> IngestState \<Rightarrow> IngestState" where
  "onFetchResult f st = onManifest (\<lambda>manifest. manifest\<lparr>im_FetchResult := f (im_FetchResult manifest)\<rparr>) st"

definition fetchError :: "string \<Rightarrow> IngestState \<Rightarrow> IngestState" where
  "fetchError msg st = onFetchResult (\<lambda>s. AddError s msg) st"

section \<open>Before the download\<close>






definition canSkipFetchAndValidate :: "('e, 'b) APTFetcher \<Rightarrow> IngestState \<Rightarrow> 'e machine \<Rightarrow> bool" where
  "canSkipFetchAndValidate fetcher st m \<longleftrightarrow>
     wi_Stage (is_WorkItem st) = StageValidate \<and> Finished (im_ValidateResult (is_IngestManifest st)) \<and>
     \<not> Manifest_HasFatalErrors (is_IngestManifest st) \<and>
     FileExists (diskOf (af_Context fetcher) m) (im_BagPath (is_IngestManifest st))"






section \<open>Fetch\<close>

definition getDownloader :: "('e, 'b) APTFetcher \<Rightarrow> IngestState \<Rightarrow> S3Download" where
  "getDownloader fetcher st =
     NewS3Download (awsAccess (af_Context fetcher) AWSVirginia) (wi_Bucket (is_WorkItem st)) (wi_Name (is_WorkItem st))
       (im_BagPath (is_IngestManifest st)) True False"

definition tryDownload ::
  "('e, 'b) APTFetcher \<Rightarrow> S3Download \<Rightarrow> IngestState \<Rightarrow> 'e machine \<Rightarrow> (bool \<times> bool) \<times> S3Download \<times> IngestState \<times> 'e machine" where
  "tryDownload fetcher downloader st m =
     (let cx = af_Context fetcher
      in case onEnv (Fetch (cx_aws cx) (cx_os cx) (cx_digests cx) (downloader\<lparr>sd_ErrorMessage := []\<rparr>)) m of (d, m1) \<Rightarrow>
           if sd_ErrorMessage d = [] then ((True, False), d, st, m1)
           else if Contains (sd_ErrorMessage d) ''NoSuchKey''
           then ((False, True), d, onFetchResult (\<lambda>s. s\<lparr>ws_ErrorIsFatal := True\<rparr>) st, m1)
           else ((False, False), d, st, m1))"

fun downloadLoop ::
  "('e, 'b) APTFetcher \<Rightarrow> nat \<Rightarrow> S3Download \<Rightarrow> IngestState \<Rightarrow> 'e machine \<Rightarrow> S3Download \<times> IngestState \<times> 'e machine" where
  "downloadLoop fetcher 0 downloader st m = (downloader, st, m)"
| "downloadLoop fetcher (Suc n) downloader st m =
     (case tryDownload fetcher downloader st m of ((succeeded, errorIsFatal), d, st1, m1) \<Rightarrow>
        if succeeded \<or> errorIsFatal then (d, st1, m1) else downloadLoop fetcher n d st1 m1)"

definition zeroObject :: IntellectualObject where
  "zeroObject = NewIntellectualObject\<lparr>obj_State := [], obj_StorageOption := []\<rparr>"

text \<open>The response and its ETag are dereferenced. The test for a multi-part upload looks at the local digest.\<close>

definition buildObject ::
  "'e machine \<Rightarrow> S3Download \<Rightarrow> IngestState \<Rightarrow> (IntellectualObject \<times> IngestState) outcome" where
  "buildObject m downloader st =
     and_then (deref (sd_Response downloader)) (\<lambda>resp. and_then (deref (go_ETag resp)) (\<lambda>remoteMd5.
       (let item = is_WorkItem st;
            instIdentifier = OwnerOf (mc_cache m) (wi_Bucket item);
            bagName = CleanBagName (wi_Name item);
            verifiable = Contains (sd_Md5Digest downloader) ''-'';
            verified = (verifiable \<and> remoteMd5 = sd_Md5Digest downloader);
            obj = zeroObject\<lparr>obj_BagName := bagName, obj_Institution := instIdentifier,
              obj_Identifier := instIdentifier @ ''/'' @ bagName, obj_InstitutionId := wi_InstitutionId item,
              obj_IngestS3Bucket := wi_Bucket item, obj_IngestS3Key := wi_Name item,
              obj_IngestTarFilePath := im_BagPath (is_IngestManifest st), obj_ETag := wi_ETag item,
              obj_IngestSize := sd_BytesCopied downloader, obj_IngestRemoteMd5 := remoteMd5,
              obj_IngestLocalMd5 := sd_Md5Digest downloader, obj_StorageOption := StorageStandard,
              obj_IngestMd5Verifiable := verifiable, obj_IngestMd5Verified := verified\<rparr>
        in Returns (obj,
             if verifiable \<and> \<not> verified
             then onFetchResult (\<lambda>s. (AddError s (''Our md5 '' @ quoted (sd_Md5Digest downloader) @
                    '' does not match S3 md5 '' @ quoted remoteMd5))\<lparr>ws_ErrorIsFatal := True\<rparr>) st
             else st))))"

definition downloadFile ::
  "('e, 'b) APTFetcher \<Rightarrow> IngestState \<Rightarrow> 'e machine \<Rightarrow> ((go_error + IntellectualObject) \<times> IngestState \<times> 'e machine) outcome" where
  "downloadFile fetcher st m =
     (case downloadLoop fetcher 10 (getDownloader fetcher st) st m of (d, st1, m1) \<Rightarrow>
        if sd_ErrorMessage d \<noteq> []
        then Returns (Inl (''Error fetching '' @ wi_Bucket (is_WorkItem st1) @ ''/'' @ wi_Name (is_WorkItem st1) @ '': '' @
                           sd_ErrorMessage d), st1, m1)
        else and_then (buildObject m1 d st1) (\<lambda>(obj, st2). Returns (Inr obj, st2, m1)))"

definition initObjectInDB ::
  "('e, 'b) APTFetcher \<Rightarrow> IngestState \<Rightarrow> IntellectualObject \<Rightarrow> 'e machine \<Rightarrow> go_error option \<times> 'e machine" where
  "initObjectInDB fetcher st obj m =
     (let cx = af_Context fetcher; path = im_DBPath (is_IngestManifest st)
      in case openDB cx path m of
           (None, err) \<Rightarrow> (err, m)
         | (Some db, Some err) \<Rightarrow> (Some err, closeDB cx path db m)
         | (Some db, None) \<Rightarrow>
             (case SaveObject (dbOps cx) db (obj_Identifier obj) obj of (err, db') \<Rightarrow> (err, closeDB cx path db' m)))"

definition fetcher_fetch :: "('e, 'b) APTFetcher \<Rightarrow> IngestState \<Rightarrow> 'e machine \<Rightarrow> (IngestState \<times> 'e machine) outcome" where
  "fetcher_fetch fetcher st0 m0 =
     (case nowUTC m0 of (t, m) \<Rightarrow>
        and_then (downloadFile fetcher (onFetchResult (startAttempt t) (TouchNSQ st0)) m) (\<lambda>(got, st1, m1).
          (let st2 = TouchNSQ st1;
               (err, m2) = (case got of Inl err \<Rightarrow> (Some err, m1) | Inr obj \<Rightarrow> initObjectInDB fetcher st2 obj m1);
               st3 = (case err of None \<Rightarrow> st2 | Some msg \<Rightarrow> fetchError msg st2);
               (t', m3) = nowUTC m2
           in Returns (onFetchResult (Finish t') st3, m3))))"

section \<open>Validate, clean up, record\<close>


text \<open>A bag that is not valid is a fatal error.\<close>

definition judged :: "WorkSummary \<Rightarrow> WorkSummary" where
  "judged summary = (if HasErrors summary then summary\<lparr>ws_ErrorIsFatal := True, ws_Retry := False\<rparr> else summary)"


definition fetcher_cleanup :: "('e, 'b) APTFetcher \<Rightarrow> IngestState \<Rightarrow> 'e machine \<Rightarrow> IngestState \<times> 'e machine" where
  "fetcher_cleanup fetcher st m =
     (let cx = af_Context fetcher; manifest = is_IngestManifest st;
          hasErrors = (HasErrors (im_FetchResult manifest) \<or> HasErrors (im_ValidateResult manifest))
      in if hasErrors \<and> FileExists (diskOf cx m) (im_BagPath manifest) \<and> wi_Status (is_WorkItem st) \<noteq> StatusCancelled
         then (st, DeleteFileFromStaging cx (im_DBPath manifest) (DeleteFileFromStaging cx (im_BagPath manifest) m))
         else (st, m))"

definition fetcherDisposition :: "('e, 'b) APTFetcher \<Rightarrow> IngestState \<Rightarrow> disposition" where
  "fetcherDisposition fetcher st =
     (let manifest = is_IngestManifest st; cx = af_Context fetcher
      in if wi_Status (is_WorkItem st) = StatusCancelled then ItemCancelled
         else if timeToGiveUp (ws_AttemptNumber (im_FetchResult manifest)) (wc_MaxAttempts (cf_FetchWorker (cx_Config cx))) manifest
         then ItemFailed
         else if Manifest_HasErrors manifest then ItemRequeued else ItemSucceeded)"

definition passToStore :: "('e, 'b) Context \<Rightarrow> IngestState \<Rightarrow> 'e machine \<Rightarrow> (IngestState \<times> 'e machine) outcome" where
  "passToStore cx st m =
     (case MarkWorkItemSucceeded cx StageStore (FinishNSQ st) m of
        (_, st1, m1) \<Rightarrow> PushToQueue cx (wc_NsqTopic (cf_StoreWorker (cx_Config cx))) st1 m1)"

definition fetcher_record :: "('e, 'b) APTFetcher \<Rightarrow> IngestState \<Rightarrow> 'e machine \<Rightarrow> (IngestState \<times> 'e machine) outcome" where
  "fetcher_record fetcher st m =
     (let cx = af_Context fetcher
      in and_then (settle cx (fetcherDisposition fetcher st) 30000 (passToStore cx) st m)
           (\<lambda>(st2, m2). RecordWorkItemState cx FetchResult st2 m2))"

section \<open>The answer to NSQ\<close>

lemma passToStore_sends:
  "passToStore cx st m = Returns (st', m') \<Longrightarrow> is_NSQMessage st' = nsqSend NsqFinish (is_NSQMessage st)"
  by (auto simp: passToStore_def split_beta dest: PushToQueue_frame)

lemma fetcher_record_sends:
  assumes "fetcher_record fetcher st m = Returns (st', m')"
  shows "is_NSQMessage st' = nsqSend (answerFor (fetcherDisposition fetcher st) 30000) (is_NSQMessage st)"
  using assms
  by (auto simp: fetcher_record_def Let_def and_then_Returns_iff
      dest!: RecordWorkItemState_frame(1) dest: settle_sends [OF _ passToStore_sends])

interpretation fetcher_end: last_step "fetcher_record fetcher" is_NSQMessage
    "\<lambda>st. answerFor (fetcherDisposition fetcher st) 30000" for fetcher
  by unfold_locales (simp_all add: fetcher_record_sends)

section \<open>Only valid bags are stored\<close>

lemma judged_HasErrors [simp]: "HasErrors (judged summary) = HasErrors summary"
  by (simp add: judged_def HasErrors_def)














section \<open>Items that wait for each other\<close>

text \<open>What an item looks like after \<open>MarkWorkItemRequeued\<close>.\<close>

definition waiting :: "WorkItem \<Rightarrow> bool" where
  "waiting item \<longleftrightarrow> wi_Status item = StatusStarted \<and> \<not> IsInProgress item"











lemma requeuedItem_waits: "waiting (requeuedItem t msg item)"
  by (simp add: requeuedItem_def waiting_def IsInProgress_def)
























end
