(* ===== verification/Storer.thy ===== *)
theory Storer
  imports Workers Containers
begin

text \<open>
  \<^verbatim>\<open>src/workers/apt_storer.go\<close>: the worker that copies the files of a validated bag to long-term storage. The
  functions \<open>storer_store\<close>, \<open>storer_cleanup\<close> and \<open>storer_record\<close> are one round of the loops that read the
  channels. The files of a batch are saved at the same time in the source; the model saves them one after the
  other in the order of the batch. The loop over the batches need not end, so its value is an option. A
  pointer to a storage summary is the summary that is passed on.
\<close>

section \<open>The worker\<close>

definition MAX_UPLOAD_ATTEMPTS :: nat where "MAX_UPLOAD_ATTEMPTS = 15"
definition FIFTY_GIGABYTES :: int where "FIFTY_GIGABYTES = 50000000000"
definition TWO_HUNDRED_GIGABYTES :: int where "TWO_HUNDRED_GIGABYTES = 200000000000"
definition HIGH_FILE_COUNT :: int where "HIGH_FILE_COUNT = 5000"
definition RESOURCE_REQUEUE_TIMEOUT :: int where "RESOURCE_REQUEUE_TIMEOUT = 1000 * 60 * 60"
definition LARGE_BAG_IN_PROGRESS :: string where "LARGE_BAG_IN_PROGRESS = ''LargeBagInProgress''"
definition HIGH_FILE_BAG_IN_PROGRESS :: string where "HIGH_FILE_BAG_IN_PROGRESS = ''HighFileBagInProgress''"
definition SMALL_FILE_SIZE :: int where "SMALL_FILE_SIZE = 300000"

record ('e, 'b) APTStorer =
  ap_Context :: "('e, 'b) Context"
  ap_SyncMap :: SynchronizedMap

definition NewAPTStorer :: "('e, 'b) Context \<Rightarrow> 'e machine \<Rightarrow> (('e, 'b) APTStorer \<times> 'e machine) outcome" where
  "NewAPTStorer cx m =
     and_then (CacheBucketNames cx m) (\<lambda>(err, m1).
       if err \<noteq> None then Panics else Returns (\<lparr>ap_Context = cx, ap_SyncMap = NewSynchronizedMap\<rparr>, m1))"

definition onStoreResult :: "(WorkSummary \<Rightarrow> WorkSummary) \<Rightarrow> IngestState \<Rightarrow> IngestState" where
  "onStoreResult f st = onManifest (\<lambda>manifest. manifest\<lparr>im_StoreResult := f (im_StoreResult manifest)\<rparr>) st"

text \<open>\<open>None\<close> as the state means that the item was not put into the storage channel.\<close>

definition storer_HandleMessage ::
  "('e, 'b) APTStorer \<Rightarrow> string \<Rightarrow> 'e machine \<Rightarrow> (go_error option \<times> nsq_message \<times> IngestState option \<times> 'e machine) outcome" where
  "storer_HandleMessage storer body m =
     and_then (GetIngestState (ap_Context storer) body (Some []) False m) (\<lambda>(got, m1).
       case got of
         Inl err \<Rightarrow> Returns (Some err, Some [], None, m1)
       | Inr st \<Rightarrow>
           if IsInProgress (is_WorkItem st) then Returns (None, is_NSQMessage (FinishNSQ st), None, m1)
           else and_then (MarkWorkItemStarted (ap_Context storer) StageStore ''Files are being copied to long-term storage.''
                            (onStoreResult ClearErrors (DisableAutoResponse st)) m1) (\<lambda>(err, st1, m2).
             Returns (err, is_NSQMessage st1, if err = None then Some st1 else None, m2)))"

section \<open>Uploading a file\<close>

definition summaryError :: "string \<Rightarrow> StorageSummary \<Rightarrow> StorageSummary" where
  "summaryError msg ss = ss\<lparr>ss_StoreResult := AddError (ss_StoreResult ss) msg\<rparr>"

definition summaryFatal :: "StorageSummary \<Rightarrow> StorageSummary" where
  "summaryFatal ss = ss\<lparr>ss_StoreResult := (ss_StoreResult ss)\<lparr>ws_ErrorIsFatal := True\<rparr>\<rparr>"

definition onFile :: "(GenericFile \<Rightarrow> GenericFile) \<Rightarrow> StorageSummary \<Rightarrow> StorageSummary" where
  "onFile f ss = ss\<lparr>ss_GenericFile := f (ss_GenericFile ss)\<rparr>"

definition uuidPresent :: "StorageSummary \<Rightarrow> bool \<times> StorageSummary" where
  "uuidPresent ss =
     (let gf = ss_GenericFile ss
      in if LooksLikeUUID (gf_IngestUUID gf) then (True, ss)
         else (False, summaryFatal (summaryError (''Cannot save '' @ gf_Identifier gf @ '' to S3/Glacier because '' @
                 ''GenericFile.IngestUUID ('' @ gf_IngestUUID gf @ '') is missing or invalid'') ss)))"

definition initUploader :: "('e, 'b) Context \<Rightarrow> string \<Rightarrow> StorageSummary \<Rightarrow> S3Upload option \<times> StorageSummary" where
  "initUploader cx sendWhere ss =
     (let gf = ss_GenericFile ss; config = cx_Config cx;
          (region, bucket, err) =
            (if sendWhere = ''s3'' then (cf_APTrustS3Region config, cf_PreservationBucket config, None)
             else if sendWhere = ''glacier'' then (cf_APTrustGlacierRegion config, cf_ReplicationBucket config, None)
             else StorageRegionAndBucketFor config sendWhere)
      in case err of
           Some msg \<Rightarrow>
             (None, summaryFatal (summaryError (''Cannot save '' @ gf_Identifier gf @ '' to '' @ sendWhere @ '' because '' @
                      ''storer doesn'' @ [CHR 0x27] @ ''t know where '' @ sendWhere @ '' is'') (summaryError msg ss)))
         | None \<Rightarrow>
             (let uploader = NewS3Upload (awsAccess cx region) bucket (gf_IngestUUID gf) (gf_FileFormat gf);
                  (instIdentifier, err) = InstitutionIdentifier gf;
                  ss' = (case err of
                           None \<Rightarrow> ss
                         | Some msg \<Rightarrow> summaryError (''Error setting institution in S3 metadata: '' @ msg @
                                         ''. Storing without institution tag.'') ss)
              in (Some (AddMetadata ''sha256'' (gf_IngestSha256 gf) (AddMetadata ''md5'' (gf_IngestMd5 gf)
                    (AddMetadata ''bagpath'' (OriginalPath gf) (AddMetadata ''bag'' (gf_IntellectualObjectIdentifier gf)
                    (AddMetadata ''institution'' instIdentifier uploader))))), ss')))"

definition missingKeys :: "S3Upload \<Rightarrow> string list" where
  "missingKeys uploader =
     filter (\<lambda>key. case ui_Metadata (su_UploadInput uploader) key of None \<Rightarrow> True | Some v \<Rightarrow> v = [])
       [''institution'', ''bag'', ''bagpath'', ''md5'', ''sha256'']"

definition assertRequiredMetadata :: "S3Upload \<Rightarrow> StorageSummary \<Rightarrow> bool \<times> StorageSummary" where
  "assertRequiredMetadata uploader ss =
     (missingKeys uploader = [],
      fold (\<lambda>key s. summaryFatal (summaryError (''S3Upload is missing required metadata key '' @ key) s)) (missingKeys uploader) ss)"

definition getReadCloser :: "disk \<Rightarrow> StorageSummary \<Rightarrow> reader option \<times> StorageSummary" where
  "getReadCloser disk ss =
     (let gf = ss_GenericFile ss
      in case NewTarFileIterator disk (ss_TarFilePath ss) of
           Inl err \<Rightarrow> (None, summaryError (''Can'' @ [CHR 0x27] @ ''t get TarFileIterator for '' @ ss_TarFilePath ss @ '': '' @ err) ss)
         | Inr tfi \<Rightarrow>
             (case OriginalPathWithBagName gf of
                (_, Some err) \<Rightarrow>
                  (None, summaryError (''Can'' @ [CHR 0x27] @ ''t get original path for '' @ gf_Identifier gf @ '': '' @ err) ss)
              | (origPathWithBagName, None) \<Rightarrow>
                  (case fst (Find tfi origPathWithBagName) of
                     Inl err \<Rightarrow> (None, summaryError (''Can'' @ [CHR 0x27] @ ''t get reader for '' @ gf_Identifier gf @ '': '' @ err) ss)
                   | Inr rd \<Rightarrow> (Some rd, ss))))"

subsection \<open>Large files\<close>

definition getTempFilePath :: "('e, 'b) Context \<Rightarrow> GenericFile \<Rightarrow> string" where
  "getTempFilePath cx gf = JoinPath [cf_TarDirectory (cx_Config cx), ''tmp'', gf_IngestUUID gf]"

text \<open>A copy reads the bytes it counts; the reader goes on behind them.\<close>

definition readOn :: "int64 \<Rightarrow> reader \<Rightarrow> reader" where
  "readOn count rd = rd\<lparr>rd_data := drop (unat count) (rd_data rd)\<rparr>"

definition statSize :: "('e, 'b) Context \<Rightarrow> string \<Rightarrow> 'e machine \<Rightarrow> int64 option" where
  "statSize cx path m = (case fs_stat (diskOf cx m) path of Inl _ \<Rightarrow> None | Inr st \<Rightarrow> Some (fi_Size st))"

definition createTempFile ::
  "('e, 'b) Context \<Rightarrow> GenericFile \<Rightarrow> reader \<Rightarrow> 'e machine \<Rightarrow> go_error option \<times> reader \<times> 'e machine" where
  "createTempFile cx gf rd m =
     (let filePath = getTempFilePath cx gf
      in case onEnv (os_mkdirAll (cx_os cx) (Dir filePath)) m of
           (Some err, m1) \<Rightarrow> (Some (''MkdirAll failed: '' @ err), rd, m1)
         | (None, m1) \<Rightarrow>
             (case onEnv (os_create (cx_os cx) filePath) m1 of
                (Some err, m2) \<Rightarrow> (Some (''Cannot create file: '' @ err), rd, m2)
              | (None, m2) \<Rightarrow>
                  (case onEnv (os_write (cx_os cx) filePath rd) m2 of
                     ((bytesCopied, err), m3) \<Rightarrow>
                       (let rd' = readOn bytesCopied rd
                        in case err of
                             Some e \<Rightarrow> (Some (''Error copying data from tar file: '' @ e), rd', m3)
                           | None \<Rightarrow>
                               if bytesCopied \<noteq> gf_Size gf
                               then (Some (''Copied only '' @ show_int (sint bytesCopied) @ '' of '' @ show_int (sint (gf_Size gf)) @
                                           '' bytes for file '' @ gf_Identifier gf), rd', m3)
                               else (case statSize cx filePath m3 of
                                       None \<Rightarrow> (Some (''Can'' @ [CHR 0x27] @ ''t stat tempFile '' @ gf_Identifier gf @ '' at '' @ filePath), rd', m3)
                                     | Some size' \<Rightarrow>
                                         if size' \<noteq> gf_Size gf
                                         then (Some (''Temp file has only '' @ show_int (sint size') @ '' of '' @
                                                     show_int (sint (gf_Size gf)) @ '' bytes for file '' @ gf_Identifier gf), rd', m3)
                                         else (None, rd', m3))))))"

text \<open>Seeking to the end of an open file gives its size.\<close>

definition getActualFileSize :: "reader \<Rightarrow> int64" where
  "getActualFileSize tempFile = of_nat (length (rd_data tempFile))"

definition openTempFile :: "('e, 'b) Context \<Rightarrow> GenericFile \<Rightarrow> 'e machine \<Rightarrow> go_error + reader" where
  "openTempFile cx gf m =
     (let filePath = getTempFilePath cx gf
      in if statSize cx filePath m = Some (gf_Size gf)
         then (case fs_open (diskOf cx m) filePath of
                 Inl err \<Rightarrow> Inl (''Error opening '' @ filePath @ '' ('' @ gf_Identifier gf @ ''): '' @ err)
               | Inr tempFile \<Rightarrow>
                   if getActualFileSize tempFile \<noteq> gf_Size gf
                   then Inl (''Wrong actual size for '' @ filePath @ '' ('' @ gf_Identifier gf @ ''). Should be '' @
                             show_int (sint (gf_Size gf)) @ '', got '' @ show_int (sint (getActualFileSize tempFile)))
                   else Inr tempFile)
         else Inl (''Temp file for '' @ gf_Identifier gf @ '' at '' @ filePath @ '' is missing or wrong size''))"

definition getFileReader ::
  "('e, 'b) Context \<Rightarrow> GenericFile \<Rightarrow> reader \<Rightarrow> 'e machine \<Rightarrow> (go_error + reader) \<times> reader \<times> 'e machine" where
  "getFileReader cx gf rd m =
     (let filePath = getTempFilePath cx gf
      in case (if FileExists (diskOf cx m) filePath then (None, rd, m) else createTempFile cx gf rd m) of
           (Some err, rd1, m1) \<Rightarrow> (Inl err, rd1, m1)
         | (None, rd1, m1) \<Rightarrow>
             (case (if statSize cx filePath m1 = Some 0 then createTempFile cx gf rd1 m1 else (None, rd1, m1)) of
                (Some err, rd2, m2) \<Rightarrow> (Inl err, rd2, m2)
              | (None, rd2, m2) \<Rightarrow> (openTempFile cx gf m2, rd2, m2)))"

definition cleanupTempFile :: "('e, 'b) Context \<Rightarrow> GenericFile \<Rightarrow> 'e machine \<Rightarrow> 'e machine" where
  "cleanupTempFile cx gf m =
     (let tempFilePath = getTempFilePath cx gf
      in if \<not> FileExists (diskOf cx m) tempFilePath then m
         else if \<not> IsZero (gf_IngestStoredAt gf) \<and>
                 (\<not> IsZero (gf_IngestReplicatedAt gf) \<or> HasPrefix (gf_StorageOption gf) ''Glacier'') \<and>
                 LooksSafeToDelete tempFilePath 12 3
         then snd (onEnv (os_remove (cx_os cx) tempFilePath) m) else m)"

subsection \<open>Sending\<close>

text \<open>The event to be dated is the first that qualifies.\<close>

fun dateFirst :: "(PremisEvent \<Rightarrow> bool) \<Rightarrow> time \<Rightarrow> PremisEvent option list \<Rightarrow> PremisEvent option list" where
  "dateFirst p t [] = []"
| "dateFirst p t (None # rest) = None # dateFirst p t rest"
| "dateFirst p t (Some event # rest) =
     (if p event then Some (event\<lparr>ev_DateTime := t\<rparr>) # rest else Some event # dateFirst p t rest)"

definition dateEvent :: "(PremisEvent \<Rightarrow> bool) \<Rightarrow> GenericFile \<Rightarrow> 'e machine \<Rightarrow> GenericFile \<times> 'e machine" where
  "dateEvent p gf m =
     (if list_ex (\<lambda>ev. case ev of None \<Rightarrow> False | Some event \<Rightarrow> p event) (gf_PremisEvents gf)
      then (case nowUTC m of (t, m1) \<Rightarrow> (gf\<lparr>gf_PremisEvents := dateFirst p t (gf_PremisEvents gf)\<rparr>, m1))
      else (gf, m))"

definition isUrlAssignment :: "PremisEvent \<Rightarrow> bool" where
  "isUrlAssignment event \<longleftrightarrow> ev_EventType event = EventIdentifierAssignment \<and>
     (HasPrefix (ev_OutcomeDetail event) ''http://'' \<or> HasPrefix (ev_OutcomeDetail event) ''https://'')"

definition isReplication :: "PremisEvent \<Rightarrow> bool" where
  "isReplication event \<longleftrightarrow> ev_EventType event = EventReplication"

definition markFileAsStored :: "string \<Rightarrow> string \<Rightarrow> GenericFile \<Rightarrow> 'e machine \<Rightarrow> GenericFile \<times> 'e machine" where
  "markFileAsStored sendWhere storageUrl gf m =
     (case nowUTC m of (t, m1) \<Rightarrow>
        if sendWhere \<noteq> ''glacier''
        then dateEvent isUrlAssignment (gf\<lparr>gf_IngestStoredAt := t, gf_IngestStorageURL := storageUrl, gf_URI := storageUrl\<rparr>) m1
        else dateEvent isReplication (gf\<lparr>gf_IngestReplicatedAt := t, gf_IngestReplicationURL := storageUrl\<rparr>) m1)"

text \<open>The response is read without a test for nil.\<close>

definition getS3FileDetail ::
  "('e, 'b) Context \<Rightarrow> string \<Rightarrow> string \<Rightarrow> string \<Rightarrow> 'e machine \<Rightarrow> (s3_object option \<times> 'e machine) outcome" where
  "getS3FileDetail cx region bucket fileUUID m =
     and_then (onEnvOutcome (GetList (cx_aws cx) fileUUID (NewS3ObjectList (awsAccess cx region) bucket 1)) m) (\<lambda>(s3Client, m1).
     and_then (deref (sl_Response s3Client)) (\<lambda>response.
       Returns (case lo_Contents response of [] \<Rightarrow> None | obj # _ \<Rightarrow> Some obj, m1)))"

text \<open>What becomes of an upload: the size that S3 reports decides. The message for a wrong size shows the
  address of the size.\<close>

definition sizeReport :: "('e, 'b) Context \<Rightarrow> string \<Rightarrow> GenericFile \<Rightarrow> s3_object option \<Rightarrow> (bool \<times> string) outcome" where
  "sizeReport cx sendWhere gf s3Obj =
     (case s3Obj of
        None \<Rightarrow> Returns (False, sendWhere @ '' returned nothing for '' @ gf_IngestUUID gf @ '' ('' @ gf_Identifier gf @ '').'')
      | Some obj \<Rightarrow>
          and_then (deref (so_Size obj)) (\<lambda>size'.
            Returns (size' = gf_Size gf, sendWhere @ '' returned size '' @ cx_address cx (Some (sint size')) @ '' for '' @
              gf_IngestUUID gf @ '' ('' @ gf_Identifier gf @ ''), should be '' @ show_int (sint (gf_Size gf)) @ ''.'')))"

definition concludeUpload ::
  "string \<Rightarrow> nat \<Rightarrow> S3Upload \<Rightarrow> bool \<Rightarrow> string \<Rightarrow> StorageSummary \<Rightarrow> 'e machine \<Rightarrow> (StorageSummary \<times> 'e machine) outcome" where
  "concludeUpload sendWhere attemptNumber uploader sizeOk errMsg ss m =
     (let lastTry = (attemptNumber = MAX_UPLOAD_ATTEMPTS);
          ss1 = (if \<not> sizeOk \<and> lastTry then summaryError errMsg ss else ss)
      in if sizeOk \<and> su_ErrorMessage uploader = []
         then and_then (deref (su_Response uploader)) (\<lambda>location.
           case markFileAsStored sendWhere location (ss_GenericFile ss1) m of
             (gf', m2) \<Rightarrow> Returns (ss1\<lparr>ss_GenericFile := gf'\<rparr>, m2))
         else Returns (if su_ErrorMessage uploader \<noteq> [] \<and> lastTry then summaryError (su_ErrorMessage uploader) ss1 else ss1, m))"

definition judgeUpload ::
  "('e, 'b) Context \<Rightarrow> string \<Rightarrow> nat \<Rightarrow> S3Upload \<Rightarrow> StorageSummary \<Rightarrow> 'e machine \<Rightarrow> (StorageSummary \<times> 'e machine) outcome" where
  "judgeUpload cx sendWhere attemptNumber uploader ss m =
     (let gf = ss_GenericFile ss
      in and_then (getS3FileDetail cx (ac_Region (su_access uploader)) (ui_Bucket (su_UploadInput uploader)) (gf_IngestUUID gf) m) (\<lambda>(s3Obj, m1).
         and_then (sizeReport cx sendWhere gf s3Obj) (\<lambda>(sizeOk, errMsg).
           concludeUpload sendWhere attemptNumber uploader sizeOk errMsg ss m1)))"

text \<open>In the source the reader of the temporary file is a new variable of the inner block: what is sent is
  the reader of the archive, also for a large file, from wherever the copy has left it.\<close>

definition doUpload ::
  "('e, 'b) Context \<Rightarrow> string \<Rightarrow> nat \<Rightarrow> StorageSummary \<Rightarrow> 'e machine \<Rightarrow> (StorageSummary \<times> 'e machine) outcome" where
  "doUpload cx sendWhere attemptNumber ss0 m0 =
     (case initUploader cx sendWhere ss0 of
        (None, ss) \<Rightarrow> Returns (summaryError ''S3 uploader is nil. Cannot proceed.'' ss, m0)
      | (Some uploader, ss1) \<Rightarrow>
          (case assertRequiredMetadata uploader ss1 of
             (False, ss2) \<Rightarrow> Returns (ss2, m0)
           | (True, ss2) \<Rightarrow>
               (case getReadCloser (diskOf cx m0) ss2 of
                  (None, ss3) \<Rightarrow> Returns (ss3, m0)
                | (Some readCloser, ss3) \<Rightarrow>
                    (let gf = ss_GenericFile ss3
                     in case (if S3LargeFileSize < sint (gf_Size gf) then getFileReader cx gf readCloser m0
                              else (Inr readCloser, readCloser, m0)) of
                          (Inl err, _, m1) \<Rightarrow>
                            Returns (summaryError (''Error copying '' @ quoted (gf_Identifier gf) @ '' from tarfile to filesystem at '' @
                                       quoted (getTempFilePath cx gf) @ '' for large file upload: '' @ err) ss3, m1)
                        | (Inr _, reader, m1) \<Rightarrow>
                            (case onEnv (SendWithSize (cx_aws cx) reader (gf_Size gf) uploader) m1 of
                               (uploader', m2) \<Rightarrow> judgeUpload cx sendWhere attemptNumber uploader' ss3 m2)))))"

definition isStored :: "string \<Rightarrow> GenericFile \<Rightarrow> bool" where
  "isStored sendWhere gf \<longleftrightarrow>
     (if sendWhere = ''glacier'' then \<not> IsZero (gf_IngestReplicatedAt gf) else \<not> IsZero (gf_IngestStoredAt gf))"

fun uploadLoop ::
  "('e, 'b) Context \<Rightarrow> string \<Rightarrow> nat \<Rightarrow> nat \<Rightarrow> StorageSummary \<Rightarrow> 'e machine \<Rightarrow> (StorageSummary \<times> 'e machine) outcome" where
  "uploadLoop cx sendWhere 0 attemptNumber ss m = Returns (ss, m)"
| "uploadLoop cx sendWhere (Suc n) attemptNumber ss m =
     and_then (doUpload cx sendWhere attemptNumber ss m) (\<lambda>(ss1, m1).
       if isStored sendWhere (ss_GenericFile ss1) then Returns (ss1, m1)
       else uploadLoop cx sendWhere n (attemptNumber + 1) ss1 m1)"

definition copyToLongTermStorage ::
  "('e, 'b) Context \<Rightarrow> string \<Rightarrow> StorageSummary \<Rightarrow> 'e machine \<Rightarrow> (StorageSummary \<times> 'e machine) outcome" where
  "copyToLongTermStorage cx sendWhere ss m =
     (case uuidPresent ss of
        (False, ss1) \<Rightarrow>
          Returns (summaryError (''Cannot copy GenericFile '' @ gf_Identifier (ss_GenericFile ss1) @
                     '' to long-term storage because UUID is missing'') ss1, m)
      | (True, ss1) \<Rightarrow> uploadLoop cx sendWhere MAX_UPLOAD_ATTEMPTS 1 ss1 m)"

section \<open>Saving a file\<close>

definition getExistingSha256 ::
  "('e, 'b) Context \<Rightarrow> string \<Rightarrow> 'e machine \<Rightarrow> (go_error + Checksum option) \<times> 'e machine" where
  "getExistingSha256 cx gfIdentifier m =
     (let params = Values_Add ''sort'' ''datetime DESC'' (Values_Add ''algorithm'' AlgSha256
                     (Values_Add ''generic_file_identifier'' gfIdentifier []))
      in case onEnv (ChecksumList (cx_http cx) (cx_Pharos cx) (Some params)) m of (resp, m1) \<Rightarrow>
           (case pr_Error resp of Some err \<Rightarrow> (Inl err, m1) | None \<Rightarrow> (Inr (Resp_Checksum resp), m1)))"

text \<open>The log line for an error reads the request, which is nil when it could not be built.\<close>

definition getUuidOfExistingFile ::
  "('e, 'b) Context \<Rightarrow> string \<Rightarrow> 'e machine \<Rightarrow> ((go_error + string) \<times> 'e machine) outcome" where
  "getUuidOfExistingFile cx gfIdentifier m =
     (case onEnv (GenericFileGet (cx_http cx) (cx_Pharos cx) gfIdentifier False) m of (resp, m1) \<Rightarrow>
        (case pr_Error resp of
           Some err \<Rightarrow> and_then (deref (pr_Request resp)) (\<lambda>_. Returns (Inl err, m1))
         | None \<Rightarrow>
             and_then (deref (Resp_GenericFile resp)) (\<lambda>existing.
               (let uuid = last (Split (CHR ''/'') (gf_URI existing))
                in Returns (if LooksLikeUUID uuid then Inr uuid
                            else Inl (''Could not extract UUID from URI '' @ gf_URI existing), m1)))))"

definition changedSincePreviousVersion ::
  "('e, 'b) Context \<Rightarrow> Checksum \<Rightarrow> StorageSummary \<Rightarrow> 'e machine \<Rightarrow> (StorageSummary \<times> 'e machine) outcome" where
  "changedSincePreviousVersion cx existingSha256 ss m =
     (let gf = ss_GenericFile ss
      in and_then (getUuidOfExistingFile cx (gf_Identifier gf) m) (\<lambda>(found, m1).
           Returns (case found of
               Inl err \<Rightarrow> summaryFatal (summaryError (''Cannot find existing UUID for '' @ gf_Identifier gf @ '': '' @ err) ss)
             | Inr uuid \<Rightarrow>
                 if uuid = [] then summaryFatal (summaryError (''Cannot find existing UUID for '' @ gf_Identifier gf @ ''.'') ss)
                 else onFile (\<lambda>gf. gf\<lparr>gf_IngestUUID := uuid,
                        gf_IngestNeedsSave := (if cs_Digest existingSha256 = gf_IngestSha256 gf then False else gf_IngestNeedsSave gf)\<rparr>) ss,
             m1)))"

text \<open>Whether the file is to be saved. \<open>False\<close> in the result means that \<open>saveFile\<close> returns at once.\<close>

definition decideSave ::
  "('e, 'b) Context \<Rightarrow> StorageSummary \<Rightarrow> 'e machine \<Rightarrow> (bool \<times> StorageSummary \<times> 'e machine) outcome" where
  "decideSave cx ss m =
     (let gf = ss_GenericFile ss
      in if LooksLikeJunkFile (OriginalPath gf) \<and> (gf_IngestManifestMd5 gf \<noteq> [] \<or> gf_IngestManifestSha256 gf \<noteq> [])
         then Returns (True, onFile (\<lambda>gf. gf\<lparr>gf_IngestNeedsSave := True\<rparr>) ss, m)
         else if \<not> HasSavableName (OriginalPath gf)
         then Returns (True, onFile (\<lambda>gf. gf\<lparr>gf_IngestNeedsSave := False\<rparr>) ss, m)
         else (case getExistingSha256 cx (gf_Identifier gf) m of
                 (Inl err, m1) \<Rightarrow> Returns (False, summaryError err ss, m1)
               | (Inr None, m1) \<Rightarrow> Returns (True, ss, m1)
               | (Inr (Some existing), m1) \<Rightarrow>
                   and_then (changedSincePreviousVersion cx existing
                       (onFile (\<lambda>gf. gf\<lparr>gf_IngestPreviousVersionExists := True, gf_Id := cs_GenericFileId existing\<rparr>) ss) m1)
                     (\<lambda>(ss', m2). Returns (True, ss', m2))))"

definition needsStoring :: "GenericFile \<Rightarrow> bool" where
  "needsStoring gf \<longleftrightarrow> IsZero (gf_IngestStoredAt gf) \<or> gf_IngestStorageURL gf = []"

definition needsReplicating :: "GenericFile \<Rightarrow> bool" where
  "needsReplicating gf \<longleftrightarrow> IsZero (gf_IngestReplicatedAt gf) \<or> gf_IngestReplicationURL gf = []"

definition copies :: "('e, 'b) Context \<Rightarrow> StorageSummary \<Rightarrow> 'e machine \<Rightarrow> (StorageSummary \<times> 'e machine) outcome" where
  "copies cx ss m =
     (if gf_StorageOption (ss_GenericFile ss) = StorageStandard
      then and_then (if needsStoring (ss_GenericFile ss) then copyToLongTermStorage cx ''s3'' ss m else Returns (ss, m)) (\<lambda>(ss1, m1).
             if needsReplicating (ss_GenericFile ss1) then copyToLongTermStorage cx ''glacier'' ss1 m1 else Returns (ss1, m1))
      else if needsStoring (ss_GenericFile ss)
      then copyToLongTermStorage cx (gf_StorageOption (ss_GenericFile ss)) ss m
      else Returns (ss, m))"

definition saveInDB :: "('e, 'b) Context \<Rightarrow> string \<Rightarrow> StorageSummary \<Rightarrow> 'b \<Rightarrow> StorageSummary \<times> 'b" where
  "saveInDB cx dbPath ss db =
     (let gf = ss_GenericFile ss
      in case SaveFile (dbOps cx) db (gf_Identifier gf) gf of
           (None, db') \<Rightarrow> (ss, db')
         | (Some err, db') \<Rightarrow> (summaryError (''Error saving '' @ gf_Identifier gf @ '' to db '' @ dbPath @ '': '' @ err) ss, db'))"

definition storer_saveFile ::
  "('e, 'b) Context \<Rightarrow> string \<Rightarrow> StorageSummary \<Rightarrow> 'b \<Rightarrow> 'e machine \<Rightarrow> (StorageSummary \<times> 'b \<times> 'e machine) outcome" where
  "storer_saveFile cx dbPath ss db m =
     and_then (decideSave cx ss m) (\<lambda>(goOn, ss1, m1).
       if \<not> goOn then Returns (ss1, db, m1)
       else let needsSave = gf_IngestNeedsSave (ss_GenericFile ss1)
            in and_then (if needsSave then copies cx ss1 m1 else Returns (ss1, m1)) (\<lambda>(ss2, m2).
                 case saveInDB cx dbPath ss2 db of
                   (ss3, db') \<Rightarrow> Returns (ss3, db', if needsSave then cleanupTempFile cx (ss_GenericFile ss3) m2 else m2)))"

section \<open>Storing a bag\<close>

definition storer_setStorageOption ::
  "('e, 'b) Context \<Rightarrow> string \<Rightarrow> 'b \<Rightarrow> 'e machine \<Rightarrow> ((go_error + string) \<times> 'b \<times> 'e machine) outcome" where
  "storer_setStorageOption cx objIdentifier db m =
     (case onEnv (IntellectualObjectGet (cx_http cx) (cx_Pharos cx) objIdentifier False False) m of (resp, m1) \<Rightarrow>
        and_then (statusOf resp) (\<lambda>code.
          if code = 404 then Returns (Inr [], db, m1)
          else (case pr_Error resp of
                  Some err \<Rightarrow> and_then (deref (pr_Request resp)) (\<lambda>_. Returns (Inl err, db, m1))
                | None \<Rightarrow>
                    (case Resp_IntellectualObject resp of
                       None \<Rightarrow> Returns (Inr [], db, m1)
                     | Some existing \<Rightarrow>
                         if obj_State existing = ''D'' then Returns (Inr [], db, m1)
                         else (case GetIntellectualObject (dbOps cx) db objIdentifier of
                                 (_, Some err) \<Rightarrow> Returns (Inl (''Can'' @ [CHR 0x27] @ ''t get IntellectualObject from BoltDB: '' @ err), db, m1)
                               | (None, None) \<Rightarrow> Returns (Inl (''BoltDB returned nothing for object identifier: '' @ objIdentifier), db, m1)
                               | (Some obj, None) \<Rightarrow>
                                   Returns (Inr (obj_StorageOption existing),
                                     if obj_StorageOption obj \<noteq> obj_StorageOption existing
                                     then snd (SaveObject (dbOps cx) db objIdentifier (obj\<lparr>obj_StorageOption := obj_StorageOption existing\<rparr>))
                                     else db, m1))))))"

text \<open>Go's division truncates towards zero.\<close>

definition averageSize :: "int64 \<Rightarrow> int \<Rightarrow> int" where
  "averageSize ingestSize fileCount =
     (let n = sint ingestSize in if n < 0 then - ((- n) div fileCount) else n div fileCount)"

definition checkForHighResourceBag ::
  "('e, 'b) APTStorer \<Rightarrow> string \<Rightarrow> 'b \<Rightarrow> ((bool \<times> bool \<times> string) \<times> ('e, 'b) APTStorer) outcome" where
  "checkForHighResourceBag storer objIdentifier db =
     (case GetIntellectualObject (dbOps (ap_Context storer)) db objIdentifier of
        (_, Some err) \<Rightarrow> Returns ((False, False, ''Cannot get object from BoltDB.''), storer)
      | (found, None) \<Rightarrow>
          and_then (deref found) (\<lambda>obj.
            (let fileCount = FileCount (dbOps (ap_Context storer)) db; syncMap = ap_SyncMap storer
             in if TWO_HUNDRED_GIGABYTES < sint (obj_IngestSize obj)
                then (let largeBag = SynchronizedMap_Get syncMap LARGE_BAG_IN_PROGRESS
                      in if largeBag \<noteq> []
                         then Returns ((False, False, ''This bag is large ('' @ show_int (sint (obj_IngestSize obj)) @
                                '' bytes) and large bag '' @ largeBag @ '' is currently in progress''), storer)
                         else Returns ((True, False, []),
                                storer\<lparr>ap_SyncMap := SynchronizedMap_Add syncMap LARGE_BAG_IN_PROGRESS objIdentifier\<rparr>))
                else if HIGH_FILE_COUNT < fileCount
                then (let small = averageSize (obj_IngestSize obj) fileCount < SMALL_FILE_SIZE
                      in if SynchronizedMap_Get syncMap HIGH_FILE_BAG_IN_PROGRESS \<noteq> []
                         then Returns ((False, small, ''This bag has '' @ show_int fileCount @
                                '' files and another high file-count bag is currently in progress''), storer)
                         else Returns ((True, small, []),
                                storer\<lparr>ap_SyncMap := SynchronizedMap_Add syncMap HIGH_FILE_BAG_IN_PROGRESS objIdentifier\<rparr>))
                else Returns ((True, False, []), storer))))"

definition clearHighResourceBag :: "string \<Rightarrow> SynchronizedMap \<Rightarrow> SynchronizedMap" where
  "clearHighResourceBag objIdentifier syncMap =
     (let syncMap1 = (if objIdentifier = SynchronizedMap_Get syncMap HIGH_FILE_BAG_IN_PROGRESS
                      then SynchronizedMap_Add syncMap HIGH_FILE_BAG_IN_PROGRESS [] else syncMap)
      in if objIdentifier = SynchronizedMap_Get syncMap1 LARGE_BAG_IN_PROGRESS
         then SynchronizedMap_Add syncMap1 LARGE_BAG_IN_PROGRESS [] else syncMap1)"

text \<open>The summaries for a batch of identifiers, up to the first error.\<close>

fun summariesFor :: "('e, 'b) Context \<Rightarrow> 'b \<Rightarrow> IntellectualObject option \<Rightarrow> string list \<Rightarrow> (go_error + StorageSummary list) outcome" where
  "summariesFor cx db obj [] = Returns (Inr [])"
| "summariesFor cx db obj (gfIdentifier # rest) =
     (case GetGenericFile (dbOps cx) db gfIdentifier of
        (_, Some err) \<Rightarrow> Returns (Inl err)
      | (gf, None) \<Rightarrow>
          and_then (deref obj) (\<lambda>ob.
            case NewStorageSummary gf (obj_IngestTarFilePath ob) (obj_IngestUntarredPath ob) of
              Inl err \<Rightarrow> Returns (Inl err)
            | Inr summary \<Rightarrow>
                and_then (summariesFor cx db obj rest) (\<lambda>r.
                  Returns (case r of Inl err \<Rightarrow> Inl err | Inr summaries \<Rightarrow> Inr (summary # summaries)))))"

definition getStorageSummaryBatch ::
  "('e, 'b) Context \<Rightarrow> string \<Rightarrow> int \<Rightarrow> int \<Rightarrow> 'b \<Rightarrow> (go_error + StorageSummary list \<times> bool) outcome" where
  "getStorageSummaryBatch cx objIdentifier start limit db =
     (case GetIntellectualObject (dbOps cx) db objIdentifier of
        (_, Some err) \<Rightarrow> Returns (Inl err)
      | (obj, None) \<Rightarrow>
          (let identifiers = FileIdentifierBatch (dbOps cx) db start limit;
               hasMoreFiles = (int (length identifiers) = limit)
           in and_then (summariesFor cx db obj identifiers) (\<lambda>r.
                Returns (case r of Inl err \<Rightarrow> Inl err | Inr summaries \<Rightarrow> Inr (summaries, hasMoreFiles)))))"

fun saveBatch ::
  "('e, 'b) Context \<Rightarrow> string \<Rightarrow> string \<Rightarrow> StorageSummary list \<Rightarrow> 'b \<Rightarrow> 'e machine \<Rightarrow> (StorageSummary list \<times> 'b \<times> 'e machine) outcome" where
  "saveBatch cx dbPath storageOption [] db m = Returns ([], db, m)"
| "saveBatch cx dbPath storageOption (ss # rest) db m =
     and_then (storer_saveFile cx dbPath
         (if storageOption \<noteq> [] then onFile (\<lambda>gf. gf\<lparr>gf_StorageOption := storageOption\<rparr>) ss else ss) db m) (\<lambda>(ss', db1, m1).
     and_then (saveBatch cx dbPath storageOption rest db1 m1) (\<lambda>(saved, db2, m2). Returns (ss' # saved, db2, m2)))"

text \<open>The errors of the files, up to and including the first fatal one.\<close>

fun collectErrors :: "StorageSummary list \<Rightarrow> WorkSummary \<Rightarrow> WorkSummary" where
  "collectErrors [] result = result"
| "collectErrors (ss # rest) result =
     (let result1 = foldl AddError result (ws_Errors (ss_StoreResult ss))
      in if ws_ErrorIsFatal (ss_StoreResult ss) then result1\<lparr>ws_ErrorIsFatal := True\<rparr> else collectErrors rest result1)"

partial_function (option) storeLoop ::
  "('e, 'b) Context \<Rightarrow> string \<Rightarrow> string \<Rightarrow> string \<Rightarrow> int \<Rightarrow> int \<Rightarrow> IngestState \<Rightarrow> 'b \<Rightarrow> 'e machine \<Rightarrow>
     (IngestState \<times> 'b \<times> 'e machine) outcome option" where
  "storeLoop cx dbPath objIdentifier storageOption limit start st db m =
     (case getStorageSummaryBatch cx objIdentifier start limit db of
        Panics \<Rightarrow> Some Panics
      | Returns (Inl err) \<Rightarrow>
          Some (Returns (onStoreResult (\<lambda>s. (AddError s err)\<lparr>ws_ErrorIsFatal := True\<rparr>) st, db, m))
      | Returns (Inr (summaries, hasMoreFiles)) \<Rightarrow>
          (case saveBatch cx dbPath storageOption summaries db m of
             Panics \<Rightarrow> Some Panics
           | Returns (saved, db1, m1) \<Rightarrow>
               (let st1 = onStoreResult (collectErrors saved) (TouchNSQ st)
                in if hasMoreFiles
                   then storeLoop cx dbPath objIdentifier storageOption limit (start + int (length summaries)) st1 db1 m1
                   else Some (Returns (st1, db1, m1)))))"

declare storeLoop.simps [code]

text \<open>The early exits of \<open>store\<close> finish the result. Those after the database was opened leave it open.\<close>

definition storeFailed :: "string \<Rightarrow> bool \<Rightarrow> IngestState \<Rightarrow> 'e machine \<Rightarrow> IngestState \<times> 'e machine" where
  "storeFailed msg fatal st m =
     (case nowUTC m of (t, m1) \<Rightarrow>
        (onStoreResult (\<lambda>s. Finish t ((AddError s msg)\<lparr>ws_ErrorIsFatal := fatal \<or> ws_ErrorIsFatal s\<rparr>)) st, m1))"

definition storeOpened ::
  "('e, 'b) APTStorer \<Rightarrow> string \<Rightarrow> IngestState \<Rightarrow> 'b \<Rightarrow> 'e machine \<Rightarrow> (('e, 'b) APTStorer \<times> IngestState \<times> 'e machine) outcome option" where
  "storeOpened storer objIdentifier st db m =
     (let cx = ap_Context storer; dbPath = im_DBPath (is_IngestManifest st);
          leave = (\<lambda>msg db m. case storeFailed msg False st m of (st', m') \<Rightarrow> (st', leaveDB cx dbPath db m'))
      in case storer_setStorageOption cx objIdentifier db m of
           Panics \<Rightarrow> Some Panics
         | Returns (Inl err, db1, m1) \<Rightarrow>
             Some (Returns (storer, leave (''While trying to get original storage option, '' @
               ''error looking up IntellectualObject in Pharos or BoltDB: '' @ err) db1 m1))
         | Returns (Inr storageOption, db1, m1) \<Rightarrow>
             (case checkForHighResourceBag storer objIdentifier db1 of
                Panics \<Rightarrow> Some Panics
              | Returns ((goOn, small, requeueMessage), storer1) \<Rightarrow>
                  if \<not> goOn then Some (Returns (storer1, leave requeueMessage db1 m1))
                  else (let limit0 = wc_NetworkConnections (cf_StoreWorker (cx_Config cx));
                            limit = (if small then limit0 * 20 else limit0)
                        in case storeLoop cx dbPath objIdentifier storageOption limit 0 st db1 m1 of
                             None \<Rightarrow> None
                           | Some Panics \<Rightarrow> Some Panics
                           | Some (Returns (st2, db2, m2)) \<Rightarrow> Some (Returns (storer1, st2, closeDB cx dbPath db2 m2)))))"

definition storer_store ::
  "('e, 'b) APTStorer \<Rightarrow> IngestState \<Rightarrow> 'e machine \<Rightarrow> (('e, 'b) APTStorer \<times> IngestState \<times> 'e machine) outcome option" where
  "storer_store storer st0 m0 =
     (let cx = ap_Context storer;
          (t, m) = nowUTC m0;
          st = onStoreResult (startAttempt t) st0;
          dbPath = im_DBPath (is_IngestManifest st)
      in if \<not> FileExists (diskOf cx m) dbPath
         then Some (Returns (storer, storeFailed (''BoltDB file '' @ dbPath @ '' is missing.'') True st m))
         else (case openDB cx dbPath m of
                 (db, Some err) \<Rightarrow>
                   Some (Returns (storer, case storeFailed (''In store(), error opening db '' @ dbPath @ '': '' @ err) False st m of
                     (st', m') \<Rightarrow> (st', case db of None \<Rightarrow> m' | Some b \<Rightarrow> leaveDB cx dbPath b m')))
               | (None, None) \<Rightarrow>
                   Some (Returns (storer, storeFailed (''In store(), db '' @ dbPath @ '' is missing or empty. This object may have '' @
                     ''already been ingested and recorded.'') False st m))
               | (Some db, None) \<Rightarrow>
                   (case Manifest_ObjectIdentifier (mc_cache m) (is_IngestManifest st) of
                      (_, Some err) \<Rightarrow>
                        Some (Returns (storer, case storeFailed err False st m of (st', m') \<Rightarrow> (st', leaveDB cx dbPath db m')))
                    | (objIdentifier, None) \<Rightarrow> storeOpened storer objIdentifier st db m)))"

section \<open>Clean up and record\<close>

definition storer_cleanup :: "('e, 'b) APTStorer \<Rightarrow> IngestState \<Rightarrow> 'e machine \<Rightarrow> IngestState \<times> 'e machine" where
  "storer_cleanup storer st m =
     (if \<not> HasErrors (im_StoreResult (is_IngestManifest st)) \<and> AllFilesSaved (im_Object (is_IngestManifest st))
      then (st, DeleteFileFromStaging (ap_Context storer) (im_BagPath (is_IngestManifest st)) m)
      else (st, m))"

definition storerDisposition :: "('e, 'b) APTStorer \<Rightarrow> IngestState \<Rightarrow> disposition" where
  "storerDisposition storer st =
     (let manifest = is_IngestManifest st; cx = ap_Context storer
      in if timeToGiveUp (ws_AttemptNumber (im_StoreResult manifest)) (wc_MaxAttempts (cf_StoreWorker (cx_Config cx))) manifest
         then ItemFailed
         else if HasErrors (im_StoreResult manifest) then ItemRequeued else ItemSucceeded)"

definition requeueTimeout :: "IngestState \<Rightarrow> int" where
  "requeueTimeout st =
     (if Contains (FirstError (im_StoreResult (is_IngestManifest st))) ''[High Resource Bag]''
      then RESOURCE_REQUEUE_TIMEOUT else 30000)"

definition passToRecord :: "('e, 'b) Context \<Rightarrow> IngestState \<Rightarrow> 'e machine \<Rightarrow> (IngestState \<times> 'e machine) outcome" where
  "passToRecord cx st m =
     (case MarkWorkItemSucceeded cx StageRecord (FinishNSQ st) m of
        (_, st1, m1) \<Rightarrow> PushToQueue cx (wc_NsqTopic (cf_RecordWorker (cx_Config cx))) st1 m1)"

definition storer_settle :: "('e, 'b) APTStorer \<Rightarrow> IngestState \<Rightarrow> 'e machine \<Rightarrow> (IngestState \<times> 'e machine) outcome" where
  "storer_settle storer st m =
     and_then (settle (ap_Context storer) (storerDisposition storer st) (requeueTimeout st) (passToRecord (ap_Context storer)) st m)
       (\<lambda>(st2, m2). RecordWorkItemState (ap_Context storer) FetchResult st2 m2)"

definition storer_record ::
  "('e, 'b) APTStorer \<Rightarrow> IngestState \<Rightarrow> 'e machine \<Rightarrow> (('e, 'b) APTStorer \<times> IngestState \<times> 'e machine) outcome" where
  "storer_record storer st0 m0 =
     (let (t, m) = nowUTC m0;
          st = onStoreResult (Finish t) st0;
          objIdentifier = fst (Manifest_ObjectIdentifier (mc_cache m) (is_IngestManifest st));
          storer' = (if objIdentifier \<noteq> [] then storer\<lparr>ap_SyncMap := clearHighResourceBag objIdentifier (ap_SyncMap storer)\<rparr> else storer)
      in and_then (storer_settle storer st m) (\<lambda>(st', m'). Returns (storer', st', m')))"

end
