(* ===== verification/StorerFacts.thy ===== *)
theory StorerFacts
  imports Storer
begin

text \<open>
  What the storer guarantees: no file is lost silently, every file of the bag is visited, and the bag is
  deleted only when its files are stored. Also what happens to a large file at its first upload.
\<close>

section \<open>What an upload keeps\<close>

text \<open>Only a summary with errors is fatal.\<close>

definition honest :: "StorageSummary \<Rightarrow> bool" where
  "honest ss \<longleftrightarrow> (ws_ErrorIsFatal (ss_StoreResult ss) \<longrightarrow> HasErrors (ss_StoreResult ss))"

lemma honest_errors [simp, intro]: "HasErrors (ss_StoreResult ss) \<Longrightarrow> honest ss"
  by (simp add: honest_def)

lemma honest_file [simp]: "honest (ss\<lparr>ss_GenericFile := gf\<rparr>) = honest ss"
  by (simp add: honest_def)

definition advances :: "StorageSummary \<Rightarrow> StorageSummary \<Rightarrow> bool" where
  "advances ss ss' \<longleftrightarrow>
     gf_Identifier (ss_GenericFile ss') = gf_Identifier (ss_GenericFile ss) \<and>
     gf_IngestNeedsSave (ss_GenericFile ss') = gf_IngestNeedsSave (ss_GenericFile ss) \<and>
     gf_StorageOption (ss_GenericFile ss') = gf_StorageOption (ss_GenericFile ss) \<and>
     gf_Size (ss_GenericFile ss') = gf_Size (ss_GenericFile ss) \<and>
     gf_IngestUUID (ss_GenericFile ss') = gf_IngestUUID (ss_GenericFile ss) \<and>
     (HasErrors (ss_StoreResult ss) \<longrightarrow> HasErrors (ss_StoreResult ss')) \<and>
     (honest ss \<longrightarrow> honest ss') \<and>
     (isStored ''s3'' (ss_GenericFile ss) \<longrightarrow> isStored ''s3'' (ss_GenericFile ss')) \<and>
     (isStored ''glacier'' (ss_GenericFile ss) \<longrightarrow> isStored ''glacier'' (ss_GenericFile ss'))"

lemma advances_refl [simp]: "advances ss ss"
  by (simp add: advances_def)

lemma advances_trans: "advances a b \<Longrightarrow> advances b c \<Longrightarrow> advances a c"
  by (simp add: advances_def)

lemma HasErrors_fatal [simp]: "HasErrors (s\<lparr>ws_ErrorIsFatal := b\<rparr>) = HasErrors s"
  by (simp add: HasErrors_def)

lemma summary_simps [simp]:
  "ss_GenericFile (summaryError msg ss) = ss_GenericFile ss" "ss_GenericFile (summaryFatal ss) = ss_GenericFile ss"
  "HasErrors (ss_StoreResult (summaryError msg ss))"
  "HasErrors (ss_StoreResult (summaryFatal ss)) = HasErrors (ss_StoreResult ss)"
  "ss_TarFilePath (summaryError msg ss) = ss_TarFilePath ss"
  by (simp_all add: summaryError_def summaryFatal_def summary_log.has_add)

lemma deref_Returns_iff [simp]: "deref x = Returns y \<longleftrightarrow> x = Some y"
  by (cases x) auto

text \<open>The file is untouched and no error is lost.\<close>

definition complains :: "StorageSummary \<Rightarrow> StorageSummary \<Rightarrow> bool" where
  "complains ss ss' \<longleftrightarrow> ss_GenericFile ss' = ss_GenericFile ss \<and> (HasErrors (ss_StoreResult ss) \<longrightarrow> HasErrors (ss_StoreResult ss')) \<and>
     (honest ss \<longrightarrow> honest ss')"

lemma complains_refl [simp]: "complains ss ss"
  by (simp add: complains_def)

lemma complains_error [simp, intro]:
  "complains a ss \<Longrightarrow> complains a (summaryError msg ss)" "complains a ss \<Longrightarrow> complains a (summaryFatal (summaryError msg ss))"
  by (simp_all add: complains_def)

lemma complains_trans: "complains a b \<Longrightarrow> complains b c \<Longrightarrow> complains a c"
  by (simp add: complains_def)

lemma complains_advances: "complains a b \<Longrightarrow> advances b c \<Longrightarrow> advances a c"
  by (simp add: complains_def advances_def)

lemma complains_imp_advances: "complains a b \<Longrightarrow> advances a b"
  by (simp add: complains_def advances_def)

lemma initUploader_complains:
  "initUploader cx sendWhere ss = (u, ss') \<Longrightarrow> complains ss ss' \<and> (u = None \<longrightarrow> HasErrors (ss_StoreResult ss'))"
  unfolding initUploader_def Let_def
  by (auto split: prod.splits option.splits)

lemma requireKeys_complains:
  "complains ss (fold (\<lambda>key s. summaryFatal (summaryError (f key) s)) keys ss) \<and>
   (keys \<noteq> [] \<longrightarrow> HasErrors (ss_StoreResult (fold (\<lambda>key s. summaryFatal (summaryError (f key) s)) keys ss)))"
proof (induction keys arbitrary: ss)
  case (Cons key keys)
  have "HasErrors (ss_StoreResult (summaryFatal (summaryError (f key) ss)))" by simp
  then show ?case
    using Cons.IH [of "summaryFatal (summaryError (f key) ss)"] by (auto simp: complains_def)
qed simp

lemma assertRequiredMetadata_complains:
  "assertRequiredMetadata u ss = (ok, ss') \<Longrightarrow> complains ss ss' \<and> (\<not> ok \<longrightarrow> HasErrors (ss_StoreResult ss'))"
  using requireKeys_complains [of ss "\<lambda>key. ''S3Upload is missing required metadata key '' @ key" "missingKeys u"]
  by (auto simp: assertRequiredMetadata_def)

lemma getReadCloser_complains:
  "getReadCloser disk ss = (rd, ss') \<Longrightarrow> complains ss ss' \<and> (rd = None \<longrightarrow> HasErrors (ss_StoreResult ss'))"
  unfolding getReadCloser_def Let_def
  by (auto split: sum.splits prod.splits option.splits)

lemma clockRuns_world: "mc_world m' = mc_world m \<Longrightarrow> clockRuns m' = clockRuns m"
  by (simp add: clockRuns_def)

lemma onEnv_world: "onEnv f m = (r, m') \<Longrightarrow> mc_world m' = mc_world m \<and> mc_cache m' = mc_cache m"
  using onEnv_simps(1,2) [of f m] by simp

lemma createTempFile_frame: "createTempFile cx gf rd m = (err, rd', m') \<Longrightarrow> mc_world m' = mc_world m"
  unfolding createTempFile_def Let_def
  by (auto split: prod.splits option.splits if_splits dest!: onEnv_world)

lemma getFileReader_frame: "getFileReader cx gf rd m = (r, rd', m') \<Longrightarrow> mc_world m' = mc_world m"
  unfolding getFileReader_def Let_def
  by (auto split: prod.splits option.splits if_splits dest!: createTempFile_frame)

lemma dateEvent_frame:
  assumes "dateEvent p gf m = (gf', m')" "clockRuns m"
  shows "clockRuns m'" "\<exists>events. gf' = gf\<lparr>gf_PremisEvents := events\<rparr>"
proof -
  have "\<exists>events. gf = gf\<lparr>gf_PremisEvents := events\<rparr>" by (rule exI [of _ "gf_PremisEvents gf"]) simp
  then show "clockRuns m'" "\<exists>events. gf' = gf\<lparr>gf_PremisEvents := events\<rparr>"
    using assms nowUTC_runs [of m] by (auto simp: dateEvent_def split: if_splits prod.splits)
qed

definition sameFile :: "GenericFile \<Rightarrow> GenericFile \<Rightarrow> bool" where
  "sameFile gf gf' \<longleftrightarrow> gf_Identifier gf' = gf_Identifier gf \<and> gf_IngestNeedsSave gf' = gf_IngestNeedsSave gf \<and>
     gf_StorageOption gf' = gf_StorageOption gf \<and> gf_Size gf' = gf_Size gf \<and> gf_IngestUUID gf' = gf_IngestUUID gf"

lemma markFileAsStored_stored:
  assumes "markFileAsStored sendWhere url gf m = (gf', m')" "clockRuns m"
  shows "clockRuns m'" "isStored sendWhere gf'" "sameFile gf gf'"
    "isStored ''s3'' gf \<longrightarrow> isStored ''s3'' gf'" "isStored ''glacier'' gf \<longrightarrow> isStored ''glacier'' gf'"
proof -
  obtain t m1 where n: "nowUTC m = (t, m1)" by (metis prod.collapse)
  with nowUTC_runs [OF assms(2)] have t: "\<not> IsZero t" "clockRuns m1" by simp_all
  define gf1 where "gf1 = (if sendWhere \<noteq> ''glacier''
    then gf\<lparr>gf_IngestStoredAt := t, gf_IngestStorageURL := url, gf_URI := url\<rparr>
    else gf\<lparr>gf_IngestReplicatedAt := t, gf_IngestReplicationURL := url\<rparr>)"
  have d: "dateEvent (if sendWhere \<noteq> ''glacier'' then isUrlAssignment else isReplication) gf1 m1 = (gf', m')"
    using assms(1) n by (simp add: markFileAsStored_def gf1_def split: if_splits)
  from dateEvent_frame [OF d t(2)] obtain events where e: "clockRuns m'" "gf' = gf1\<lparr>gf_PremisEvents := events\<rparr>" by blast
  then show "clockRuns m'" "isStored sendWhere gf'" "sameFile gf gf'"
    "isStored ''s3'' gf \<longrightarrow> isStored ''s3'' gf'" "isStored ''glacier'' gf \<longrightarrow> isStored ''glacier'' gf'"
    using t(1) by (simp_all add: gf1_def isStored_def sameFile_def)
qed

text \<open>S3 has said that it holds an object with the file's name and size.\<close>

definition confirmed :: "('e, 'b) Context \<Rightarrow> GenericFile \<Rightarrow> bool" where
  "confirmed cx gf \<longleftrightarrow> (\<exists>region bucket m m' obj.
     getS3FileDetail cx region bucket (gf_IngestUUID gf) m = Returns (Some obj, m') \<and> so_Size obj = Some (gf_Size gf))"

lemma getS3FileDetail_world:
  "getS3FileDetail cx region bucket uuid m = Returns (r, m') \<Longrightarrow> mc_world m' = mc_world m"
  by (auto simp: getS3FileDetail_def onEnvOutcome_def and_then_Returns_iff split: prod.splits)

lemma sizeReport_confirms:
  assumes "getS3FileDetail cx region bucket (gf_IngestUUID gf) m = Returns (obj, m1)"
    and "sizeReport cx sendWhere gf obj = Returns (True, errMsg)"
  shows "confirmed cx gf"
proof -
  from assms(2) obtain ob where "obj = Some ob" "so_Size ob = Some (gf_Size gf)"
    by (auto simp: sizeReport_def and_then_Returns_iff split: option.splits)
  with assms(1) show ?thesis unfolding confirmed_def by blast
qed

lemma concludeUpload_advances:
  assumes "concludeUpload sendWhere n u sizeOk errMsg ss m = Returns (ss', m')" "clockRuns m"
  shows "advances ss ss' \<and> clockRuns m' \<and>
    (n = MAX_UPLOAD_ATTEMPTS \<longrightarrow> isStored sendWhere (ss_GenericFile ss') \<or> HasErrors (ss_StoreResult ss')) \<and>
    (isStored sendWhere (ss_GenericFile ss') \<longrightarrow> isStored sendWhere (ss_GenericFile ss) \<or> sizeOk)"
proof (cases "sizeOk \<and> su_ErrorMessage u = []")
  case True
  with assms(1) obtain location where loc: "(case markFileAsStored sendWhere location (ss_GenericFile ss) m of
      (gf', m2) \<Rightarrow> Returns (ss\<lparr>ss_GenericFile := gf'\<rparr>, m2)) = Returns (ss', m')"
    by (auto simp: concludeUpload_def and_then_Returns_iff)
  obtain gf' m2 where "markFileAsStored sendWhere location (ss_GenericFile ss) m = (gf', m2)" by (metis prod.collapse)
  with loc have mark: "markFileAsStored sendWhere location (ss_GenericFile ss) m = (gf', m')" "ss' = ss\<lparr>ss_GenericFile := gf'\<rparr>"
    by simp_all
  from markFileAsStored_stored [OF mark(1) assms(2)] mark(2) True show ?thesis
    by (simp add: advances_def sameFile_def)
next
  case False
  with assms show ?thesis by (auto simp: concludeUpload_def Let_def complains_imp_advances split: if_splits)
qed

lemma judgeUpload_advances:
  assumes "judgeUpload cx sendWhere n u ss m = Returns (ss', m')" "clockRuns m"
  shows "advances ss ss' \<and> clockRuns m' \<and>
    (n = MAX_UPLOAD_ATTEMPTS \<longrightarrow> isStored sendWhere (ss_GenericFile ss') \<or> HasErrors (ss_StoreResult ss')) \<and>
    (isStored sendWhere (ss_GenericFile ss') \<longrightarrow> isStored sendWhere (ss_GenericFile ss) \<or> confirmed cx (ss_GenericFile ss))"
proof -
  from assms(1) obtain obj m1 sizeOk errMsg where
    det: "getS3FileDetail cx (ac_Region (su_access u)) (ui_Bucket (su_UploadInput u)) (gf_IngestUUID (ss_GenericFile ss)) m = Returns (obj, m1)"
    and rep: "sizeReport cx sendWhere (ss_GenericFile ss) obj = Returns (sizeOk, errMsg)"
    and con: "concludeUpload sendWhere n u sizeOk errMsg ss m1 = Returns (ss', m')"
    by (auto simp: judgeUpload_def Let_def and_then_Returns_iff)
  have "clockRuns m1" using getS3FileDetail_world [OF det] assms(2) clockRuns_world by blast
  moreover have "sizeOk \<Longrightarrow> confirmed cx (ss_GenericFile ss)" using sizeReport_confirms [OF det] rep by simp
  ultimately show ?thesis using concludeUpload_advances [OF con] by blast
qed

lemma doUpload_advances:
  assumes "doUpload cx sendWhere n ss m = Returns (ss', m')" "clockRuns m"
  shows "advances ss ss' \<and> clockRuns m' \<and>
    (n = MAX_UPLOAD_ATTEMPTS \<longrightarrow> isStored sendWhere (ss_GenericFile ss') \<or> HasErrors (ss_StoreResult ss')) \<and>
    (isStored sendWhere (ss_GenericFile ss') \<longrightarrow> isStored sendWhere (ss_GenericFile ss) \<or> confirmed cx (ss_GenericFile ss))"
proof -
  let ?goal = "\<lambda>ss' m'. advances ss ss' \<and> clockRuns m' \<and>
    (n = MAX_UPLOAD_ATTEMPTS \<longrightarrow> isStored sendWhere (ss_GenericFile ss') \<or> HasErrors (ss_StoreResult ss')) \<and>
    (isStored sendWhere (ss_GenericFile ss') \<longrightarrow> isStored sendWhere (ss_GenericFile ss) \<or> confirmed cx (ss_GenericFile ss))"
  have failed: "?goal s m'" if "complains ss s" "HasErrors (ss_StoreResult s)" "clockRuns m'" for s m'
    using that by (auto simp: complains_imp_advances) (simp add: complains_def)
  obtain u ss1 where i: "initUploader cx sendWhere ss = (u, ss1)" by (metis prod.collapse)
  show ?thesis
  proof (cases u)
    case None
    with assms(1) i initUploader_complains [OF i] have "complains ss ss'" "HasErrors (ss_StoreResult ss')" "m' = m"
      by (auto simp: doUpload_def)
    then show ?thesis using failed assms(2) by blast
  next
    case (Some up)
    obtain ok ss2 where k: "assertRequiredMetadata up ss1 = (ok, ss2)" by (metis prod.collapse)
    have n2: "complains ss ss2" using initUploader_complains [OF i] assertRequiredMetadata_complains [OF k] complains_trans by blast
    show ?thesis
    proof (cases ok)
      case False
      with assms(1) i Some k assertRequiredMetadata_complains [OF k] n2
      have "complains ss ss'" "HasErrors (ss_StoreResult ss')" "m' = m" by (auto simp: doUpload_def)
      then show ?thesis using failed assms(2) by blast
    next
      case True
      obtain rd ss3 where r: "getReadCloser (diskOf cx m) ss2 = (rd, ss3)" by (metis prod.collapse)
      have n3: "complains ss ss3" using n2 getReadCloser_complains [OF r] complains_trans by blast
      show ?thesis
      proof (cases rd)
        case None
        with assms(1) i Some k True r getReadCloser_complains [OF r] n3
        have "complains ss ss'" "HasErrors (ss_StoreResult ss')" "m' = m" by (auto simp: doUpload_def)
        then show ?thesis using failed assms(2) by blast
      next
        case rd: (Some rc)
        define gf where "gf = ss_GenericFile ss3"
        obtain got rd' m1 where g: "(if S3LargeFileSize < sint (gf_Size gf) then getFileReader cx gf rc m
            else (Inr rc, rc, m)) = (got, rd', m1)" by (metis prod.collapse)
        then have m1: "clockRuns m1"
          using assms(2) getFileReader_frame [of cx gf rc m got rd' m1] clockRuns_world by (auto split: if_splits)
        show ?thesis
        proof (cases got)
          case (Inl err)
          obtain msg where "ss' = summaryError msg ss3" "m' = m1"
            using assms(1) i Some k True r rd g Inl unfolding doUpload_def gf_def by (auto simp: Let_def)
          with m1 n3 show ?thesis by (intro failed) simp_all
        next
          case (Inr tmp)
          obtain up' m2 where s: "onEnv (SendWithSize (cx_aws cx) rd' (gf_Size gf) up) m1 = (up', m2)" by (metis prod.collapse)
          have j: "judgeUpload cx sendWhere n up' ss3 m2 = Returns (ss', m')"
            using assms(1) i Some k True r rd g Inr s unfolding doUpload_def gf_def by (simp add: Let_def)
          have "clockRuns m2" using onEnv_world [OF s] m1 clockRuns_world by blast
          note judged = judgeUpload_advances [OF j this]
          then have "advances ss ss'" using complains_advances [OF n3] by blast
          moreover have "ss_GenericFile ss3 = ss_GenericFile ss" using n3 by (simp add: complains_def)
          ultimately show ?thesis using judged by simp
        qed
      qed
    qed
  qed
qed

section \<open>No file is lost silently\<close>

lemma confirmed_advances: "advances ss ss' \<Longrightarrow> confirmed cx (ss_GenericFile ss') = confirmed cx (ss_GenericFile ss)"
  by (simp add: advances_def confirmed_def)

lemma uploadLoop_advances:
  assumes "uploadLoop cx sendWhere k n ss m = Returns (ss', m')" "clockRuns m" "0 < k" "n + k = Suc MAX_UPLOAD_ATTEMPTS"
  shows "advances ss ss' \<and> clockRuns m' \<and> (isStored sendWhere (ss_GenericFile ss') \<or> HasErrors (ss_StoreResult ss')) \<and>
    (isStored sendWhere (ss_GenericFile ss') \<longrightarrow> isStored sendWhere (ss_GenericFile ss) \<or> confirmed cx (ss_GenericFile ss))"
  using assms
proof (induction k arbitrary: n ss m)
  case (Suc k)
  from Suc.prems(1) obtain ss1 m1 where up: "doUpload cx sendWhere n ss m = Returns (ss1, m1)"
    and rest: "(if isStored sendWhere (ss_GenericFile ss1) then Returns (ss1, m1)
                else uploadLoop cx sendWhere k (n + 1) ss1 m1) = Returns (ss', m')"
    by (auto simp: and_then_Returns_iff)
  note one = doUpload_advances [OF up Suc.prems(2)]
  show ?case
  proof (cases "isStored sendWhere (ss_GenericFile ss1)")
    case True
    with rest one show ?thesis by simp
  next
    case not_yet: False
    show ?thesis
    proof (cases k)
      case 0
      with Suc.prems(4) have "n = MAX_UPLOAD_ATTEMPTS" by simp
      with not_yet 0 rest one show ?thesis by simp
    next
      case (Suc k')
      from Suc.IH [of "n + 1" ss1 m1] not_yet rest one Suc Suc.prems(4)
      have "advances ss1 ss' \<and> clockRuns m' \<and> (isStored sendWhere (ss_GenericFile ss') \<or> HasErrors (ss_StoreResult ss')) \<and>
        (isStored sendWhere (ss_GenericFile ss') \<longrightarrow> isStored sendWhere (ss_GenericFile ss1) \<or> confirmed cx (ss_GenericFile ss1))"
        by simp
      with one not_yet show ?thesis using advances_trans confirmed_advances by blast
    qed
  qed
qed simp

lemma copy_advances:
  assumes "copyToLongTermStorage cx sendWhere ss m = Returns (ss', m')" "clockRuns m"
  shows "advances ss ss' \<and> clockRuns m' \<and> (isStored sendWhere (ss_GenericFile ss') \<or> HasErrors (ss_StoreResult ss')) \<and>
    (isStored sendWhere (ss_GenericFile ss') \<longrightarrow> isStored sendWhere (ss_GenericFile ss) \<or> confirmed cx (ss_GenericFile ss))"
proof (cases "LooksLikeUUID (gf_IngestUUID (ss_GenericFile ss))")
  case True
  with assms(1) have "uploadLoop cx sendWhere MAX_UPLOAD_ATTEMPTS 1 ss m = Returns (ss', m')"
    by (simp add: copyToLongTermStorage_def uuidPresent_def)
  from uploadLoop_advances [OF this assms(2)] show ?thesis by (simp add: MAX_UPLOAD_ATTEMPTS_def)
next
  case False
  with assms(1) obtain msg msg' where "ss' = summaryError msg (summaryFatal (summaryError msg' ss))" "m' = m"
    by (auto simp: copyToLongTermStorage_def uuidPresent_def Let_def)
  with assms(2) show ?thesis by (simp add: complains_imp_advances)
qed


section \<open>Large files\<close>

lemma createTempFile_consumes:
  assumes "createTempFile cx gf rd m = (None, rd', m')"
  shows "rd' = readOn (gf_Size gf) rd" "statSize cx (getTempFilePath cx gf) m' = Some (gf_Size gf)"
  using assms unfolding createTempFile_def Let_def
  by (auto split: prod.splits option.splits if_splits)

lemma readOn_all: "size' = of_nat (length (rd_data rd)) \<Longrightarrow> length (rd_data rd) < 2 ^ 63 \<Longrightarrow> rd_data (readOn size' rd) = []"
  by (simp add: readOn_def unat_of_nat)

lemma getFileReader_first:
  assumes "getFileReader cx gf rd m = (Inr tmp, rd', m')" "\<not> FileExists (diskOf cx m) (getTempFilePath cx gf)" "gf_Size gf \<noteq> 0"
  shows "rd' = readOn (gf_Size gf) rd"
proof -
  obtain err rd1 m1 where c: "createTempFile cx gf rd m = (err, rd1, m1)" by (metis prod.collapse)
  with assms(1,2) have "err = None" by (cases err) (auto simp: getFileReader_def Let_def)
  with createTempFile_consumes c have r: "rd1 = readOn (gf_Size gf) rd" "statSize cx (getTempFilePath cx gf) m1 = Some (gf_Size gf)" by auto
  with assms c \<open>err = None\<close> show ?thesis by (simp add: getFileReader_def Let_def)
qed

lemma getFileReader_again:
  assumes "FileExists (diskOf cx m) (getTempFilePath cx gf)" "statSize cx (getTempFilePath cx gf) m = Some (gf_Size gf)" "gf_Size gf \<noteq> 0"
  shows "getFileReader cx gf rd m = (openTempFile cx gf m, rd, m)"
  using assms by (simp add: getFileReader_def Let_def)

lemma doUpload_sends:
  assumes "initUploader cx sendWhere ss = (Some up, ss1)" "missingKeys up = []" "getReadCloser (diskOf cx m) ss1 = (Some rd, ss2)"
    and "S3LargeFileSize < sint (gf_Size (ss_GenericFile ss2))" "getFileReader cx (ss_GenericFile ss2) rd m = (Inr tmp, rd', m1)"
  shows "doUpload cx sendWhere n ss m =
     (case onEnv (SendWithSize (cx_aws cx) rd' (gf_Size (ss_GenericFile ss2)) up) m1 of (up', m2) \<Rightarrow> judgeUpload cx sendWhere n up' ss2 m2)"
  using assms by (simp add: doUpload_def assertRequiredMetadata_def Let_def)

lemma large_not_zero: "S3LargeFileSize < sint size' \<Longrightarrow> size' \<noteq> 0"
  by (auto simp: S3LargeFileSize_def)

text \<open>C8: The first upload of a large file sends no bytes. A file above the limit is first copied to a temporary
  file, which reads the archive's reader to its end, and then this exhausted reader is what \<open>doUpload\<close>
  hands to S3, because the reader of the temporary file is another variable. On a later attempt, with the
  temporary file in place, the reader is fresh and the whole file is sent.\<close>

theorem doUpload_large_file_first_attempt_empty:
  assumes "initUploader cx sendWhere ss = (Some up, ss1)" "missingKeys up = []" "getReadCloser (diskOf cx m) ss1 = (Some rd, ss2)"
    and "S3LargeFileSize < sint (gf_Size (ss_GenericFile ss2))"
    and "gf_Size (ss_GenericFile ss2) = of_nat (length (rd_data rd))" "length (rd_data rd) < 2 ^ 63"
    and "getFileReader cx (ss_GenericFile ss2) rd m = (Inr tmp, rd', m1)"
  shows "(\<not> FileExists (diskOf cx m) (getTempFilePath cx (ss_GenericFile ss2)) \<longrightarrow>
      doUpload cx sendWhere n ss m =
        (case onEnv (SendWithSize (cx_aws cx) (rd\<lparr>rd_data := []\<rparr>) (gf_Size (ss_GenericFile ss2)) up) m1 of
           (up', m2) \<Rightarrow> judgeUpload cx sendWhere n up' ss2 m2)) \<and>
    (FileExists (diskOf cx m) (getTempFilePath cx (ss_GenericFile ss2)) \<and>
     statSize cx (getTempFilePath cx (ss_GenericFile ss2)) m = Some (gf_Size (ss_GenericFile ss2)) \<longrightarrow>
      doUpload cx sendWhere n ss m =
        (case onEnv (SendWithSize (cx_aws cx) rd (gf_Size (ss_GenericFile ss2)) up) m1 of
           (up', m2) \<Rightarrow> judgeUpload cx sendWhere n up' ss2 m2))"
proof -
  note sends = doUpload_sends [OF assms(1-4) assms(7), of n] and nz = large_not_zero [OF assms(4)]
  have "readOn (gf_Size (ss_GenericFile ss2)) rd = rd\<lparr>rd_data := []\<rparr>"
    using readOn_all [OF assms(5,6)] by (simp add: readOn_def)
  then show ?thesis
    using sends getFileReader_first [OF assms(7) _ nz] getFileReader_again [OF _ _ nz, of cx m rd] assms(7) by auto
qed

section \<open>Every file of the bag\<close>

definition keepsName :: "StorageSummary \<Rightarrow> StorageSummary \<Rightarrow> bool" where
  "keepsName ss ss' \<longleftrightarrow> gf_Identifier (ss_GenericFile ss') = gf_Identifier (ss_GenericFile ss) \<and>
     (HasErrors (ss_StoreResult ss) \<longrightarrow> HasErrors (ss_StoreResult ss')) \<and> (honest ss \<longrightarrow> honest ss')"

lemma keepsName_refl [simp]: "keepsName ss ss"
  by (simp add: keepsName_def)

lemma keepsName_trans: "keepsName a b \<Longrightarrow> keepsName b c \<Longrightarrow> keepsName a c"
  by (simp add: keepsName_def)

lemma advances_keepsName: "advances a b \<Longrightarrow> keepsName a b"
  by (simp add: advances_def keepsName_def)

lemma keepsName_error [simp]:
  "keepsName a ss \<Longrightarrow> keepsName a (summaryError msg ss)" "keepsName a ss \<Longrightarrow> keepsName a (summaryFatal (summaryError msg ss))"
  by (simp_all add: keepsName_def)

lemma keepsName_onFile [simp]: "(\<And>gf. gf_Identifier (f gf) = gf_Identifier gf) \<Longrightarrow> keepsName a (onFile f ss) = keepsName a ss"
  by (simp add: keepsName_def onFile_def)

lemma getUuidOfExistingFile_world:
  "getUuidOfExistingFile cx k m = Returns (r, m') \<Longrightarrow> mc_world m' = mc_world m"
  unfolding getUuidOfExistingFile_def Let_def
  by (auto simp: and_then_Returns_iff split: prod.splits option.splits if_splits dest!: onEnv_world)

lemma changedSincePreviousVersion_keeps:
  assumes "changedSincePreviousVersion cx existing ss m = Returns (ss', m')" "clockRuns m"
  shows "keepsName ss ss' \<and> clockRuns m'"
proof -
  from assms(1) obtain r where call: "getUuidOfExistingFile cx (gf_Identifier (ss_GenericFile ss)) m = Returns (r, m')"
    by (auto simp: changedSincePreviousVersion_def Let_def and_then_Returns_iff)
  then have "clockRuns m'" using getUuidOfExistingFile_world assms(2) clockRuns_world by blast
  moreover from assms(1) call have "keepsName ss ss'"
  proof (cases r)
    case (Inr uuid)
    with assms(1) call show ?thesis by (cases "uuid = []") (auto simp: changedSincePreviousVersion_def Let_def)
  qed (auto simp: changedSincePreviousVersion_def Let_def)
  ultimately show ?thesis by simp
qed

lemma getExistingSha256_world: "getExistingSha256 cx k m = (r, m') \<Longrightarrow> mc_world m' = mc_world m"
  unfolding getExistingSha256_def Let_def
  by (auto split: prod.splits option.splits dest!: onEnv_world)

lemma decideSave_keeps:
  assumes "decideSave cx ss m = Returns (goOn, ss', m')" "clockRuns m"
  shows "keepsName ss ss' \<and> clockRuns m' \<and> (\<not> goOn \<longrightarrow> HasErrors (ss_StoreResult ss'))"
proof -
  obtain r m1 where look: "getExistingSha256 cx (gf_Identifier (ss_GenericFile ss)) m = (r, m1)" by (metis prod.collapse)
  then have m1: "clockRuns m1" using getExistingSha256_world assms(2) clockRuns_world by blast
  let ?junk = "LooksLikeJunkFile (OriginalPath (ss_GenericFile ss)) \<and>
    (gf_IngestManifestMd5 (ss_GenericFile ss) \<noteq> [] \<or> gf_IngestManifestSha256 (ss_GenericFile ss) \<noteq> [])"
  show ?thesis
  proof (cases "?junk \<or> \<not> HasSavableName (OriginalPath (ss_GenericFile ss))")
    case True
    then have "\<exists>b. decideSave cx ss m = Returns (True, onFile (\<lambda>gf. gf\<lparr>gf_IngestNeedsSave := b\<rparr>) ss, m)"
      by (cases ?junk) (simp_all only: decideSave_def Let_def if_True if_False simp_thms, blast+)
    then show ?thesis using assms by auto
  next
    case False
    then have look: "decideSave cx ss m =
      (case (r, m1) of (Inl err, m1) \<Rightarrow> Returns (False, summaryError err ss, m1)
         | (Inr None, m1) \<Rightarrow> Returns (True, ss, m1)
         | (Inr (Some existing), m1) \<Rightarrow>
             and_then (changedSincePreviousVersion cx existing
                 (onFile (\<lambda>gf. gf\<lparr>gf_IngestPreviousVersionExists := True, gf_Id := cs_GenericFileId existing\<rparr>) ss) m1)
               (\<lambda>(ss', m2). Returns (True, ss', m2)))"
      unfolding decideSave_def Let_def look by auto
    show ?thesis
    proof (cases r)
      case (Inl err)
      with look assms(1) m1 show ?thesis by simp
    next
      case (Inr found)
      show ?thesis
      proof (cases found)
        case None
        with Inr look assms(1) m1 show ?thesis by simp
      next
        case (Some existing)
        with Inr look have e: "decideSave cx ss m = and_then (changedSincePreviousVersion cx existing
            (onFile (\<lambda>gf. gf\<lparr>gf_IngestPreviousVersionExists := True, gf_Id := cs_GenericFileId existing\<rparr>) ss) m1)
               (\<lambda>(ss', m2). Returns (True, ss', m2))" by simp
        have "goOn" "changedSincePreviousVersion cx existing
            (onFile (\<lambda>gf. gf\<lparr>gf_IngestPreviousVersionExists := True, gf_Id := cs_GenericFileId existing\<rparr>) ss) m1 = Returns (ss', m')"
          using assms(1) unfolding e by (auto simp: and_then_Returns_iff)
        from changedSincePreviousVersion_keeps [OF this(2) m1] this(1) show ?thesis
          by (auto simp: keepsName_def onFile_def)
      qed
    qed
  qed
qed

text \<open>A file that is where it belongs: it is not to be saved, or it is in the primary storage and, with the
  standard option, replicated. (The option \<open>glacier\<close> is not one of the storage options.)\<close>

definition settled :: "GenericFile \<Rightarrow> bool" where
  "settled gf \<longleftrightarrow> (gf_IngestNeedsSave gf \<longrightarrow>
     (gf_StorageOption gf \<noteq> ''glacier'' \<longrightarrow> isStored ''s3'' gf) \<and> (gf_StorageOption gf = StorageStandard \<longrightarrow> isStored ''glacier'' gf))"

lemma isStored_primary: "w \<noteq> ''glacier'' \<Longrightarrow> isStored w gf = isStored ''s3'' gf"
  by (simp add: isStored_def)

lemma copies_settles:
  assumes "copies cx ss m = Returns (ss', m')" "clockRuns m"
  shows "advances ss ss' \<and> clockRuns m' \<and> (settled (ss_GenericFile ss') \<or> HasErrors (ss_StoreResult ss'))"
proof (cases "gf_StorageOption (ss_GenericFile ss) = StorageStandard")
  case True
  then obtain ss1 m1 where
    first: "(if needsStoring (ss_GenericFile ss) then copyToLongTermStorage cx ''s3'' ss m else Returns (ss, m)) = Returns (ss1, m1)"
    and second: "(if needsReplicating (ss_GenericFile ss1) then copyToLongTermStorage cx ''glacier'' ss1 m1 else Returns (ss1, m1)) = Returns (ss', m')"
    using assms(1) by (auto simp: copies_def and_then_Returns_iff)
  have one: "advances ss ss1 \<and> clockRuns m1 \<and> (isStored ''s3'' (ss_GenericFile ss1) \<or> HasErrors (ss_StoreResult ss1))"
    using first assms(2) copy_advances [of cx "''s3''" ss m ss1 m1] by (auto simp: needsStoring_def isStored_def split: if_splits)
  have two: "advances ss1 ss' \<and> clockRuns m' \<and> (isStored ''glacier'' (ss_GenericFile ss') \<or> HasErrors (ss_StoreResult ss'))"
    using second one copy_advances [of cx "''glacier''" ss1 m1 ss' m'] by (auto simp: needsReplicating_def isStored_def split: if_splits)
  from one two show ?thesis using advances_trans [of ss ss1 ss'] by (auto simp: advances_def settled_def)
next
  case False
  have "advances ss ss' \<and> clockRuns m' \<and> (gf_StorageOption (ss_GenericFile ss) \<noteq> ''glacier'' \<longrightarrow>
      isStored ''s3'' (ss_GenericFile ss') \<or> HasErrors (ss_StoreResult ss'))"
  proof (cases "needsStoring (ss_GenericFile ss)")
    case True
    with False assms have "copyToLongTermStorage cx (gf_StorageOption (ss_GenericFile ss)) ss m = Returns (ss', m')" by (simp add: copies_def)
    from copy_advances [OF this assms(2)] show ?thesis using isStored_primary by blast
  next
    case not_needed: False
    with False assms show ?thesis by (auto simp: copies_def needsStoring_def isStored_def)
  qed
  with False show ?thesis by (auto simp: advances_def settled_def)
qed

subsection \<open>The database\<close>

text \<open>Every record is filed under the identifier of its file.\<close>

definition keyed :: "'b bolt \<Rightarrow> 'b \<Rightarrow> bool" where
  "keyed ops db \<longleftrightarrow> (\<forall>k gf. get_file ops db k = Some (Gob gf) \<longrightarrow> gf_Identifier gf = k)"

definition settledIn :: "'b bolt \<Rightarrow> 'b \<Rightarrow> string \<Rightarrow> bool" where
  "settledIn ops db k \<longleftrightarrow> (\<exists>gf. get_file ops db k = Some (Gob gf) \<and> settled gf)"

text \<open>What a step of the storing loop does to the database.\<close>

definition stepsTo :: "'b bolt \<Rightarrow> 'b \<Rightarrow> 'b \<Rightarrow> bool" where
  "stepsTo ops db db' \<longleftrightarrow> file_keys ops db' = file_keys ops db \<and> keyed ops db' \<and> get_obj ops db' = get_obj ops db"

lemma saveInDB_steps:
  assumes "bolt_laws (dbOps cx)" "keyed (dbOps cx) db" "gf_Identifier (ss_GenericFile ss) \<in> set (file_keys (dbOps cx) db)"
    and "saveInDB cx dbPath ss db = (ss', db')"
  shows "stepsTo (dbOps cx) db db' \<and> keepsName ss ss' \<and>
    (HasErrors (ss_StoreResult ss') \<or> get_file (dbOps cx) db' =
       (get_file (dbOps cx) db)(gf_Identifier (ss_GenericFile ss) \<mapsto> Gob (ss_GenericFile ss)))"
proof -
  let ?gf = "ss_GenericFile ss"
  obtain err db1 where sv: "SaveFile (dbOps cx) db (gf_Identifier ?gf) ?gf = (err, db1)" by (metis prod.collapse)
  then have db': "db' = db1" "keepsName ss ss'" "err \<noteq> None \<longrightarrow> HasErrors (ss_StoreResult ss')"
    using assms(4) by (auto simp: saveInDB_def split: option.splits)
  have "get_file (dbOps cx) db (gf_Identifier ?gf) \<noteq> None"
    using assms(3) bolt_laws.file_keys_set [OF assms(1)] by (simp add: domIff)
  from bolt_laws.SaveFile_keys [OF assms(1) this, of ?gf] sv have keys: "file_keys (dbOps cx) db1 = file_keys (dbOps cx) db" by simp
  show ?thesis
  proof (cases err)
    case None
    with bolt_laws.SaveFile_ok [OF assms(1), of db "gf_Identifier ?gf" ?gf db1] sv keys db' assms(2)
    show ?thesis by (simp add: stepsTo_def keyed_def)
  next
    case (Some e)
    with bolt_laws.SaveFile_failed [OF assms(1), of db "gf_Identifier ?gf" ?gf e db1] sv keys db' assms(2)
    show ?thesis by (simp add: stepsTo_def keyed_def)
  qed
qed

lemma saveFile_steps:
  assumes "bolt_laws (dbOps cx)" "keyed (dbOps cx) db" "gf_Identifier (ss_GenericFile ss) \<in> set (file_keys (dbOps cx) db)"
    and "storer_saveFile cx dbPath ss db m = Returns (ss', db', m')" "clockRuns m"
  shows "stepsTo (dbOps cx) db db' \<and> keepsName ss ss' \<and> clockRuns m' \<and>
    (HasErrors (ss_StoreResult ss') \<or> settledIn (dbOps cx) db' (gf_Identifier (ss_GenericFile ss)) \<and>
       (\<forall>k. settledIn (dbOps cx) db k \<longrightarrow> settledIn (dbOps cx) db' k))"
proof -
  from assms(4) obtain goOn ss1 m1 where dec: "decideSave cx ss m = Returns (goOn, ss1, m1)"
    and rest: "(if \<not> goOn then Returns (ss1, db, m1)
       else let needsSave = gf_IngestNeedsSave (ss_GenericFile ss1)
            in and_then (if needsSave then copies cx ss1 m1 else Returns (ss1, m1)) (\<lambda>(ss2, m2).
                 case saveInDB cx dbPath ss2 db of
                   (ss3, db') \<Rightarrow> Returns (ss3, db', if needsSave then cleanupTempFile cx (ss_GenericFile ss3) m2 else m2))) = Returns (ss', db', m')"
    by (auto simp: storer_saveFile_def and_then_Returns_iff)
  note d = decideSave_keeps [OF dec assms(5)]
  show ?thesis
  proof (cases goOn)
    case False
    with rest d assms(2) show ?thesis by (simp add: stepsTo_def)
  next
    case True
    define needsSave where "needsSave = gf_IngestNeedsSave (ss_GenericFile ss1)"
    from rest True obtain ss2 m2 where cop: "(if needsSave then copies cx ss1 m1 else Returns (ss1, m1)) = Returns (ss2, m2)"
      and r: "(case saveInDB cx dbPath ss2 db of
                   (ss3, db') \<Rightarrow> Returns (ss3, db', if needsSave then cleanupTempFile cx (ss_GenericFile ss3) m2 else m2)) = Returns (ss', db', m')"
      by (auto simp: Let_def and_then_Returns_iff needsSave_def)
    obtain ss3 db3 where "saveInDB cx dbPath ss2 db = (ss3, db3)" by (metis prod.collapse)
    with r have sv: "saveInDB cx dbPath ss2 db = (ss', db')" and m': "m' = (if needsSave then cleanupTempFile cx (ss_GenericFile ss') m2 else m2)"
      by auto
    have c: "advances ss1 ss2 \<and> clockRuns m2 \<and> (settled (ss_GenericFile ss2) \<or> HasErrors (ss_StoreResult ss2))"
      using cop copies_settles [of cx ss1 m1 ss2 m2] d by (auto simp: needsSave_def settled_def split: if_splits)
    then have k: "keepsName ss ss2" using d advances_keepsName keepsName_trans by blast
    then have id: "gf_Identifier (ss_GenericFile ss2) = gf_Identifier (ss_GenericFile ss)" by (simp add: keepsName_def)
    note s = saveInDB_steps [OF assms(1,2) _ sv] 
    have "clockRuns m'" using m' c by (auto simp: cleanupTempFile_def Let_def)
    moreover have "stepsTo (dbOps cx) db db' \<and> keepsName ss2 ss'" using s assms(3) id by simp
    moreover from this have "HasErrors (ss_StoreResult ss') \<or> settled (ss_GenericFile ss2)" using c by (auto simp: keepsName_def)
    ultimately show ?thesis using k keepsName_trans s assms(3) id by (auto simp: settledIn_def)
  qed
qed

lemma stepsTo_trans: "stepsTo ops a b \<Longrightarrow> stepsTo ops b c \<Longrightarrow> stepsTo ops a c"
  by (simp add: stepsTo_def)

lemma saveBatch_steps:
  assumes "bolt_laws (dbOps cx)" "keyed (dbOps cx) db"
    and "\<forall>ss\<in>set summaries. gf_Identifier (ss_GenericFile ss) \<in> set (file_keys (dbOps cx) db) \<and> honest ss"
    and "saveBatch cx dbPath storageOption summaries db m = Returns (saved, db', m')" "clockRuns m"
  shows "stepsTo (dbOps cx) db db' \<and> clockRuns m' \<and> (\<forall>ss\<in>set saved. honest ss) \<and>
    ((\<exists>ss\<in>set saved. HasErrors (ss_StoreResult ss)) \<or>
     (\<forall>ss\<in>set summaries. settledIn (dbOps cx) db' (gf_Identifier (ss_GenericFile ss))) \<and>
     (\<forall>k. settledIn (dbOps cx) db k \<longrightarrow> settledIn (dbOps cx) db' k))"
  using assms
proof (induction summaries arbitrary: db m saved)
  case (Cons ss rest)
  define ss0 where "ss0 = (if storageOption \<noteq> [] then onFile (\<lambda>gf. gf\<lparr>gf_StorageOption := storageOption\<rparr>) ss else ss)"
  have ss0: "gf_Identifier (ss_GenericFile ss0) = gf_Identifier (ss_GenericFile ss)" "honest ss0 = honest ss"
    by (simp_all add: ss0_def onFile_def)
  from Cons.prems(4) obtain ss1 db1 m1 saved1 where one: "storer_saveFile cx dbPath ss0 db m = Returns (ss1, db1, m1)"
    and two: "saveBatch cx dbPath storageOption rest db1 m1 = Returns (saved1, db', m')" and saved: "saved = ss1 # saved1"
    unfolding saveBatch.simps ss0_def [symmetric] by (auto simp: and_then_Returns_iff)
  have first: "stepsTo (dbOps cx) db db1 \<and> keepsName ss0 ss1 \<and> clockRuns m1 \<and>
    (HasErrors (ss_StoreResult ss1) \<or> settledIn (dbOps cx) db1 (gf_Identifier (ss_GenericFile ss0)) \<and>
       (\<forall>k. settledIn (dbOps cx) db k \<longrightarrow> settledIn (dbOps cx) db1 k))"
    using saveFile_steps [OF Cons.prems(1,2) _ one Cons.prems(5)] Cons.prems(3) ss0 by simp
  then have db1: "keyed (dbOps cx) db1" "file_keys (dbOps cx) db1 = file_keys (dbOps cx) db" by (simp_all add: stepsTo_def)
  have "honest ss1" using first ss0 Cons.prems(3) by (simp add: keepsName_def)
  moreover note Cons.IH [OF Cons.prems(1) db1(1) _ two] 
  ultimately show ?case using first saved db1 ss0 stepsTo_trans [of "dbOps cx" db db1 db'] Cons.prems(3) by auto
qed (simp add: stepsTo_def)

subsection \<open>The loop\<close>

definition storeErrors :: "IngestState \<Rightarrow> bool" where
  "storeErrors st = HasErrors (im_StoreResult (is_IngestManifest st))"

lemma HasErrors_foldl: "HasErrors (foldl AddError s msgs) \<longleftrightarrow> HasErrors s \<or> msgs \<noteq> []"
  using summary_log.has_report_iff [of msgs s] by (simp add: summary_log.report_def)

lemma collectErrors_reports:
  "\<forall>ss\<in>set saved. honest ss \<Longrightarrow>
     HasErrors (collectErrors saved result) \<longleftrightarrow> HasErrors result \<or> (\<exists>ss\<in>set saved. HasErrors (ss_StoreResult ss))"
  by (induction saved arbitrary: result) (auto simp: Let_def HasErrors_foldl honest_def HasErrors_def [of "ss_StoreResult _"])

lemma storeErrors_collect:
  "\<forall>ss\<in>set saved. honest ss \<Longrightarrow>
     storeErrors (onStoreResult (collectErrors saved) (TouchNSQ st)) \<longleftrightarrow> storeErrors st \<or> (\<exists>ss\<in>set saved. HasErrors (ss_StoreResult ss))"
  by (simp add: storeErrors_def onStoreResult_def onManifest_def collectErrors_reports TouchNSQ_def)

lemma summariesFor_ids:
  assumes "keyed (dbOps cx) db" "summariesFor cx db obj ids = Returns (Inr summaries)"
  shows "map (\<lambda>ss. gf_Identifier (ss_GenericFile ss)) summaries = ids \<and> (\<forall>ss\<in>set summaries. honest ss)"
  using assms(2)
proof (induction ids arbitrary: summaries)
  case (Cons k ids)
  then obtain gf where gf: "get_file (dbOps cx) db k = Some (Gob gf)"
    by (auto simp: GetGenericFile_def NewStorageSummary_def and_then_Returns_iff split: option.splits gob.splits)
  with assms(1) have id: "gf_Identifier gf = k" by (simp add: keyed_def)
  from Cons.prems gf obtain ob where ob: "obj = Some ob" "obj_IngestTarFilePath ob \<noteq> []"
    by (auto simp: GetGenericFile_def NewStorageSummary_def and_then_Returns_iff split: if_splits)
  with Cons.prems gf obtain r where "summariesFor cx db obj ids = Returns r"
    "(case r of Inl err \<Rightarrow> Inl err | Inr rest \<Rightarrow> Inr (\<lparr>ss_StoreResult = NewWorkSummary, ss_TarFilePath = obj_IngestTarFilePath ob,
           ss_UntarredPath = obj_IngestUntarredPath ob, ss_GenericFile = gf\<rparr> # rest)) = Inr summaries"
    by (auto simp: GetGenericFile_def NewStorageSummary_def and_then_Returns_iff)
  with Cons.IH id show ?case by (cases r) (auto simp: honest_def NewWorkSummary_def)
qed simp

lemma getStorageSummaryBatch_ids:
  assumes "keyed (dbOps cx) db" "getStorageSummaryBatch cx obj start limit db = Returns (Inr (summaries, hasMore))" "0 \<le> start" "0 \<le> limit"
  shows "map (\<lambda>ss. gf_Identifier (ss_GenericFile ss)) summaries = take (nat limit) (drop (nat start) (file_keys (dbOps cx) db)) \<and>
    (\<forall>ss\<in>set summaries. honest ss) \<and> (hasMore \<longleftrightarrow> int (length summaries) = limit)"
proof -
  let ?ids = "FileIdentifierBatch (dbOps cx) db start limit"
  from assms(2) obtain ob r where "summariesFor cx db ob ?ids = Returns r"
    "(case r of Inl err \<Rightarrow> Inl err | Inr found \<Rightarrow> Inr (found, int (length ?ids) = limit)) = Inr (summaries, hasMore)"
    by (auto simp: getStorageSummaryBatch_def Let_def and_then_Returns_iff split: prod.splits option.splits)
  then have "summariesFor cx db ob ?ids = Returns (Inr summaries)" "hasMore = (int (length ?ids) = limit)" by (cases r; simp)+
  with summariesFor_ids [OF assms(1) this(1)] FileIdentifierBatch_take_drop [OF assms(3,4), of "dbOps cx" db]
  show ?thesis unfolding FileIdentifiers_def by (metis length_map)
qed

lemma batch_cases:
  obtains (panic) "x = Panics" | (failed) err where "x = Returns (Inl err)" | (read) a b where "x = Returns (Inr (a, b))"
  by (metis outcome.exhaust sum.exhaust prod.collapse)

lemma saved_cases:
  obtains (panic) "x = Panics" | (saved) a b c where "x = Returns (a, b, c)"
  by (metis outcome.exhaust prod.collapse)

text \<open>\<open>start\<close> files are behind the loop.\<close>

definition behind :: "'b bolt \<Rightarrow> 'b \<Rightarrow> int \<Rightarrow> IngestState \<Rightarrow> bool" where
  "behind ops db start st \<longleftrightarrow> storeErrors st \<or> (\<forall>k\<in>set (take (nat start) (file_keys ops db)). settledIn ops db k)"

lemma storeLoop_round:
  assumes "bolt_laws (dbOps cx)" "0 < limit" "keyed (dbOps cx) db" "clockRuns m" "0 \<le> start" "behind (dbOps cx) db start st"
    and got: "getStorageSummaryBatch cx obj start limit db = Returns (Inr (summaries, hasMore))"
    and sv: "saveBatch cx dbPath storageOption summaries db m = Returns (saved, db1, m1)"
  shows "stepsTo (dbOps cx) db db1 \<and> clockRuns m1 \<and>
    behind (dbOps cx) db1 (start + int (length summaries)) (onStoreResult (collectErrors saved) (TouchNSQ st)) \<and>
    (if hasMore then nat (int (length (file_keys (dbOps cx) db)) - (start + int (length summaries))) < nat (int (length (file_keys (dbOps cx) db)) - start)
     else length (file_keys (dbOps cx) db) \<le> nat (start + int (length summaries)))"
proof -
  let ?keys = "file_keys (dbOps cx) db" and ?ids = "map (\<lambda>ss. gf_Identifier (ss_GenericFile ss)) summaries"
  note b = getStorageSummaryBatch_ids [OF assms(3) got assms(5) less_imp_le [OF assms(2)]]
  then have ids: "?ids = take (nat limit) (drop (nat start) ?keys)" by simp
  have "set ?ids \<subseteq> set ?keys" unfolding ids by (rule subset_trans [OF set_take_subset set_drop_subset])
  then have "\<forall>ss\<in>set summaries. gf_Identifier (ss_GenericFile ss) \<in> set ?keys" by auto
  with b have "\<forall>ss\<in>set summaries. gf_Identifier (ss_GenericFile ss) \<in> set ?keys \<and> honest ss" by blast
  from saveBatch_steps [OF assms(1,3) this sv assms(4)]
  have s: "stepsTo (dbOps cx) db db1 \<and> clockRuns m1 \<and> (\<forall>ss\<in>set saved. honest ss) \<and>
    ((\<exists>ss\<in>set saved. HasErrors (ss_StoreResult ss)) \<or>
     (\<forall>ss\<in>set summaries. settledIn (dbOps cx) db1 (gf_Identifier (ss_GenericFile ss))) \<and>
     (\<forall>k. settledIn (dbOps cx) db k \<longrightarrow> settledIn (dbOps cx) db1 k))" .
  have "set (take (nat (start + int (length summaries))) ?keys) = set (take (nat start) ?keys) \<union> set ?ids"
    using page_covers [OF assms(5) ids] by simp
  then have "behind (dbOps cx) db1 (start + int (length summaries)) (onStoreResult (collectErrors saved) (TouchNSQ st))"
    using s assms(6) storeErrors_collect [of saved st] by (auto simp: behind_def stepsTo_def)
  moreover have "if hasMore then nat (int (length ?keys) - (start + int (length summaries))) < nat (int (length ?keys) - start)
     else length ?keys \<le> nat (start + int (length summaries))"
  proof -
    have "if int (length summaries) = limit then nat (int (length ?keys) - (start + int (length summaries))) < nat (int (length ?keys) - start)
        else length ?keys \<le> nat (start + int (length summaries)) \<and> int (length summaries) < limit"
      using page_progress [OF assms(2,5) ids] by (simp only: length_map)
    moreover have "hasMore \<longleftrightarrow> int (length summaries) = limit" using b by blast
    ultimately show ?thesis by presburger
  qed
  ultimately show ?thesis using s by blast
qed

lemma storeLoop_covers:
  assumes "bolt_laws (dbOps cx)" "0 < limit" "keyed (dbOps cx) db" "clockRuns m" "0 \<le> start" "behind (dbOps cx) db start st"
  shows "\<exists>r. storeLoop cx dbPath obj storageOption limit start st db m = Some r \<and>
    (\<forall>st' db' m'. r = Returns (st', db', m') \<longrightarrow> storeErrors st' \<or>
       stepsTo (dbOps cx) db db' \<and> (\<forall>k\<in>set (file_keys (dbOps cx) db). settledIn (dbOps cx) db' k))"
  using assms(3-6)
proof (induction "nat (int (length (file_keys (dbOps cx) db)) - start)" arbitrary: start st db m rule: less_induct)
  case less
  show ?case
  proof (cases "getStorageSummaryBatch cx obj start limit db" rule: batch_cases)
    case panic
    then show ?thesis by (subst storeLoop.simps) simp
  next
    case failed
    then show ?thesis by (subst storeLoop.simps) (simp add: storeErrors_def onStoreResult_def onManifest_def)
  next
    case (read summaries hasMore)
    note got = this
    show ?thesis
    proof (cases "saveBatch cx dbPath storageOption summaries db m" rule: saved_cases)
      case panic
      with got show ?thesis by (subst storeLoop.simps) simp
    next
      case (saved saved db1 m1)
      define st1 where "st1 = onStoreResult (collectErrors saved) (TouchNSQ st)"
      define next' where "next' = start + int (length summaries)"
      note round = storeLoop_round [OF assms(1,2) less.prems got saved, folded st1_def next'_def]
      then have db1: "keyed (dbOps cx) db1" "file_keys (dbOps cx) db1 = file_keys (dbOps cx) db" by (simp_all add: stepsTo_def)
      show ?thesis
      proof (cases hasMore)
        case True
        then obtain r where r: "storeLoop cx dbPath obj storageOption limit next' st1 db1 m1 = Some r"
          "\<forall>st' db' m'. r = Returns (st', db', m') \<longrightarrow> storeErrors st' \<or>
             stepsTo (dbOps cx) db1 db' \<and> (\<forall>k\<in>set (file_keys (dbOps cx) db). settledIn (dbOps cx) db' k)"
          using less.hyps [of db1 next' m1 st1] db1 round less.prems(3) by (auto simp: next'_def)
        have "storeLoop cx dbPath obj storageOption limit start st db m = Some r"
          using r(1) got saved True by (subst storeLoop.simps) (simp add: Let_def st1_def next'_def)
        then show ?thesis using r(2) round by (auto intro: stepsTo_trans)
      next
        case False
        with round have "storeErrors st1 \<or> (\<forall>k\<in>set (file_keys (dbOps cx) db). settledIn (dbOps cx) db1 k)"
          by (auto simp: behind_def db1)
        moreover have "storeLoop cx dbPath obj storageOption limit start st db m = Some (Returns (st1, db1, m1))"
          using got saved False by (subst storeLoop.simps) (simp add: Let_def st1_def)
        ultimately show ?thesis using round by blast
      qed
    qed
  qed
qed

text \<open>C3: Storing a bag visits every file. With at least one network connection the loop over the batches ends,
  whatever the remote services do, and if it returns a result without errors, the database has the same
  files as before and each of them is not to be saved, or is in long-term storage and, with the standard option,
  replicated. Relied on is that the database behaves as documented and has its records under the identifiers
  of their files, and that the clock never shows the zero time.\<close>

theorem storeLoop_stores_every_file:
  assumes "bolt_laws (dbOps cx)" "keyed (dbOps cx) db" "0 < limit" "clockRuns m"
  shows "\<exists>r. storeLoop cx dbPath objIdentifier storageOption limit 0 st db m = Some r \<and>
    (\<forall>st' db' m'. r = Returns (st', db', m') \<and> \<not> HasErrors (im_StoreResult (is_IngestManifest st')) \<longrightarrow>
       FileIdentifiers (dbOps cx) db' = FileIdentifiers (dbOps cx) db \<and>
       (\<forall>k\<in>set (FileIdentifiers (dbOps cx) db). \<exists>gf. GetGenericFile (dbOps cx) db' k = (Some gf, None) \<and> gf_Identifier gf = k \<and>
          (gf_IngestNeedsSave gf \<longrightarrow>
            (gf_StorageOption gf \<noteq> ''glacier'' \<longrightarrow> \<not> IsZero (gf_IngestStoredAt gf)) \<and>
            (gf_StorageOption gf = StorageStandard \<longrightarrow> \<not> IsZero (gf_IngestReplicatedAt gf)))))"
proof -
  have "behind (dbOps cx) db 0 st" by (simp add: behind_def)
  from storeLoop_covers [OF assms(1,3,2,4) _ this, of dbPath objIdentifier storageOption] obtain r where
    r: "storeLoop cx dbPath objIdentifier storageOption limit 0 st db m = Some r"
    "\<forall>st' db' m'. r = Returns (st', db', m') \<longrightarrow> storeErrors st' \<or>
       stepsTo (dbOps cx) db db' \<and> (\<forall>k\<in>set (file_keys (dbOps cx) db). settledIn (dbOps cx) db' k)" by auto
  moreover have "\<exists>gf. GetGenericFile (dbOps cx) db' k = (Some gf, None) \<and> gf_Identifier gf = k \<and>
      (gf_IngestNeedsSave gf \<longrightarrow> (gf_StorageOption gf \<noteq> ''glacier'' \<longrightarrow> \<not> IsZero (gf_IngestStoredAt gf)) \<and>
         (gf_StorageOption gf = StorageStandard \<longrightarrow> \<not> IsZero (gf_IngestReplicatedAt gf)))"
    if "stepsTo (dbOps cx) db db'" "settledIn (dbOps cx) db' k" for db' k
    using that by (auto simp: stepsTo_def keyed_def settledIn_def settled_def isStored_def GetGenericFile_def)
  ultimately show ?thesis by (auto simp: storeErrors_def FileIdentifiers_def stepsTo_def)
qed

text \<open>Without a network connection the loop asks for empty batches for ever.\<close>

theorem storeLoop_no_connections:
  assumes "snd (GetIntellectualObject (dbOps cx) db objIdentifier) = None"
  shows "storeLoop cx dbPath objIdentifier storageOption 0 start st db m = None"
proof -
  have "\<not> (snd (GetIntellectualObject (dbOps cx) db objIdentifier) = None \<and> limit = 0)"
    if "storeLoop cx dbPath objIdentifier storageOption limit start st db m = Some r" for limit r
  proof (rule storeLoop.raw_induct [where P = "\<lambda>cx _ objIdentifier _ limit _ _ db _ _.
      \<not> (snd (GetIntellectualObject (dbOps cx) db objIdentifier) = None \<and> limit = 0)", OF _ that], clarify)
    fix f and cx :: "('c, 'd) Context" and dbPath objIdentifier storageOption and limit start :: int and st db m r
    assume IH: "\<And>cx dbPath objIdentifier storageOption limit start st db m r.
        f cx dbPath objIdentifier storageOption limit start st db m = Some r \<Longrightarrow>
        \<not> (snd (GetIntellectualObject (dbOps cx) db objIdentifier) = None \<and> limit = 0)"
      and ok: "snd (GetIntellectualObject (dbOps cx) db objIdentifier) = None"
      and step: "(case getStorageSummaryBatch cx objIdentifier start 0 db of
          Panics \<Rightarrow> Some Panics
        | Returns (Inl err) \<Rightarrow> Some (Returns (onStoreResult (\<lambda>s. (AddError s err)\<lparr>ws_ErrorIsFatal := True\<rparr>) st, db, m))
        | Returns (Inr (summaries, hasMoreFiles)) \<Rightarrow>
            (case saveBatch cx dbPath storageOption summaries db m of
               Panics \<Rightarrow> Some Panics
             | Returns (saved, db1, m1) \<Rightarrow>
                 (let st1 = onStoreResult (collectErrors saved) (TouchNSQ st)
                  in if hasMoreFiles then f cx dbPath objIdentifier storageOption 0 (start + int (length summaries)) st1 db1 m1
                     else Some (Returns (st1, db1, m1))))) = Some r"
    have "FileIdentifierBatch (dbOps cx) db start 0 = []"
      by (simp add: FileIdentifierBatch_def Let_def batchLoop_take_drop)
    with ok have "getStorageSummaryBatch cx objIdentifier start 0 db = Returns (Inr ([], True))"
      by (cases "GetIntellectualObject (dbOps cx) db objIdentifier") (simp add: getStorageSummaryBatch_def Let_def)
    with step have "f cx dbPath objIdentifier storageOption 0 start (onStoreResult (collectErrors []) (TouchNSQ st)) db m = Some r"
      by (simp add: Let_def)
    from IH [OF this] ok show False by simp
  qed
  with assms show ?thesis by (cases "storeLoop cx dbPath objIdentifier storageOption 0 start st db m") auto
qed

section \<open>The answer to NSQ\<close>

lemma passToRecord_sends:
  "passToRecord cx st m = Returns (st', m') \<Longrightarrow> is_NSQMessage st' = nsqSend NsqFinish (is_NSQMessage st)"
  by (auto simp: passToRecord_def split_beta dest: PushToQueue_frame)

lemma storer_settle_sends:
  assumes "storer_settle storer st m = Returns (st', m')"
  shows "is_NSQMessage st' = nsqSend (answerFor (storerDisposition storer st) (requeueTimeout st)) (is_NSQMessage st)"
  using assms
  by (auto simp: storer_settle_def and_then_Returns_iff
      dest!: RecordWorkItemState_frame(1) dest: settle_sends [OF _ passToRecord_sends])

interpretation storer_end: last_step "storer_settle storer" is_NSQMessage
    "\<lambda>st. answerFor (storerDisposition storer st) (requeueTimeout st)" for storer
  by unfold_locales (simp_all add: storer_settle_sends)

section \<open>Examples\<close>

definition upAWS :: "int64 \<Rightarrow> 'e aws" where
  "upAWS size' = downAWS\<lparr>aws_upload := (\<lambda>_ _ _ _ e. ((Some ''https://s3/x'', None), e)),
     aws_list := (\<lambda>_ _ e. ((Some \<lparr>lo_Contents = [\<lparr>so_Key = None, so_ETag = None, so_Size = Some size', so_LastModified = None\<rparr>],
       lo_IsTruncated = None, lo_NextMarker = None\<rparr>, None), e))\<rparr>"

definition storedFile :: "string \<Rightarrow> GenericFile" where
  "storedFile bytes = NewGenericFile\<lparr>gf_Identifier := ''a.edu/b/data/._f'', gf_IntellectualObjectIdentifier := ''a.edu/b'',
     gf_Size := of_nat (length bytes), gf_IngestUUID := ''01234567-89ab-4def-8123-456789abcdef'', gf_IngestMd5 := ''m'',
     gf_IngestSha256 := ''s'', gf_IngestManifestMd5 := ''m'', gf_StorageOption := StorageStandard, gf_IngestNeedsSave := True\<rparr>"

definition bagDisk :: "string \<Rightarrow> bool \<Rightarrow> disk" where
  "bagDisk bytes copied = noFiles\<lparr>fs_tar := (\<lambda>_. Inr \<lparr>tb_entries =
       [(\<lparr>th_Name = ''b/data/._f'', th_Mode = 0, th_Size = of_nat (length bytes), th_ModTime = 1, th_Typeflag = CHR ''0'',
          th_Uid = 0, th_Gid = 0\<rparr>, \<lparr>rd_data = bytes, rd_err = None\<rparr>)], tb_end = None\<rparr>),
     fs_stat := (\<lambda>_. if copied then Inr \<lparr>fi_Mode = 0, fi_Size = of_nat (length bytes), fi_ModTime = 1, fi_Kind = RegularFile, fi_Uid = 0, fi_Gid = 0\<rparr>
                     else Inl (NotExist ''no such file'')),
     fs_open := (\<lambda>_. Inr \<lparr>rd_data = bytes, rd_err = None\<rparr>)\<rparr>"

definition bagSummary :: "string \<Rightarrow> StorageSummary" where
  "bagSummary bytes = \<lparr>ss_StoreResult = NewWorkSummary, ss_TarFilePath = ''/b.tar'', ss_UntarredPath = [], ss_GenericFile = storedFile bytes\<rparr>"

text \<open>The state of the environment says whether the temporary file was written.\<close>

definition bagContext :: "string \<Rightarrow> (bool, memory) Context" where
  "bagContext bytes = (exampleContext \<lparr>http_parse = http_parse refused, http_do = (\<lambda>rq e. (Inl (''connection refused'', None), e))\<rparr> noFiles ([], []))
     \<lparr>cx_aws := upAWS (of_nat (length bytes)),
      cx_os := (exampleOS noFiles)\<lparr>os_disk := bagDisk bytes, os_write := (\<lambda>_ rd e. ((of_nat (length (rd_data rd)), rd_err rd), True))\<rparr>\<rparr>"

lemma bagContext_simps [simp]:
  "cx_aws (bagContext bytes) = upAWS (of_nat (length bytes))" "diskOf (bagContext bytes) m = bagDisk bytes (mc_env m)"
  by (simp_all add: bagContext_def diskOf_def)

lemma bagFile_simps:
  "InstitutionIdentifier (storedFile bytes) = (''a.edu'', None)"
  "OriginalPath (storedFile bytes) = ''data/._f''"
  "OriginalPathWithBagName (storedFile bytes) = (''b/data/._f'', None)"
proof -
  show inst: "InstitutionIdentifier (storedFile bytes) = (''a.edu'', None)" by (simp add: InstitutionIdentifier_def storedFile_def)
  have "Replace1 ''a.edu/b/data/._f'' ''a.edu/b/'' [] = ''data/._f''" "Replace1 ''a.edu/b/data/._f'' ''a.edu/'' [] = ''b/data/._f''" by code_simp+
  with inst show "OriginalPath (storedFile bytes) = ''data/._f''" "OriginalPathWithBagName (storedFile bytes) = (''b/data/._f'', None)"
    by (simp_all add: OriginalPath_def OriginalPathWithBagName_def) (simp_all add: storedFile_def)
qed

lemma bag_uploader:
  obtains up where "initUploader (bagContext bytes) ''s3'' (bagSummary bytes) = (Some up, bagSummary bytes)" "missingKeys up = []"
    "su_session up = None" "su_ErrorMessage up = []"
  by (simp add: initUploader_def bagFile_simps bagSummary_def Let_def)
    (simp add: missingKeys_def NewS3Upload_def AddMetadata_def storedFile_def)

lemma bag_reader:
  "getReadCloser (bagDisk bytes copied) (bagSummary bytes) = (Some \<lparr>rd_data = bytes, rd_err = None\<rparr>, bagSummary bytes)"
  by (simp add: getReadCloser_def bagDisk_def NewTarFileIterator_def bagSummary_def bagFile_simps Find_def)




definition largeBytes :: string where
  "largeBytes = replicate 104857601 CHR ''x''"

theorem doUpload_large_file_first_attempt_empty_witness:
  "\<exists>up m1. doUpload (bagContext largeBytes) ''s3'' 1 (bagSummary largeBytes) (exampleMachine False) =
     (case onEnv (SendWithSize (upAWS 104857601) \<lparr>rd_data = [], rd_err = None\<rparr> 104857601 up) m1 of
        (up', m2) \<Rightarrow> judgeUpload (bagContext largeBytes) ''s3'' 1 up' (bagSummary largeBytes) m2)"
proof -
  obtain up where up: "initUploader (bagContext largeBytes) ''s3'' (bagSummary largeBytes) = (Some up, bagSummary largeBytes)"
    "missingKeys up = []" by (rule bag_uploader)
  have len: "length largeBytes = 104857601" by (simp add: largeBytes_def)
  have gf: "ss_GenericFile (bagSummary largeBytes) = storedFile largeBytes" "gf_Size (storedFile largeBytes) = 104857601"
    by (simp_all add: bagSummary_def storedFile_def len)
  have "\<exists>tmp rd' m1. getFileReader (bagContext largeBytes) (storedFile largeBytes) \<lparr>rd_data = largeBytes, rd_err = None\<rparr> (exampleMachine False) =
      (Inr tmp, rd', m1)"
    by (simp add: getFileReader_def createTempFile_def Let_def FileExists_def bagDisk_def noFiles_def statSize_def openTempFile_def
        getActualFileSize_def gf len bagContext_def exampleContext_def exampleOS_def diskOf_def onEnv_def exampleMachine_def)
  then obtain tmp rd' m1 where g: "getFileReader (bagContext largeBytes) (ss_GenericFile (bagSummary largeBytes))
      \<lparr>rd_data = largeBytes, rd_err = None\<rparr> (exampleMachine False) = (Inr tmp, rd', m1)" unfolding gf by blast
  have absent: "\<not> FileExists (diskOf (bagContext largeBytes) (exampleMachine False)) p" for p
    by (simp add: FileExists_def bagDisk_def exampleMachine_def)
  have reader: "getReadCloser (diskOf (bagContext largeBytes) (exampleMachine False)) (bagSummary largeBytes) =
      (Some \<lparr>rd_data = largeBytes, rd_err = None\<rparr>, bagSummary largeBytes)"
    by (simp add: bag_reader)
  have "S3LargeFileSize < sint (gf_Size (ss_GenericFile (bagSummary largeBytes)))" by (simp add: gf S3LargeFileSize_def)
  from doUpload_large_file_first_attempt_empty [OF up reader this _ _ g, of 1] absent show ?thesis
    by (auto simp: gf len)
qed

definition keptFile :: GenericFile where
  "keptFile = (storedFile ''X'')\<lparr>gf_IngestStoredAt := 5, gf_IngestStorageURL := ''u'', gf_IngestReplicatedAt := 5, gf_IngestReplicationURL := ''u''\<rparr>"

definition bagDB :: memory where
  "bagDB = ([(''a.edu/b/data/._f'', Gob keptFile)],
            [(''a.edu/b'', Gob (NewIntellectualObject\<lparr>obj_IngestTarFilePath := ''/b.tar''\<rparr>))])"

definition bagState :: IngestState where
  "bagState = \<lparr>is_NSQMessage = Some [], is_WorkItem = zeroWorkItem, is_WorkItemState = None, is_IngestManifest = NewIngestManifest\<rparr>"

lemma bag_stored:
  "\<exists>st' db' m'. storeLoop (bagContext ''X'') ''/db'' ''a.edu/b'' [] 2 0 bagState bagDB (exampleMachine False) = Some (Returns (st', db', m')) \<and>
     \<not> HasErrors (im_StoreResult (is_IngestManifest st'))"
proof -
  let ?cx = "bagContext ''X''" and ?m = "exampleMachine False"
  let ?ss = "\<lparr>ss_StoreResult = NewWorkSummary, ss_TarFilePath = ''/b.tar'', ss_UntarredPath = [], ss_GenericFile = keptFile\<rparr>"
  have ops: "dbOps ?cx = memBolt" by (simp add: bagContext_def exampleContext_def dbOps_def)
  have batch: "getStorageSummaryBatch ?cx ''a.edu/b'' 0 2 bagDB = Returns (Inr ([?ss], False))"
    by (simp add: getStorageSummaryBatch_def ops GetIntellectualObject_def GetGenericFile_def memBolt_def bagDB_def FileIdentifierBatch_def
        NewStorageSummary_def NewIntellectualObject_def Let_def)
  have "OriginalPath keptFile = ''data/._f''" using bagFile_simps(2) [of "''X''"] by (simp add: OriginalPath_def keptFile_def)
  moreover have "LooksLikeJunkFile ''data/._f''" by code_simp
  ultimately have decide: "decideSave ?cx ?ss ?m = Returns (True, ?ss, ?m)"
    by (simp add: decideSave_def onFile_def Let_def keptFile_def storedFile_def)
  have "copies ?cx ?ss ?m = Returns (?ss, ?m)"
    by (simp add: copies_def keptFile_def storedFile_def needsStoring_def needsReplicating_def IsZero_def zeroTime_def)
  moreover have "\<exists>db'. saveInDB ?cx ''/db'' ?ss bagDB = (?ss, db')"
    by (simp add: saveInDB_def ops SaveFile_def gobFile_def keptFile_def storedFile_def NewGenericFile_def memBolt_def Let_def)
  moreover have "cleanupTempFile ?cx keptFile ?m = ?m" by (simp add: cleanupTempFile_def bagDisk_def FileExists_def exampleMachine_def)
  moreover have "gf_IngestNeedsSave keptFile" by (simp add: keptFile_def storedFile_def)
  ultimately obtain db' where "storer_saveFile ?cx ''/db'' ?ss bagDB ?m = Returns (?ss, db', ?m)"
    using decide by (auto simp: storer_saveFile_def Let_def)
  then have "saveBatch ?cx ''/db'' [] [?ss] bagDB ?m = Returns ([?ss], db', ?m)" by simp
  with batch have "storeLoop ?cx ''/db'' ''a.edu/b'' [] 2 0 bagState bagDB ?m =
      Some (Returns (onStoreResult (collectErrors [?ss]) (TouchNSQ bagState), db', ?m))"
    by (subst storeLoop.simps) (simp add: Let_def)
  moreover have "\<not> storeErrors (onStoreResult (collectErrors [?ss]) (TouchNSQ bagState))"
    by (subst storeErrors_collect)
      (simp_all add: honest_def NewWorkSummary_def HasErrors_def storeErrors_def bagState_def NewIngestManifest_def)
  ultimately show ?thesis by (simp add: storeErrors_def)
qed

theorem storeLoop_stores_every_file_witness:
  "\<exists>st' db' m' gf. storeLoop (bagContext ''X'') ''/db'' ''a.edu/b'' [] 2 0 bagState bagDB (exampleMachine False) = Some (Returns (st', db', m')) \<and>
     \<not> HasErrors (im_StoreResult (is_IngestManifest st')) \<and> GetGenericFile memBolt db' ''a.edu/b/data/._f'' = (Some gf, None) \<and>
     (gf_IngestNeedsSave gf \<and> gf_StorageOption gf = StorageStandard \<longrightarrow> \<not> IsZero (gf_IngestReplicatedAt gf))"
proof -
  have ops: "dbOps (bagContext ''X'') = memBolt" by (simp add: bagContext_def exampleContext_def dbOps_def)
  have keyed: "keyed memBolt bagDB" by (simp add: keyed_def memBolt_def bagDB_def keptFile_def storedFile_def)
  have ids: "FileIdentifiers memBolt bagDB = [''a.edu/b/data/._f'']" by (simp add: FileIdentifiers_def memBolt_def bagDB_def)
  obtain st' db' m' where run: "storeLoop (bagContext ''X'') ''/db'' ''a.edu/b'' [] 2 0 bagState bagDB (exampleMachine False) = Some (Returns (st', db', m'))"
    "\<not> HasErrors (im_StoreResult (is_IngestManifest st'))" using bag_stored by blast
  then show ?thesis
    using storeLoop_stores_every_file [of "bagContext ''X''" bagDB 2 "exampleMachine False" "''/db''" "''a.edu/b''" "[]" bagState] mem.bolt_laws_axioms
    by (cases db') (simp add: ops keyed ids, blast)
qed

end
