(* ===== verification/Recorder.thy ===== *)
theory Recorder
  imports StorerFacts
begin

text \<open>
  \<^verbatim>\<open>src/workers/apt_recorder.go\<close>: the worker that writes an ingested object, its files, their checksums and
  their events to the registry and then deletes the bag. \<open>recorder_record\<close> and \<open>recorder_cleanup\<close> are one
  round of the loops that read the channels. The files of a batch are values that are passed on where the
  source updates them through pointers.
\<close>

section \<open>The worker\<close>

definition GENERIC_FILE_BATCH_SIZE :: int where "GENERIC_FILE_BATCH_SIZE = 100"

record ('e, 'b) APTRecorder =
  ar_Context :: "('e, 'b) Context"

definition NewAPTRecorder :: "('e, 'b) Context \<Rightarrow> 'e machine \<Rightarrow> (('e, 'b) APTRecorder \<times> 'e machine) outcome" where
  "NewAPTRecorder cx m =
     and_then (CacheBucketNames cx m) (\<lambda>(err, m1). if err \<noteq> None then Panics else Returns (\<lparr>ar_Context = cx\<rparr>, m1))"

definition onRecordResult :: "(WorkSummary \<Rightarrow> WorkSummary) \<Rightarrow> IngestState \<Rightarrow> IngestState" where
  "onRecordResult f st = onManifest (\<lambda>manifest. manifest\<lparr>im_RecordResult := f (im_RecordResult manifest)\<rparr>) st"

definition recordError :: "string \<Rightarrow> IngestState \<Rightarrow> IngestState" where
  "recordError msg st = onRecordResult (\<lambda>s. AddError s msg) st"

definition recordFatal :: "string \<Rightarrow> IngestState \<Rightarrow> IngestState" where
  "recordFatal msg st = onRecordResult (\<lambda>s. (AddError s msg)\<lparr>ws_ErrorIsFatal := True\<rparr>) st"

definition recorder_HandleMessage ::
  "('e, 'b) APTRecorder \<Rightarrow> string \<Rightarrow> 'e machine \<Rightarrow> (go_error option \<times> nsq_message \<times> IngestState option \<times> 'e machine) outcome" where
  "recorder_HandleMessage recorder body m =
     and_then (GetIngestState (ar_Context recorder) body (Some []) False m) (\<lambda>(got, m1).
       case got of
         Inl err \<Rightarrow> Returns (Some err, Some [], None, m1)
       | Inr st \<Rightarrow>
           if IsInProgress (is_WorkItem st) then Returns (None, is_NSQMessage (FinishNSQ st), None, m1)
           else and_then (MarkWorkItemStarted (ar_Context recorder) StageRecord
                            ''Recording object, file and event metadata in Pharos.''
                            (onRecordResult ClearErrors (DisableAutoResponse st)) m1) (\<lambda>(err, st1, m2).
             Returns (err, is_NSQMessage st1, if err = None then Some st1 else None, m2)))"

section \<open>The object and its events\<close>

definition requestURL :: "http_request \<Rightarrow> string" where
  "requestURL rq = (if rq_Scheme rq \<noteq> [] then rq_Scheme rq @ '':'' else []) @ rq_Opaque rq"

definition eventNotSaved :: "IntellectualObject \<Rightarrow> PremisEvent \<Rightarrow> http_request option \<Rightarrow> go_error \<Rightarrow> string" where
  "eventNotSaved obj event request err =
     ''While saving events for '' @ quoted (obj_Identifier obj) @ '', error adding PremisEvent '' @ quoted (ev_EventType event) @
     ''.Method: '' @ (case request of None \<Rightarrow> ''??'' | Some rq \<Rightarrow> rq_Method rq) @
     '', URL: '' @ (case request of None \<Rightarrow> ''??'' | Some rq \<Rightarrow> requestURL rq) @ '', Error: '' @ err"

text \<open>The events that follow are saved also after one could not be saved.\<close>

fun saveEvents ::
  "('e, 'b) Context \<Rightarrow> IntellectualObject \<Rightarrow> PremisEvent option list \<Rightarrow> IngestState \<Rightarrow> 'e machine \<Rightarrow>
     (IngestState \<times> PremisEvent option list \<times> 'e machine) outcome" where
  "saveEvents cx obj [] st m = Returns (st, [], m)"
| "saveEvents cx obj (None # rest) st m = Panics"
| "saveEvents cx obj (Some event # rest) st m =
     (if 0 < ev_Id event
      then and_then (saveEvents cx obj rest st m) (\<lambda>(st1, events, m1). Returns (st1, Some event # events, m1))
      else (let linked = event\<lparr>ev_IntellectualObjectId := obj_Id obj\<rparr>
            in case onEnv (PremisEventSave (cx_http cx) (cx_Pharos cx) linked) m of (resp, m1) \<Rightarrow>
                 (case pr_Error resp of
                    Some err \<Rightarrow>
                      and_then (saveEvents cx obj rest (recordError (eventNotSaved obj linked (pr_Request resp) err) st) m1)
                        (\<lambda>(st1, events, m2). Returns (st1, Some linked # events, m2))
                  | None \<Rightarrow>
                      and_then (saveEvents cx obj rest st m1)
                        (\<lambda>(st1, events, m2). Returns (st1, Some (snd (Event_MergeAttributes linked (Resp_PremisEvent resp))) # events, m2)))))"

definition savePremisEventsForObject ::
  "('e, 'b) Context \<Rightarrow> IngestState \<Rightarrow> IntellectualObject \<Rightarrow> 'e machine \<Rightarrow> (IngestState \<times> IntellectualObject \<times> 'e machine) outcome" where
  "savePremisEventsForObject cx st obj m =
     and_then (saveEvents cx obj (obj_PremisEvents obj) st m) (\<lambda>(st1, events, m1).
       Returns (st1, obj\<lparr>obj_PremisEvents := events\<rparr>, m1))"

definition stampObject :: "IntellectualObject \<Rightarrow> IntellectualObject \<Rightarrow> IntellectualObject" where
  "stampObject saved obj = obj\<lparr>obj_Id := obj_Id saved, obj_CreatedAt := obj_CreatedAt saved, obj_UpdatedAt := obj_UpdatedAt saved\<rparr>"

definition saveIntellectualObject ::
  "('e, 'b) Context \<Rightarrow> IngestState \<Rightarrow> IntellectualObject \<Rightarrow> 'e machine \<Rightarrow> (IngestState \<times> IntellectualObject \<times> 'e machine) outcome" where
  "saveIntellectualObject cx st obj m =
     (case onEnv (IntellectualObjectGet (cx_http cx) (cx_Pharos cx) (obj_Identifier obj) False False) m of (found, m1) \<Rightarrow>
        (let obj1 = (case Resp_IntellectualObject found of None \<Rightarrow> obj | Some existing \<Rightarrow> obj\<lparr>obj_Id := obj_Id existing\<rparr>)\<lparr>obj_State := ''A''\<rparr>
         in case onEnv (IntellectualObjectSave (cx_http cx) (cx_Pharos cx) obj1) m1 of (resp, m2) \<Rightarrow>
              (case pr_Error resp of
                 Some err \<Rightarrow> Returns (recordError err st, obj1, m2)
               | None \<Rightarrow>
                   (case Resp_IntellectualObject resp of
                      None \<Rightarrow> Returns (recordError ''Pharos returned nil IntellectualObject after save.'' st, obj1, m2)
                    | Some saved \<Rightarrow>
                        savePremisEventsForObject cx
                          (onManifest (\<lambda>manifest. manifest\<lparr>im_Object := stampObject saved (im_Object manifest)\<rparr>) st)
                          (stampObject saved obj1) m2))))"

section \<open>The files\<close>

definition onWorld :: "(world \<Rightarrow> 'r \<times> 's \<times> world) \<Rightarrow> 'e machine \<Rightarrow> 'r \<times> 's \<times> 'e machine" where
  "onWorld f m = (case f (mc_world m) of (r, s, w) \<Rightarrow> (r, s, m\<lparr>mc_world := w\<rparr>))"

definition buildGenericFileChecksums :: "GenericFile \<Rightarrow> IngestState \<Rightarrow> 'e machine \<Rightarrow> GenericFile \<times> IngestState \<times> 'e machine" where
  "buildGenericFileChecksums gf st m =
     (case onWorld (\<lambda>w. GenericFile_BuildIngestChecksums w gf) m of
        (None, gf', m') \<Rightarrow> (gf', st, m')
      | (Some err, gf', m') \<Rightarrow> (gf', recordFatal err st, m'))"

definition buildGenericFileEvents :: "GenericFile \<Rightarrow> IngestState \<Rightarrow> 'e machine \<Rightarrow> GenericFile \<times> IngestState \<times> 'e machine" where
  "buildGenericFileEvents gf st m =
     (case onWorld (\<lambda>w. GenericFile_BuildIngestEvents w gf) m of
        (None, gf', m') \<Rightarrow> (gf', st, m')
      | (Some err, gf', m') \<Rightarrow> (gf', recordFatal err st, m'))"

definition logMissingId :: "GenericFile \<Rightarrow> IngestState \<Rightarrow> IngestState" where
  "logMissingId gf st = recordError (''GenericFile '' @ gf_Identifier gf @ '' has a previous version, but its Id is missing.'') st"

text \<open>One file of a batch: \<open>None\<close> when it is not to be recorded. An error of the database is noted and the
  record is used all the same; without a record the next line dereferences nil.\<close>

definition prepareFile ::
  "('e, 'b) Context \<Rightarrow> IntellectualObject \<Rightarrow> 'b \<Rightarrow> string \<Rightarrow> IngestState \<Rightarrow> 'e machine \<Rightarrow> (GenericFile option \<times> IngestState \<times> 'e machine) outcome" where
  "prepareFile cx obj db gfIdentifier st m =
     (case GetGenericFile (dbOps cx) db gfIdentifier of (found, err) \<Rightarrow>
        (let st1 = (case err of None \<Rightarrow> st | Some e \<Rightarrow> recordFatal e st)
         in and_then (deref found) (\<lambda>gf0.
              (let gf = gf0\<lparr>gf_IntellectualObjectId := obj_Id obj\<rparr>
               in if \<not> gf_IngestNeedsSave gf then Returns (None, st1, m)
                  else (case buildGenericFileChecksums gf st1 m of (gf1, st2, m1) \<Rightarrow>
                        (case buildGenericFileEvents gf1 st2 m1 of (gf2, st3, m2) \<Rightarrow>
                          Returns (Some gf2,
                            if gf_IngestPreviousVersionExists gf2 \<and> gf_Id gf2 = 0 then logMissingId gf2 st3 else st3, m2)))))))"

fun prepareFiles ::
  "('e, 'b) Context \<Rightarrow> IntellectualObject \<Rightarrow> 'b \<Rightarrow> string list \<Rightarrow> IngestState \<Rightarrow> 'e machine \<Rightarrow> (GenericFile list \<times> IngestState \<times> 'e machine) outcome" where
  "prepareFiles cx obj db [] st m = Returns ([], st, m)"
| "prepareFiles cx obj db (k # ks) st m =
     and_then (prepareFile cx obj db k st m) (\<lambda>(gf, st1, m1).
     and_then (prepareFiles cx obj db ks st1 m1) (\<lambda>(gfs, st2, m2).
       Returns (case gf of None \<Rightarrow> gfs | Some f \<Rightarrow> f # gfs, st2, m2)))"

text \<open>The map from identifiers to files has the last file for each identifier.\<close>

fun lastIndex :: "string \<Rightarrow> GenericFile list \<Rightarrow> nat option" where
  "lastIndex k [] = None"
| "lastIndex k (gf # gfs) =
     (case lastIndex k gfs of Some i \<Rightarrow> Some (Suc i) | None \<Rightarrow> if gf_Identifier gf = k then Some 0 else None)"

fun mergeSavedFiles ::
  "GenericFile option list \<Rightarrow> GenericFile list \<Rightarrow> IngestState \<Rightarrow> (GenericFile list \<times> IngestState) outcome" where
  "mergeSavedFiles [] files st = Returns (files, st)"
| "mergeSavedFiles (None # rest) files st = mergeSavedFiles rest files st"
| "mergeSavedFiles (Some saved # rest) files st =
     (case lastIndex (gf_Identifier saved) files of
        None \<Rightarrow> mergeSavedFiles rest files
                  (recordError (''After save, could not find file '' @ quoted (gf_Identifier saved) @ '' in batch.'') st)
      | Some i \<Rightarrow>
          and_then (GenericFile_MergeAttributes (files ! i) saved) (\<lambda>(errors, gf).
            mergeSavedFiles rest (files[i := gf]) (fold recordError errors st)))"

definition createGenericFiles ::
  "('e, 'b) Context \<Rightarrow> GenericFile list \<Rightarrow> IngestState \<Rightarrow> 'e machine \<Rightarrow> (GenericFile list \<times> IngestState \<times> 'e machine) outcome" where
  "createGenericFiles cx files st m =
     (if files = [] then Returns (files, st, m)
      else and_then (onEnvOutcome (GenericFileSaveBatch (cx_http cx) (cx_Pharos cx) files) m) (\<lambda>(resp, m1).
             and_then (mergeSavedFiles (Resp_GenericFiles resp) files
                 (case pr_Error resp of None \<Rightarrow> st | Some err \<Rightarrow> recordError err st)) (\<lambda>(files', st').
               Returns (files', st', m1))))"

definition CloneWithoutSavedChildren :: "GenericFile \<Rightarrow> GenericFile outcome" where
  "CloneWithoutSavedChildren gf =
     and_then (GenericFile_Clone gf) (\<lambda>clone.
       Returns (clone\<lparr>gf_PremisEvents := filter (\<lambda>event. ev_Id (the event) = 0) (gf_PremisEvents clone),
                      gf_Checksums := filter (\<lambda>cs. cs_Id (the cs) = 0) (gf_Checksums clone)\<rparr>))"

text \<open>The response is assigned to the loop variable: the files of the caller stay as they are.\<close>

fun updateGenericFiles ::
  "('e, 'b) Context \<Rightarrow> GenericFile list \<Rightarrow> IngestState \<Rightarrow> 'e machine \<Rightarrow> (IngestState \<times> 'e machine) outcome" where
  "updateGenericFiles cx [] st m = Returns (st, m)"
| "updateGenericFiles cx (gf # rest) st m =
     and_then (CloneWithoutSavedChildren gf) (\<lambda>clone.
     and_then (onEnvOutcome (GenericFileSave (cx_http cx) (cx_Pharos cx) clone) m) (\<lambda>(resp, m1).
       case pr_Error resp of
         Some err \<Rightarrow> updateGenericFiles cx rest (recordError (''Error updating '' @ quoted (gf_Identifier gf) @ '': '' @ err) st) m1
       | None \<Rightarrow>
           and_then (deref (Resp_GenericFile resp)) (\<lambda>saved.
           and_then (PropagateIdsToChildren saved) (\<lambda>_. updateGenericFiles cx rest st m1))))"

fun saveGenericFilesInBoltDB :: "('e, 'b) Context \<Rightarrow> GenericFile list \<Rightarrow> IngestState \<Rightarrow> 'b \<Rightarrow> IngestState \<times> 'b" where
  "saveGenericFilesInBoltDB cx [] st db = (st, db)"
| "saveGenericFilesInBoltDB cx (gf # rest) st db =
     (case SaveFile (dbOps cx) db (gf_Identifier gf) gf of
        (None, db') \<Rightarrow> saveGenericFilesInBoltDB cx rest st db'
      | (Some err, db') \<Rightarrow>
          saveGenericFilesInBoltDB cx rest
            (recordError (''After post to Pharos, error saving '' @ gf_Identifier gf @ '' to valdb: '' @ err) st) db')"

definition recordBatch ::
  "('e, 'b) Context \<Rightarrow> IntellectualObject \<Rightarrow> string list \<Rightarrow> IngestState \<Rightarrow> 'b \<Rightarrow> 'e machine \<Rightarrow> (IngestState \<times> 'b \<times> 'e machine) outcome" where
  "recordBatch cx obj batch st db m =
     and_then (prepareFiles cx obj db batch st m) (\<lambda>(files, st1, m1).
       let newFiles = filter (\<lambda>gf. gf_Id gf = 0) files; existingFiles = filter (\<lambda>gf. gf_Id gf \<noteq> 0) files
       in and_then (createGenericFiles cx newFiles st1 m1) (\<lambda>(created, st2, m2).
          and_then (updateGenericFiles cx existingFiles st2 m2) (\<lambda>(st3, m3).
            case saveGenericFilesInBoltDB cx created st3 db of (st4, db1) \<Rightarrow>
              (case saveGenericFilesInBoltDB cx existingFiles st4 db1 of (st5, db2) \<Rightarrow> Returns (st5, db2, m3)))))"

partial_function (option) saveFiles ::
  "('e, 'b) Context \<Rightarrow> IntellectualObject \<Rightarrow> int \<Rightarrow> IngestState \<Rightarrow> 'b \<Rightarrow> 'e machine \<Rightarrow> (IngestState \<times> 'b \<times> 'e machine) outcome option" where
  "saveFiles cx obj offset st db m =
     (let batch = FileIdentifierBatch (dbOps cx) db offset GENERIC_FILE_BATCH_SIZE
      in case recordBatch cx obj batch st db m of
           Panics \<Rightarrow> Some Panics
         | Returns (st1, db1, m1) \<Rightarrow>
             if int (length batch) < GENERIC_FILE_BATCH_SIZE then Some (Returns (st1, db1, m1))
             else saveFiles cx obj (offset + int (length batch)) st1 db1 m1)"

declare saveFiles.simps [code]

section \<open>Recording an item\<close>

definition recordErrors :: "IngestState \<Rightarrow> bool" where
  "recordErrors st = HasErrors (im_RecordResult (is_IngestManifest st))"

text \<open>The object is saved in the registry unless the manifest already has an id for it.\<close>

definition ensureObject ::
  "('e, 'b) Context \<Rightarrow> IngestState \<Rightarrow> IntellectualObject \<Rightarrow> 'e machine \<Rightarrow> (IngestState \<times> IntellectualObject \<times> 'e machine) outcome" where
  "ensureObject cx st obj m =
     (if obj_Id (im_Object (is_IngestManifest st)) = 0 then saveIntellectualObject cx st obj m else Returns (st, obj, m))"

definition savePharosData ::
  "('e, 'b) Context \<Rightarrow> IngestState \<Rightarrow> IntellectualObject \<Rightarrow> 'b \<Rightarrow> 'e machine \<Rightarrow> (IngestState \<times> 'b \<times> 'e machine) outcome option" where
  "savePharosData cx st obj0 db m =
     (case onWorld (\<lambda>w. Object_BuildIngestEvents (FileCount (dbOps cx) db) w obj0) m of
        (Some err, _, m1) \<Rightarrow> Some (Returns (recordFatal err st, db, m1))
      | (None, obj, m1) \<Rightarrow>
          (case ensureObject cx st obj m1 of
             Panics \<Rightarrow> Some Panics
           | Returns (st1, obj1, m2) \<Rightarrow>
               if obj_Id (im_Object (is_IngestManifest st)) = 0 \<and> recordErrors st1 then Some (Returns (st1, db, m2))
               else (case SaveObject (dbOps cx) db (obj_Identifier obj1) obj1 of
                       (Some err, db1) \<Rightarrow> Some (Returns (recordError err st1, db1, m2))
                     | (None, db1) \<Rightarrow> saveFiles cx obj1 0 st1 db1 m2)))"

definition saveAllPharosData :: "('e, 'b) Context \<Rightarrow> IngestState \<Rightarrow> 'e machine \<Rightarrow> (IngestState \<times> 'e machine) outcome option" where
  "saveAllPharosData cx st m =
     (let dbPath = im_DBPath (is_IngestManifest st)
      in case openDB cx dbPath m of
           (None, _) \<Rightarrow> Some (Returns (recordError (''Bolt DB at '' @ dbPath @ '' is nil'') st, m))
         | (Some db, Some err) \<Rightarrow> Some (Returns (recordError err st, closeDB cx dbPath db m))
         | (Some db, None) \<Rightarrow>
             (case GetIntellectualObject (dbOps cx) db (ObjectIdentifier (dbOps cx) db) of
                (_, Some err) \<Rightarrow> Some (Returns (recordError err st, closeDB cx dbPath db m))
              | (None, None) \<Rightarrow> Some (Returns (recordError ''IntellectualObject not found in Bolt DB'' st, closeDB cx dbPath db m))
              | (Some obj, None) \<Rightarrow>
                  (case savePharosData cx st obj db m of
                     None \<Rightarrow> None
                   | Some Panics \<Rightarrow> Some Panics
                   | Some (Returns (st', db', m')) \<Rightarrow> Some (Returns (st', closeDB cx dbPath db' m')))))"

definition recorder_record :: "('e, 'b) APTRecorder \<Rightarrow> IngestState \<Rightarrow> 'e machine \<Rightarrow> (IngestState \<times> 'e machine) outcome option" where
  "recorder_record recorder st m =
     (case nowUTC m of (t, m1) \<Rightarrow> saveAllPharosData (ar_Context recorder) (onRecordResult (startAttempt t) st) m1)"

section \<open>Cleaning up\<close>

fun etagFound :: "string \<Rightarrow> string \<Rightarrow> s3_object list \<Rightarrow> bool outcome" where
  "etagFound key etag [] = Returns False"
| "etagFound key etag (obj # rest) =
     and_then (deref (so_Key obj)) (\<lambda>k.
       if k \<noteq> key then etagFound key etag rest
       else and_then (deref (so_ETag obj)) (\<lambda>t. if RemoveAll (CHR 0x22) t = etag then Returns True else etagFound key etag rest))"

definition bucketVersionMatchesCurrentVersion ::
  "('e, 'b) Context \<Rightarrow> IngestState \<Rightarrow> 'e machine \<Rightarrow> (bool \<times> 'e machine) outcome" where
  "bucketVersionMatchesCurrentVersion cx st m =
     and_then (onEnvOutcome (GetList (cx_aws cx) (im_S3Key (is_IngestManifest st))
         (NewS3ObjectList (awsAccess cx AWSVirginia) (im_S3Bucket (is_IngestManifest st)) 100)) m) (\<lambda>(s3ObjectList, m1).
     and_then (deref (sl_Response s3ObjectList)) (\<lambda>response.
     and_then (etagFound (im_S3Key (is_IngestManifest st)) (wi_ETag (is_WorkItem st)) (lo_Contents response)) (\<lambda>found.
       Returns (found, m1))))"

definition onCleanupResult :: "(WorkSummary \<Rightarrow> WorkSummary) \<Rightarrow> IngestState \<Rightarrow> IngestState" where
  "onCleanupResult f st = onManifest (\<lambda>manifest. manifest\<lparr>im_CleanupResult := f (im_CleanupResult manifest)\<rparr>) st"

text \<open>Saving the object with the time of the deletion. The error of the database is dropped.\<close>

definition stampDeleted :: "('e, 'b) Context \<Rightarrow> ('b \<times> IntellectualObject) option \<Rightarrow> 'b option \<Rightarrow> 'e machine \<Rightarrow> 'b option \<times> 'e machine" where
  "stampDeleted cx found db m =
     (case found of
        None \<Rightarrow> (db, m)
      | Some (b, obj) \<Rightarrow>
          (case nowUTC m of (t, m1) \<Rightarrow>
             (Some (snd (SaveObject (dbOps cx) b (obj_Identifier obj) (obj\<lparr>obj_IngestDeletedFromReceivingAt := t\<rparr>))), m1)))"

text \<open>Finishing the result, and the deferred closing of the database.\<close>

definition finishCleanup :: "('e, 'b) Context \<Rightarrow> string \<Rightarrow> IngestState \<Rightarrow> 'b option \<times> 'e machine \<Rightarrow> IngestState \<times> 'e machine" where
  "finishCleanup cx dbPath st dbm =
     (case dbm of (db, m) \<Rightarrow>
        (case nowUTC m of (t, m') \<Rightarrow>
           (onCleanupResult (Finish t) st, case db of None \<Rightarrow> m' | Some b \<Rightarrow> closeDB cx dbPath b m')))"

definition notDeleted :: "IngestManifest \<Rightarrow> string \<Rightarrow> string" where
  "notDeleted manifest err = ''In cleanup, error deleting S3 item '' @ im_S3Bucket manifest @ ''/'' @ im_S3Key manifest @ '': '' @ err"

definition deleteBagFromReceivingBucket ::
  "('e, 'b) Context \<Rightarrow> IngestState \<Rightarrow> 'e machine \<Rightarrow> (IngestState \<times> 'e machine) outcome" where
  "deleteBagFromReceivingBucket cx st0 m0 =
     (let manifest = is_IngestManifest st0; dbPath = im_DBPath manifest;
          db = fst (openDB cx dbPath m0);
          found = (case db of None \<Rightarrow> None
                   | Some b \<Rightarrow> map_option (Pair b) (fst (GetIntellectualObject (dbOps cx) b (ObjectIdentifier (dbOps cx) b))));
          st = onCleanupResult (startAttempt (fst (nowUTC m0))) st0
      in and_then (bucketVersionMatchesCurrentVersion cx st (snd (nowUTC m0))) (\<lambda>(matches, m1).
           if \<not> matches
           then Returns (finishCleanup cx dbPath st
                  (case found of None \<Rightarrow> db | Some (b, obj) \<Rightarrow> Some (snd (SaveObject (dbOps cx) b (obj_Identifier obj) obj)), m1))
           else if \<not> cf_DeleteOnSuccess (cx_Config cx)
           then Returns (finishCleanup cx dbPath st (stampDeleted cx found db m1))
           else and_then (onEnvOutcome (DeleteList (cx_aws cx)
                    (NewS3ObjectDelete (awsAccess cx AWSVirginia) (im_S3Bucket manifest) [im_S3Key manifest])) m1) (\<lambda>(deleter, m2).
                  Returns (if dl_ErrorMessage deleter \<noteq> []
                    then finishCleanup cx dbPath (onCleanupResult (\<lambda>s. AddError s (notDeleted manifest (dl_ErrorMessage deleter))) st) (db, m2)
                    else finishCleanup cx dbPath st (stampDeleted cx found db m2)))))"

definition recorderDisposition :: "('e, 'b) APTRecorder \<Rightarrow> IngestState \<Rightarrow> disposition" where
  "recorderDisposition recorder st =
     (let manifest = is_IngestManifest st
      in if timeToGiveUp (ws_AttemptNumber (im_RecordResult manifest)) (wc_MaxAttempts (cf_RecordWorker (cx_Config (ar_Context recorder)))) manifest
         then ItemFailed
         else if HasErrors (im_RecordResult manifest) then ItemRequeued else ItemSucceeded)"

definition cleanupStage :: string where
  "cleanupStage = ''Bag has been stored and recorded. Deleting files from receiving bucket and staging area.''"

definition finishIngest :: "('e, 'b) Context \<Rightarrow> IngestState \<Rightarrow> 'e machine \<Rightarrow> (IngestState \<times> 'e machine) outcome" where
  "finishIngest cx st m =
     and_then (MarkWorkItemStarted cx StageCleanup cleanupStage st m) (\<lambda>(_, st1, m1).
     and_then (deleteBagFromReceivingBucket cx st1 m1) (\<lambda>(st2, m2).
       (let m3 = DeleteFileFromStaging cx (im_BagPath (is_IngestManifest st2)) m2;
            m4 = (if cf_DeleteOnSuccess (cx_Config cx) then DeleteFileFromStaging cx (im_DBPath (is_IngestManifest st2)) m3 else m3)
        in case MarkWorkItemSucceeded cx StageCleanup st2 m4 of (_, st3, m5) \<Rightarrow> Returns (FinishNSQ st3, m5))))"

definition recorder_cleanup :: "('e, 'b) APTRecorder \<Rightarrow> IngestState \<Rightarrow> 'e machine \<Rightarrow> (IngestState \<times> 'e machine) outcome" where
  "recorder_cleanup recorder st m =
     and_then (settle (ar_Context recorder) (recorderDisposition recorder st) 1000 (finishIngest (ar_Context recorder)) st m) (\<lambda>(st1, m1).
       case nowUTC m1 of (t, m2) \<Rightarrow> RecordWorkItemState (ar_Context recorder) RecordResult (onRecordResult (Finish t) st1) m2)"

section \<open>The answer to NSQ\<close>

lemma finishCleanup_frame [simp]: "is_NSQMessage (fst (finishCleanup cx dbPath st dbm)) = is_NSQMessage st"
  by (simp add: finishCleanup_def onCleanupResult_def split_beta)

lemma deleteBag_message:
  assumes "deleteBagFromReceivingBucket cx st m = Returns (st', m')"
  shows "is_NSQMessage st' = is_NSQMessage st"
proof -
  have fin: "is_NSQMessage st' = is_NSQMessage s" if "finishCleanup cx dbPath s dbm = (st', m')" for dbPath s dbm
    using that finishCleanup_frame [of cx dbPath s dbm] by simp
  have frame: "is_NSQMessage (onCleanupResult f s) = is_NSQMessage s" for f s by (simp add: onCleanupResult_def)
  from assms show ?thesis
    unfolding deleteBagFromReceivingBucket_def Let_def
    by (auto simp: and_then_Returns_iff frame split: if_splits dest!: fin)
qed

lemma MarkWorkItemStarted_message:
  assumes "MarkWorkItemStarted cx stage msg st m = Returns (r, st', m')"
  shows "is_NSQMessage st' = is_NSQMessage st"
proof -
  obtain t m1 where t: "nowUTC m = (t, m1)" by (metis prod.collapse)
  obtain err st1 m2 where sv: "saveWorkItem cx (onItem (startedItem cx t stage msg) st) m1 = (err, st1, m2)" by (metis prod.collapse)
  then have st1: "is_NSQMessage st1 = is_NSQMessage st" using saveWorkItem_frame(1) [of cx "onItem (startedItem cx t stage msg) st" m1] by simp
  show ?thesis
  proof (cases err)
    case None
    with assms t sv obtain m3 where "RecordWorkItemState cx FetchResult st1 m2 = Returns (st', m3)"
      by (auto simp: MarkWorkItemStarted_def and_then_Returns_iff)
    from RecordWorkItemState_frame(1) [OF this] st1 show ?thesis by simp
  next
    case (Some e)
    with assms t sv st1 show ?thesis by (simp add: MarkWorkItemStarted_def)
  qed
qed

lemma finishIngest_sends:
  assumes "finishIngest cx st m = Returns (st', m')"
  shows "is_NSQMessage st' = nsqSend NsqFinish (is_NSQMessage st)"
proof -
  from assms obtain r st1 m1 st2 m2 where start: "MarkWorkItemStarted cx StageCleanup cleanupStage st m = Returns (r, st1, m1)"
    and del: "deleteBagFromReceivingBucket cx st1 m1 = Returns (st2, m2)"
    and fin: "(case MarkWorkItemSucceeded cx StageCleanup st2 (let m3 = DeleteFileFromStaging cx (im_BagPath (is_IngestManifest st2)) m2
        in if cf_DeleteOnSuccess (cx_Config cx) then DeleteFileFromStaging cx (im_DBPath (is_IngestManifest st2)) m3 else m3)
        of (_, st3, m5) \<Rightarrow> Returns (FinishNSQ st3, m5)) = Returns (st', m')"
    by (auto simp: finishIngest_def Let_def and_then_Returns_iff)
  from start have "is_NSQMessage st1 = is_NSQMessage st"
    by (rule MarkWorkItemStarted_message)
  with fin deleteBag_message [OF del] show ?thesis by (auto simp: split_beta)
qed

lemma recorder_cleanup_sends:
  assumes "recorder_cleanup recorder st m = Returns (st', m')"
  shows "is_NSQMessage st' = nsqSend (answerFor (recorderDisposition recorder st) 1000) (is_NSQMessage st)"
proof -
  from assms obtain st1 m1 where one: "settle (ar_Context recorder) (recorderDisposition recorder st) 1000
      (finishIngest (ar_Context recorder)) st m = Returns (st1, m1)"
    and two: "(case nowUTC m1 of (t, m2) \<Rightarrow> RecordWorkItemState (ar_Context recorder) RecordResult (onRecordResult (Finish t) st1) m2) = Returns (st', m')"
    by (auto simp: recorder_cleanup_def and_then_Returns_iff)
  obtain t m2 where "nowUTC m1 = (t, m2)" by (metis prod.collapse)
  with two have "RecordWorkItemState (ar_Context recorder) RecordResult (onRecordResult (Finish t) st1) m2 = Returns (st', m')" by simp
  from RecordWorkItemState_frame(1) [OF this] settle_sends [OF one finishIngest_sends] show ?thesis by (simp add: onRecordResult_def)
qed

interpretation recorder_end: last_step "recorder_cleanup recorder" is_NSQMessage
    "\<lambda>st. answerFor (recorderDisposition recorder st) 1000" for recorder
  by unfold_locales (simp_all add: recorder_cleanup_sends)

end
