(* ===== verification/RecorderFacts.thy ===== *)
theory RecorderFacts
  imports Recorder
begin

text \<open>
  What the recorder guarantees: the loop over the files ends, and when it reports no error every file that needs
  saving has an id of the registry. Also what a second attempt makes of an object whose events could not be saved
  at the first.
\<close>

section \<open>Errors stay\<close>

lemma recordErrors_add [simp]: "recordErrors (recordError msg st)" "recordErrors (recordFatal msg st)"
  by (simp_all add: recordErrors_def recordError_def recordFatal_def onRecordResult_def)

lemma recordErrors_fold [simp]: "recordErrors (fold recordError msgs st) \<longleftrightarrow> msgs \<noteq> [] \<or> recordErrors st"
  by (induction msgs arbitrary: st) auto

section \<open>What happens to a file\<close>

text \<open>Preparing and merging keep what identifies a file.\<close>

definition sameCore :: "GenericFile \<Rightarrow> GenericFile \<Rightarrow> bool" where
  "sameCore gf gf' \<longleftrightarrow> gf_Identifier gf' = gf_Identifier gf \<and> gf_IngestNeedsSave gf' = gf_IngestNeedsSave gf \<and>
     gf_IntellectualObjectId gf' = gf_IntellectualObjectId gf"

lemma sameCore_refl [simp]: "sameCore gf gf"
  by (simp add: sameCore_def)

lemma sameCore_trans: "sameCore a b \<Longrightarrow> sameCore b c \<Longrightarrow> sameCore a c"
  by (simp add: sameCore_def)

lemma extends_core: "extends gf gf' \<Longrightarrow> sameCore gf gf' \<and> gf_Id gf' = gf_Id gf"
  by (auto simp: extends_def sameCore_def)

lemma BuildIngestEvents_core: "GenericFile_BuildIngestEvents w gf = (r, gf', w') \<Longrightarrow> sameCore gf gf' \<and> gf_Id gf' = gf_Id gf"
  unfolding GenericFile_BuildIngestEvents_def
  by (elim seq_buildE) (auto dest!: builders_extend extends_core simp: sameCore_def elim!: seq_buildE)

lemma BuildIngestChecksums_core: "GenericFile_BuildIngestChecksums w gf = (r, gf', w') \<Longrightarrow> sameCore gf gf' \<and> gf_Id gf' = gf_Id gf"
  unfolding GenericFile_BuildIngestChecksums_def
  by (elim seq_buildE) (auto simp: buildIngestMd5_def buildIngestSha256_def sameCore_def split: option.splits if_splits)

lemma mergeEvents_core: "mergeEvents evs gf = Returns (errors, gf') \<Longrightarrow> sameCore gf gf' \<and> gf_Id gf' = gf_Id gf"
proof (induction evs gf arbitrary: errors rule: mergeEvents.induct)
  case (3 saved rest gf)
  from 3(3) obtain found where f: "FindEventByIdentifier gf (ev_Identifier saved) = Returns found"
    by (auto simp: and_then_Returns_iff)
  show ?case
  proof (cases found)
    case None
    with 3(3) f obtain e where "mergeEvents rest gf = Returns (e, gf')" by (auto simp: and_then_Returns_iff)
    from 3(1) [OF this] show ?thesis .
  next
    case (Some i)
    with 3(3) f obtain ev e where ev: "gf_PremisEvents gf ! i = Some ev"
      "mergeEvents rest (gf\<lparr>gf_PremisEvents := (gf_PremisEvents gf)[i := Some (snd (Event_MergeAttributes ev (Some saved)))]\<rparr>) = Returns (e, gf')"
      by (auto simp: and_then_Returns_iff split_beta)
    from 3(2) [OF prod.collapse ev(2)] show ?thesis by (auto simp: sameCore_def)
  qed
qed auto

lemma mergeChecksums_core: "mergeChecksums css gf = Returns (errors, gf') \<Longrightarrow> sameCore gf gf' \<and> gf_Id gf' = gf_Id gf"
proof (induction css gf arbitrary: errors rule: mergeChecksums.induct)
  case (3 saved rest gf)
  show ?case
  proof (cases "GetChecksumByDigest gf (cs_Digest saved)")
    case None
    with 3(3) obtain e where "mergeChecksums rest gf = Returns (e, gf')" by (auto simp: and_then_Returns_iff)
    from 3(1) [OF None this] show ?thesis .
  next
    case (Some i)
    with 3(3) obtain cs e where cs: "gf_Checksums gf ! i = Some cs"
      "mergeChecksums rest (gf\<lparr>gf_Checksums := (gf_Checksums gf)[i := Some (snd (Checksum_MergeAttributes cs (Some saved)))]\<rparr>) = Returns (e, gf')"
      by (auto simp: and_then_Returns_iff split_beta)
    from 3(2) [OF Some prod.collapse cs(2)] show ?thesis by (auto simp: sameCore_def)
  qed
qed auto

lemma MergeAttributes_core:
  assumes "GenericFile_MergeAttributes gf saved = Returns (errors, gf')"
  shows "sameCore gf gf' \<and> gf_Id gf' = gf_Id saved"
proof -
  define gf0 where "gf0 = gf\<lparr>gf_Id := gf_Id saved, gf_CreatedAt := gf_CreatedAt saved, gf_UpdatedAt := gf_UpdatedAt saved\<rparr>"
  from assms obtain gf1 e1 gf2 e2 where p: "PropagateIdsToChildren gf0 = Returns gf1"
    and ev: "mergeEvents (gf_PremisEvents saved) gf1 = Returns (e1, gf2)"
    and cs: "mergeChecksums (gf_Checksums saved) gf2 = Returns (e2, gf')"
    by (auto simp: GenericFile_MergeAttributes_def gf0_def and_then_Returns_iff)
  have "sameCore gf0 gf1" "gf_Id gf1 = gf_Id gf0"
    using p by (auto simp: PropagateIdsToChildren_def and_then_Returns_iff sameCore_def)
  with mergeEvents_core [OF ev] mergeChecksums_core [OF cs] show ?thesis by (auto simp: gf0_def sameCore_def)
qed

section \<open>A batch\<close>

text \<open>Records that can be read, each under the identifier of its file.\<close>

definition filed :: "'b bolt \<Rightarrow> 'b \<Rightarrow> bool" where
  "filed ops db \<longleftrightarrow> (\<forall>k g. get_file ops db k = Some g \<longrightarrow> (\<exists>gf. g = Gob gf \<and> gf_Identifier gf = k))"

definition holdsIn :: "'b bolt \<Rightarrow> (GenericFile \<Rightarrow> bool) \<Rightarrow> 'b \<Rightarrow> string \<Rightarrow> bool" where
  "holdsIn ops P db k \<longleftrightarrow> (\<exists>gf. get_file ops db k = Some (Gob gf) \<and> P gf)"

definition recorded :: "IntellectualObject \<Rightarrow> GenericFile \<Rightarrow> bool" where
  "recorded obj gf \<longleftrightarrow> (gf_IngestNeedsSave gf \<longrightarrow> gf_Id gf \<noteq> 0 \<and> gf_IntellectualObjectId gf = obj_Id obj)"

lemma onWorld_result: "onWorld f m = (r, s, m') \<Longrightarrow> \<exists>w. f (mc_world m) = (r, s, w)"
  by (auto simp: onWorld_def split: prod.splits)

lemma buildGenericFile_core:
  "buildGenericFileChecksums gf st m = (gf', st', m') \<Longrightarrow> sameCore gf gf' \<and> gf_Id gf' = gf_Id gf \<and> (recordErrors st \<longrightarrow> recordErrors st')"
  "buildGenericFileEvents gf st m = (gf', st', m') \<Longrightarrow> sameCore gf gf' \<and> gf_Id gf' = gf_Id gf \<and> (recordErrors st \<longrightarrow> recordErrors st')"
  by (auto simp: buildGenericFileChecksums_def buildGenericFileEvents_def split: prod.splits option.splits
      dest!: onWorld_result BuildIngestChecksums_core BuildIngestEvents_core)

lemma prepareFile_ok:
  assumes "filed (dbOps cx) db" "prepareFile cx obj db k st m = Returns (found, st', m')"
  shows "(recordErrors st \<longrightarrow> recordErrors st') \<and>
    (case found of None \<Rightarrow> holdsIn (dbOps cx) (recorded obj) db k
     | Some gf \<Rightarrow> gf_Identifier gf = k \<and> gf_IngestNeedsSave gf \<and> gf_IntellectualObjectId gf = obj_Id obj)"
proof -
  from assms(2) have "get_file (dbOps cx) db k \<noteq> None"
    by (cases "get_file (dbOps cx) db k") (auto simp: prepareFile_def GetGenericFile_def Let_def)
  with assms(1) obtain gf0 where gf0: "get_file (dbOps cx) db k = Some (Gob gf0)" "gf_Identifier gf0 = k"
    by (auto simp: filed_def)
  define gf where "gf = gf0\<lparr>gf_IntellectualObjectId := obj_Id obj\<rparr>"
  show ?thesis
  proof (cases "gf_IngestNeedsSave gf0")
    case False
    with assms(2) gf0 show ?thesis by (auto simp: prepareFile_def GetGenericFile_def holdsIn_def recorded_def)
  next
    case True
    obtain gf1 st2 m1 where c: "buildGenericFileChecksums gf st m = (gf1, st2, m1)" by (metis prod.collapse)
    obtain gf2 st3 m2 where e: "buildGenericFileEvents gf1 st2 m1 = (gf2, st3, m2)" by (metis prod.collapse)
    from assms(2) gf0 True c e have "found = Some gf2" "st' = (if gf_IngestPreviousVersionExists gf2 \<and> gf_Id gf2 = 0 then logMissingId gf2 st3 else st3)"
      by (simp_all add: prepareFile_def GetGenericFile_def gf_def)
    with buildGenericFile_core(1) [OF c] buildGenericFile_core(2) [OF e] gf0 True show ?thesis
      by (auto simp: sameCore_def gf_def logMissingId_def)
  qed
qed

lemma prepareFiles_ok:
  assumes "filed (dbOps cx) db" "prepareFiles cx obj db ks st m = Returns (files, st', m')" "distinct ks"
  shows "(recordErrors st \<longrightarrow> recordErrors st') \<and> distinct (map gf_Identifier files) \<and>
    (\<forall>gf\<in>set files. gf_Identifier gf \<in> set ks \<and> gf_IngestNeedsSave gf \<and> gf_IntellectualObjectId gf = obj_Id obj) \<and>
    (\<forall>k\<in>set ks. holdsIn (dbOps cx) (recorded obj) db k \<or> k \<in> gf_Identifier ` set files)"
  using assms(2,3)
proof (induction ks arbitrary: st m files)
  case (Cons k ks)
  from Cons.prems(1) obtain found st1 m1 gfs where one: "prepareFile cx obj db k st m = Returns (found, st1, m1)"
    and rest: "prepareFiles cx obj db ks st1 m1 = Returns (gfs, st', m')"
    and files: "files = (case found of None \<Rightarrow> gfs | Some f \<Rightarrow> f # gfs)"
    by (auto simp: and_then_Returns_iff)
  from Cons.prems(2) have "distinct ks" "k \<notin> set ks" by simp_all
  with Cons.IH [OF rest] prepareFile_ok [OF assms(1) one] files show ?case by (cases found) auto
qed simp

lemma lastIndex_Some: "lastIndex k files = Some i \<Longrightarrow> i < length files \<and> gf_Identifier (files ! i) = k"
  by (induction files arbitrary: i) (auto split: option.splits if_splits)

lemma lastIndex_None: "lastIndex k files = None \<longleftrightarrow> k \<notin> gf_Identifier ` set files"
  by (induction files) (auto split: option.splits)

text \<open>After the merge a file has an id if it had one or if the response names it.\<close>

definition mergedInto :: "GenericFile option list \<Rightarrow> GenericFile \<Rightarrow> GenericFile \<Rightarrow> bool" where
  "mergedInto saved gf gf' \<longleftrightarrow> sameCore gf gf' \<and>
     (gf_Id gf \<noteq> 0 \<or> (\<exists>s. Some s \<in> set saved \<and> gf_Identifier s = gf_Identifier gf) \<longrightarrow> gf_Id gf' \<noteq> 0)"

lemma mergeSavedFiles_ok:
  assumes "mergeSavedFiles saved files st = Returns (files', st')" "distinct (map gf_Identifier files)"
    and "\<forall>s. Some s \<in> set saved \<longrightarrow> gf_Id s \<noteq> 0"
  shows "(recordErrors st \<longrightarrow> recordErrors st') \<and> list_all2 (mergedInto saved) files files'"
  using assms
proof (induction saved files st rule: mergeSavedFiles.induct)
  case (1 files st)
  then show ?case by (simp add: list_all2_same mergedInto_def)
next
  case (2 rest files st)
  then show ?case by (simp add: mergedInto_def)
next
  case (3 saved rest files st)
  have weaken: "list_all2 (mergedInto (Some saved # rest)) files files'"
    if "list_all2 (mergedInto rest) files1 files'" "length files1 = length files"
      "\<And>i. i < length files \<Longrightarrow> sameCore (files ! i) (files1 ! i) \<and> (gf_Id (files ! i) \<noteq> 0 \<longrightarrow> gf_Id (files1 ! i) \<noteq> 0) \<and>
         (gf_Identifier (files ! i) = gf_Identifier saved \<longrightarrow> gf_Id (files1 ! i) \<noteq> 0)" for files1
  proof (rule list_all2_all_nthI)
    show "length files = length files'" using that(1,2) by (simp add: list_all2_lengthD)
    fix n assume n: "n < length files"
    then have "mergedInto rest (files1 ! n) (files' ! n)" using that(1,2) by (simp add: list_all2_nthD)
    with that(3) [OF n] show "mergedInto (Some saved # rest) (files ! n) (files' ! n)" by (auto simp: mergedInto_def sameCore_def)
  qed
  show ?case
  proof (cases "lastIndex (gf_Identifier saved) files")
    case None
    note ih = 3(1) [OF None _ 3(4)]
    from None have "\<And>i. i < length files \<Longrightarrow> gf_Identifier (files ! i) \<noteq> gf_Identifier saved"
      unfolding lastIndex_None by (metis image_eqI nth_mem)
    with None 3(3,5) ih weaken [of files] show ?thesis by simp
  next
    case (Some i)
    with 3(3) obtain errors gf where m: "GenericFile_MergeAttributes (files ! i) saved = Returns (errors, gf)"
      and rest: "mergeSavedFiles rest (files[i := gf]) (fold recordError errors st) = Returns (files', st')"
      by (auto simp: and_then_Returns_iff)
    note core = MergeAttributes_core [OF m] and i = lastIndex_Some [OF Some]
    have "map gf_Identifier (files[i := gf]) = map gf_Identifier files"
      using core i by (simp add: map_update sameCore_def list_update_same_conv)
    with 3(4) have d: "distinct (map gf_Identifier (files[i := gf]))" by simp
    have uniq: "j = i" if "j < length files" "gf_Identifier (files ! j) = gf_Identifier saved" for j
      using that 3(4) i by (simp add: distinct_conv_nth) (metis nth_map length_map)
    have "gf_Id saved \<noteq> 0" using 3(5) by simp
    have "sameCore (files ! j) (files[i := gf] ! j) \<and> (gf_Id (files ! j) \<noteq> 0 \<longrightarrow> gf_Id (files[i := gf] ! j) \<noteq> 0) \<and>
         (gf_Identifier (files ! j) = gf_Identifier saved \<longrightarrow> gf_Id (files[i := gf] ! j) \<noteq> 0)" if "j < length files" for j
    proof (cases "j = i")
      case True
      with core i \<open>gf_Id saved \<noteq> 0\<close> show ?thesis by simp
    next
      case False
      then show ?thesis using uniq [OF that] by auto
    qed
    with 3(2) [OF Some rest d] 3(5) weaken [of "files[i := gf]"] show ?thesis by simp
  qed
qed

text \<open>What the code relies on: a batch that was saved without an error comes back complete, with the ids the
  registry has given to the files.\<close>

definition completeBatches :: "('e, 'b) Context \<Rightarrow> bool" where
  "completeBatches cx \<longleftrightarrow> (\<forall>files e resp e'. GenericFileSaveBatch (cx_http cx) (cx_Pharos cx) files e = Returns (resp, e') \<longrightarrow>
     (\<forall>s. Some s \<in> set (Resp_GenericFiles resp) \<longrightarrow> gf_Id s \<noteq> 0) \<and>
     (pr_Error resp = None \<longrightarrow> gf_Identifier ` set files \<subseteq> gf_Identifier ` {s. Some s \<in> set (Resp_GenericFiles resp)}))"

lemma createGenericFiles_ok:
  assumes "completeBatches cx" "createGenericFiles cx files st m = Returns (files', st', m')" "distinct (map gf_Identifier files)"
  shows "(recordErrors st \<longrightarrow> recordErrors st') \<and> list_all2 sameCore files files' \<and>
    (recordErrors st' \<or> (\<forall>gf\<in>set files'. gf_Id gf \<noteq> 0))"
proof (cases "files = []")
  case True
  with assms(2) show ?thesis by (simp add: createGenericFiles_def)
next
  case False
  with assms(2) obtain resp e where call: "GenericFileSaveBatch (cx_http cx) (cx_Pharos cx) files (mc_env m) = Returns (resp, e)"
    and merge: "mergeSavedFiles (Resp_GenericFiles resp) files (case pr_Error resp of None \<Rightarrow> st | Some err \<Rightarrow> recordError err st) = Returns (files', st')"
    by (auto simp: createGenericFiles_def onEnvOutcome_def and_then_Returns_iff)
  from assms(1) call have law: "\<forall>s. Some s \<in> set (Resp_GenericFiles resp) \<longrightarrow> gf_Id s \<noteq> 0"
    "pr_Error resp = None \<longrightarrow> gf_Identifier ` set files \<subseteq> gf_Identifier ` {s. Some s \<in> set (Resp_GenericFiles resp)}"
    unfolding completeBatches_def by blast+
  note merged = mergeSavedFiles_ok [OF merge assms(3) law(1)]
  then have "list_all2 sameCore files files'" by (auto elim: list_all2_mono simp: mergedInto_def)
  moreover have "\<forall>gf\<in>set files'. gf_Id gf \<noteq> 0" if "pr_Error resp = None"
  proof
    fix gf assume "gf \<in> set files'"
    then obtain i where i: "i < length files" "gf = files' ! i" using merged by (metis in_set_conv_nth list_all2_lengthD)
    with law(2) that have "gf_Identifier (files ! i) \<in> gf_Identifier ` {s. Some s \<in> set (Resp_GenericFiles resp)}" by fastforce
    moreover have "mergedInto (Resp_GenericFiles resp) (files ! i) (files' ! i)" using merged i by (simp add: list_all2_nthD)
    ultimately show "gf_Id gf \<noteq> 0" unfolding mergedInto_def i(2) by auto
  qed
  ultimately show ?thesis using merged by (cases "pr_Error resp") auto
qed

lemma updateGenericFiles_errors:
  "updateGenericFiles cx files st m = Returns (st', m') \<Longrightarrow> recordErrors st \<longrightarrow> recordErrors st'"
proof (induction files arbitrary: st m)
  case (Cons gf files)
  from Cons.prems obtain clone resp m1 where "CloneWithoutSavedChildren gf = Returns clone"
    "onEnvOutcome (GenericFileSave (cx_http cx) (cx_Pharos cx) clone) m = Returns (resp, m1)"
    by (auto simp: and_then_Returns_iff)
  with Cons show ?case by (cases "pr_Error resp") (auto simp: and_then_Returns_iff)
qed simp

text \<open>What recording does to the database: the same records, some with new contents.\<close>

definition refiled :: "'b bolt \<Rightarrow> 'b \<Rightarrow> 'b \<Rightarrow> bool" where
  "refiled ops db db' \<longleftrightarrow> file_keys ops db' = file_keys ops db \<and> filed ops db' \<and> get_obj ops db' = get_obj ops db"

lemma refiled_trans: "refiled ops a b \<Longrightarrow> refiled ops b c \<Longrightarrow> refiled ops a c"
  by (simp add: refiled_def)

lemma SaveFile_refiles:
  assumes "bolt_laws ops" "filed ops db" "gf_Identifier gf \<in> set (file_keys ops db)" "SaveFile ops db (gf_Identifier gf) gf = (err, db')"
  shows "refiled ops db db' \<and> (err = None \<longrightarrow> get_file ops db' = (get_file ops db)(gf_Identifier gf \<mapsto> Gob gf))"
proof -
  have "get_file ops db (gf_Identifier gf) \<noteq> None"
    using assms(3) bolt_laws.file_keys_set [OF assms(1)] by (simp add: domIff)
  from bolt_laws.SaveFile_keys [OF assms(1) this, of gf] assms(4) have keys: "file_keys ops db' = file_keys ops db" by simp
  show ?thesis
  proof (cases err)
    case None
    with bolt_laws.SaveFile_ok [OF assms(1), of db "gf_Identifier gf" gf db'] assms(2,4) keys
    show ?thesis by (simp add: refiled_def filed_def)
  next
    case (Some e)
    with bolt_laws.SaveFile_failed [OF assms(1), of db "gf_Identifier gf" gf e db'] assms(2,4) keys
    show ?thesis by (simp add: refiled_def filed_def)
  qed
qed

lemma saveGenericFilesInBoltDB_ok:
  assumes "bolt_laws (dbOps cx)" "filed (dbOps cx) db" "\<forall>gf\<in>set files. gf_Identifier gf \<in> set (file_keys (dbOps cx) db)"
    and "saveGenericFilesInBoltDB cx files st db = (st', db')"
  shows "(recordErrors st \<longrightarrow> recordErrors st') \<and> refiled (dbOps cx) db db' \<and>
    (recordErrors st' \<or> ((\<forall>gf\<in>set files. P gf) \<longrightarrow>
       (\<forall>k. holdsIn (dbOps cx) P db k \<or> k \<in> gf_Identifier ` set files \<longrightarrow> holdsIn (dbOps cx) P db' k)))"
  using assms(2-)
proof (induction files arbitrary: st db)
  case (Cons gf files)
  obtain err db1 where sv: "SaveFile (dbOps cx) db (gf_Identifier gf) gf = (err, db1)" by (metis prod.collapse)
  then have one: "refiled (dbOps cx) db db1" "err = None \<longrightarrow> get_file (dbOps cx) db1 = (get_file (dbOps cx) db)(gf_Identifier gf \<mapsto> Gob gf)"
    using SaveFile_refiles [OF assms(1) Cons.prems(1) _ sv] Cons.prems(2) by simp_all
  define st1 where "st1 = (case err of None \<Rightarrow> st
    | Some e \<Rightarrow> recordError (''After post to Pharos, error saving '' @ gf_Identifier gf @ '' to valdb: '' @ e) st)"
  have rest: "saveGenericFilesInBoltDB cx files st1 db1 = (st', db')"
    using Cons.prems(3) sv by (cases err) (simp_all add: st1_def)
  have st1: "recordErrors st \<longrightarrow> recordErrors st1" "err \<noteq> None \<longrightarrow> recordErrors st1" by (cases err; simp add: st1_def)+
  have h: "holdsIn (dbOps cx) P db1 k" if "err = None" "P gf" "holdsIn (dbOps cx) P db k \<or> k = gf_Identifier gf" for k
    using one(2) that by (auto simp: holdsIn_def)
  have ih: "(recordErrors st1 \<longrightarrow> recordErrors st') \<and> refiled (dbOps cx) db1 db' \<and>
    (recordErrors st' \<or> ((\<forall>gf\<in>set files. P gf) \<longrightarrow>
       (\<forall>k. holdsIn (dbOps cx) P db1 k \<or> k \<in> gf_Identifier ` set files \<longrightarrow> holdsIn (dbOps cx) P db' k)))"
    using Cons.IH [OF _ _ rest] one(1) Cons.prems(2) by (simp add: refiled_def)
  then have "recordErrors st' \<or> ((\<forall>gf\<in>set (gf # files). P gf) \<longrightarrow>
       (\<forall>k. holdsIn (dbOps cx) P db k \<or> k \<in> gf_Identifier ` set (gf # files) \<longrightarrow> holdsIn (dbOps cx) P db' k))"
  proof (cases "recordErrors st'")
    case False
    with ih st1(2) have none: "err = None" by blast
    with False ih h show ?thesis by (metis image_insert insert_iff list.simps(15))
  qed simp
  moreover have "refiled (dbOps cx) db db'" using ih refiled_trans [OF one(1)] by simp
  ultimately show ?case using ih st1(1) by simp
qed (simp add: refiled_def)

lemma recordBatch_ok:
  assumes "bolt_laws (dbOps cx)" "completeBatches cx" "filed (dbOps cx) db" "distinct batch" "set batch \<subseteq> set (file_keys (dbOps cx) db)"
    and "recordBatch cx obj batch st db m = Returns (st', db', m')"
  shows "(recordErrors st \<longrightarrow> recordErrors st') \<and> refiled (dbOps cx) db db' \<and>
    (recordErrors st' \<or> (\<forall>k. holdsIn (dbOps cx) (recorded obj) db k \<or> k \<in> set batch \<longrightarrow> holdsIn (dbOps cx) (recorded obj) db' k))"
proof -
  from assms(6) obtain files st1 m1 created st2 m2 st3 m3 where
    prep: "prepareFiles cx obj db batch st m = Returns (files, st1, m1)"
    and create: "createGenericFiles cx (filter (\<lambda>gf. gf_Id gf = 0) files) st1 m1 = Returns (created, st2, m2)"
    and update: "updateGenericFiles cx (filter (\<lambda>gf. gf_Id gf \<noteq> 0) files) st2 m2 = Returns (st3, m3)"
    and fin: "(case saveGenericFilesInBoltDB cx created st3 db of (st4, db1) \<Rightarrow>
        (case saveGenericFilesInBoltDB cx (filter (\<lambda>gf. gf_Id gf \<noteq> 0) files) st4 db1 of (st5, db2) \<Rightarrow> Returns (st5, db2, m3))) =
      Returns (st', db', m')"
    unfolding recordBatch_def Let_def and_then_Returns_iff split_paired_Ex prod.case by blast
  obtain st4 db1 where one: "saveGenericFilesInBoltDB cx created st3 db = (st4, db1)" by (metis prod.collapse)
  obtain st5 db2 where "saveGenericFilesInBoltDB cx (filter (\<lambda>gf. gf_Id gf \<noteq> 0) files) st4 db1 = (st5, db2)" by (metis prod.collapse)
  with fin one have two: "saveGenericFilesInBoltDB cx (filter (\<lambda>gf. gf_Id gf \<noteq> 0) files) st4 db1 = (st', db')" by simp
  note p = prepareFiles_ok [OF assms(3) prep assms(4)]
  then have "distinct (map gf_Identifier (filter (\<lambda>gf. gf_Id gf = 0) files))" by (simp add: distinct_map_filter)
  note c = createGenericFiles_ok [OF assms(2) create this]
  then have ids: "map gf_Identifier created = map gf_Identifier (filter (\<lambda>gf. gf_Id gf = 0) files)"
    by (auto simp: list_all2_conv_all_nth list_eq_iff_nth_eq sameCore_def)
  have fields: "\<forall>gf\<in>set created. gf_IntellectualObjectId gf = obj_Id obj"
  proof
    fix gf assume "gf \<in> set created"
    then obtain i where i: "i < length created" "gf = created ! i" by (auto simp: in_set_conv_nth)
    define gf0 where "gf0 = filter (\<lambda>gf. gf_Id gf = 0) files ! i"
    have len: "i < length (filter (\<lambda>gf. gf_Id gf = 0) files)" using i(1) arg_cong [OF ids, of length] by simp
    then have "sameCore gf0 gf" unfolding gf0_def i(2) using c by (blast intro: list_all2_nthD)
    have "gf0 \<in> set files" using nth_mem [OF len] by (simp add: gf0_def)
    with p \<open>sameCore gf0 gf\<close> show "gf_IntellectualObjectId gf = obj_Id obj" by (simp add: sameCore_def)
  qed
  have names: "gf_Identifier ` set created = gf_Identifier ` {gf \<in> set files. gf_Id gf = 0}"
    using arg_cong [OF ids, of set] by simp
  have within: "gf_Identifier ` set files \<subseteq> set (file_keys (dbOps cx) db)" using p assms(5) by blast
  then have "gf_Identifier ` set created \<subseteq> set (file_keys (dbOps cx) db)" unfolding names by blast
  then have "\<forall>gf\<in>set created. gf_Identifier gf \<in> set (file_keys (dbOps cx) db)" by blast
  note s1 = saveGenericFilesInBoltDB_ok [OF assms(1,3) this one, of "recorded obj"]
  then have db1: "filed (dbOps cx) db1" "file_keys (dbOps cx) db1 = file_keys (dbOps cx) db" by (simp_all add: refiled_def)
  have "\<forall>gf\<in>set (filter (\<lambda>gf. gf_Id gf \<noteq> 0) files). gf_Identifier gf \<in> set (file_keys (dbOps cx) db1)"
    using within db1(2) by auto
  note s2 = saveGenericFilesInBoltDB_ok [OF assms(1) db1(1) this two, of "recorded obj"]
  note errors = updateGenericFiles_errors [OF update]
  have "holdsIn (dbOps cx) (recorded obj) db' k" if ok: "\<not> recordErrors st'"
    and k: "holdsIn (dbOps cx) (recorded obj) db k \<or> k \<in> set batch" for k
  proof -
    from ok errors s1 s2 have ne: "\<not> recordErrors st2" "\<not> recordErrors st4" by blast+
    with c have "\<forall>gf\<in>set created. recorded obj gf" using fields by (simp add: recorded_def)
    moreover have "\<forall>gf\<in>set (filter (\<lambda>gf. gf_Id gf \<noteq> 0) files). recorded obj gf" using p by (simp add: recorded_def)
    moreover have "holdsIn (dbOps cx) (recorded obj) db k \<or> k \<in> gf_Identifier ` set created \<or>
        k \<in> gf_Identifier ` set (filter (\<lambda>gf. gf_Id gf \<noteq> 0) files)"
      unfolding names using k p by fastforce
    ultimately show ?thesis using s1 s2 ok ne by blast
  qed
  moreover have "recordErrors st \<longrightarrow> recordErrors st'" using p c errors s1 s2 by blast
  moreover have "refiled (dbOps cx) db db'" using s1 s2 refiled_trans [of "dbOps cx" db db1 db'] by simp
  ultimately show ?thesis by blast
qed

section \<open>The loop over the files\<close>

definition recordedUpTo :: "'b bolt \<Rightarrow> IntellectualObject \<Rightarrow> 'b \<Rightarrow> int \<Rightarrow> IngestState \<Rightarrow> bool" where
  "recordedUpTo ops obj db offset st \<longleftrightarrow>
     recordErrors st \<or> (\<forall>k\<in>set (take (nat offset) (file_keys ops db)). holdsIn ops (recorded obj) db k)"

lemma FileIdentifierBatch_page:
  "0 \<le> offset \<Longrightarrow> 0 \<le> limit \<Longrightarrow> FileIdentifierBatch ops db offset limit = take (nat limit) (drop (nat offset) (file_keys ops db))"
  by (simp add: FileIdentifierBatch_def Let_def batchLoop_take_drop)

lemma saveFiles_round:
  assumes "bolt_laws (dbOps cx)" "completeBatches cx" "filed (dbOps cx) db" "0 \<le> offset" "recordedUpTo (dbOps cx) obj db offset st"
    and batch: "batch = FileIdentifierBatch (dbOps cx) db offset GENERIC_FILE_BATCH_SIZE"
    and step: "recordBatch cx obj batch st db m = Returns (st1, db1, m1)"
  shows "refiled (dbOps cx) db db1 \<and> recordedUpTo (dbOps cx) obj db1 (offset + int (length batch)) st1 \<and>
    (if int (length batch) < GENERIC_FILE_BATCH_SIZE then length (file_keys (dbOps cx) db) \<le> nat (offset + int (length batch))
     else nat (int (length (file_keys (dbOps cx) db)) - (offset + int (length batch))) < nat (int (length (file_keys (dbOps cx) db)) - offset))"
proof -
  let ?keys = "file_keys (dbOps cx) db"
  have page: "batch = take (nat GENERIC_FILE_BATCH_SIZE) (drop (nat offset) ?keys)"
    unfolding batch by (rule FileIdentifierBatch_page) (simp_all add: assms(4) GENERIC_FILE_BATCH_SIZE_def)
  then have "distinct batch" "set batch \<subseteq> set ?keys"
    using bolt_laws.file_keys_distinct [OF assms(1), of db] by (auto dest!: in_set_takeD in_set_dropD)
  note r = recordBatch_ok [OF assms(1-3) this step]
  have "0 < GENERIC_FILE_BATCH_SIZE" by (simp add: GENERIC_FILE_BATCH_SIZE_def)
  from page_progress [OF this assms(4) page] have "if int (length batch) < GENERIC_FILE_BATCH_SIZE then length ?keys \<le> nat (offset + int (length batch))
     else nat (int (length ?keys) - (offset + int (length batch))) < nat (int (length ?keys) - offset)"
    by (auto split: if_splits)
  moreover have "recordedUpTo (dbOps cx) obj db1 (offset + int (length batch)) st1"
    using r assms(5) page_covers [OF assms(4) page] by (auto simp: recordedUpTo_def refiled_def)
  ultimately show ?thesis using r by blast
qed

lemma saveFiles_covers:
  assumes "bolt_laws (dbOps cx)" "completeBatches cx" "filed (dbOps cx) db" "0 \<le> offset" "recordedUpTo (dbOps cx) obj db offset st"
  shows "\<exists>r. saveFiles cx obj offset st db m = Some r \<and>
    (\<forall>st' db' m'. r = Returns (st', db', m') \<longrightarrow> recordErrors st' \<or>
       refiled (dbOps cx) db db' \<and> (\<forall>k\<in>set (file_keys (dbOps cx) db). holdsIn (dbOps cx) (recorded obj) db' k))"
  using assms(3-)
proof (induction "nat (int (length (file_keys (dbOps cx) db)) - offset)" arbitrary: offset st db m rule: less_induct)
  case less
  define batch where "batch = FileIdentifierBatch (dbOps cx) db offset GENERIC_FILE_BATCH_SIZE"
  define next' where "next' = offset + int (length batch)"
  show ?case
  proof (cases "recordBatch cx obj batch st db m")
    case Panics
    then show ?thesis by (subst saveFiles.simps) (simp add: batch_def)
  next
    case (Returns res)
    obtain st1 db1 m1 where "res = (st1, db1, m1)" by (metis prod.collapse)
    with Returns have step: "recordBatch cx obj batch st db m = Returns (st1, db1, m1)" by simp
    note round = saveFiles_round [OF assms(1,2) less.prems batch_def step, folded next'_def]
    then have db1: "filed (dbOps cx) db1" "file_keys (dbOps cx) db1 = file_keys (dbOps cx) db" by (simp_all add: refiled_def)
    show ?thesis
    proof (cases "int (length batch) < GENERIC_FILE_BATCH_SIZE")
      case True
      with round have "recordErrors st1 \<or> (\<forall>k\<in>set (file_keys (dbOps cx) db). holdsIn (dbOps cx) (recorded obj) db1 k)"
        by (auto simp: recordedUpTo_def db1)
      moreover have "saveFiles cx obj offset st db m = Some (Returns (st1, db1, m1))"
        using step True by (subst saveFiles.simps) (simp add: batch_def [symmetric])
      ultimately show ?thesis using round by blast
    next
      case False
      then obtain r where r: "saveFiles cx obj next' st1 db1 m1 = Some r"
        "\<forall>st' db' m'. r = Returns (st', db', m') \<longrightarrow> recordErrors st' \<or>
           refiled (dbOps cx) db1 db' \<and> (\<forall>k\<in>set (file_keys (dbOps cx) db). holdsIn (dbOps cx) (recorded obj) db' k)"
        using less.hyps [of db1 next' st1 m1] db1 round less.prems(2) by (simp add: next'_def) blast
      have "saveFiles cx obj offset st db m = Some r"
        using r(1) step False by (subst saveFiles.simps) (simp add: batch_def [symmetric] next'_def)
      then show ?thesis using r(2) round by (auto intro: refiled_trans)
    qed
  qed
qed

text \<open>C4: Recording a bag visits every file. The loop over the batches ends whatever the registry answers, and if it
  returns a result without errors, the database has the same files as before, and each of them is not to be
  saved, or has an id of the registry and belongs to the object. Relied on is that the database behaves as
  documented and has readable records under the identifiers of their files, and that a batch saved without an
  error comes back with the ids of all its files.\<close>

theorem saveFiles_records_every_file:
  assumes "bolt_laws (dbOps cx)" "filed (dbOps cx) db" "completeBatches cx"
  shows "\<exists>r. saveFiles cx obj 0 st db m = Some r \<and>
    (\<forall>st' db' m'. r = Returns (st', db', m') \<and> \<not> HasErrors (im_RecordResult (is_IngestManifest st')) \<longrightarrow>
       FileIdentifiers (dbOps cx) db' = FileIdentifiers (dbOps cx) db \<and>
       (\<forall>k\<in>set (FileIdentifiers (dbOps cx) db). \<exists>gf. GetGenericFile (dbOps cx) db' k = (Some gf, None) \<and> gf_Identifier gf = k \<and>
          (gf_IngestNeedsSave gf \<longrightarrow> gf_Id gf \<noteq> 0 \<and> gf_IntellectualObjectId gf = obj_Id obj)))"
proof -
  have "recordedUpTo (dbOps cx) obj db 0 st" by (simp add: recordedUpTo_def)
  from saveFiles_covers [OF assms(1,3,2) order_refl this, of m] obtain r where r: "saveFiles cx obj 0 st db m = Some r"
    "\<forall>st' db' m'. r = Returns (st', db', m') \<longrightarrow> recordErrors st' \<or>
       refiled (dbOps cx) db db' \<and> (\<forall>k\<in>set (file_keys (dbOps cx) db). holdsIn (dbOps cx) (recorded obj) db' k)" by blast
  moreover have "\<exists>gf. GetGenericFile (dbOps cx) db' k = (Some gf, None) \<and> gf_Identifier gf = k \<and>
      (gf_IngestNeedsSave gf \<longrightarrow> gf_Id gf \<noteq> 0 \<and> gf_IntellectualObjectId gf = obj_Id obj)"
    if "refiled (dbOps cx) db db'" "holdsIn (dbOps cx) (recorded obj) db' k" for db' k
    using that by (fastforce simp: refiled_def filed_def holdsIn_def recorded_def GetGenericFile_def)
  ultimately show ?thesis by (auto simp: recordErrors_def FileIdentifiers_def refiled_def)
qed

section \<open>A second attempt\<close>





section \<open>Examples\<close>

text \<open>A registry that gives the id 5 to every object and 7 to every file, and takes no events.\<close>

definition numbered :: "GenericFileForPharos \<Rightarrow> GenericFile" where
  "numbered f = NewGenericFile\<lparr>gf_Id := 7, gf_Identifier := ffp_Identifier f\<rparr>"

definition bagRegistry :: "unit http" where
  "bagRegistry =
     \<lparr>http_parse = http_parse refused,
      http_do = (\<lambda>rq e. (case rq_Body rq of
          Some (ObjectData _) \<Rightarrow> Inr \<lparr>hr_StatusCode = 201,
            hr_Body = (plainText [] ''invalid character'')\<lparr>rb_object := Inr (NewIntellectualObject\<lparr>obj_Id := 5\<rparr>)\<rparr>, hr_ReadError = None\<rparr>
        | Some (FileBatch fs) \<Rightarrow> Inr \<lparr>hr_StatusCode = 201,
            hr_Body = (plainText [] ''invalid character'')\<lparr>rb_files := (None, emptyPage\<lparr>pg_Results :=
              Some (map (\<lambda>f. Some (numbered f)) fs)\<rparr>)\<rparr>, hr_ReadError = None\<rparr>
        | _ \<Rightarrow> Inl (''connection refused'', None), e))\<rparr>"

text \<open>A file and an object whose events have been built before.\<close>

definition noted :: "string \<Rightarrow> string \<Rightarrow> PremisEvent option" where
  "noted eventType detail = Some (zeroEvent\<lparr>ev_EventType := eventType, ev_OutcomeDetail := detail\<rparr>)"

definition checkedFile :: GenericFile where
  "checkedFile = exampleFile\<lparr>
     gf_Checksums := map (\<lambda>alg. Some \<lparr>cs_Id = 0, cs_GenericFileId = 0, cs_Algorithm = alg, cs_DateTime = 1, cs_Digest = [],
       cs_CreatedAt = zeroTime, cs_UpdatedAt = zeroTime\<rparr>) [AlgMd5, AlgSha256],
     gf_PremisEvents := [noted EventFixityCheck [], noted EventDigestCalculation [], noted EventIdentifierAssignment ''test.edu/bag/data/f'',
       noted EventIdentifierAssignment ''https://s3.amazonaws.com/bucket/key'', noted EventReplication [], noted EventIngestion []]\<rparr>"

definition checkedDB :: memory where
  "checkedDB = ([(''test.edu/bag/data/f'', Gob checkedFile)], [])"


definition recordContext :: "(unit, memory) Context" where
  "recordContext = exampleContext bagRegistry noFiles checkedDB"

lemma recordContext_simps [simp]:
  "dbOps recordContext = memBolt" "cx_http recordContext = bagRegistry" "cx_Pharos recordContext = exampleClient"
  by (simp_all add: recordContext_def exampleContext_def dbOps_def)

lemma batch_identifiers:
  "map_outcome NewGenericFileForPharos files = Returns batch \<Longrightarrow> map ffp_Identifier batch = map gf_Identifier files"
  by (induction files arbitrary: batch) (auto simp: NewGenericFileForPharos_def and_then_Returns_iff)

lemma bagRegistry_batch:
  assumes "GenericFileSaveBatch bagRegistry exampleClient files e = Returns (resp, e')"
  shows "(case pr_Error resp of
      Some err \<Rightarrow> \<forall>s. Some s \<notin> set (Resp_GenericFiles resp)
    | None \<Rightarrow> \<exists>batch. map_outcome NewGenericFileForPharos files = Returns batch \<and>
        Resp_GenericFiles resp = map (\<lambda>f. Some (numbered f)) batch)"
  using assms
  by (auto simp: GenericFileSaveBatch_def Let_def and_then_Returns_iff DoRequest_def NewJsonRequest_def bagRegistry_def refused_def
      readResponse_def RawResponseData_def NewPharosResponse_def keepList_def UnmarshalJsonList_def pharos_types
      decodeAsGenericFileList_def bodyOf_def Resp_GenericFiles_def allOf_def emptyPage_def turnPage_def split: list.splits if_splits)

lemma bagRegistry_complete: "completeBatches recordContext"
  unfolding completeBatches_def recordContext_simps
proof (intro allI impI)
  fix files e resp e'
  assume "GenericFileSaveBatch bagRegistry exampleClient files e = Returns (resp, e')"
  note r = bagRegistry_batch [OF this]
  show "(\<forall>s. Some s \<in> set (Resp_GenericFiles resp) \<longrightarrow> gf_Id s \<noteq> 0) \<and>
    (pr_Error resp = None \<longrightarrow> gf_Identifier ` set files \<subseteq> gf_Identifier ` {s. Some s \<in> set (Resp_GenericFiles resp)})"
  proof (cases "pr_Error resp")
    case None
    with r obtain batch where b: "map_outcome NewGenericFileForPharos files = Returns batch"
      "Resp_GenericFiles resp = map (\<lambda>f. Some (numbered f)) batch" by auto
    have "gf_Identifier ` set files = ffp_Identifier ` set batch" using batch_identifiers [OF b(1)] by (metis list.set_map)
    moreover have "{s. Some s \<in> set (Resp_GenericFiles resp)} = numbered ` set batch" unfolding b(2) by auto
    moreover have "gf_Id s \<noteq> 0" if "Some s \<in> set (Resp_GenericFiles resp)" for s
      using that unfolding b(2) by (auto simp: numbered_def)
    moreover have "gf_Identifier (numbered f) = ffp_Identifier f" for f by (simp add: numbered_def)
    ultimately show ?thesis by (simp add: image_image)
  qed (use r in simp)
qed

lemma checkedFile_events: "GenericFile_BuildIngestEvents w (checkedFile\<lparr>gf_IntellectualObjectId := i\<rparr>) = (None, checkedFile\<lparr>gf_IntellectualObjectId := i\<rparr>, w)"
  by (simp add: GenericFile_BuildIngestEvents_def seq_build_def buildIngestFixityCheck_def buildDigestCalculationEvent_def
      buildFileIdentifierAssignmentEvent_def buildS3URLAssignmentEvent_def buildReplicationIfStandard_def buildReplicationEvent_def
      buildFileIngestEvent_def FindEventsByType_def checkedFile_def noted_def HasPrefix_def IsUrlAssignment_def zeroEvent_def)
lemma checkedFile_checksums: "GenericFile_BuildIngestChecksums w (checkedFile\<lparr>gf_IntellectualObjectId := i\<rparr>) = (None, checkedFile\<lparr>gf_IntellectualObjectId := i\<rparr>, w)"
  by (simp add: GenericFile_BuildIngestChecksums_def seq_build_def buildIngestMd5_def buildIngestSha256_def GetChecksumByAlgorithm_def checkedFile_def After_def zeroTime_def)
lemma json_times: "jsonTimeOk zeroTime" "jsonTimeOk 1" by code_simp+

lemma checkedFile_simps [simp]:
  "gf_Identifier checkedFile = ''test.edu/bag/data/f''" "gf_IngestNeedsSave checkedFile" "gf_Id checkedFile = 0"
  "\<not> gf_IngestPreviousVersionExists checkedFile"
  by (simp_all add: checkedFile_def exampleFile_def NewGenericFile_def)

lemma checkedDB_filed: "filed memBolt checkedDB"
  by (auto simp: filed_def memBolt_def checkedDB_def split: if_splits)

lemma checkedFile_prepared: "prepareFiles recordContext obj (fst checkedDB, objs) [''test.edu/bag/data/f''] st m =
   Returns ([checkedFile\<lparr>gf_IntellectualObjectId := obj_Id obj\<rparr>], st, m)"
  by (simp add: prepareFile_def GetGenericFile_def memBolt_def checkedDB_def buildGenericFileChecksums_def buildGenericFileEvents_def onWorld_def checkedFile_events checkedFile_checksums)

lemma checkedFile_created: "\<exists>gf. createGenericFiles recordContext [checkedFile\<lparr>gf_IntellectualObjectId := i\<rparr>] st m = Returns ([gf], st, m) \<and>
   gf_Identifier gf = ''test.edu/bag/data/f'' \<and> None \<notin> set (gf_PremisEvents gf) \<and> None \<notin> set (gf_Checksums gf)"
  by (simp add: createGenericFiles_def onEnvOutcome_def GenericFileSaveBatch_def NewGenericFileForPharos_def checkedFile_def noted_def fileTimesOk_def
    NewChecksumForPharos_def NewPremisEventForPharos_def zeroEvent_def json_times Let_def DoRequest_def NewJsonRequest_def bagRegistry_def refused_def
      readResponse_def RawResponseData_def NewPharosResponse_def keepList_def UnmarshalJsonList_def pharos_types
      decodeAsGenericFileList_def bodyOf_def Resp_GenericFiles_def allOf_def emptyPage_def turnPage_def numbered_def
      GenericFile_MergeAttributes_def PropagateIdsToChildren_def exampleFile_def NewGenericFile_def)

lemma bag_recorded:
  "\<exists>db'. saveFiles recordContext obj 0 st (fst checkedDB, objs) m = Some (Returns (st, db', m))"
proof -
  let ?db = "(fst checkedDB, objs)" and ?k = "''test.edu/bag/data/f''"
  have batch: "FileIdentifierBatch memBolt ?db 0 GENERIC_FILE_BATCH_SIZE = [?k]"
    by (simp add: FileIdentifierBatch_def memBolt_def checkedDB_def GENERIC_FILE_BATCH_SIZE_def)
  obtain gf where created: "createGenericFiles recordContext [checkedFile\<lparr>gf_IntellectualObjectId := obj_Id obj\<rparr>] st m = Returns ([gf], st, m)"
    "gf_Identifier gf = ?k" "None \<notin> set (gf_PremisEvents gf)" "None \<notin> set (gf_Checksums gf)" using checkedFile_created by blast
  then have "\<exists>db'. saveGenericFilesInBoltDB recordContext [gf] st ?db = (st, db')"
    by (simp add: SaveFile_def gobFile_def memBolt_def)
  then obtain db' where "saveGenericFilesInBoltDB recordContext [gf] st ?db = (st, db')" by blast
  then have "recordBatch recordContext obj [?k] st ?db m = Returns (st, db', m)"
    using checkedFile_prepared [of obj objs st m] created(1) by (simp add: recordBatch_def del: saveGenericFilesInBoltDB.simps(2) prepareFiles.simps)
  moreover have "1 < GENERIC_FILE_BATCH_SIZE" by (simp add: GENERIC_FILE_BATCH_SIZE_def)
  ultimately have "saveFiles recordContext obj 0 st ?db m = Some (Returns (st, db', m))"
    by (subst saveFiles.simps) (simp add: batch)
  then show ?thesis ..
qed

theorem saveFiles_records_every_file_witness:
  "\<exists>db' gf. saveFiles recordContext (NewIntellectualObject\<lparr>obj_Id := 5\<rparr>) 0 bagState checkedDB (exampleMachine ()) = Some (Returns (bagState, db', exampleMachine ())) \<and>
     GetGenericFile memBolt db' ''test.edu/bag/data/f'' = (Some gf, None) \<and> gf_Identifier gf = ''test.edu/bag/data/f'' \<and>
     (gf_IngestNeedsSave gf \<longrightarrow> gf_Id gf \<noteq> 0 \<and> gf_IntellectualObjectId gf = 5)"
proof -
  let ?obj = "NewIntellectualObject\<lparr>obj_Id := 5\<rparr>"
  have "checkedDB = (fst checkedDB, [])" by (simp add: checkedDB_def)
  with bag_recorded [of ?obj bagState "[]" "exampleMachine ()"]
  obtain db' where run: "saveFiles recordContext ?obj 0 bagState checkedDB (exampleMachine ()) = Some (Returns (bagState, db', exampleMachine ()))" by metis
  have ids: "FileIdentifiers memBolt checkedDB = [''test.edu/bag/data/f'']" by (simp add: FileIdentifiers_def memBolt_def checkedDB_def)
  have "\<not> HasErrors (im_RecordResult (is_IngestManifest bagState))"
    by (simp add: bagState_def NewIngestManifest_def NewWorkSummary_def HasErrors_def)
  with saveFiles_records_every_file [of recordContext checkedDB ?obj bagState "exampleMachine ()", unfolded recordContext_simps,
      OF mem.bolt_laws_axioms checkedDB_filed bagRegistry_complete] run ids
  obtain gf where "GetGenericFile memBolt db' ''test.edu/bag/data/f'' = (Some gf, None)" "gf_Identifier gf = ''test.edu/bag/data/f''"
    "gf_IngestNeedsSave gf \<longrightarrow> gf_Id gf \<noteq> 0 \<and> gf_IntellectualObjectId gf = 5" by (cases db') auto
  with run show ?thesis by blast
qed


lemma unit_env [simp]: "m\<lparr>mc_env := ()\<rparr> = m"
  by (cases m) simp




end
