(* ===== verification/Spec2Isabelle.thy ===== *)
theory Spec2Isabelle
  imports Util WorkSummary Containers VolumeService WorkStates ValidatorSound PharosClient Config Network Fetcher RecorderFacts
begin

text \<open>
  APTrust exchange: the services that take bags (tar files in the BagIt format) from depositors, validate them,
  copy their files to long-term storage, record them in the registry Pharos and restore them on request.

  \<^bold>\<open>The program and how its parts interact.\<close> A work item in Pharos stands for one bag and one action. NSQ
  delivers the id of an item to a worker; the worker loads the item, does one stage and answers NSQ. An ingest
  runs through three workers. The fetcher downloads the tar file, for which it reserves space with the volume
  service, and validates it; the validator writes one record per file into a database beside the tar file. The
  storer uploads every file of the database to S3 and Glacier. The recorder writes object, files, checksums
  and events to Pharos. The manifest of the ingest travels from worker to worker as the state of the item.

  \<^bold>\<open>Theories and sources.\<close> Every path is below \<^verbatim>\<open>src/\<close>.
  \<^item> \<open>Prelude\<close>, \<open>GoLib\<close>, \<open>NetLib\<close>: what the sources use of Go and its library (strings, paths, \<open>bufio\<close>,
    \<open>net/url\<close>, printing of numbers), the outcome type \<open>Returns | Panics\<close>, clock and UUIDs.
  \<^item> \<open>Constants\<close> (\<^verbatim>\<open>constants\<close>), \<open>Regexp\<close> (a matcher for the fixed patterns), \<open>Util\<close> (\<^verbatim>\<open>util/util.go\<close>).
  \<^item> \<open>WorkSummary\<close>, \<open>Containers\<close>, \<open>Volume\<close>: the shared records with locks (\<^verbatim>\<open>models/work_summary.go\<close>,
    \<^verbatim>\<open>ring_list.go\<close>, \<^verbatim>\<open>synchronized_map.go\<close>, \<^verbatim>\<open>volume.go\<close>); \<open>VolumeService\<close>: \<^verbatim>\<open>service/volume_service.go\<close> and
    \<^verbatim>\<open>network/volume_client.go\<close>.
  \<^item> \<open>PremisEvent\<close>, \<open>Builders\<close>, \<open>GenericFile\<close>, \<open>IntellectualObject\<close>: the preserved things and their event
    histories. \<open>WorkItem\<close>, \<open>WorkStates\<close>, \<open>GlacierRestore\<close>: items, manifests and the states of the workers.
  \<^item> \<open>FileUtil\<close>, \<open>MimeTypes\<close>, \<open>BoltDB\<close>: files, iterators over bags (\<^verbatim>\<open>util/fileutil\<close>), the database
    (\<^verbatim>\<open>util/storage\<close>). \<open>BagValidationConfig\<close>, \<open>Validator\<close>, \<open>ValidatorRuns\<close>, \<open>ValidatorSound\<close>: \<^verbatim>\<open>validation\<close>.
  \<^item> \<open>System\<close> (operating system and files of databases), \<open>Config\<close> (\<^verbatim>\<open>models/config.go\<close>), \<open>PharosModels\<close>,
    \<open>Pharos\<close>, \<open>PharosClient\<close> (the registry's client), \<open>Network\<close> (the S3 clients and the NSQ client).
  \<^item> \<open>Workers\<close> (\<^verbatim>\<open>workers/common.go\<close>, \<^verbatim>\<open>context\<close>), \<open>Fetcher\<close>, \<open>Storer\<close> and \<open>StorerFacts\<close>, \<open>Recorder\<close>
    and \<open>RecorderFacts\<close>: the three ingest workers (\<^verbatim>\<open>workers/apt_fetcher.go\<close>, \<^verbatim>\<open>apt_storer.go\<close>, \<^verbatim>\<open>apt_recorder.go\<close>). A
    method that reads a channel for ever is modelled by the function for one item it reads.

  \<^bold>\<open>State.\<close> A struct is a record whose fields keep the source's names behind a prefix. Times are integers with 0
  for Go's zero time, \<open>int64\<close> and \<open>uint64\<close> are 64-bit words, strings are byte strings. A slice of pointers is a
  list of options. An error is a value; a nil dereference or an index out of range is \<open>Panics\<close>. The world
  outside is a state of any type \<open>'e\<close>: a machine has it next to the clock and to the cache of bucket names, and
  the record \<open>Context\<close> has the functions on it that stand for HTTP, AWS, the operating system and bolt.

  \<^bold>\<open>Third-party code\<close> is a parameter everywhere: bolt (with the laws of the locale \<open>bolt_laws\<close>), the AWS SDK, the
  HTTP exchange with Pharos and NSQ, \<open>regexp.Compile\<close> of user patterns, the digests, the disk. The locales are
  the interfaces between components: \<open>error_log\<close> (summaries), \<open>file_store\<close> and \<open>bolt_laws\<close> (database),
  \<open>last_step\<close> (the answer of a worker to NSQ) and those of the containers and iterators; each is interpreted on
  the model's own definitions.

  \<^bold>\<open>What the lemmas show.\<close> Containers and ledger: the refinement of sequences and maps, the sum of reservations, and
  what interleaved calls do to them. Events and checksums: what the builders add, that a second run adds nothing,
  that merging a saved record reaches exactly the matching children. Validator: a run without errors means a valid
  bag, and for which bags it does not end. Clients: requests carry the identifier, parts are large enough. Workers:
  only valid bags are passed on, every file of a bag is stored or an error is reported, and then recorded or an error is
  reported, the loops over the files end, and NSQ gets exactly one answer; also the states in which items block each
  other, in which a worker panics, in which an upload is empty and in which a second attempt loses the object.

  \<^bold>\<open>Loops.\<close> A loop over a list is recursion on it. The loops that may run for ever (the second pass of the validator,
  the loops of the storer and of the recorder over their batches) are partial functions with the value \<open>None\<close> for not ending, and
  theorems say when they end. No loop is cut off by fuel; the bounded retries have the bounds of the source
  (ten downloads, fifteen uploads, five copies).

  \<^bold>\<open>Simplifications.\<close> Elements of slices do not alias each other. Case mapping and \<open>TrimSpace\<close> are those for ASCII.
  Error texts are taken to have no percent sign. A JSON text is represented by the value it encodes and the results
  of decoding it. A map is iterated in the order of an association list. The files of a batch are saved in order
  where the source starts a goroutine for each. Log lines, sleeps and the channels between the loops are left out.

  \<^bold>\<open>Not modelled.\<close> The workers for restoration, deletion, fixity and queueing, the main programs, the tools for operators and depositors, logging,
  statistics, the tar writer, the MIME detection of the platform and the helpers of the tests; the manifest of the
  development says why for each.
\<close>

section \<open>The answers of the ingest workers\<close>




end
